(* ===== verification/Prelude.thy ===== *)
theory Prelude
  imports Main "HOL-Library.State_Monad"
begin

text \<open>
  What every component of the development shares: the lemma collections that carry the
  component proofs, the state monad in which the effectful Go functions are written, a
  weakest-precondition reading of it, loops over slices, and a few facts about lists.

  A Go function that only computes is a HOL function. A Go function that talks to the
  outside (the API server, the hypervisor, the clock) is a value of the library type
  \<^typ>\<open>('s, 'a) state\<close>, written in \<open>do\<close>-notation in the order of the Go statements; an early
  \<open>return\<close> is the branch of an \<open>if\<close> or a \<open>case\<close> that does not continue.
\<close>

subsection \<open>Collections\<close>

named_theorems wp_simps \<open>weakest preconditions of the program constructs\<close>

subsection \<open>The state monad and its weakest preconditions\<close>

abbreviation ret :: "'a \<Rightarrow> ('s, 'a) state" where
  "ret \<equiv> State_Monad.return"

definition wp :: "('s, 'a) state \<Rightarrow> ('a \<Rightarrow> 's \<Rightarrow> bool) \<Rightarrow> 's \<Rightarrow> bool" where
  "wp m Q s = (case run_state m s of (a, t) \<Rightarrow> Q a t)"

lemma wp_ret [wp_simps]: "wp (ret x) Q s = Q x s"
  by (simp add: wp_def)

lemma wp_bind [wp_simps]: "wp (State_Monad.bind m f) Q s = wp m (\<lambda>a. wp (f a) Q) s"
  by (simp add: wp_def split: prod.split)

lemma wp_State [wp_simps]: "wp (State f) Q s = (case f s of (a, t) \<Rightarrow> Q a t)"
  by (simp add: wp_def)

lemma wp_mono: "wp m R s \<Longrightarrow> (\<And>a t. R a t \<Longrightarrow> Q a t) \<Longrightarrow> wp m Q s"
  by (auto simp: wp_def split: prod.splits)

lemma wp_conj: "wp m (\<lambda>a t. P a t \<and> Q a t) s = (wp m P s \<and> wp m Q s)"
  by (auto simp: wp_def split: prod.splits)

lemma wp_runI: "(\<And>a t. run_state m s = (a, t) \<Longrightarrow> Q a t) \<Longrightarrow> wp m Q s"
  by (cases "run_state m s") (simp add: wp_def)

lemma wp_runD: "wp m Q s \<Longrightarrow> run_state m s = (a, t) \<Longrightarrow> Q a t"
  by (simp add: wp_def)

subsection \<open>Text encodings\<close>

text \<open>
  The operator stores structured values as text in API objects (provider IDs, time stamps)
  and reads them back later. The contract between the two sides: what is read back is the
  stored value, up to what the encoding keeps of it (\<open>canon\<close>).
\<close>

locale codec =
  fixes enc :: "'a \<Rightarrow> string" and dec :: "string \<Rightarrow> 'a option"
    and canon :: "'a \<Rightarrow> 'a" and valid :: "'a \<Rightarrow> bool"
  assumes decode: "valid x \<Longrightarrow> dec (enc x) = Some (canon x)"
begin

lemma decodable: "valid x \<Longrightarrow> dec (enc x) \<noteq> None"
  by (simp add: decode)

lemma same_text_same_canon: "valid x \<Longrightarrow> valid y \<Longrightarrow> enc x = enc y \<Longrightarrow> canon x = canon y"
  using decode [of x] decode [of y] by simp

lemma distinct_text: "valid x \<Longrightarrow> valid y \<Longrightarrow> canon x \<noteq> canon y \<Longrightarrow> enc x \<noteq> enc y"
  using same_text_same_canon by blast

end

end
