(* ===== verification/GoStd.thy ===== *)
theory GoStd
  imports Prelude "HOL-Library.Signed_Division"
begin

text \<open>
  The part of the Go language and its standard library that the operator uses: maps with
  their \<open>nil\<close> value, \<open>strings.TrimPrefix\<close>, \<open>strings.Cut\<close>, \<open>strings.Join\<close>, the verb
  \<open>%d\<close> of \<open>fmt\<close> and \<open>strconv.Atoi\<close> with the bounds of a 64-bit \<open>int\<close>. A Go string is a
  sequence of bytes, here a \<^typ>\<open>string\<close> whose characters are bytes.
\<close>

subsection \<open>Maps\<close>

text \<open>
  A Go map is a reference that may be \<open>nil\<close>: reading a \<open>nil\<close> map finds nothing, deleting
  from it does nothing and writing to it panics. \<^const>\<open>None\<close> is the \<open>nil\<close> map, and an
  assignment returns \<^const>\<open>None\<close> where Go panics.
\<close>

type_synonym 'v gomap = "(string \<rightharpoonup> 'v) option"

definition mget :: "'v gomap \<Rightarrow> string \<Rightarrow> 'v option" where
  "mget m k = (case m of None \<Rightarrow> None | Some f \<Rightarrow> f k)"

definition mindex :: "string gomap \<Rightarrow> string \<Rightarrow> string" where
  "mindex m k = (case mget m k of None \<Rightarrow> [] | Some v \<Rightarrow> v)"

definition massign :: "'v gomap \<Rightarrow> string \<Rightarrow> 'v \<Rightarrow> 'v gomap option" where
  "massign m k v = (case m of None \<Rightarrow> None | Some f \<Rightarrow> Some (Some (f(k \<mapsto> v))))"

definition mdelete :: "'v gomap \<Rightarrow> string \<Rightarrow> 'v gomap" where
  "mdelete m k = (case m of None \<Rightarrow> None | Some f \<Rightarrow> Some (f(k := None)))"

definition mmake :: "'v gomap \<Rightarrow> 'v gomap" where
  "mmake m = (case m of None \<Rightarrow> Some Map.empty | Some f \<Rightarrow> Some f)"

lemma mget_simps [simp]:
  "mget None k = None" "mget (Some f) k = f k"
  by (simp_all add: mget_def)

lemma massign_simps [simp]:
  "massign None k v = None" "massign (Some f) k v = Some (Some (f(k \<mapsto> v)))"
  by (simp_all add: massign_def)

lemma mmake_not_nil [simp]: "mmake m \<noteq> None"
  by (simp add: mmake_def split: option.split)

lemma mget_mmake [simp]: "mget (mmake m) k = mget m k"
  by (simp add: mmake_def split: option.split)

lemma mindex_mmake [simp]: "mindex (mmake m) k = mindex m k"
  by (simp add: mindex_def)

lemma massign_mmake: "\<exists>m'. massign (mmake m) k v = Some m'"
  by (cases "mmake m") auto

lemma mget_massign: "massign m k v = Some m' \<Longrightarrow> mget m' j = (if j = k then Some v else mget m j)"
  by (cases m) auto

lemma mindex_massign: "massign m k v = Some m' \<Longrightarrow> mindex m' j = (if j = k then v else mindex m j)"
  by (simp add: mindex_def mget_massign)

lemma mget_mdelete: "mget (mdelete m k) j = (if j = k then None else mget m j)"
  by (cases m) (auto simp: mdelete_def)

lemma mindex_mdelete: "mindex (mdelete m k) j = (if j = k then [] else mindex m j)"
  by (simp add: mindex_def mget_mdelete)

subsection \<open>Strings\<close>

fun HasPrefix :: "string \<Rightarrow> string \<Rightarrow> bool" where
  "HasPrefix s [] = True"
| "HasPrefix [] (p # ps) = False"
| "HasPrefix (c # s) (p # ps) = (c = p \<and> HasPrefix s ps)"

definition TrimPrefix :: "string \<Rightarrow> string \<Rightarrow> string" where
  "TrimPrefix s p = (if HasPrefix s p then drop (length p) s else s)"

text \<open>\<open>strings.Cut\<close> for a separator of one byte: the text before and after its first occurrence.\<close>

fun Cut :: "string \<Rightarrow> char \<Rightarrow> string \<times> string \<times> bool" where
  "Cut [] sep = ([], [], False)"
| "Cut (c # s) sep =
     (if c = sep then ([], s, True)
      else case Cut s sep of (before, after, found) \<Rightarrow>
        (c # before, after, found))"

fun Join :: "string list \<Rightarrow> string \<Rightarrow> string" where
  "Join [] sep = []"
| "Join [s] sep = s"
| "Join (s # t # ts) sep = s @ sep @ Join (t # ts) sep"

lemma HasPrefix_iff: "HasPrefix s p \<longleftrightarrow> (\<exists>t. s = p @ t)"
  by (induction s p rule: HasPrefix.induct) auto

lemma TrimPrefix_append [simp]: "TrimPrefix (p @ s) p = s"
  by (simp add: TrimPrefix_def HasPrefix_iff)

lemma TrimPrefix_unchanged: "TrimPrefix s p = s \<longleftrightarrow> p = [] \<or> \<not> HasPrefix s p"
  by (auto simp: TrimPrefix_def HasPrefix_iff)

lemma Cut_found: "sep \<notin> set a \<Longrightarrow> Cut (a @ sep # b) sep = (a, b, True)"
  by (induction a) auto

lemma Cut_missing: "sep \<notin> set s \<Longrightarrow> Cut s sep = (s, [], False)"
  by (induction s) auto

lemma Cut_TrueD: "Cut s sep = (a, b, True) \<Longrightarrow> s = a @ sep # b \<and> sep \<notin> set a"
proof (induction s arbitrary: a)
  case Nil
  then show ?case by simp
next
  case (Cons c s)
  then show ?case by (cases "Cut s sep") (auto split: if_splits)
qed

subsection \<open>Decimal numbers\<close>

definition digit :: "nat \<Rightarrow> char" where
  "digit d = char_of (48 + d)"

definition digit_value :: "char \<Rightarrow> nat" where
  "digit_value c = of_char c - 48"

definition is_digit :: "char \<Rightarrow> bool" where
  "is_digit c \<longleftrightarrow> 48 \<le> (of_char c :: nat) \<and> (of_char c :: nat) \<le> 57"

text \<open>The verb \<open>%d\<close> on a natural number and on an \<open>int\<close>.\<close>

fun dec :: "nat \<Rightarrow> string" where
  "dec n = (if n < 10 then [digit n] else dec (n div 10) @ [digit (n mod 10)])"

declare dec.simps [simp del]

definition fmt_d :: "int \<Rightarrow> string" where
  "fmt_d i = (if i < 0 then CHR ''-'' # dec (nat (- i)) else dec (nat i))"

text \<open>
  \<open>strconv.Atoi\<close> on a 64-bit platform: an optional sign and decimal digits, read from the
  left; a byte that is no digit is a syntax error and a value outside \<open>int64\<close> a range error,
  whichever is met first.
\<close>

datatype num_error = ErrSyntax | ErrRange

fun parse_digits :: "nat \<Rightarrow> string \<Rightarrow> num_error + nat" where
  "parse_digits n [] = Inr n"
| "parse_digits n (c # cs) =
     (if \<not> is_digit c then Inl ErrSyntax
      else let n1 = n * 10 + digit_value c in
        if 2 ^ 64 \<le> n1 then Inl ErrRange else parse_digits n1 cs)"

definition ParseUint :: "string \<Rightarrow> num_error + nat" where
  "ParseUint s = (if s = [] then Inl ErrSyntax else parse_digits 0 s)"

definition Atoi :: "string \<Rightarrow> num_error + int" where
  "Atoi s =
     (case s of
        [] \<Rightarrow> Inl ErrSyntax
      | c # cs \<Rightarrow>
          let neg = (c = CHR ''-'');
              s' = (if c = CHR ''-'' \<or> c = CHR ''+'' then cs else s)
          in case ParseUint s' of
               Inl e \<Rightarrow> Inl e
             | Inr un \<Rightarrow>
                 if \<not> neg \<and> 2 ^ 63 \<le> un then Inl ErrRange
                 else if neg \<and> 2 ^ 63 < un then Inl ErrRange
                 else Inr (if neg then - int un else int un))"

definition is_int64 :: "int \<Rightarrow> bool" where
  "is_int64 i \<longleftrightarrow> - (2 ^ 63) \<le> i \<and> i < 2 ^ 63"

lemma of_char_digit: "d < 10 \<Longrightarrow> (of_char (digit d) :: nat) = 48 + d"
  by (simp add: digit_def of_char_of)

lemma is_digit_digit [simp]: "d < 10 \<Longrightarrow> is_digit (digit d)"
  by (simp add: is_digit_def of_char_digit)

lemma digit_value_digit [simp]: "d < 10 \<Longrightarrow> digit_value (digit d) = d"
  by (simp add: digit_value_def of_char_digit)

lemma digit_value_less: "is_digit c \<Longrightarrow> digit_value c < 10"
  unfolding is_digit_def digit_value_def by linarith

lemma is_digit_not_sign:
  "\<not> is_digit (CHR ''-'')" "\<not> is_digit (CHR ''+'')" "\<not> is_digit (CHR ''/'')"
  by (simp_all add: is_digit_def)

lemma dec_not_Nil [simp]: "dec n \<noteq> []"
  by (subst dec.simps) simp

lemma dec_digits: "c \<in> set (dec n) \<Longrightarrow> is_digit c"
proof (induction n rule: dec.induct)
  case (1 n)
  then show ?case by (auto simp: dec.simps [of n] split: if_splits)
qed

lemma parse_digits_snoc:
  "parse_digits n (s @ [c]) =
     (case parse_digits n s of Inl e \<Rightarrow> Inl e | Inr m \<Rightarrow> parse_digits m [c])"
  by (induction s arbitrary: n) (auto simp: Let_def)

lemma parse_digits_dec: "n < 2 ^ 64 \<Longrightarrow> parse_digits 0 (dec n) = Inr n"
proof (induction n rule: dec.induct)
  case (1 n)
  show ?case
  proof (cases "n < 10")
    case True
    then show ?thesis by (simp add: dec.simps [of n])
  next
    case False
    have "parse_digits 0 (dec (n div 10)) = Inr (n div 10)"
      using 1 False by simp
    moreover have "n div 10 * 10 + n mod 10 = n"
      by simp
    ultimately show ?thesis
      using False "1.prems" by (simp add: dec.simps [of n] parse_digits_snoc Let_def)
  qed
qed

lemma ParseUint_dec: "n < 2 ^ 64 \<Longrightarrow> ParseUint (dec n) = Inr n"
  by (simp add: ParseUint_def parse_digits_dec)

lemma dec_no_sign: "dec n = c # cs \<Longrightarrow> c \<noteq> CHR ''-'' \<and> c \<noteq> CHR ''+''"
  using dec_digits [of c n] is_digit_not_sign by auto

lemma Atoi_dec: "n < 2 ^ 63 \<Longrightarrow> Atoi (dec n) = Inr (int n)"
proof -
  assume n: "n < 2 ^ 63"
  obtain c cs where d: "dec n = c # cs"
    by (cases "dec n") auto
  have "ParseUint (c # cs) = Inr n"
    using ParseUint_dec [of n] n d by simp
  then show ?thesis
    using n d dec_no_sign [OF d] by (simp add: Atoi_def)
qed

lemma Atoi_neg_dec: "n \<le> 2 ^ 63 \<Longrightarrow> Atoi (CHR ''-'' # dec n) = Inr (- int n)"
  by (simp add: Atoi_def ParseUint_dec)

text \<open>Printing and reading back an \<open>int\<close> loses nothing, on the whole range of the type.\<close>

lemma Atoi_fmt_d: "is_int64 i \<Longrightarrow> Atoi (fmt_d i) = Inr i"
  by (auto simp: fmt_d_def is_int64_def Atoi_dec Atoi_neg_dec nat_less_iff nat_le_iff)

lemma Atoi_bounds: "Atoi s = Inr i \<Longrightarrow> is_int64 i"
  by (auto simp: Atoi_def is_int64_def Let_def split: list.splits sum.splits if_splits)

lemma fmt_d_not_Nil [simp]: "fmt_d i \<noteq> []"
  by (simp add: fmt_d_def)

lemma fmt_d_no_slash: "CHR ''/'' \<notin> set (fmt_d i)"
  using dec_digits is_digit_not_sign(3) by (auto simp: fmt_d_def)

end
