(* ===== verification/GoTime.thy ===== *)
theory GoTime
  imports GoStd
begin

text \<open>
  The part of Go's package \<open>time\<close> the provisioner uses: an instant is the number of
  nanoseconds since the Unix epoch; \<open>t.UTC().Format(time.RFC3339)\<close>,
  \<open>time.Parse(time.RFC3339, s)\<close> and \<open>t.Sub(u)\<close>. Dates are those of the proleptic Gregorian
  calendar, computed by whole cycles of 400, 100, 4 and 1 years. The last lemmas give the
  round trip: reading back a formatted instant yields that instant cut to whole seconds.
\<close>

subsection \<open>Calendar\<close>

definition is_leap :: "int \<Rightarrow> bool" where
  "is_leap y \<longleftrightarrow> y mod 4 = 0 \<and> (y mod 100 \<noteq> 0 \<or> y mod 400 = 0)"

definition month_lengths :: "bool \<Rightarrow> nat list" where
  "month_lengths leap = [31, if leap then 29 else 28, 31, 30, 31, 30, 31, 31, 30, 31, 30, 31]"

text \<open>Days from 1 January of year 1 to 1 January of the given year.\<close>

definition days_before_year :: "int \<Rightarrow> int" where
  "days_before_year y = (let z = y - 1 in 365 * z + z div 4 - z div 100 + z div 400)"

text \<open>Days from 1 January of year 1 to the given date (month and day count from 1).\<close>

definition days_of_date :: "int \<Rightarrow> nat \<Rightarrow> nat \<Rightarrow> int" where
  "days_of_date y m d =
     days_before_year y + int (sum_list (take (m - 1) (month_lengths (is_leap y)))) + int d - 1"

fun split_month :: "nat list \<Rightarrow> nat \<Rightarrow> nat \<Rightarrow> nat \<times> nat" where
  "split_month [] m d = (m, d)"
| "split_month (n # ns) m d = (if d < n then (m, d) else split_month ns (Suc m) (d - n))"

definition year_yday :: "int \<Rightarrow> int \<times> int" where
  "year_yday days =
     (let n400 = days div 146097; r400 = days mod 146097;
          n100 = min 3 (r400 div 36524); r100 = r400 - 36524 * n100;
          n4 = r100 div 1461; r4 = r100 mod 1461;
          n1 = min 3 (r4 div 365)
      in (1 + 400 * n400 + 100 * n100 + 4 * n4 + n1, r4 - 365 * n1))"

definition date_of_days :: "int \<Rightarrow> int \<times> nat \<times> nat" where
  "date_of_days days =
     (case year_yday days of (y, yday) \<Rightarrow>
        case split_month (month_lengths (is_leap y)) 1 (nat yday) of (m, d) \<Rightarrow> (y, m, Suc d))"

definition unix_epoch_days :: int where
  "unix_epoch_days = 719162"

definition nanos :: int where
  "nanos = 1000000000"

subsection \<open>Formatting\<close>

definition appendInt :: "int \<Rightarrow> nat \<Rightarrow> string" where
  "appendInt x width =
     (if x < 0 then [CHR ''-''] else []) @
     replicate (width - length (dec (nat \<bar>x\<bar>))) (CHR ''0'') @ dec (nat \<bar>x\<bar>)"

definition FormatRFC3339 :: "int \<Rightarrow> string" where
  "FormatRFC3339 t =
     (let secs = t div nanos; days = secs div 86400 + unix_epoch_days; sod = secs mod 86400 in
      case date_of_days days of (y, m, d) \<Rightarrow>
        appendInt y 4 @ ''-'' @ appendInt (int m) 2 @ ''-'' @ appendInt (int d) 2 @ ''T'' @
        appendInt (sod div 3600) 2 @ '':'' @ appendInt (sod mod 3600 div 60) 2 @ '':'' @
        appendInt (sod mod 60) 2 @ ''Z'')"

subsection \<open>Parsing\<close>

fun getnum :: "string \<Rightarrow> bool \<Rightarrow> (nat \<times> string) option" where
  "getnum [] fixed = None"
| "getnum [c] fixed = (if is_digit c \<and> \<not> fixed then Some (digit_value c, []) else None)"
| "getnum (c # d # s) fixed =
     (if \<not> is_digit c then None
      else if \<not> is_digit d then (if fixed then None else Some (digit_value c, d # s))
      else Some (digit_value c * 10 + digit_value d, s))"

fun skip :: "string \<Rightarrow> char \<Rightarrow> string option" where
  "skip [] p = None"
| "skip (c # s) p = (if c = p then Some s else None)"

fun getyear :: "string \<Rightarrow> (nat \<times> string) option" where
  "getyear (a # b # c # d # s) =
     (if is_digit a \<and> is_digit b \<and> is_digit c \<and> is_digit d
      then Some (((digit_value a * 10 + digit_value b) * 10 + digit_value c) * 10 + digit_value d, s)
      else None)"
| "getyear _ = None"

text \<open>Fractional seconds: the first nine digits count, and are scaled to nanoseconds.\<close>

definition scale_frac :: "string \<Rightarrow> nat" where
  "scale_frac ds =
     fold (\<lambda>c n. n * 10 + digit_value c) (take 9 ds) 0 * 10 ^ (9 - length (take 9 ds))"

definition getfrac :: "string \<Rightarrow> nat \<times> string" where
  "getfrac s =
     (case s of
        p # c # s' \<Rightarrow>
          if (p = CHR ''.'' \<or> p = CHR '','') \<and> is_digit c
          then (scale_frac (takeWhile is_digit (c # s')), dropWhile is_digit (c # s'))
          else (0, s)
      | _ \<Rightarrow> (0, s))"

text \<open>\<open>Z\<close> or \<open>+hh:mm\<close>, \<open>-hh:mm\<close>, as an offset in seconds; offsets of 24 hours and 60 minutes pass.\<close>

definition getzone :: "string \<Rightarrow> (int \<times> string) option" where
  "getzone s =
     (case s of
        [] \<Rightarrow> None
      | c # s' \<Rightarrow>
          if c = CHR ''Z'' then Some (0, s')
          else if length s < 6 \<or> s ! 3 \<noteq> CHR '':'' then None
          else do {
            (hr, _) \<leftarrow> getnum (take 2 s') True;
            (mm, _) \<leftarrow> getnum (take 2 (drop 4 s)) True;
            if 24 < hr \<or> 60 < mm then None
            else if c = CHR ''+'' then Some (int ((hr * 60 + mm) * 60), drop 6 s)
            else if c = CHR ''-'' then Some (- int ((hr * 60 + mm) * 60), drop 6 s)
            else None
          })"

definition ParseRFC3339 :: "string \<Rightarrow> int option" where
  "ParseRFC3339 s0 = do {
     (year, s1) \<leftarrow> getyear s0;
     s2 \<leftarrow> skip s1 (CHR ''-'');
     (month, s3) \<leftarrow> getnum s2 True;
     s4 \<leftarrow> skip s3 (CHR ''-'');
     (day, s5) \<leftarrow> getnum s4 True;
     s6 \<leftarrow> skip s5 (CHR ''T'');
     (hour, s7) \<leftarrow> getnum s6 False;
     s8 \<leftarrow> skip s7 (CHR '':'');
     (minute, s9) \<leftarrow> getnum s8 True;
     s10 \<leftarrow> skip s9 (CHR '':'');
     (sec, s11) \<leftarrow> getnum s10 True;
     let (nsec, s12) = getfrac s11;
     (off, s13) \<leftarrow> getzone s12;
     if month = 0 \<or> 12 < month \<or> 24 \<le> hour \<or> 60 \<le> minute \<or> 60 \<le> sec \<or> s13 \<noteq> [] then None
     else if day = 0 \<or> month_lengths (is_leap (int year)) ! (month - 1) < day then None
     else Some
       (((days_of_date (int year) month day - unix_epoch_days) * 86400
         + int (hour * 3600 + minute * 60 + sec) - off) * nanos + int nsec)
   }"

subsection \<open>Durations\<close>

text \<open>\<open>t.Sub(u)\<close> saturates at the bounds of a 64-bit \<open>Duration\<close>.\<close>

definition Sub :: "int \<Rightarrow> int \<Rightarrow> int" where
  "Sub t u = max (- (2 ^ 63)) (min (2 ^ 63 - 1) (t - u))"

lemma Sub_ge_iff: "- (2 ^ 63) < d \<Longrightarrow> d < 2 ^ 63 \<Longrightarrow> d \<le> Sub t u \<longleftrightarrow> d \<le> t - u"
  by (auto simp: Sub_def)

subsection \<open>The calendar is consistent\<close>

lemma year_yday_bounds:
  assumes "year_yday days = (y, yday)"
  shows "days_before_year y + yday = days" "0 \<le> yday" "yday < (if is_leap y then 366 else 365)"
proof -
  define a r where "a = days div 146097" and "r = days mod 146097"
  define b where "b = min 3 (r div 36524)"
  define r1 where "r1 = r - 36524 * b"
  define c r2 where "c = r1 div 1461" and "r2 = r1 mod 1461"
  define e where "e = min 3 (r2 div 365)"
  have y: "y = 1 + 400 * a + 100 * b + 4 * c + e" and yd: "yday = r2 - 365 * e"
    using assms unfolding year_yday_def Let_def e_def r2_def c_def r1_def b_def r_def a_def
    by (simp_all only: prod.inject)
  have days: "days = 146097 * a + r" and r: "0 \<le> r" "r < 146097"
    by (simp_all add: a_def r_def)
  have q: "r = 36524 * (r div 36524) + r mod 36524" "0 \<le> r mod 36524" "r mod 36524 < 36524"
    by simp_all
  have b: "0 \<le> b" "b \<le> 3" and r1: "0 \<le> r1" "r1 < 36525" "b < 3 \<Longrightarrow> r1 < 36524"
    using q r by (auto simp: b_def r1_def min_def)
  have r1_eq: "r1 = 1461 * c + r2" and r2: "0 \<le> r2" "r2 < 1461"
    by (simp_all add: c_def r2_def)
  have c: "0 \<le> c" "c \<le> 24"
    using r1(1,2) r1_eq r2 by linarith+
  have p: "r2 = 365 * (r2 div 365) + r2 mod 365" "0 \<le> r2 mod 365" "r2 mod 365 < 365"
    by simp_all
  have e: "0 \<le> e" "e \<le> 3" and yb: "0 \<le> yday" "yday < 366" "e < 3 \<Longrightarrow> yday < 365"
    using p r2 by (auto simp: yd e_def min_def)
  define z where "z = 400 * a + 100 * b + 4 * c + e"
  have "z div 4 = 100 * a + 25 * b + c"
    using e by (intro int_div_pos_eq [where r = e]) (simp_all add: z_def)
  moreover have "z div 100 = 4 * a + b"
    using c e by (intro int_div_pos_eq [where r = "4 * c + e"]) (simp_all add: z_def)
  moreover have "z div 400 = a"
    using b c e by (intro int_div_pos_eq [where r = "100 * b + 4 * c + e"]) (simp_all add: z_def)
  moreover have "y - 1 = z" by (simp add: y z_def)
  ultimately have "days_before_year y = 365 * z + (100 * a + 25 * b + c) - (4 * a + b) + a"
    by (simp only: days_before_year_def Let_def)
  then show "days_before_year y + yday = days"
    using days r1_eq unfolding z_def yd r1_def by simp
  show "0 \<le> yday" by (rule yb)
  have last: "is_leap y" if e3: "e = 3" and cb: "c < 24 \<or> b = 3"
  proof -
    have "y = 4 * (100 * a + 25 * b + c + 1)" using e3 by (simp add: y)
    then have m4: "y mod 4 = 0" by simp
    show ?thesis
    proof (cases "c < 24")
      case True
      have "y mod 100 = 4 * c + 4"
        using True c e3 by (intro int_mod_pos_eq [where q = "4 * a + b"]) (simp_all add: y)
      then show ?thesis using m4 c by (simp add: is_leap_def)
    next
      case False
      then have "y = 400 * (a + 1)" using cb c e3 by (simp add: y)
      then show ?thesis using m4 by (simp add: is_leap_def)
    qed
  qed
  have short: "yday < 365" if "e = 3" "c = 24" "b < 3"
    using that r1 r1_eq yd by linarith
  show "yday < (if is_leap y then 366 else 365)"
    using yb last short c b e by (cases "e = 3"; cases "c < 24 \<or> b = 3") auto
qed

lemma split_month_sound:
  assumes "split_month ns m d = (m', d')" "d < sum_list ns"
  shows "m \<le> m' \<and> m' < m + length ns \<and> d' < ns ! (m' - m) \<and> sum_list (take (m' - m) ns) + d' = d"
  using assms
proof (induction ns m d rule: split_month.induct)
  case (1 m d)
  then show ?case by simp
next
  case (2 n ns m d)
  show ?case
  proof (cases "d < n")
    case True
    then show ?thesis using 2 by auto
  next
    case False
    then have IH: "Suc m \<le> m' \<and> m' < Suc m + length ns \<and> d' < ns ! (m' - Suc m)
        \<and> sum_list (take (m' - Suc m) ns) + d' = d - n"
      using 2 by auto
    then have "m' - m = Suc (m' - Suc m)" by auto
    then show ?thesis using IH False by auto
  qed
qed

lemma sum_month_lengths: "sum_list (month_lengths leap) = (if leap then 366 else 365)"
  by (simp add: month_lengths_def)

lemma date_of_days_sound:
  assumes "date_of_days days = (y, m, d)"
  shows "days_of_date y m d = days" "1 \<le> m" "m \<le> 12"
    "1 \<le> d" "d \<le> month_lengths (is_leap y) ! (m - 1)"
proof -
  obtain yday where yy: "year_yday days = (y, yday)"
    and sm: "split_month (month_lengths (is_leap y)) 1 (nat yday) = (m, d - 1)" and d: "1 \<le> d"
    using assms by (auto simp: date_of_days_def split: prod.splits)
  have "nat yday < sum_list (month_lengths (is_leap y))"
    using year_yday_bounds [OF yy] by (auto simp: sum_month_lengths)
  note S = split_month_sound [OF sm this]
  have "length (month_lengths (is_leap y)) = 12" by (simp add: month_lengths_def)
  then show "1 \<le> m" "m \<le> 12" "1 \<le> d" "d \<le> month_lengths (is_leap y) ! (m - 1)"
    using S d by auto
  show "days_of_date y m d = days"
    using S d year_yday_bounds(1,2) [OF yy] unfolding days_of_date_def by linarith
qed

lemma month_length_le: "m < 12 \<Longrightarrow> month_lengths leap ! m \<le> 31"
  by (auto simp: month_lengths_def less_Suc_eq numeral_eq_Suc)

subsection \<open>Formatting and parsing round trip\<close>

lemma digit_0: "digit 0 = CHR ''0''"
  by code_simp

lemma appendInt_Suc:
  "0 < w \<Longrightarrow> appendInt (int n) (Suc w) = appendInt (int (n div 10)) w @ [digit (n mod 10)]"
proof (cases "n < 10")
  case True
  assume "0 < w"
  then obtain v where "w = Suc v" by (cases w) auto
  then show ?thesis
    using True by (simp add: appendInt_def dec.simps [of n] dec.simps [of 0] digit_0 replicate_append_same)
next
  case False
  then show ?thesis by (simp add: appendInt_def dec.simps [of n])
qed

lemma appendInt_1: "n < 10 \<Longrightarrow> appendInt (int n) (Suc 0) = [digit n]"
  by (simp add: appendInt_def dec.simps [of n])

lemma appendInt_2: "n < 100 \<Longrightarrow> appendInt (int n) 2 = [digit (n div 10), digit (n mod 10)]"
  by (simp add: numeral_2_eq_2 appendInt_Suc appendInt_1)

lemma appendInt_4:
  assumes "n < 10000"
  shows "appendInt (int n) 4 =
    [digit (n div 10 div 10 div 10), digit (n div 10 div 10 mod 10), digit (n div 10 mod 10), digit (n mod 10)]"
proof -
  have "n div 10 div 10 div 10 < 10" using assms by linarith
  moreover have "(4::nat) = Suc (Suc (Suc (Suc 0)))" by simp
  ultimately show ?thesis by (simp only: appendInt_Suc appendInt_1 zero_less_Suc append.simps)
qed

lemma getnum_appendInt: "n < 100 \<Longrightarrow> getnum (appendInt (int n) 2 @ s) fixed = Some (n, s)"
  by (simp add: appendInt_2)

lemma getyear_appendInt:
  assumes "n < 10000"
  shows "getyear (appendInt (int n) 4 @ s) = Some (n, s)"
proof -
  have "n div 10 div 10 div 10 < 10" using assms by linarith
  then show ?thesis by (simp add: appendInt_4 [OF assms])
qed

definition year_in_range :: "int \<Rightarrow> bool" where
  "year_in_range t \<longleftrightarrow>
     (case date_of_days (t div nanos div 86400 + unix_epoch_days) of (y, m, d) \<Rightarrow> 0 \<le> y \<and> y \<le> 9999)"

definition whole_seconds :: "int \<Rightarrow> int" where
  "whole_seconds t = t div nanos * nanos"

lemma whole_seconds_bounds: "whole_seconds t \<le> t" "t < whole_seconds t + nanos"
  using div_mult_mod_eq [of t nanos] pos_mod_bound [of nanos t] pos_mod_sign [of nanos t]
  by (simp_all add: whole_seconds_def nanos_def)

lemma second_of_day_split:
  fixes sod :: int
  assumes "0 \<le> sod" "sod < 86400"
  obtains h m s where "sod div 3600 = int h" "sod mod 3600 div 60 = int m" "sod mod 60 = int s"
    "h < 24" "m < 60" "s < 60" "sod = int (h * 3600 + m * 60 + s)"
proof
  show "sod div 3600 = int (nat (sod div 3600))" "sod mod 3600 div 60 = int (nat (sod mod 3600 div 60))"
    "sod mod 60 = int (nat (sod mod 60))"
    using assms by (simp_all add: pos_imp_zdiv_nonneg_iff)
  show "nat (sod div 3600) < 24" using assms by linarith
  show "nat (sod mod 3600 div 60) < 60" using pos_mod_bound [of 3600 sod] by linarith
  show "nat (sod mod 60) < 60" using pos_mod_bound [of 60 sod] by linarith
  have "sod mod 3600 mod 60 = sod mod 60" by (simp add: mod_mod_cancel)
  then have "sod = sod div 3600 * 3600 + (sod mod 3600 div 60 * 60 + sod mod 60)"
    using div_mult_mod_eq [of sod 3600] div_mult_mod_eq [of "sod mod 3600" 60] by metis
  then show "sod = int (nat (sod div 3600) * 3600 + nat (sod mod 3600 div 60) * 60 + nat (sod mod 60))"
    using assms by (simp add: pos_imp_zdiv_nonneg_iff)
qed

lemma Parse_FormatRFC3339:
  assumes "year_in_range t"
  shows "ParseRFC3339 (FormatRFC3339 t) = Some (whole_seconds t)"
proof -
  define secs where "secs = t div nanos"
  define sod where "sod = secs mod 86400"
  obtain y m d where date: "date_of_days (secs div 86400 + unix_epoch_days) = (y, m, d)"
    by (cases "date_of_days (secs div 86400 + unix_epoch_days)") auto
  note D = date_of_days_sound [OF date]
  obtain n where n: "y = int n" "n < 10000"
    using assms date by (auto simp: year_in_range_def secs_def dest: zero_le_imp_eq_int)
  have sod: "0 \<le> sod" "sod < 86400" by (simp_all add: sod_def)
  obtain h mi s where S: "sod div 3600 = int h" "sod mod 3600 div 60 = int mi" "sod mod 60 = int s"
    "h < 24" "mi < 60" "s < 60" "sod = int (h * 3600 + mi * 60 + s)"
    by (rule second_of_day_split [OF sod]) (rule that)
  have "month_lengths (is_leap y) ! (m - 1) \<le> 31"
    using D(2,3) by (intro month_length_le) simp
  then have m: "m < 100" and d: "d < 100" using D by simp_all
  have F: "FormatRFC3339 t = appendInt (int n) 4 @ ''-'' @ appendInt (int m) 2 @ ''-'' @
      appendInt (int d) 2 @ ''T'' @ appendInt (int h) 2 @ '':'' @ appendInt (int mi) 2 @ '':'' @
      appendInt (int s) 2 @ ''Z''"
    by (simp only: FormatRFC3339_def Let_def date n S(1-3) prod.case
        secs_def [symmetric] sod_def [symmetric])
  have "days_of_date (int n) m d = secs div 86400 + unix_epoch_days"
    using D(1) n by simp
  then have E: "(days_of_date (int n) m d - unix_epoch_days) * 86400 + int (h * 3600 + mi * 60 + s) = secs"
    using S(7) by (metis add_diff_cancel_right' div_mult_mod_eq sod_def)
  have "ParseRFC3339 (FormatRFC3339 t) =
      Some (((days_of_date (int n) m d - unix_epoch_days) * 86400 + int (h * 3600 + mi * 60 + s)) * nanos)"
    using D(2-5) n S(4-6) m d
    by (simp add: F ParseRFC3339_def getyear_appendInt getnum_appendInt getfrac_def getzone_def)
  then show ?thesis by (simp only: E whole_seconds_def secs_def)
qed

lemma FormatRFC3339_not_Nil [simp]: "FormatRFC3339 t \<noteq> []"
  by (simp add: FormatRFC3339_def Let_def split: prod.split)

interpretation rfc3339: codec FormatRFC3339 ParseRFC3339 whole_seconds year_in_range
  by unfold_locales (rule Parse_FormatRFC3339)

end
