(* ===== verification/ApiTypes.thy ===== *)
theory ApiTypes
  imports GoTime
begin

text \<open>
  The data of the operator: the custom resources of \<open>api/v1\<close> and, of the Kubernetes types
  they are built from, the fields the controllers read or write. A struct is a
  \<open>record\<close>; embedding \<open>metav1.ObjectMeta\<close> is record extension, so that \<open>Name claim\<close> reads
  \<open>claim.Name\<close>. A pointer is an \<open>option\<close>, a slice a list, a map a \<open>gomap\<close>, and an
  instant (\<open>metav1.Time\<close>) a number of nanoseconds. Where two structs have a field of the same
  name, one of them carries the name of its struct as a prefix. A \<open>resource.Quantity\<close> is its text, and a
  \<open>corev1.LocalObjectReference\<close>, whose only field is \<open>Name\<close>, is that name. The controllers never look
  at the \<open>TypeMeta\<close> of an object, so it is not part of the records; where it matters, in lists and
  for copies, an object comes as a pair with its \<open>TypeMeta\<close>.
\<close>

subsection \<open>Kubernetes types\<close>

type_synonym Quantity = string

type_synonym ResourceList = "Quantity gomap"

record OwnerReference =
  OwnerKind :: string
  OwnerName :: string
  OwnerController :: bool

record ObjectMeta =
  Name :: string
  GenerateName :: string
  Labels :: "string gomap"
  Annotations :: "string gomap"
  Finalizers :: "string list"
  DeletionTimestamp :: "int option"
  OwnerReferences :: "OwnerReference list"

record TypeMeta =
  TypeKind :: string
  TypeAPIVersion :: string

record ListMeta =
  ListResourceVersion :: string
  ListContinue :: string
  RemainingItemCount :: "int option"

record NamespacedName =
  Namespace :: string
  KeyName :: string

record Condition =
  CondType :: string
  CondStatus :: string
  CondReason :: string
  CondMessage :: string

record NodeSelectorRequirement =
  Key :: string
  Operator :: string
  Values :: "string list"

record NodeSelectorTerm =
  MatchExpressions :: "NodeSelectorRequirement list"

record NodeSelectorStruct =
  NodeSelectorTerms :: "NodeSelectorTerm list"

record NodeAffinityStruct =
  RequiredDuringSchedulingIgnoredDuringExecution :: "NodeSelectorStruct option"

record AffinityStruct =
  NodeAffinity :: "NodeAffinityStruct option"

record Pod = ObjectMeta +
  PodNodeName :: string
  NodeSelector :: "string gomap"
  Affinity :: "AffinityStruct option"
  Phase :: string
  PodConditions :: "Condition list"

record Node = ObjectMeta +
  NodeConditions :: "Condition list"

record Secret = ObjectMeta +
  SecretData :: "string gomap"

record TypedLocalObjectReference =
  RefAPIGroup :: "string option"
  RefKind :: string
  RefName :: string

definition ConditionTrue :: string where "ConditionTrue = ''True''"
definition ConditionFalse :: string where "ConditionFalse = ''False''"
definition PodPending :: string where "PodPending = ''Pending''"
definition PodSucceeded :: string where "PodSucceeded = ''Succeeded''"
definition PodFailed :: string where "PodFailed = ''Failed''"
definition PodScheduled :: string where "PodScheduled = ''PodScheduled''"
definition PodReasonUnschedulable :: string where "PodReasonUnschedulable = ''Unschedulable''"
definition NodeReady :: string where "NodeReady = ''Ready''"
definition NodeSelectorOpIn :: string where "NodeSelectorOpIn = ''In''"
definition ResourceCPU :: string where "ResourceCPU = ''cpu''"
definition ResourceMemory :: string where "ResourceMemory = ''memory''"
definition ResourceStorage :: string where "ResourceStorage = ''storage''"

lemmas kube_constants =
  ConditionTrue_def ConditionFalse_def PodPending_def PodSucceeded_def PodFailed_def
  PodScheduled_def PodReasonUnschedulable_def NodeReady_def NodeSelectorOpIn_def
  ResourceCPU_def ResourceMemory_def ResourceStorage_def

subsection \<open>Labels\<close>

definition LabelNodePool :: string where "LabelNodePool = ''xenonite.io/nodepool''"
definition LabelNodeClaim :: string where "LabelNodeClaim = ''xenonite.io/nodeclaim''"
definition FinalizerNodeClaim :: string where "FinalizerNodeClaim = ''xenonite.io/nodeclaim''"

lemma label_keys_differ: "LabelNodePool \<noteq> LabelNodeClaim"
  by (simp add: LabelNodePool_def LabelNodeClaim_def)

subsection \<open>XenonNodeClaim\<close>

record XenonNodeClaimSpec =
  NodePoolRef :: string
  Requirements :: "NodeSelectorRequirement list"
  Resources :: ResourceList

record XenonNodeClaimStatus =
  ProviderID :: string
  NodeName :: string
  Capacity :: ResourceList
  Allocatable :: ResourceList
  Conditions :: "Condition list"

record XenonNodeClaim = ObjectMeta +
  Spec :: XenonNodeClaimSpec
  Status :: XenonNodeClaimStatus

record XenonNodeClaimList =
  ClaimListTypeMeta :: TypeMeta
  ClaimListMeta :: ListMeta
  ClaimItems :: "(TypeMeta \<times> XenonNodeClaim) list"

subsection \<open>XenonNodePool\<close>

record XenonNodeClaimTemplateSpec =
  TemplateRequirements :: "NodeSelectorRequirement list"
  TemplateResources :: ResourceList

record XenonNodeClaimTemplate =
  TemplateLabels :: "string gomap"
  TemplateAnnotations :: "string gomap"
  TemplateSpec :: XenonNodeClaimTemplateSpec

record XenonNodePoolSpec =
  ProviderRef :: TypedLocalObjectReference
  Template :: XenonNodeClaimTemplate
  Limits :: ResourceList
  Weight :: "int option"

record XenonNodePoolStatus =
  PoolResources :: ResourceList
  PoolConditions :: "Condition list"

record XenonNodePool = ObjectMeta +
  PoolSpec :: XenonNodePoolSpec
  PoolStatus :: XenonNodePoolStatus

record XenonNodePoolList =
  PoolListTypeMeta :: TypeMeta
  PoolListMeta :: ListMeta
  PoolItems :: "(TypeMeta \<times> XenonNodePool) list"

subsection \<open>ProxmoxProvider\<close>

record ProxmoxCredentials =
  Username :: string
  Password :: string
  Realm :: string

record TemplateSource =
  SourceNode :: string
  VMID :: int

record CloudInitConfig =
  UserData :: string
  CloudInitStorage :: string
  Device :: string

record SecretKeyRef =
  SecretName :: string
  SecretKey :: string

record BootstrapConfig =
  Server :: string
  TokenSecretRef :: SecretKeyRef

record ProxmoxProviderSpec =
  Endpoint :: string
  Insecure :: bool
  Credentials :: ProxmoxCredentials
  Nodes :: "string list"
  ProxmoxPool :: string
  SourceTemplate :: TemplateSource
  Storage :: string
  NetworkBridge :: string
  Tags :: "string list"
  CloudInit :: CloudInitConfig
  Bootstrap :: BootstrapConfig

record ProxmoxProviderStatus =
  ProviderConditions :: "Condition list"

record ProxmoxProvider = ObjectMeta +
  ProviderSpec :: ProxmoxProviderSpec
  ProviderStatus :: ProxmoxProviderStatus

record ProxmoxProviderList =
  ProviderListTypeMeta :: TypeMeta
  ProviderListMeta :: ListMeta
  ProviderItems :: "(TypeMeta \<times> ProxmoxProvider) list"

end
