(* ===== verification/Runtime.thy ===== *)
theory Runtime
  imports ApiTypes
begin

text \<open>
  What the controllers run on. Code that is not part of the repository (the controller-runtime
  client, \<open>apimachinery\<close>, \<open>controllerutil\<close>, \<open>text/template\<close> and the \<open>go-proxmox\<close> client) is a
  parameter: a record of functions over an outside world of any type \<open>'w\<close>. Nothing is assumed
  of them here; the documented behaviour a theorem relies on is one of the predicates at the
  end of this theory, a hypothesis of that theorem.

  A run keeps, beside the outside world, the list of the calls it has made with their
  outcomes. The list is never read by the program; it is what the safety theorems speak about.
\<close>

subsection \<open>Errors\<close>

text \<open>
  One constructor of \<open>message\<close> for every \<open>fmt.Errorf\<close> of the sources, with its arguments;
  \<open>Errorf m (Some e)\<close> wraps \<open>e\<close> with \<open>%w\<close>. A Go \<open>error\<close> result is an \<open>error option\<close>, and a pair
  \<open>(value, error)\<close> of which only one is meaningful is a sum.
\<close>

datatype message =
    GetNodePoolFailed string
  | UnsupportedProviderKind string
  | GetProxmoxProviderFailed string
  | CannotResolveForCleanup
  | MachineStillExists string
  | ParseCloudInitFailed
  | RenderCloudInitFailed
  | GetSecretFailed NamespacedName
  | SecretHasNoKey NamespacedName string
  | GetClusterFailed
  | AllocateVmidFailed
  | GetTemplateNodeFailed string
  | GetTemplateVmFailed int
  | CloneFailed
  | WaitCloneFailed
  | GetTargetNodeFailed string
  | GetClonedVmFailed int
  | ConfigureFailed
  | WaitConfigureFailed
  | CloudInitFailed
  | StartFailed
  | WaitStartFailed
  | GetNodeFailed string
  | GetVmFailed int
  | StopFailed int
  | WaitStopFailed
  | DeleteVmFailed int
  | WaitDeleteFailed
  | NotAProxmoxId string
  | MalformedProviderId string
  | NonNumericVmid string

datatype error =
    ApiError string
  | PveError string
  | TemplateError string
  | NumError num_error
  | PanicNilMap
  | Errorf message "error option"

subsection \<open>Machines, as the controllers and the hypervisor client see them\<close>

record CreateRequest =
  ReqName :: string
  Cores :: int
  MemoryMB :: int
  DiskGB :: int
  CloudInitUserData :: string

record Instance =
  InstanceProviderID :: string
  InstanceStatus :: string

record PveNode =
  PveNodeName :: string

record VirtualMachine =
  VmNode :: string
  VmID :: int
  VmStatus :: string

record Task =
  UPID :: string

record VirtualMachineCloneOptions =
  CloneNewID :: int
  CloneName :: string
  CloneTarget :: string
  CloneStorage :: string
  ClonePool :: string
  CloneFull :: bool

datatype OptionValue = IntValue int | StringValue string

record VirtualMachineOption =
  OptionName :: string
  OptionValueOf :: OptionValue

record VirtualMachineDeleteOptions =
  Purge :: bool
  DestroyUnreferencedDisks :: bool

subsection \<open>Calls and runs\<close>

datatype event =
    EvGetPool NamespacedName "error + XenonNodePool"
  | EvGetClaim NamespacedName "error + XenonNodeClaim"
  | EvGetProvider NamespacedName "error + ProxmoxProvider"
  | EvGetNode NamespacedName "error + Node"
  | EvGetSecret NamespacedName "error + Secret"
  | EvListPods "(string \<times> string) list" "error + Pod list"
  | EvListClaims "(string \<times> string) list" "error + XenonNodeClaim list"
  | EvCreateClaim XenonNodeClaim "error option"
  | EvUpdateClaim XenonNodeClaim "error + XenonNodeClaim"
  | EvUpdateClaimStatus XenonNodeClaim "error + XenonNodeClaim"
  | EvPatchClaim XenonNodeClaim XenonNodeClaim "error + XenonNodeClaim"
  | EvDeleteClaim XenonNodeClaim "error option"
  | EvUpdatePoolStatus XenonNodePool "error + XenonNodePool"
  | EvPatchNode Node Node "error + Node"
  | EvNow int
  | EvProviderCreate CreateRequest "string \<times> error option"
  | EvProviderDelete string "error option"
  | EvProviderGet string "error + Instance option"
  | EvPveCluster "error + string"
  | EvPveNextID string "error + int"
  | EvPveNode string "error + PveNode"
  | EvPveVM PveNode int "error + VirtualMachine"
  | EvPveClone VirtualMachine VirtualMachineCloneOptions "error + Task"
  | EvPveWait Task int "error option"
  | EvPveConfig VirtualMachine "VirtualMachineOption list" "error + Task"
  | EvPveCloudInit VirtualMachine string string string "error option"
  | EvPveStart VirtualMachine "error + Task"
  | EvPveStop VirtualMachine "error + Task"
  | EvPveDelete VirtualMachine VirtualMachineDeleteOptions "error + Task"

record 'w sys =
  outside :: 'w
  calls :: "event list"

type_synonym ('w, 'a) M = "('w sys, 'a) state"

definition call :: "('w \<Rightarrow> 'a \<times> 'w) \<Rightarrow> ('a \<Rightarrow> event) \<Rightarrow> ('w, 'a) M" where
  "call f ev =
     State (\<lambda>s. case f (outside s) of (a, w) \<Rightarrow> (a, \<lparr>outside = w, calls = calls s @ [ev a]\<rparr>))"

text \<open>A library function that reads or changes the world (the clock) without being a call to a server.\<close>

definition effect :: "('w \<Rightarrow> 'a \<times> 'w) \<Rightarrow> ('w, 'a) M" where
  "effect f = State (\<lambda>s. case f (outside s) of (a, w) \<Rightarrow> (a, s\<lparr>outside := w\<rparr>))"

definition start :: "'w \<Rightarrow> 'w sys" where
  "start w = \<lparr>outside = w, calls = []\<rparr>"

lemma wp_call [wp_simps]:
  "wp (call f ev) Q s =
     (case f (outside s) of (a, w) \<Rightarrow> Q a \<lparr>outside = w, calls = calls s @ [ev a]\<rparr>)"
  by (simp add: call_def wp_State split: prod.split)

lemma wp_effect [wp_simps]:
  "wp (effect f) Q s = (case f (outside s) of (a, w) \<Rightarrow> Q a (s\<lparr>outside := w\<rparr>))"
  by (simp add: effect_def wp_State split: prod.split)

subsection \<open>Properties of a sequence of calls\<close>

text \<open>
  \<open>every_call P h es\<close>: each call of \<open>es\<close> satisfies \<open>P\<close> given the calls made before it, which are
  those of \<open>h\<close> and the earlier ones of \<open>es\<close>.
\<close>

primrec every_call :: "(event list \<Rightarrow> event \<Rightarrow> bool) \<Rightarrow> event list \<Rightarrow> event list \<Rightarrow> bool" where
  "every_call P h [] \<longleftrightarrow> True"
| "every_call P h (e # es) \<longleftrightarrow> P h e \<and> every_call P (h @ [e]) es"

lemma every_call_append [simp]:
  "every_call P h (es @ es') \<longleftrightarrow> every_call P h es \<and> every_call P (h @ es) es'"
  by (induction es arbitrary: h) auto

lemma every_call_iff:
  "every_call P h es \<longleftrightarrow> (\<forall>pre e post. es = pre @ e # post \<longrightarrow> P (h @ pre) e)"
proof
  show "every_call P h es \<Longrightarrow> \<forall>pre e post. es = pre @ e # post \<longrightarrow> P (h @ pre) e"
    by auto
  show "\<forall>pre e post. es = pre @ e # post \<longrightarrow> P (h @ pre) e \<Longrightarrow> every_call P h es"
  proof (induction es arbitrary: h)
    case (Cons e es)
    have "P (h @ [e] @ pre) x" if "es = pre @ x # post" for pre x post
      using Cons.prems [rule_format, of "e # pre" x post] that by simp
    moreover have "P h e" using Cons.prems [rule_format, of "[]" e es] by simp
    ultimately show ?case using Cons.IH [of "h @ [e]"] by simp
  qed simp
qed

lemma every_call_irrelevant: "list_all R es \<Longrightarrow> (\<And>h e. R e \<Longrightarrow> P h e) \<Longrightarrow> every_call P h es"
  by (induction es arbitrary: h) auto

text \<open>Calls a provider makes on its hypervisor.\<close>

fun is_pve :: "event \<Rightarrow> bool" where
  "is_pve (EvPveCluster _) = True"
| "is_pve (EvPveNextID _ _) = True"
| "is_pve (EvPveNode _ _) = True"
| "is_pve (EvPveVM _ _ _) = True"
| "is_pve (EvPveClone _ _ _) = True"
| "is_pve (EvPveWait _ _ _) = True"
| "is_pve (EvPveConfig _ _ _) = True"
| "is_pve (EvPveCloudInit _ _ _ _ _) = True"
| "is_pve (EvPveStart _ _) = True"
| "is_pve (EvPveStop _ _) = True"
| "is_pve (EvPveDelete _ _ _) = True"
| "is_pve _ = False"

subsection \<open>The Kubernetes client\<close>

text \<open>
  The methods of \<open>client.Client\<close> the controllers call, one field per kind of object. \<open>Update\<close>,
  \<open>Patch\<close> and \<open>Status().Update\<close> write the server's answer back into the object they are
  given: they return it. A \<open>List\<close> takes its label or field selector; the empty list selects all.
  \<open>client.MergeFrom(base)\<close> makes the patch from \<open>base\<close> to the object given to \<open>Patch\<close>.
\<close>

record 'w Client =
  GetPool :: "NamespacedName \<Rightarrow> 'w \<Rightarrow> (error + XenonNodePool) \<times> 'w"
  GetClaim :: "NamespacedName \<Rightarrow> 'w \<Rightarrow> (error + XenonNodeClaim) \<times> 'w"
  GetProvider :: "NamespacedName \<Rightarrow> 'w \<Rightarrow> (error + ProxmoxProvider) \<times> 'w"
  GetNode :: "NamespacedName \<Rightarrow> 'w \<Rightarrow> (error + Node) \<times> 'w"
  GetSecret :: "NamespacedName \<Rightarrow> 'w \<Rightarrow> (error + Secret) \<times> 'w"
  ListPods :: "(string \<times> string) list \<Rightarrow> 'w \<Rightarrow> (error + Pod list) \<times> 'w"
  ListClaims :: "(string \<times> string) list \<Rightarrow> 'w \<Rightarrow> (error + XenonNodeClaim list) \<times> 'w"
  CreateClaim :: "XenonNodeClaim \<Rightarrow> 'w \<Rightarrow> error option \<times> 'w"
  UpdateClaim :: "XenonNodeClaim \<Rightarrow> 'w \<Rightarrow> (error + XenonNodeClaim) \<times> 'w"
  StatusUpdateClaim :: "XenonNodeClaim \<Rightarrow> 'w \<Rightarrow> (error + XenonNodeClaim) \<times> 'w"
  PatchClaim :: "XenonNodeClaim \<Rightarrow> XenonNodeClaim \<Rightarrow> 'w \<Rightarrow> (error + XenonNodeClaim) \<times> 'w"
  DeleteClaim :: "XenonNodeClaim \<Rightarrow> 'w \<Rightarrow> error option \<times> 'w"
  StatusUpdatePool :: "XenonNodePool \<Rightarrow> 'w \<Rightarrow> (error + XenonNodePool) \<times> 'w"
  PatchNode :: "Node \<Rightarrow> Node \<Rightarrow> 'w \<Rightarrow> (error + Node) \<times> 'w"

subsection \<open>The hypervisor client\<close>

text \<open>
  The calls of \<open>go-proxmox\<close> the provider makes, on the handles the library returns (a cluster,
  a node, a machine, a task). Starting, stopping, cloning, configuring and deleting return a task
  to wait for.
\<close>

record HttpClient =
  InsecureSkipVerify :: bool

record PveCredentials =
  PveUsername :: string
  PvePassword :: string
  PveRealm :: string

record 'w PveClient =
  PveCluster :: "'w \<Rightarrow> (error + string) \<times> 'w"
  PveNextID :: "string \<Rightarrow> 'w \<Rightarrow> (error + int) \<times> 'w"
  PveGetNode :: "string \<Rightarrow> 'w \<Rightarrow> (error + PveNode) \<times> 'w"
  PveGetVM :: "PveNode \<Rightarrow> int \<Rightarrow> 'w \<Rightarrow> (error + VirtualMachine) \<times> 'w"
  PveClone :: "VirtualMachine \<Rightarrow> VirtualMachineCloneOptions \<Rightarrow> 'w \<Rightarrow> (error + Task) \<times> 'w"
  PveWaitFor :: "Task \<Rightarrow> int \<Rightarrow> 'w \<Rightarrow> error option \<times> 'w"
  PveConfig :: "VirtualMachine \<Rightarrow> VirtualMachineOption list \<Rightarrow> 'w \<Rightarrow> (error + Task) \<times> 'w"
  PveCloudInit :: "VirtualMachine \<Rightarrow> string \<Rightarrow> string \<Rightarrow> string \<Rightarrow> 'w \<Rightarrow> error option \<times> 'w"
  PveStart :: "VirtualMachine \<Rightarrow> 'w \<Rightarrow> (error + Task) \<times> 'w"
  PveStop :: "VirtualMachine \<Rightarrow> 'w \<Rightarrow> (error + Task) \<times> 'w"
  PveDelete :: "VirtualMachine \<Rightarrow> VirtualMachineDeleteOptions \<Rightarrow> 'w \<Rightarrow> (error + Task) \<times> 'w"
  PveIsNotFound :: "error \<Rightarrow> bool"

subsection \<open>Library functions\<close>

text \<open>
  \<open>apierrors.IsNotFound\<close>, \<open>client.IgnoreNotFound\<close>, \<open>controllerutil\<close>'s finalizer helpers (on the
  list of finalizers of an object; adding and removing also report whether the list changed) and
  \<open>SetControllerReference\<close>, \<open>apimeta\<close>'s condition helpers, \<open>Quantity.Value\<close>,
  \<open>metav1.Time.IsZero\<close>, the text of an error, the template engine, the clock and \<open>proxmox.NewClient\<close>.
\<close>

record 'w Lib =
  IsNotFound :: "error \<Rightarrow> bool"
  IgnoreNotFound :: "error \<Rightarrow> error option"
  AddFinalizer :: "string list \<Rightarrow> string \<Rightarrow> string list \<times> bool"
  RemoveFinalizer :: "string list \<Rightarrow> string \<Rightarrow> string list \<times> bool"
  ContainsFinalizer :: "string list \<Rightarrow> string \<Rightarrow> bool"
  SetControllerReference :: "XenonNodePool \<Rightarrow> XenonNodeClaim \<Rightarrow> error + XenonNodeClaim"
  SetStatusCondition :: "Condition list \<Rightarrow> Condition \<Rightarrow> 'w \<Rightarrow> Condition list \<times> 'w"
  IsStatusConditionTrue :: "Condition list \<Rightarrow> string \<Rightarrow> bool"
  QuantityValue :: "Quantity \<Rightarrow> int"
  IsZero :: "int option \<Rightarrow> bool"
  ErrorText :: "error \<Rightarrow> string"
  TemplateParse :: "string \<Rightarrow> error + nat"
  TemplateExecute :: "nat \<Rightarrow> (string \<rightharpoonup> string) \<Rightarrow> error + string"
  TimeNow :: "'w \<Rightarrow> int \<times> 'w"
  NewPveClient :: "string \<Rightarrow> HttpClient \<Rightarrow> PveCredentials \<Rightarrow> 'w PveClient"

text \<open>
  A \<open>*runtime.Scheme\<close> is its address. The program only hands it on; what reads it is in the libraries
  (\<open>SetControllerReference\<close> is taken with the scheme of the reconciler that calls it).
\<close>

type_synonym SchemeRef = nat

definition Now :: "'w Lib \<Rightarrow> ('w, int) M" where
  "Now L = call (TimeNow L) EvNow"

subsection \<open>Results and requests of a reconcile\<close>

text \<open>\<open>ctrl.Result\<close>: only \<open>RequeueAfter\<close> is ever set, a duration in nanoseconds.\<close>

record Result =
  RequeueAfter :: int

definition NoRequeue :: Result where
  "NoRequeue = \<lparr>RequeueAfter = 0\<rparr>"

type_synonym outcome = "Result \<times> error option"

text \<open>The objects whose events reach a controller, and the request for an object of a given name.\<close>

datatype Object =
    PodObject Pod
  | ClaimObject XenonNodeClaim
  | NodeObject Node
  | PoolObject XenonNodePool

definition request :: "string \<Rightarrow> NamespacedName" where
  "request name = \<lparr>Namespace = [], KeyName = name\<rparr>"

definition Second :: int where "Second = nanos"
definition Minute :: int where "Minute = 60 * Second"

subsection \<open>Documented behaviour of the libraries\<close>

definition finalizer_laws :: "'w Lib \<Rightarrow> bool" where
  "finalizer_laws L \<longleftrightarrow>
     (\<forall>fs f. ContainsFinalizer L fs f \<longleftrightarrow> f \<in> set fs) \<and>
     (\<forall>fs f. AddFinalizer L fs f = (if f \<in> set fs then (fs, False) else (fs @ [f], True))) \<and>
     (\<forall>fs f. RemoveFinalizer L fs f = (filter (\<lambda>g. g \<noteq> f) fs, f \<in> set fs))"

definition condition_laws :: "'w Lib \<Rightarrow> bool" where
  "condition_laws L \<longleftrightarrow>
     (\<forall>cs c w cs' w' t. SetStatusCondition L cs c w = (cs', w') \<longrightarrow>
        IsStatusConditionTrue L cs' t =
          (if t = CondType c then CondStatus c = ConditionTrue else IsStatusConditionTrue L cs t))"

end
