(* ===== verification/ProviderApi.thy ===== *)
theory ProviderApi
  imports Runtime
begin

text \<open>
  The interface \<open>provider.Provider\<close> of \<open>internal/provider\<close>: the three methods as a record of
  programs, the way a controller calls them, and the contract of the interface as a locale. An
  implementation comes with what it relies on (\<open>wf\<close>), with the machine an identifier
  names (\<open>machine_of\<close>) and with the machines that exist (\<open>machines\<close>).
\<close>

record 'w Provider =
  ProvCreate :: "CreateRequest \<Rightarrow> ('w, string \<times> error option) M"
  ProvDelete :: "string \<Rightarrow> ('w, error option) M"
  ProvGet :: "string \<Rightarrow> ('w, error + Instance option) M"

text \<open>A call through the interface is recorded after the calls the implementation makes.\<close>

definition log_call :: "event \<Rightarrow> ('w, unit) M" where
  "log_call ev = State (\<lambda>s. ((), s\<lparr>calls := calls s @ [ev]\<rparr>))"

definition call_Create :: "'w Provider \<Rightarrow> CreateRequest \<Rightarrow> ('w, string \<times> error option) M" where
  "call_Create p req = do { r \<leftarrow> ProvCreate p req; log_call (EvProviderCreate req r); ret r }"

definition call_Delete :: "'w Provider \<Rightarrow> string \<Rightarrow> ('w, error option) M" where
  "call_Delete p i = do { r \<leftarrow> ProvDelete p i; log_call (EvProviderDelete i r); ret r }"

definition call_Get :: "'w Provider \<Rightarrow> string \<Rightarrow> ('w, error + Instance option) M" where
  "call_Get p i = do { r \<leftarrow> ProvGet p i; log_call (EvProviderGet i r); ret r }"

lemma wp_log_call [wp_simps]: "wp (log_call ev) Q s = Q () (s\<lparr>calls := calls s @ [ev]\<rparr>)"
  by (simp add: log_call_def wp_State)

text \<open>An implementation talks to its hypervisor only: it makes no call of another kind.\<close>

definition only_pve :: "('w, 'a) M \<Rightarrow> bool" where
  "only_pve m \<longleftrightarrow> (\<forall>s. wp m (\<lambda>_ t. \<exists>es. calls t = calls s @ es \<and> list_all is_pve es) s)"

definition provider_ok :: "'w Provider \<Rightarrow> bool" where
  "provider_ok p \<longleftrightarrow>
     (\<forall>req. only_pve (ProvCreate p req)) \<and> (\<forall>i. only_pve (ProvDelete p i)) \<and> (\<forall>i. only_pve (ProvGet p i))"

lemma wp_only_pve:
  assumes "only_pve m"
    and "\<And>r w es. list_all is_pve es \<Longrightarrow> Q r \<lparr>outside = w, calls = calls s @ es\<rparr>"
  shows "wp m Q s"
proof -
  have "wp m (\<lambda>_ t. \<exists>es. calls t = calls s @ es \<and> list_all is_pve es) s"
    using assms(1) by (simp add: only_pve_def)
  then show ?thesis
    by (rule wp_mono) (metis assms(2) sys.surjective old.unit.exhaust)
qed

lemma wp_call_Create:
  assumes "provider_ok p"
    and "\<And>r w es. list_all is_pve es
      \<Longrightarrow> Q r \<lparr>outside = w, calls = calls s @ es @ [EvProviderCreate req r]\<rparr>"
  shows "wp (call_Create p req) Q s"
  unfolding call_Create_def wp_simps
  by (rule wp_only_pve) (use assms in \<open>auto simp: provider_ok_def\<close>)

lemma wp_call_Delete:
  assumes "provider_ok p"
    and "\<And>r w es. list_all is_pve es
      \<Longrightarrow> Q r \<lparr>outside = w, calls = calls s @ es @ [EvProviderDelete i r]\<rparr>"
  shows "wp (call_Delete p i) Q s"
  unfolding call_Delete_def wp_simps
  by (rule wp_only_pve) (use assms in \<open>auto simp: provider_ok_def\<close>)

lemma wp_call_Get:
  assumes "provider_ok p"
    and "\<And>r w es. list_all is_pve es
      \<Longrightarrow> Q r \<lparr>outside = w, calls = calls s @ es @ [EvProviderGet i r]\<rparr>"
  shows "wp (call_Get p i) Q s"
  unfolding call_Get_def wp_simps
  by (rule wp_only_pve) (use assms in \<open>auto simp: provider_ok_def\<close>)

subsection \<open>The contract\<close>

text \<open>
  \<open>machine_remover\<close> is what tearing a machine down relies on, \<open>machine_provider\<close> adds what making one
  promises.
\<close>

locale machine_remover =
  fixes delete :: "'p \<Rightarrow> string \<Rightarrow> ('w, error option) M"
    and get :: "'p \<Rightarrow> string \<Rightarrow> ('w, error + Instance option) M"
    and wf :: "'p \<Rightarrow> bool"
    and machine_of :: "string \<Rightarrow> 'k option"
    and machines :: "'p \<Rightarrow> 'w \<Rightarrow> 'k set"
  assumes delete_gone:
      "wf p \<Longrightarrow> machine_of i = Some k
        \<Longrightarrow> wp (delete p i) (\<lambda>err t. err = None \<longrightarrow> k \<notin> machines p (outside t)) s"
    and delete_frame:
      "wf p \<Longrightarrow> wp (delete p i)
        (\<lambda>_ t. machines p (outside s) - set_option (machine_of i) \<subseteq> machines p (outside t)) s"
    and get_truth:
      "wf p \<Longrightarrow> wp (get p i)
        (\<lambda>r t. \<forall>inst. r = Inr inst \<longrightarrow>
          (\<exists>k. machine_of i = Some k \<and> (inst \<noteq> None) = (k \<in> machines p (outside t)))) s"
    and get_frame:
      "wf p \<Longrightarrow> wp (get p i) (\<lambda>_ t. machines p (outside t) = machines p (outside s)) s"
begin

text \<open>Deleting and then looking never reports a machine that still exists.\<close>

lemma delete_then_get:
  assumes "wf p" "machine_of i = Some k"
  shows "wp (delete p i)
    (\<lambda>err t. err = None \<longrightarrow>
       wp (get p i) (\<lambda>r u. (\<forall>inst. r \<noteq> Inr (Some inst)) \<and> k \<notin> machines p (outside u)) t) s"
proof (rule wp_mono [OF delete_gone [OF assms]], intro impI)
  fix err and t :: "'w sys"
  assume "err = None \<longrightarrow> k \<notin> machines p (outside t)" and "err = None"
  then have "k \<notin> machines p (outside t)" by simp
  then show "wp (get p i) (\<lambda>r u. (\<forall>inst. r \<noteq> Inr (Some inst)) \<and> k \<notin> machines p (outside u)) t"
    using get_truth [OF assms(1), of i t] get_frame [OF assms(1), of i t] assms(2)
    by (auto simp: wp_def split: prod.splits)
qed

text \<open>Deleting one machine leaves the others in place.\<close>

lemma delete_keeps_others:
  assumes "wf p" "k \<in> machines p (outside s)" "machine_of i \<noteq> Some k"
  shows "wp (delete p i) (\<lambda>_ t. k \<in> machines p (outside t)) s"
  by (rule wp_mono [OF delete_frame [OF assms(1), of i s]]) (use assms in auto)

text \<open>A \<open>Get\<close> that reports a machine gone is right, whatever came before.\<close>

lemma get_gone:
  assumes "wf p" "machine_of i = Some k"
  shows "wp (get p i) (\<lambda>r t. r = Inr None \<longrightarrow> k \<notin> machines p (outside t)) s"
  by (rule wp_mono [OF get_truth [OF assms(1), of i s]]) (use assms(2) in auto)

end

locale machine_provider = machine_remover delete get wf machine_of machines
  for delete :: "'p \<Rightarrow> string \<Rightarrow> ('w, error option) M"
    and get :: "'p \<Rightarrow> string \<Rightarrow> ('w, error + Instance option) M"
    and wf :: "'p \<Rightarrow> bool"
    and machine_of :: "string \<Rightarrow> 'k option"
    and machines :: "'p \<Rightarrow> 'w \<Rightarrow> 'k set" +
  fixes create :: "'p \<Rightarrow> CreateRequest \<Rightarrow> ('w, string \<times> error option) M"
  assumes create_tracked:
      "wf p \<Longrightarrow> wp (create p req)
        (\<lambda>(i, err) t. err = None \<longrightarrow> (\<exists>k. machine_of i = Some k \<and> k \<in> machines p (outside t))) s"
begin

text \<open>What \<open>Create\<close> returns can be looked up with \<open>Get\<close>, and taken down with \<open>Delete\<close>.\<close>

lemma create_then_get:
  assumes "wf p"
  shows "wp (create p req) (\<lambda>(i, err) t. err = None \<longrightarrow> wp (get p i) (\<lambda>r u. r \<noteq> Inr None) t) s"
proof (rule wp_mono [OF create_tracked [OF assms, of req s]], clarsimp)
  fix i and t :: "'w sys" and k
  assume k: "machine_of i = Some k" "k \<in> machines p (outside t)"
  have "wp (get p i) (\<lambda>r u. (\<forall>inst. r = Inr inst \<longrightarrow>
      (\<exists>k. machine_of i = Some k \<and> (inst \<noteq> None) = (k \<in> machines p (outside u)))) \<and>
      machines p (outside u) = machines p (outside t)) t"
    unfolding wp_conj using get_truth [OF assms] get_frame [OF assms] by blast
  then show "wp (get p i) (\<lambda>r u. r \<noteq> Inr None) t"
    by (rule wp_mono) (use k in auto)
qed

lemma create_then_delete:
  assumes "wf p"
  shows "wp (create p req) (\<lambda>(i, err) t. err = None \<longrightarrow>
    (\<exists>k. machine_of i = Some k \<and> wp (delete p i) (\<lambda>err u. err = None \<longrightarrow> k \<notin> machines p (outside u)) t)) s"
  by (rule wp_mono [OF create_tracked [OF assms, of req s]]) (use delete_gone [OF assms] in auto)

end

end
