(* ===== verification/Bench.thy ===== *)
theory Bench
  imports Runtime
begin

text \<open>
  A small cluster in memory: an API server that stores objects in lists, library functions
  that do what their documentation says, and a hypervisor that runs every task at once. It is one
  instance of the parameters of \<open>Runtime\<close>, on which the theorems with hypotheses are applied to
  concrete runs; no model of a component uses it.
\<close>

record bench =
  bPools :: "XenonNodePool list"
  bClaims :: "XenonNodeClaim list"
  bProviders :: "ProxmoxProvider list"
  bNodes :: "Node list"
  bSecrets :: "Secret list"
  bPods :: "Pod list"
  bMachines :: "(string \<times> int) list"
  bNextID :: int
  bClock :: int

definition bench_not_found :: error where
  "bench_not_found = ApiError ''NotFound''"

definition bench_find :: "('a ObjectMeta_scheme) list \<Rightarrow> NamespacedName \<Rightarrow> error + 'a ObjectMeta_scheme" where
  "bench_find xs key =
     (case find (\<lambda>x. Name x = KeyName key) xs of None \<Rightarrow> Inl bench_not_found | Some x \<Rightarrow> Inr x)"

definition bench_store :: "('a ObjectMeta_scheme) list \<Rightarrow> 'a ObjectMeta_scheme \<Rightarrow> 'a ObjectMeta_scheme list" where
  "bench_store xs x = map (\<lambda>y. if Name y = Name x then x else y) xs"

definition bench_gone :: "XenonNodeClaim \<Rightarrow> bool" where
  "bench_gone c \<longleftrightarrow> DeletionTimestamp c \<noteq> None \<and> Finalizers c = []"

definition bench_update :: "XenonNodeClaim \<Rightarrow> bench \<Rightarrow> (error + XenonNodeClaim) \<times> bench" where
  "bench_update c w =
     (case find (\<lambda>x. Name x = Name c) (bClaims w) of
        None \<Rightarrow> (Inl bench_not_found, w)
      | Some old \<Rightarrow>
          let new = c\<lparr>Status := Status old\<rparr> in
          (Inr new, w\<lparr>bClaims := filter (\<lambda>x. \<not> bench_gone x) (bench_store (bClaims w) new)\<rparr>))"

definition bench_status_update :: "XenonNodeClaim \<Rightarrow> bench \<Rightarrow> (error + XenonNodeClaim) \<times> bench" where
  "bench_status_update c w =
     (case find (\<lambda>x. Name x = Name c) (bClaims w) of
        None \<Rightarrow> (Inl bench_not_found, w)
      | Some old \<Rightarrow>
          let new = old\<lparr>Status := Status c\<rparr> in (Inr new, w\<lparr>bClaims := bench_store (bClaims w) new\<rparr>))"

definition bench_delete :: "XenonNodeClaim \<Rightarrow> bench \<Rightarrow> error option \<times> bench" where
  "bench_delete c w =
     (case find (\<lambda>x. Name x = Name c) (bClaims w) of
        None \<Rightarrow> (Some bench_not_found, w)
      | Some old \<Rightarrow>
          (None, w\<lparr>bClaims := filter (\<lambda>x. \<not> bench_gone x)
             (bench_store (bClaims w) (old\<lparr>DeletionTimestamp := Some (bClock w)\<rparr>))\<rparr>))"

definition bench_client :: "bench Client" where
  "bench_client = \<lparr>
     GetPool = (\<lambda>key w. (bench_find (bPools w) key, w)),
     GetClaim = (\<lambda>key w. (bench_find (bClaims w) key, w)),
     GetProvider = (\<lambda>key w. (bench_find (bProviders w) key, w)),
     GetNode = (\<lambda>key w. (bench_find (bNodes w) key, w)),
     GetSecret = (\<lambda>key w. (bench_find (bSecrets w) key, w)),
     ListPods = (\<lambda>sel w. (Inr (filter (\<lambda>p. list_all (\<lambda>(k, v). PodNodeName p = v) sel) (bPods w)), w)),
     ListClaims = (\<lambda>sel w. (Inr (filter (\<lambda>c. list_all (\<lambda>(k, v). mget (Labels c) k = Some v) sel) (bClaims w)), w)),
     CreateClaim = (\<lambda>c w. (None, w\<lparr>bClaims := bClaims w @ [c\<lparr>Name := GenerateName c @ dec (length (bClaims w))\<rparr>]\<rparr>)),
     UpdateClaim = bench_update,
     StatusUpdateClaim = bench_status_update,
     PatchClaim = (\<lambda>base c w. (Inr c, w\<lparr>bClaims := bench_store (bClaims w) c\<rparr>)),
     DeleteClaim = bench_delete,
     StatusUpdatePool = (\<lambda>p w. (Inr p, w\<lparr>bPools := bench_store (bPools w) p\<rparr>)),
     PatchNode = (\<lambda>base n w. (Inr n, w\<lparr>bNodes := bench_store (bNodes w) n\<rparr>))\<rparr>"

definition bench_task :: Task where
  "bench_task = \<lparr>UPID = ''UPID''\<rparr>"

definition bench_pve :: "bench PveClient" where
  "bench_pve = \<lparr>
     PveCluster = (\<lambda>w. (Inr ''cluster'', w)),
     PveNextID = (\<lambda>c w. (Inr (bNextID w mod 1000), w\<lparr>bNextID := bNextID w + 1\<rparr>)),
     PveGetNode = (\<lambda>n w. (Inr \<lparr>PveNodeName = n\<rparr>, w)),
     PveGetVM = (\<lambda>h i w.
       (if (PveNodeName h, i) \<in> set (bMachines w)
        then Inr \<lparr>VmNode = PveNodeName h, VmID = i, VmStatus = ''running''\<rparr>
        else Inl (PveError ''NotFound''), w)),
     PveClone = (\<lambda>vm opts w. (Inr bench_task, w\<lparr>bMachines := (CloneTarget opts, CloneNewID opts) # bMachines w\<rparr>)),
     PveWaitFor = (\<lambda>t n w. (None, w)),
     PveConfig = (\<lambda>vm opts w. (Inr bench_task, w)),
     PveCloudInit = (\<lambda>vm d u st w. (None, w)),
     PveStart = (\<lambda>vm w. (Inr bench_task, w)),
     PveStop = (\<lambda>vm w. (Inr bench_task, w)),
     PveDelete = (\<lambda>vm opts w. (Inr bench_task, w\<lparr>bMachines := filter (\<lambda>m. m \<noteq> (VmNode vm, VmID vm)) (bMachines w)\<rparr>)),
     PveIsNotFound = (\<lambda>e. e = PveError ''NotFound'')\<rparr>"

definition bench_set_condition :: "Condition list \<Rightarrow> Condition \<Rightarrow> Condition list" where
  "bench_set_condition cs c = c # filter (\<lambda>d. CondType d \<noteq> CondType c) cs"

definition bench_condition_true :: "Condition list \<Rightarrow> string \<Rightarrow> bool" where
  "bench_condition_true cs t =
     (case find (\<lambda>c. CondType c = t) cs of None \<Rightarrow> False | Some c \<Rightarrow> CondStatus c = ConditionTrue)"

definition bench_lib :: "bench Lib" where
  "bench_lib = \<lparr>
     IsNotFound = (\<lambda>e. e = bench_not_found),
     IgnoreNotFound = (\<lambda>e. if e = bench_not_found then None else Some e),
     AddFinalizer = (\<lambda>fs f. if f \<in> set fs then (fs, False) else (fs @ [f], True)),
     RemoveFinalizer = (\<lambda>fs f. (filter (\<lambda>g. g \<noteq> f) fs, f \<in> set fs)),
     ContainsFinalizer = (\<lambda>fs f. f \<in> set fs),
     SetControllerReference = (\<lambda>pool c. Inr (c\<lparr>OwnerReferences :=
       \<lparr>OwnerKind = ''XenonNodePool'', OwnerName = Name pool, OwnerController = True\<rparr> # OwnerReferences c\<rparr>)),
     SetStatusCondition = (\<lambda>cs c w. (bench_set_condition cs c, w)),
     IsStatusConditionTrue = bench_condition_true,
     QuantityValue = (\<lambda>q. case Atoi q of Inl _ \<Rightarrow> 0 | Inr i \<Rightarrow> i),
     IsZero = (\<lambda>t. t = None),
     ErrorText = (\<lambda>e. ''error''),
     TemplateParse = (\<lambda>s. if s = [] then Inl (TemplateError ''empty'') else Inr 0),
     TemplateExecute = (\<lambda>t m. case m ''NodeName'' of None \<Rightarrow> Inl (TemplateError ''field'') | Some n \<Rightarrow> Inr n),
     TimeNow = (\<lambda>w. (bClock w, w)),
     NewPveClient = (\<lambda>endpoint http creds. bench_pve)\<rparr>"

lemmas bench_defs =
  bench_client_def bench_lib_def bench_pve_def bench_find_def bench_store_def bench_gone_def
  bench_update_def bench_status_update_def bench_delete_def bench_set_condition_def
  bench_condition_true_def bench_task_def bench_not_found_def

subsection \<open>The bench behaves as documented\<close>

lemma bench_finalizer_laws: "finalizer_laws bench_lib"
  by (simp add: finalizer_laws_def bench_lib_def)

lemma find_other_type: "t \<noteq> CondType c \<Longrightarrow>
    find (\<lambda>d. CondType d = t) (filter (\<lambda>d. CondType d \<noteq> CondType c) cs) = find (\<lambda>d. CondType d = t) cs"
  by (induction cs) auto

lemma bench_condition_laws: "condition_laws bench_lib"
  by (auto simp: condition_laws_def bench_lib_def bench_set_condition_def bench_condition_true_def
      find_other_type)

end
