(* ===== verification/Proxmox.thy ===== *)
theory Proxmox
  imports ProviderApi Bench
begin

text \<open>
  \<open>internal/provider/proxmox\<close>: the provider on top of the \<open>go-proxmox\<close> client, which is a
  parameter (\<open>PveClient\<close>). First the provider ID codec and the small helpers, then \<open>Create\<close>,
  \<open>configure\<close>, \<open>Delete\<close> and \<open>Get\<close>; then what they do, call by call, and that they keep the
  contract of \<open>machine_provider\<close> when the hypervisor behaves as documented (\<open>pve_laws\<close>).
\<close>

subsection \<open>Provider IDs\<close>

definition providerIDScheme :: string where
  "providerIDScheme = ''proxmox://''"

definition taskTimeoutSecs :: int where
  "taskTimeoutSecs = 600"

definition newProviderID :: "string \<Rightarrow> int \<Rightarrow> string" where
  "newProviderID node vmid = providerIDScheme @ node @ ''/'' @ fmt_d vmid"

definition parseProviderID :: "string \<Rightarrow> error + string \<times> int" where
  "parseProviderID providerID =
     (let trimmed = TrimPrefix providerID providerIDScheme in
      if trimmed = providerID then Inl (Errorf (NotAProxmoxId providerID) None)
      else case Cut trimmed (CHR ''/'') of (node, idStr, ok) \<Rightarrow>
        if \<not> ok \<or> node = [] \<or> idStr = [] then Inl (Errorf (MalformedProviderId providerID) None)
        else case Atoi idStr of
          Inl err \<Rightarrow> Inl (Errorf (NonNumericVmid providerID) (Some (NumError err)))
        | Inr vmid \<Rightarrow> Inr (node, vmid))"

subsection \<open>The provider\<close>

record 'w ProxmoxImpl =
  client :: "'w PveClient"
  spec :: ProxmoxProviderSpec

definition New ::
  "(string \<Rightarrow> HttpClient \<Rightarrow> PveCredentials \<Rightarrow> 'w PveClient)
   \<Rightarrow> ProxmoxProviderSpec \<Rightarrow> PveCredentials \<Rightarrow> 'w ProxmoxImpl" where
  "New newClient sp creds =
     (let httpClient = \<lparr>InsecureSkipVerify = False\<rparr>;
          httpClient = (if Insecure sp then httpClient\<lparr>InsecureSkipVerify := True\<rparr> else httpClient)
      in \<lparr>client = newClient (Endpoint sp) httpClient creds, spec = sp\<rparr>)"

definition targetNode :: "'w ProxmoxImpl \<Rightarrow> string" where
  "targetNode p =
     (case Nodes (spec p) of n # _ \<Rightarrow> n | [] \<Rightarrow> SourceNode (SourceTemplate (spec p)))"

definition device :: "'w ProxmoxImpl \<Rightarrow> string" where
  "device p = (if Device (CloudInit (spec p)) \<noteq> [] then Device (CloudInit (spec p)) else ''ide2'')"

definition cloudInitStorage :: "'w ProxmoxImpl \<Rightarrow> string" where
  "cloudInitStorage p =
     (if CloudInitStorage (CloudInit (spec p)) \<noteq> [] then CloudInitStorage (CloudInit (spec p))
      else Storage (spec p))"

definition WaitFor :: "'w ProxmoxImpl \<Rightarrow> Task \<Rightarrow> ('w, error option) M" where
  "WaitFor p task =
     call (PveWaitFor (client p) task taskTimeoutSecs) (EvPveWait task taskTimeoutSecs)"

text \<open>The options \<open>configure\<close> sets: sizes the request leaves at zero and empty tags are skipped.\<close>

definition configure_options :: "'w ProxmoxImpl \<Rightarrow> CreateRequest \<Rightarrow> VirtualMachineOption list" where
  "configure_options p req =
     (let opts = [];
          opts = (if 0 < Cores req
                  then opts @ [\<lparr>OptionName = ''cores'', OptionValueOf = IntValue (Cores req)\<rparr>] else opts);
          opts = (if 0 < MemoryMB req
                  then opts @ [\<lparr>OptionName = ''memory'', OptionValueOf = IntValue (MemoryMB req)\<rparr>] else opts);
          opts = (if 0 < DiskGB req
                  then opts @ [\<lparr>OptionName = ''disk'', OptionValueOf = IntValue (DiskGB req)\<rparr>] else opts);
          opts = (if Tags (spec p) \<noteq> []
                  then opts @ [\<lparr>OptionName = ''tags'',
                                OptionValueOf = StringValue (Join (Tags (spec p)) '';'')\<rparr>] else opts)
      in opts)"

definition configure ::
  "'w ProxmoxImpl \<Rightarrow> VirtualMachine \<Rightarrow> CreateRequest \<Rightarrow> ('w, error option) M" where
  "configure p vm req =
     (let opts = configure_options p req in
      if opts = [] then ret None
      else do {
        task \<leftarrow> call (PveConfig (client p) vm opts) (EvPveConfig vm opts);
        case task of
          Inl err \<Rightarrow> ret (Some (Errorf ConfigureFailed (Some err)))
        | Inr task \<Rightarrow> do {
            err \<leftarrow> WaitFor p task;
            case err of
              Some err \<Rightarrow> ret (Some (Errorf WaitConfigureFailed (Some err)))
            | None \<Rightarrow> ret None
          }
      })"

text \<open>
  \<open>Create\<close>, in two parts: reserving an ID and cloning the template, and what follows once the
  machine exists, where every failure still returns its provider ID.
\<close>

definition clone_template :: "'w ProxmoxImpl \<Rightarrow> CreateRequest \<Rightarrow> ('w, error + int) M" where
  "clone_template p req = do {
     cluster \<leftarrow> call (PveCluster (client p)) EvPveCluster;
     case cluster of
       Inl err \<Rightarrow> ret (Inl (Errorf GetClusterFailed (Some err)))
     | Inr cluster \<Rightarrow> do {
         newID \<leftarrow> call (PveNextID (client p) cluster) (EvPveNextID cluster);
         case newID of
           Inl err \<Rightarrow> ret (Inl (Errorf AllocateVmidFailed (Some err)))
         | Inr newID \<Rightarrow> do {
             let source = SourceTemplate (spec p);
             tmplNode \<leftarrow> call (PveGetNode (client p) (SourceNode source)) (EvPveNode (SourceNode source));
             case tmplNode of
               Inl err \<Rightarrow> ret (Inl (Errorf (GetTemplateNodeFailed (SourceNode source)) (Some err)))
             | Inr tmplNode \<Rightarrow> do {
                 tmpl \<leftarrow> call (PveGetVM (client p) tmplNode (VMID source)) (EvPveVM tmplNode (VMID source));
                 case tmpl of
                   Inl err \<Rightarrow> ret (Inl (Errorf (GetTemplateVmFailed (VMID source)) (Some err)))
                 | Inr tmpl \<Rightarrow> do {
                     let opts = \<lparr>CloneNewID = newID, CloneName = ReqName req,
                       CloneTarget = targetNode p, CloneStorage = Storage (spec p),
                       ClonePool = ProxmoxPool (spec p), CloneFull = True\<rparr>;
                     cloneTask \<leftarrow> call (PveClone (client p) tmpl opts) (EvPveClone tmpl opts);
                     case cloneTask of
                       Inl err \<Rightarrow> ret (Inl (Errorf CloneFailed (Some err)))
                     | Inr cloneTask \<Rightarrow> do {
                         err \<leftarrow> WaitFor p cloneTask;
                         case err of
                           Some err \<Rightarrow> ret (Inl (Errorf WaitCloneFailed (Some err)))
                         | None \<Rightarrow> ret (Inr newID)
                       }
                   }
               }
           }
       }
   }"

definition finish_vm :: "'w ProxmoxImpl \<Rightarrow> CreateRequest \<Rightarrow> int \<Rightarrow> ('w, error option) M" where
  "finish_vm p req newID = do {
     node \<leftarrow> call (PveGetNode (client p) (targetNode p)) (EvPveNode (targetNode p));
     case node of
       Inl err \<Rightarrow> ret (Some (Errorf (GetTargetNodeFailed (targetNode p)) (Some err)))
     | Inr node \<Rightarrow> do {
         vm \<leftarrow> call (PveGetVM (client p) node newID) (EvPveVM node newID);
         case vm of
           Inl err \<Rightarrow> ret (Some (Errorf (GetClonedVmFailed newID) (Some err)))
         | Inr vm \<Rightarrow> do {
             err \<leftarrow> configure p vm req;
             case err of
               Some err \<Rightarrow> ret (Some err)
             | None \<Rightarrow> do {
                 err \<leftarrow> call
                   (PveCloudInit (client p) vm (device p) (CloudInitUserData req) (cloudInitStorage p))
                   (EvPveCloudInit vm (device p) (CloudInitUserData req) (cloudInitStorage p));
                 case err of
                   Some err \<Rightarrow> ret (Some (Errorf CloudInitFailed (Some err)))
                 | None \<Rightarrow> do {
                     startTask \<leftarrow> call (PveStart (client p) vm) (EvPveStart vm);
                     case startTask of
                       Inl err \<Rightarrow> ret (Some (Errorf StartFailed (Some err)))
                     | Inr startTask \<Rightarrow> do {
                         err \<leftarrow> WaitFor p startTask;
                         case err of
                           Some err \<Rightarrow> ret (Some (Errorf WaitStartFailed (Some err)))
                         | None \<Rightarrow> ret None
                       }
                   }
               }
           }
       }
   }"

definition Provider_Create :: "'w ProxmoxImpl \<Rightarrow> CreateRequest \<Rightarrow> ('w, string \<times> error option) M" where
  "Provider_Create p req = do {
     cloned \<leftarrow> clone_template p req;
     case cloned of
       Inl err \<Rightarrow> ret ([], Some err)
     | Inr newID \<Rightarrow> do {
         let providerID = newProviderID (targetNode p) newID;
         err \<leftarrow> finish_vm p req newID;
         ret (providerID, err)
       }
   }"

definition stop_if_running :: "'w ProxmoxImpl \<Rightarrow> VirtualMachine \<Rightarrow> int \<Rightarrow> ('w, error option) M" where
  "stop_if_running p vm vmid =
     (if VmStatus vm = ''running'' then do {
        stopTask \<leftarrow> call (PveStop (client p) vm) (EvPveStop vm);
        case stopTask of
          Inl err \<Rightarrow> ret (Some (Errorf (StopFailed vmid) (Some err)))
        | Inr stopTask \<Rightarrow> do {
            err \<leftarrow> WaitFor p stopTask;
            case err of
              Some err \<Rightarrow> ret (Some (Errorf WaitStopFailed (Some err)))
            | None \<Rightarrow> ret None
          }
      } else ret None)"

definition destroy_vm :: "'w ProxmoxImpl \<Rightarrow> VirtualMachine \<Rightarrow> int \<Rightarrow> ('w, error option) M" where
  "destroy_vm p vm vmid = do {
     let opts = \<lparr>Purge = True, DestroyUnreferencedDisks = True\<rparr>;
     delTask \<leftarrow> call (PveDelete (client p) vm opts) (EvPveDelete vm opts);
     case delTask of
       Inl err \<Rightarrow> ret (Some (Errorf (DeleteVmFailed vmid) (Some err)))
     | Inr delTask \<Rightarrow> do {
         err \<leftarrow> WaitFor p delTask;
         case err of
           Some err \<Rightarrow> ret (Some (Errorf WaitDeleteFailed (Some err)))
         | None \<Rightarrow> ret None
       }
   }"

definition Provider_Delete :: "'w ProxmoxImpl \<Rightarrow> string \<Rightarrow> ('w, error option) M" where
  "Provider_Delete p providerID =
     (case parseProviderID providerID of
        Inl err \<Rightarrow> ret (Some err)
      | Inr (node, vmid) \<Rightarrow> do {
          n \<leftarrow> call (PveGetNode (client p) node) (EvPveNode node);
          case n of
            Inl err \<Rightarrow>
              if PveIsNotFound (client p) err then ret None
              else ret (Some (Errorf (GetNodeFailed node) (Some err)))
          | Inr n \<Rightarrow> do {
              vm \<leftarrow> call (PveGetVM (client p) n vmid) (EvPveVM n vmid);
              case vm of
                Inl err \<Rightarrow>
                  if PveIsNotFound (client p) err then ret None
                  else ret (Some (Errorf (GetVmFailed vmid) (Some err)))
              | Inr vm \<Rightarrow> do {
                  stopped \<leftarrow> stop_if_running p vm vmid;
                  case stopped of
                    Some err \<Rightarrow> ret (Some err)
                  | None \<Rightarrow> destroy_vm p vm vmid
                }
            }
        })"

definition Provider_Get :: "'w ProxmoxImpl \<Rightarrow> string \<Rightarrow> ('w, error + Instance option) M" where
  "Provider_Get p providerID =
     (case parseProviderID providerID of
        Inl err \<Rightarrow> ret (Inl err)
      | Inr (node, vmid) \<Rightarrow> do {
          n \<leftarrow> call (PveGetNode (client p) node) (EvPveNode node);
          case n of
            Inl err \<Rightarrow>
              if PveIsNotFound (client p) err then ret (Inr None)
              else ret (Inl (Errorf (GetNodeFailed node) (Some err)))
          | Inr n \<Rightarrow> do {
              vm \<leftarrow> call (PveGetVM (client p) n vmid) (EvPveVM n vmid);
              case vm of
                Inl err \<Rightarrow>
                  if PveIsNotFound (client p) err then ret (Inr None)
                  else ret (Inl (Errorf (GetVmFailed vmid) (Some err)))
              | Inr vm \<Rightarrow>
                  ret (Inr (Some \<lparr>InstanceProviderID = providerID, InstanceStatus = VmStatus vm\<rparr>))
            }
        })"

text \<open>The provider behind the interface.\<close>

definition as_Provider :: "'w ProxmoxImpl \<Rightarrow> 'w Provider" where
  "as_Provider p =
     \<lparr>ProvCreate = Provider_Create p, ProvDelete = Provider_Delete p, ProvGet = Provider_Get p\<rparr>"

subsection \<open>Provider IDs round trip\<close>

definition id_ok :: "string \<times> int \<Rightarrow> bool" where
  "id_ok k \<longleftrightarrow> fst k \<noteq> [] \<and> CHR ''/'' \<notin> set (fst k) \<and> is_int64 (snd k)"

lemma parse_newProviderID: "id_ok (node, vmid) \<Longrightarrow> parseProviderID (newProviderID node vmid) = Inr (node, vmid)"
  by (simp add: id_ok_def parseProviderID_def newProviderID_def providerIDScheme_def
      TrimPrefix_def Cut_found Atoi_fmt_d)

lemma parseProviderID_sound:
  assumes "parseProviderID s = Inr (node, vmid)"
  shows "\<exists>idStr. s = providerIDScheme @ node @ ''/'' @ idStr \<and> Atoi idStr = Inr vmid \<and> id_ok (node, vmid)"
proof -
  have "HasPrefix s providerIDScheme"
    using assms by (auto simp: parseProviderID_def Let_def TrimPrefix_def split: if_splits)
  then obtain r where s: "s = providerIDScheme @ r" by (auto simp: HasPrefix_iff)
  then show ?thesis
    using assms by (auto simp: parseProviderID_def Let_def id_ok_def split: if_splits prod.splits sum.splits
        dest!: Cut_TrueD dest: Atoi_bounds)
qed

definition machine_key :: "string \<Rightarrow> (string \<times> int) option" where
  "machine_key s = (case parseProviderID s of Inl _ \<Rightarrow> None | Inr k \<Rightarrow> Some k)"

interpretation provider_id: codec "\<lambda>(node, vmid). newProviderID node vmid" machine_key id id_ok
  by unfold_locales (auto simp: machine_key_def parse_newProviderID)

lemma newProviderID_not_Nil [simp]: "newProviderID node vmid \<noteq> []"
  by (simp add: newProviderID_def providerIDScheme_def)

subsection \<open>What Create does, call by call\<close>

text \<open>The calls of a completed clone, of a completed configuration, and of a machine brought up.\<close>

definition clone_options :: "'w ProxmoxImpl \<Rightarrow> CreateRequest \<Rightarrow> int \<Rightarrow> VirtualMachineCloneOptions" where
  "clone_options p req newID =
     \<lparr>CloneNewID = newID, CloneName = ReqName req, CloneTarget = targetNode p,
      CloneStorage = Storage (spec p), ClonePool = ProxmoxPool (spec p), CloneFull = True\<rparr>"

definition cloned :: "'w ProxmoxImpl \<Rightarrow> CreateRequest \<Rightarrow> int \<Rightarrow> event list \<Rightarrow> bool" where
  "cloned p req newID es \<longleftrightarrow>
     (\<exists>cluster tmplNode tmpl task.
        es = [EvPveCluster (Inr cluster), EvPveNextID cluster (Inr newID),
              EvPveNode (SourceNode (SourceTemplate (spec p))) (Inr tmplNode),
              EvPveVM tmplNode (VMID (SourceTemplate (spec p))) (Inr tmpl),
              EvPveClone tmpl (clone_options p req newID) (Inr task),
              EvPveWait task taskTimeoutSecs None])"

definition configured :: "'w ProxmoxImpl \<Rightarrow> VirtualMachine \<Rightarrow> CreateRequest \<Rightarrow> event list \<Rightarrow> bool" where
  "configured p vm req es \<longleftrightarrow>
     (if configure_options p req = [] then es = []
      else \<exists>task. es = [EvPveConfig vm (configure_options p req) (Inr task),
                        EvPveWait task taskTimeoutSecs None])"

definition brought_up :: "'w ProxmoxImpl \<Rightarrow> CreateRequest \<Rightarrow> int \<Rightarrow> event list \<Rightarrow> bool" where
  "brought_up p req newID es \<longleftrightarrow>
     (\<exists>node vm cfg task.
        es = [EvPveNode (targetNode p) (Inr node), EvPveVM node newID (Inr vm)] @ cfg @
             [EvPveCloudInit vm (device p) (CloudInitUserData req) (cloudInitStorage p) None,
              EvPveStart vm (Inr task), EvPveWait task taskTimeoutSecs None] \<and>
        configured p vm req cfg)"

definition clone_completed :: "event list \<Rightarrow> bool" where
  "clone_completed es \<longleftrightarrow>
     (\<exists>tmpl opts task. EvPveClone tmpl opts (Inr task) \<in> set es \<and> EvPveWait task taskTimeoutSecs None \<in> set es)"

lemma wp_clone_template:
  "wp (clone_template p req)
     (\<lambda>r t. \<exists>es. calls t = calls s @ es \<and>
        (case r of Inl _ \<Rightarrow> \<not> clone_completed es | Inr newID \<Rightarrow> cloned p req newID es)) s"
  unfolding clone_template_def WaitFor_def cloned_def clone_completed_def clone_options_def
  by (auto simp: wp_simps Let_def split: prod.splits sum.splits option.splits)

lemma wp_configure:
  "wp (configure p vm req)
     (\<lambda>err t. \<exists>es. calls t = calls s @ es \<and> (err = None \<longrightarrow> configured p vm req es)) s"
  unfolding configure_def WaitFor_def configured_def
  by (auto simp: wp_simps Let_def split: prod.splits sum.splits option.splits)

lemma wp_finish_vm:
  "wp (finish_vm p req newID)
     (\<lambda>err t. \<exists>es. calls t = calls s @ es \<and> (err = None \<longrightarrow> brought_up p req newID es)) s"
  unfolding finish_vm_def WaitFor_def brought_up_def
  apply (auto simp: wp_simps Let_def split: prod.splits sum.splits option.splits)
  apply (rule wp_mono [OF wp_configure])
  apply (auto simp: wp_simps Let_def split: prod.splits sum.splits option.splits)
  done

lemma wp_Provider_Create:
  "wp (Provider_Create p req)
     (\<lambda>(i, err) t. \<exists>es. calls t = calls s @ es \<and>
        (if i = [] then err \<noteq> None \<and> \<not> clone_completed es
         else \<exists>newID es1 es2. es = es1 @ es2 \<and> i = newProviderID (targetNode p) newID \<and>
                cloned p req newID es1 \<and> (err = None \<longrightarrow> brought_up p req newID es2))) s"
  unfolding Provider_Create_def wp_bind
proof (rule wp_mono [OF wp_clone_template], goal_cases)
  case (1 r t)
  then obtain es where t: "calls t = calls s @ es"
    and r: "case r of Inl _ \<Rightarrow> \<not> clone_completed es | Inr newID \<Rightarrow> cloned p req newID es"
    by blast
  show ?case
  proof (cases r)
    case (Inl e)
    then show ?thesis using t r by (simp add: wp_simps)
  next
    case (Inr newID)
    show ?thesis
      unfolding Inr sum.case Let_def wp_bind wp_ret
      by (rule wp_mono [OF wp_finish_vm]) (use Inr t r in auto)
  qed
qed

subsection \<open>What Delete does, call by call\<close>

definition shut_down :: "VirtualMachine \<Rightarrow> event list \<Rightarrow> bool" where
  "shut_down vm es \<longleftrightarrow>
     (if VmStatus vm = ''running''
      then \<exists>task. es = [EvPveStop vm (Inr task), EvPveWait task taskTimeoutSecs None] else es = [])"

definition destroyed :: "string \<Rightarrow> int \<Rightarrow> event list \<Rightarrow> bool" where
  "destroyed node vmid es \<longleftrightarrow>
     (\<exists>n vm st task. es = [EvPveNode node (Inr n), EvPveVM n vmid (Inr vm)] @ st @
        [EvPveDelete vm \<lparr>Purge = True, DestroyUnreferencedDisks = True\<rparr> (Inr task),
         EvPveWait task taskTimeoutSecs None] \<and> shut_down vm st)"

definition reported_missing :: "'w ProxmoxImpl \<Rightarrow> string \<Rightarrow> int \<Rightarrow> event list \<Rightarrow> bool" where
  "reported_missing p node vmid es \<longleftrightarrow>
     (\<exists>e. PveIsNotFound (client p) e \<and>
        (es = [EvPveNode node (Inl e)] \<or>
         (\<exists>n. es = [EvPveNode node (Inr n), EvPveVM n vmid (Inl e)])))"

definition destroys_after_stop :: "event list \<Rightarrow> bool" where
  "destroys_after_stop es \<longleftrightarrow>
     (\<forall>pre vm opts r post. es = pre @ EvPveDelete vm opts r # post \<longrightarrow>
        (\<exists>node vmid n st. pre = [EvPveNode node (Inr n), EvPveVM n vmid (Inr vm)] @ st \<and> shut_down vm st))"

lemma wp_Provider_Delete:
  "wp (Provider_Delete p i)
     (\<lambda>err t. \<exists>es. calls t = calls s @ es \<and> destroys_after_stop es \<and>
        (err = None) = (\<exists>node vmid. parseProviderID i = Inr (node, vmid) \<and>
           (destroyed node vmid es \<or> reported_missing p node vmid es))) s"
  unfolding Provider_Delete_def stop_if_running_def destroy_vm_def WaitFor_def destroyed_def reported_missing_def shut_down_def
    destroys_after_stop_def
  by (auto simp: wp_simps Let_def Cons_eq_append_conv split: prod.splits sum.splits option.splits)

lemma wp_Provider_Get:
  "wp (Provider_Get p i)
     (\<lambda>r t. \<exists>es. calls t = calls s @ es \<and>
        (\<forall>inst. r = Inr inst \<longrightarrow> (\<exists>node vmid. parseProviderID i = Inr (node, vmid) \<and>
           (case inst of
              None \<Rightarrow> reported_missing p node vmid es
            | Some m \<Rightarrow> \<exists>n vm. es = [EvPveNode node (Inr n), EvPveVM n vmid (Inr vm)] \<and>
                m = \<lparr>InstanceProviderID = i, InstanceStatus = VmStatus vm\<rparr>)))) s"
  unfolding Provider_Get_def reported_missing_def
  by (auto simp: wp_simps split: prod.splits sum.splits option.splits)

text \<open>None of the three talks to anything but the hypervisor.\<close>

lemma clone_template_only_pve: "only_pve (clone_template p req)"
  unfolding only_pve_def clone_template_def WaitFor_def
  by (auto simp: wp_simps Let_def split: prod.splits sum.splits option.splits)

lemma configure_only_pve: "only_pve (configure p vm req)"
  unfolding only_pve_def configure_def WaitFor_def
  by (auto simp: wp_simps Let_def split: prod.splits sum.splits option.splits)

lemma finish_vm_only_pve: "only_pve (finish_vm p req newID)"
  unfolding only_pve_def finish_vm_def WaitFor_def
  by (auto simp: wp_simps Let_def split: prod.splits sum.splits option.splits
      intro!: wp_only_pve [OF configure_only_pve])

lemma Provider_Create_only_pve: "only_pve (Provider_Create p req)"
  unfolding only_pve_def Provider_Create_def wp_bind
  by (intro allI wp_only_pve [OF clone_template_only_pve])
    (auto simp: wp_simps Let_def split: sum.splits intro!: wp_only_pve [OF finish_vm_only_pve])

lemma Provider_Delete_only_pve: "only_pve (Provider_Delete p i)"
  unfolding only_pve_def Provider_Delete_def stop_if_running_def destroy_vm_def WaitFor_def
  by (auto simp: wp_simps Let_def split: prod.splits sum.splits option.splits)

lemma Provider_Get_only_pve: "only_pve (Provider_Get p i)"
  unfolding only_pve_def Provider_Get_def
  by (auto simp: wp_simps split: prod.splits sum.splits option.splits)

lemma as_Provider_ok: "provider_ok (as_Provider p)"
  by (simp add: provider_ok_def as_Provider_def Provider_Create_only_pve Provider_Delete_only_pve
      Provider_Get_only_pve)

subsection \<open>The contract of the interface\<close>

text \<open>
  What the Proxmox API documents, over the set of machines (node, VMID) that exist: reading
  and configuring changes no machine's existence; a node or a machine that is found has the
  name and number asked for, and one that is reported as not found does not exist; a clone task
  that ends well leaves the new machine on its target; a delete task touches its machine only,
  and leaves it gone when it ends well.
\<close>

definition keeps :: "('w \<Rightarrow> 'k set) \<Rightarrow> ('w \<Rightarrow> 'a \<times> 'w) \<Rightarrow> bool" where
  "keeps ms f \<longleftrightarrow> (\<forall>w a w'. f w = (a, w') \<longrightarrow> ms w' = ms w)"

definition task_keeps ::
  "'w PveClient \<Rightarrow> ('w \<Rightarrow> 'k set) \<Rightarrow> ('w \<Rightarrow> (error + Task) \<times> 'w) \<Rightarrow> bool" where
  "task_keeps C ms f \<longleftrightarrow>
     keeps ms f \<and>
     (\<forall>w t w1 n e w2. f w = (Inr t, w1) \<longrightarrow> PveWaitFor C t n w1 = (e, w2) \<longrightarrow> ms w2 = ms w)"

definition pve_lookup_laws :: "'w PveClient \<Rightarrow> ('w \<Rightarrow> (string \<times> int) set) \<Rightarrow> bool" where
  "pve_lookup_laws C ms \<longleftrightarrow>
     (\<forall>n. keeps ms (PveGetNode C n)) \<and> (\<forall>h i. keeps ms (PveGetVM C h i)) \<and>
     (\<forall>n w h w'. PveGetNode C n w = (Inr h, w') \<longrightarrow> PveNodeName h = n) \<and>
     (\<forall>n w e w' i. PveGetNode C n w = (Inl e, w') \<longrightarrow> PveIsNotFound C e \<longrightarrow> (n, i) \<notin> ms w) \<and>
     (\<forall>h i w vm w'. PveGetVM C h i w = (Inr vm, w') \<longrightarrow>
        VmNode vm = PveNodeName h \<and> VmID vm = i \<and> (PveNodeName h, i) \<in> ms w) \<and>
     (\<forall>h i w e w'. PveGetVM C h i w = (Inl e, w') \<longrightarrow> PveIsNotFound C e \<longrightarrow> (PveNodeName h, i) \<notin> ms w)"

definition pve_create_laws :: "'w PveClient \<Rightarrow> ('w \<Rightarrow> (string \<times> int) set) \<Rightarrow> bool" where
  "pve_create_laws C ms \<longleftrightarrow>
     (\<forall>c w i w'. PveNextID C c w = (Inr i, w') \<longrightarrow> is_int64 i) \<and>
     (\<forall>vm o' w t w1 n w2. PveClone C vm o' w = (Inr t, w1) \<longrightarrow> PveWaitFor C t n w1 = (None, w2) \<longrightarrow>
        (CloneTarget o', CloneNewID o') \<in> ms w2) \<and>
     (\<forall>vm os. task_keeps C ms (PveConfig C vm os)) \<and>
     (\<forall>vm d u st. keeps ms (PveCloudInit C vm d u st)) \<and>
     (\<forall>vm. task_keeps C ms (PveStart C vm))"

definition pve_delete_laws :: "'w PveClient \<Rightarrow> ('w \<Rightarrow> (string \<times> int) set) \<Rightarrow> bool" where
  "pve_delete_laws C ms \<longleftrightarrow>
     (\<forall>vm. task_keeps C ms (PveStop C vm)) \<and>
     (\<forall>vm o' w r w1. PveDelete C vm o' w = (r, w1) \<longrightarrow> ms w - {(VmNode vm, VmID vm)} \<subseteq> ms w1) \<and>
     (\<forall>vm o' w t w1 n e w2. PveDelete C vm o' w = (Inr t, w1) \<longrightarrow> PveWaitFor C t n w1 = (e, w2) \<longrightarrow>
        ms w1 - {(VmNode vm, VmID vm)} \<subseteq> ms w2 \<and> (e = None \<longrightarrow> (VmNode vm, VmID vm) \<notin> ms w2))"

definition pve_laws :: "'w PveClient \<Rightarrow> ('w \<Rightarrow> (string \<times> int) set) \<Rightarrow> bool" where
  "pve_laws C ms \<longleftrightarrow> pve_lookup_laws C ms \<and> pve_create_laws C ms \<and> pve_delete_laws C ms"

text \<open>A provider together with the machines of its hypervisor, and when the laws apply to it.\<close>

definition proxmox_wf :: "'w ProxmoxImpl \<times> ('w \<Rightarrow> (string \<times> int) set) \<Rightarrow> bool" where
  "proxmox_wf P \<longleftrightarrow>
     pve_laws (client (fst P)) (snd P) \<and>
     targetNode (fst P) \<noteq> [] \<and> CHR ''/'' \<notin> set (targetNode (fst P))"

lemmas pve_laws_defs =
  pve_laws_def pve_lookup_laws_def pve_create_laws_def pve_delete_laws_def task_keeps_def keeps_def

lemma lookup_lawsD:
  assumes "pve_laws C ms"
  shows "PveGetNode C n w = (r, w') \<Longrightarrow> ms w' = ms w"
    and "PveGetVM C h i w = (r', w') \<Longrightarrow> ms w' = ms w"
    and "PveGetNode C n w = (Inr h, w') \<Longrightarrow> PveNodeName h = n"
    and "PveGetNode C n w = (Inl e, w') \<Longrightarrow> PveIsNotFound C e \<Longrightarrow> (n, i) \<notin> ms w"
    and "PveGetVM C h i w = (Inr vm, w') \<Longrightarrow>
           VmNode vm = PveNodeName h \<and> VmID vm = i \<and> (PveNodeName h, i) \<in> ms w"
    and "PveGetVM C h i w = (Inl e, w') \<Longrightarrow> PveIsNotFound C e \<Longrightarrow> (PveNodeName h, i) \<notin> ms w"
proof -
  note L = assms [unfolded pve_laws_def, THEN conjunct1, unfolded pve_lookup_laws_def task_keeps_def keeps_def]
  show "PveGetNode C n w = (r, w') \<Longrightarrow> ms w' = ms w"
    using L [THEN conjunct1] by metis
  show "PveGetVM C h i w = (r', w') \<Longrightarrow> ms w' = ms w"
    using L [THEN conjunct2, THEN conjunct1] by metis
  show "PveGetNode C n w = (Inr h, w') \<Longrightarrow> PveNodeName h = n"
    using L [THEN conjunct2, THEN conjunct2, THEN conjunct1] by metis
  show "PveGetNode C n w = (Inl e, w') \<Longrightarrow> PveIsNotFound C e \<Longrightarrow> (n, i) \<notin> ms w"
    using L [THEN conjunct2, THEN conjunct2, THEN conjunct2, THEN conjunct1] by metis
  show "PveGetVM C h i w = (Inr vm, w') \<Longrightarrow>
           VmNode vm = PveNodeName h \<and> VmID vm = i \<and> (PveNodeName h, i) \<in> ms w"
    using L [THEN conjunct2, THEN conjunct2, THEN conjunct2, THEN conjunct2, THEN conjunct1] by metis
  show "PveGetVM C h i w = (Inl e, w') \<Longrightarrow> PveIsNotFound C e \<Longrightarrow> (PveNodeName h, i) \<notin> ms w"
    using L [THEN conjunct2, THEN conjunct2, THEN conjunct2, THEN conjunct2, THEN conjunct2] by metis
qed

lemma create_lawsD:
  assumes "pve_laws C ms"
  shows "PveNextID C c w = (Inr i, w') \<Longrightarrow> is_int64 i"
    and "PveClone C vm opts w = (Inr t, w1) \<Longrightarrow> PveWaitFor C t n w1 = (None, w2) \<Longrightarrow>
           (CloneTarget opts, CloneNewID opts) \<in> ms w2"
    and "PveConfig C vm os w = (r, w1) \<Longrightarrow> ms w1 = ms w"
    and "PveConfig C vm os w = (Inr t, w1) \<Longrightarrow> PveWaitFor C t n w1 = (e, w2) \<Longrightarrow> ms w2 = ms w"
    and "PveCloudInit C vm d u st w = (e, w1) \<Longrightarrow> ms w1 = ms w"
    and "PveStart C vm w = (r, w1) \<Longrightarrow> ms w1 = ms w"
    and "PveStart C vm w = (Inr t, w1) \<Longrightarrow> PveWaitFor C t n w1 = (e, w2) \<Longrightarrow> ms w2 = ms w"
proof -
  note L = assms [unfolded pve_laws_def, THEN conjunct2, THEN conjunct1, unfolded pve_create_laws_def task_keeps_def keeps_def]
  show "PveNextID C c w = (Inr i, w') \<Longrightarrow> is_int64 i"
    using L [THEN conjunct1] by metis
  show "PveClone C vm opts w = (Inr t, w1) \<Longrightarrow> PveWaitFor C t n w1 = (None, w2) \<Longrightarrow>
           (CloneTarget opts, CloneNewID opts) \<in> ms w2"
    using L [THEN conjunct2, THEN conjunct1] by metis
  show "PveConfig C vm os w = (r, w1) \<Longrightarrow> ms w1 = ms w"
    using L [THEN conjunct2, THEN conjunct2, THEN conjunct1] by metis
  show "PveConfig C vm os w = (Inr t, w1) \<Longrightarrow> PveWaitFor C t n w1 = (e, w2) \<Longrightarrow> ms w2 = ms w"
    using L [THEN conjunct2, THEN conjunct2, THEN conjunct1] by metis
  show "PveCloudInit C vm d u st w = (e, w1) \<Longrightarrow> ms w1 = ms w"
    using L [THEN conjunct2, THEN conjunct2, THEN conjunct2, THEN conjunct1] by metis
  show "PveStart C vm w = (r, w1) \<Longrightarrow> ms w1 = ms w"
    using L [THEN conjunct2, THEN conjunct2, THEN conjunct2, THEN conjunct2] by metis
  show "PveStart C vm w = (Inr t, w1) \<Longrightarrow> PveWaitFor C t n w1 = (e, w2) \<Longrightarrow> ms w2 = ms w"
    using L [THEN conjunct2, THEN conjunct2, THEN conjunct2, THEN conjunct2] by metis
qed

lemma delete_lawsD:
  assumes "pve_laws C ms"
  shows "PveStop C vm w = (r, w1) \<Longrightarrow> ms w1 = ms w"
    and "PveStop C vm w = (Inr t, w1) \<Longrightarrow> PveWaitFor C t n w1 = (e, w2) \<Longrightarrow> ms w2 = ms w"
    and "PveDelete C vm opts w = (r, w1) \<Longrightarrow> ms w - {(VmNode vm, VmID vm)} \<subseteq> ms w1"
    and "PveDelete C vm opts w = (Inr t, w1) \<Longrightarrow> PveWaitFor C t n w1 = (e, w2) \<Longrightarrow>
           ms w1 - {(VmNode vm, VmID vm)} \<subseteq> ms w2"
    and "PveDelete C vm opts w = (Inr t, w1) \<Longrightarrow> PveWaitFor C t n w1 = (None, w2) \<Longrightarrow>
           (VmNode vm, VmID vm) \<notin> ms w2"
proof -
  note L = assms [unfolded pve_laws_def, THEN conjunct2, THEN conjunct2, unfolded pve_delete_laws_def task_keeps_def keeps_def]
  show "PveStop C vm w = (r, w1) \<Longrightarrow> ms w1 = ms w"
    using L [THEN conjunct1] by metis
  show "PveStop C vm w = (Inr t, w1) \<Longrightarrow> PveWaitFor C t n w1 = (e, w2) \<Longrightarrow> ms w2 = ms w"
    using L [THEN conjunct1] by metis
  show "PveDelete C vm opts w = (r, w1) \<Longrightarrow> ms w - {(VmNode vm, VmID vm)} \<subseteq> ms w1"
    using L [THEN conjunct2, THEN conjunct1] by metis
  show "PveDelete C vm opts w = (Inr t, w1) \<Longrightarrow> PveWaitFor C t n w1 = (e, w2) \<Longrightarrow>
           ms w1 - {(VmNode vm, VmID vm)} \<subseteq> ms w2"
    using L [THEN conjunct2, THEN conjunct2] by metis
  show "PveDelete C vm opts w = (Inr t, w1) \<Longrightarrow> PveWaitFor C t n w1 = (None, w2) \<Longrightarrow>
           (VmNode vm, VmID vm) \<notin> ms w2"
    using L [THEN conjunct2, THEN conjunct2] by metis
qed

text \<open>The calls, as rules over the set of machines.\<close>

lemma wp_PveGetNode:
  assumes "pve_laws (client p) ms"
    and "\<And>e w. ms w = ms (outside s) \<Longrightarrow> (PveIsNotFound (client p) e \<Longrightarrow> \<forall>i. (n, i) \<notin> ms (outside s))
      \<Longrightarrow> Q (Inl e) \<lparr>outside = w, calls = calls s @ [ev (Inl e)]\<rparr>"
    and "\<And>h w. ms w = ms (outside s) \<Longrightarrow> PveNodeName h = n
      \<Longrightarrow> Q (Inr h) \<lparr>outside = w, calls = calls s @ [ev (Inr h)]\<rparr>"
  shows "wp (call (PveGetNode (client p) n) ev) Q s"
  using assms(2,3) lookup_lawsD(1,3,4) [OF assms(1)] unfolding wp_call
  by (auto split: prod.split) (metis sum.exhaust)

lemma wp_PveGetVM:
  assumes "pve_laws (client p) ms"
    and "\<And>e w. ms w = ms (outside s) \<Longrightarrow> (PveIsNotFound (client p) e \<Longrightarrow> (PveNodeName h, i) \<notin> ms (outside s))
      \<Longrightarrow> Q (Inl e) \<lparr>outside = w, calls = calls s @ [ev (Inl e)]\<rparr>"
    and "\<And>vm w. ms w = ms (outside s) \<Longrightarrow> VmNode vm = PveNodeName h \<Longrightarrow> VmID vm = i
      \<Longrightarrow> (PveNodeName h, i) \<in> ms (outside s)
      \<Longrightarrow> Q (Inr vm) \<lparr>outside = w, calls = calls s @ [ev (Inr vm)]\<rparr>"
  shows "wp (call (PveGetVM (client p) h i) ev) Q s"
  using assms(2,3) lookup_lawsD(2,5,6) [OF assms(1)] unfolding wp_call
  by (auto split: prod.split) (metis sum.exhaust)

lemma wp_stop_if_running:
  assumes L: "pve_laws (client p) ms"
    and Q: "\<And>err t. ms (outside t) = ms (outside s) \<Longrightarrow> Q err t"
  shows "wp (stop_if_running p vm vmid) Q s"
  unfolding stop_if_running_def WaitFor_def
  by (auto simp: wp_simps split: prod.splits sum.splits option.splits
      intro!: Q dest: delete_lawsD(1,2) [OF L])

lemma wp_destroy_vm:
  assumes L: "pve_laws (client p) ms"
    and Q: "\<And>err t. ms (outside s) - {(VmNode vm, VmID vm)} \<subseteq> ms (outside t)
      \<Longrightarrow> (err = None \<longrightarrow> (VmNode vm, VmID vm) \<notin> ms (outside t)) \<Longrightarrow> Q err t"
  shows "wp (destroy_vm p vm vmid) Q s"
  using delete_lawsD(3-5) [OF L] unfolding destroy_vm_def WaitFor_def Let_def
  by (fastforce simp: wp_simps split: prod.splits sum.splits option.splits intro!: Q)

lemma Provider_Get_truth:
  assumes L: "pve_laws (client p) ms"
  shows "wp (Provider_Get p i)
    (\<lambda>r t. ms (outside t) = ms (outside s) \<and>
       (\<forall>inst. r = Inr inst \<longrightarrow>
          (\<exists>k. machine_key i = Some k \<and> (inst \<noteq> None) = (k \<in> ms (outside t))))) s"
  unfolding Provider_Get_def machine_key_def
  by (auto simp: wp_bind wp_ret split: sum.splits prod.splits
      intro!: wp_PveGetNode [OF L] wp_PveGetVM [OF L])

lemma Provider_Delete_effect:
  assumes L: "pve_laws (client p) ms"
  shows "wp (Provider_Delete p i)
    (\<lambda>err t. ms (outside s) - set_option (machine_key i) \<subseteq> ms (outside t) \<and>
       (\<forall>k. machine_key i = Some k \<longrightarrow> err = None \<longrightarrow> k \<notin> ms (outside t))) s"
  unfolding Provider_Delete_def machine_key_def
  by (auto simp: wp_bind wp_ret split: sum.splits prod.splits option.splits
      intro!: wp_PveGetNode [OF L] wp_PveGetVM [OF L] wp_stop_if_running [OF L] wp_destroy_vm [OF L]) blast+

lemma clone_template_present:
  assumes L: "pve_laws (client p) ms"
  shows "wp (clone_template p req)
    (\<lambda>r t. \<forall>newID. r = Inr newID \<longrightarrow> is_int64 newID \<and> (targetNode p, newID) \<in> ms (outside t)) s"
  unfolding clone_template_def WaitFor_def
  by (auto simp: wp_simps Let_def split: prod.splits sum.splits option.splits
      dest: create_lawsD(1,2) [OF L])

lemma wp_configure_keeps:
  assumes L: "pve_laws (client p) ms" and Q: "\<And>err t. ms (outside t) = ms (outside s) \<Longrightarrow> Q err t"
  shows "wp (configure p vm req) Q s"
  unfolding configure_def WaitFor_def
  by (auto simp: wp_simps Let_def split: prod.splits sum.splits option.splits
      intro!: Q dest: create_lawsD(3,4) [OF L])

lemma wp_PveCloudInit:
  assumes "pve_laws (client p) ms"
    and "\<And>e w. ms w = ms (outside s) \<Longrightarrow> Q e \<lparr>outside = w, calls = calls s @ [ev e]\<rparr>"
  shows "wp (call (PveCloudInit (client p) vm d u st) ev) Q s"
  using assms(2) create_lawsD(5) [OF assms(1)] by (auto simp: wp_call split: prod.split)

lemma wp_PveStart:
  assumes "pve_laws (client p) ms"
    and "\<And>e w. ms w = ms (outside s) \<Longrightarrow> Q (Inl e) \<lparr>outside = w, calls = calls s @ [ev (Inl e)]\<rparr>"
    and "\<And>task w. ms w = ms (outside s)
      \<Longrightarrow> (\<And>n e w2. PveWaitFor (client p) task n w = (e, w2) \<Longrightarrow> ms w2 = ms (outside s))
      \<Longrightarrow> Q (Inr task) \<lparr>outside = w, calls = calls s @ [ev (Inr task)]\<rparr>"
  shows "wp (call (PveStart (client p) vm) ev) Q s"
  using assms(2,3) create_lawsD(6,7) [OF assms(1)] unfolding wp_call
  by (auto split: prod.split) (metis sum.exhaust)

lemma finish_vm_keeps:
  assumes L: "pve_laws (client p) ms"
  shows "wp (finish_vm p req newID) (\<lambda>_ t. ms (outside t) = ms (outside s)) s"
  unfolding finish_vm_def wp_bind
  by (auto simp: wp_bind wp_ret WaitFor_def wp_call [of "PveWaitFor _ _ _"]
      split: sum.splits option.splits prod.splits
      intro!: wp_PveGetNode [OF L] wp_PveGetVM [OF L] wp_configure_keeps [OF L]
        wp_PveCloudInit [OF L] wp_PveStart [OF L])

lemma Provider_Create_tracked:
  assumes "proxmox_wf (p, ms)"
  shows "wp (Provider_Create p req)
    (\<lambda>(i, err) t. err = None \<longrightarrow> (\<exists>k. machine_key i = Some k \<and> k \<in> ms (outside t))) s"
proof -
  have L: "pve_laws (client p) ms" and ok: "is_int64 n \<Longrightarrow> id_ok (targetNode p, n)" for n
    using assms by (simp_all add: proxmox_wf_def id_ok_def)
  show ?thesis
    unfolding Provider_Create_def wp_bind
  proof (rule wp_mono [OF clone_template_present [OF L]], goal_cases)
    case (1 r t)
    then show ?case
      by (cases r) (auto simp: wp_simps Let_def machine_key_def ok parse_newProviderID
          intro!: wp_mono [OF finish_vm_keeps [OF L]])
  qed
qed

interpretation proxmox_removal: machine_remover
  "\<lambda>P. Provider_Delete (fst P)" "\<lambda>P. Provider_Get (fst P)"
  "\<lambda>P. pve_laws (client (fst P)) (snd P)" machine_key snd
proof (unfold_locales, goal_cases)
  case (1 P i k s)
  from Provider_Delete_effect [OF 1(1)] show ?case by (rule wp_mono) (use 1(2) in auto)
next
  case (2 P i s)
  from Provider_Delete_effect [OF 2] show ?case by (rule wp_mono) simp
next
  case (3 P i s)
  from Provider_Get_truth [OF 3] show ?case by (rule wp_mono) blast
next
  case (4 P i s)
  from Provider_Get_truth [OF 4] show ?case by (rule wp_mono) simp
qed

text \<open>Creating also needs a target node whose name can be part of a provider ID.\<close>

interpretation proxmox: machine_provider
  "\<lambda>P. Provider_Delete (fst P)" "\<lambda>P. Provider_Get (fst P)" proxmox_wf machine_key snd
  "\<lambda>P. Provider_Create (fst P)"
proof (unfold_locales, goal_cases)
  case (1 P i k s)
  then show ?case using proxmox_removal.delete_gone [of P] by (simp add: proxmox_wf_def)
next
  case (2 P i s)
  then show ?case using proxmox_removal.delete_frame [of P] by (simp add: proxmox_wf_def)
next
  case (3 P i s)
  then show ?case using proxmox_removal.get_truth [of P] by (simp add: proxmox_wf_def)
next
  case (4 P i s)
  then show ?case using proxmox_removal.get_frame [of P] by (simp add: proxmox_wf_def)
next
  case (5 P req s)
  then show ?case using Provider_Create_tracked [of "fst P" "snd P"] by simp
qed

subsection \<open>The bench hypervisor behaves as documented\<close>

definition bench_spec :: ProxmoxProviderSpec where
  "bench_spec =
     \<lparr>Endpoint = ''https://pve:8006/api2/json'', Insecure = False,
      Credentials = \<lparr>Username = ''root'', Password = ''secret'', Realm = ''pam''\<rparr>,
      Nodes = [''pve1''], ProxmoxPool = [], SourceTemplate = \<lparr>SourceNode = ''pve0'', VMID = 900\<rparr>,
      Storage = ''local-lvm'', NetworkBridge = ''vmbr0'', Tags = [''k8s'', ''xenonite''],
      CloudInit = \<lparr>UserData = ''user-data'', CloudInitStorage = [], Device = []\<rparr>,
      Bootstrap = \<lparr>Server = ''https://10.0.0.1:6443'',
        TokenSecretRef = \<lparr>SecretName = ''join'', SecretKey = ''token''\<rparr>\<rparr>\<rparr>"

definition bench_impl :: "bench ProxmoxImpl" where
  "bench_impl = \<lparr>client = bench_pve, spec = bench_spec\<rparr>"

definition bench_world :: bench where
  "bench_world =
     \<lparr>bPools = [], bClaims = [], bProviders = [], bNodes = [], bSecrets = [], bPods = [],
      bMachines = [(''pve0'', 900)], bNextID = 101, bClock = 1700000000 * nanos\<rparr>"

definition bench_request :: CreateRequest where
  "bench_request = \<lparr>ReqName = ''n1'', Cores = 2, MemoryMB = 0, DiskGB = 0, CloudInitUserData = ''ud''\<rparr>"

lemma bench_pve_laws: "pve_laws bench_pve (\<lambda>w. set (bMachines w))"
  by (auto simp: pve_laws_defs bench_pve_def is_int64_def split: if_splits)

lemma bench_target: "targetNode bench_impl = ''pve1''"
  by (simp add: targetNode_def bench_impl_def bench_spec_def)

lemma bench_proxmox_wf: "proxmox_wf (bench_impl, \<lambda>w. set (bMachines w))"
  by (simp add: proxmox_wf_def bench_target) (simp add: bench_impl_def bench_pve_laws)

subsection \<open>Properties of the provider\<close>

text \<open>
  C22: a provider ID reads back as the machine it was made for exactly when the node name is not
  empty and holds no slash and the number fits Go's \<open>int\<close>.
\<close>

theorem provider_id_round_trip:
  "parseProviderID (newProviderID node vmid) = Inr (node, vmid) \<longleftrightarrow>
     node \<noteq> [] \<and> CHR ''/'' \<notin> set node \<and> is_int64 vmid"
proof
  show "parseProviderID (newProviderID node vmid) = Inr (node, vmid) \<Longrightarrow>
      node \<noteq> [] \<and> CHR ''/'' \<notin> set node \<and> is_int64 vmid"
    using parseProviderID_sound [of "newProviderID node vmid" node vmid] by (auto simp: id_ok_def)
  show "node \<noteq> [] \<and> CHR ''/'' \<notin> set node \<and> is_int64 vmid \<Longrightarrow>
      parseProviderID (newProviderID node vmid) = Inr (node, vmid)"
    by (simp add: parse_newProviderID id_ok_def)
qed

text \<open>
  C23: \<open>parseProviderID\<close> accepts exactly the texts of the form \<open>proxmox://node/number\<close>, with a node
  that is not empty and holds no slash and a number that \<open>strconv.Atoi\<close> reads.
\<close>

theorem parseProviderID_accepts:
  "parseProviderID s = Inr (node, vmid) \<longleftrightarrow>
     (\<exists>idStr. s = ''proxmox://'' @ node @ ''/'' @ idStr \<and> node \<noteq> [] \<and> CHR ''/'' \<notin> set node \<and>
        Atoi idStr = Inr vmid)"
proof
  show "parseProviderID s = Inr (node, vmid) \<Longrightarrow> \<exists>idStr. s = ''proxmox://'' @ node @ ''/'' @ idStr \<and>
      node \<noteq> [] \<and> CHR ''/'' \<notin> set node \<and> Atoi idStr = Inr vmid"
    by (drule parseProviderID_sound) (auto simp: id_ok_def providerIDScheme_def)
next
  assume "\<exists>idStr. s = ''proxmox://'' @ node @ ''/'' @ idStr \<and> node \<noteq> [] \<and> CHR ''/'' \<notin> set node \<and>
      Atoi idStr = Inr vmid"
  then obtain idStr where s: "s = ''proxmox://'' @ node @ ''/'' @ idStr" and n: "node \<noteq> []" "CHR ''/'' \<notin> set node"
    and a: "Atoi idStr = Inr vmid" by blast
  moreover have "idStr \<noteq> []" using a by (auto simp: Atoi_def)
  ultimately show "parseProviderID s = Inr (node, vmid)"
    by (simp add: parseProviderID_def providerIDScheme_def TrimPrefix_def Cut_found)
qed

text \<open>
  C16: what \<open>Create\<close> returns tells what it did. An empty identifier comes with an error, and no
  clone was completed; otherwise the identifier is that of the machine whose clone from the
  template was completed, on the target node, under the requested name; and without an error the
  machine was also configured, given its cloud-init data and started, in this order.
\<close>

theorem create_result_tells:
  "wp (Provider_Create p req)
     (\<lambda>(i, err) t. \<exists>es. calls t = calls s @ es \<and>
        (if i = [] then err \<noteq> None \<and> \<not> clone_completed es
         else \<exists>newID es1 es2. es = es1 @ es2 \<and> i = newProviderID (targetNode p) newID \<and>
                cloned p req newID es1 \<and> (err = None \<longrightarrow> brought_up p req newID es2))) s"
  by (rule wp_Provider_Create)

theorem create_result_tells_witness:
  "wp (Provider_Create bench_impl bench_request)
     (\<lambda>(i, err) t. i \<noteq> [] \<and> err = None \<and>
        (\<exists>newID es1 es2. calls t = es1 @ es2 \<and> i = newProviderID ''pve1'' newID \<and>
           cloned bench_impl bench_request newID es1 \<and> brought_up bench_impl bench_request newID es2))
     (start bench_world)"
proof -
  have "wp (Provider_Create bench_impl bench_request) (\<lambda>(i, err) t. i \<noteq> [] \<and> err = None) (start bench_world)"
    by (simp add: wp_simps start_def Let_def Provider_Create_def clone_template_def finish_vm_def configure_def
        configure_options_def WaitFor_def targetNode_def device_def cloudInitStorage_def bench_impl_def
        bench_request_def bench_spec_def bench_world_def bench_defs)
  then show ?thesis
    using create_result_tells [of bench_impl bench_request "start bench_world"]
    by (auto simp: wp_def start_def bench_target split: prod.splits)
qed

text \<open>
  C17: \<open>Delete\<close> reports success exactly when the machine was destroyed or the hypervisor reported
  it missing; and a machine is destroyed only after it was looked up and, if it was running,
  stopped.
\<close>

theorem delete_result_tells:
  "wp (Provider_Delete p i)
     (\<lambda>err t. \<exists>es. calls t = calls s @ es \<and> destroys_after_stop es \<and>
        (err = None) = (\<exists>node vmid. parseProviderID i = Inr (node, vmid) \<and>
           (destroyed node vmid es \<or> reported_missing p node vmid es))) s"
  by (rule wp_Provider_Delete)

text \<open>
  C18: on a hypervisor that behaves as documented, a \<open>Delete\<close> that succeeds leaves its machine
  gone, and no \<open>Delete\<close> takes another machine away.
\<close>

theorem delete_removes_only_its_machine:
  assumes "pve_laws (client p) ms" "machine_key i = Some k"
  shows "wp (Provider_Delete p i)
    (\<lambda>err t. (err = None \<longrightarrow> k \<notin> ms (outside t)) \<and> ms (outside s) - {k} \<subseteq> ms (outside t)) s"
  using proxmox_removal.delete_gone [of "(p, ms)" i k s] proxmox_removal.delete_frame [of "(p, ms)" i s] assms
  by (simp add: wp_conj)

theorem delete_removes_only_its_machine_witness:
  "pve_laws (client bench_impl) (\<lambda>w. set (bMachines w)) \<and>
   wp (Provider_Delete bench_impl (newProviderID ''pve0'' 900))
     (\<lambda>err t. (err = None \<longrightarrow> (''pve0'', 900) \<notin> set (bMachines (outside t))) \<and>
        set (bMachines (outside (start bench_world))) - {(''pve0'', 900)} \<subseteq> set (bMachines (outside t)))
     (start bench_world)"
proof -
  have "pve_laws (client bench_impl) (\<lambda>w. set (bMachines w))"
    by (simp add: bench_impl_def bench_pve_laws)
  moreover have "machine_key (newProviderID ''pve0'' 900) = Some (''pve0'', 900)"
    by (simp add: machine_key_def parse_newProviderID id_ok_def is_int64_def)
  ultimately show ?thesis using delete_removes_only_its_machine by blast
qed

text \<open>
  C19: on such a hypervisor, with a target node whose name can be part of an identifier, a machine
  that \<open>Create\<close> reports as made is found by \<open>Get\<close>: \<open>Get\<close> does not report it missing.
\<close>

theorem created_machine_found:
  assumes "proxmox_wf (p, ms)"
  shows "wp (Provider_Create p req)
    (\<lambda>(i, err) t. err = None \<longrightarrow> wp (Provider_Get p i) (\<lambda>res u. res \<noteq> Inr None) t) s"
  using proxmox.create_then_get [OF assms] by simp

theorem created_machine_found_witness:
  "proxmox_wf (bench_impl, \<lambda>w. set (bMachines w)) \<and>
   wp (Provider_Create bench_impl bench_request)
    (\<lambda>(i, err) t. err = None \<longrightarrow> wp (Provider_Get bench_impl i) (\<lambda>res u. res \<noteq> Inr None) t) (start bench_world)"
  using created_machine_found [OF bench_proxmox_wf] bench_proxmox_wf by blast

end
