(* ===== verification/BenchCluster.thy ===== *)
theory BenchCluster
  imports Proxmox
begin

text \<open>
  A cluster on the bench: one pool that refers to one Proxmox provider, the secret with the join
  token, and one claim of the pool. The concrete runs of the controllers start here.
\<close>

definition bench_meta :: "string \<Rightarrow> ObjectMeta" where
  "bench_meta n = \<lparr>Name = n, GenerateName = [], Labels = None, Annotations = None, Finalizers = [],
     DeletionTimestamp = None, OwnerReferences = []\<rparr>"

definition bench_pool :: XenonNodePool where
  "bench_pool = ObjectMeta.extend (bench_meta ''workers'')
     (XenonNodePool.fields
       \<lparr>ProviderRef = \<lparr>RefAPIGroup = None, RefKind = ''ProxmoxProvider'', RefName = ''pve''\<rparr>,
        Template = \<lparr>TemplateLabels = None, TemplateAnnotations = None,
          TemplateSpec = \<lparr>TemplateRequirements = [], TemplateResources = None\<rparr>\<rparr>,
        Limits = None, Weight = None\<rparr>
       \<lparr>PoolResources = None, PoolConditions = []\<rparr>)"

definition bench_claim :: "string \<Rightarrow> XenonNodeClaim" where
  "bench_claim i = ObjectMeta.extend (bench_meta ''n1'')
     (XenonNodeClaim.fields
       \<lparr>NodePoolRef = ''workers'', Requirements = [], Resources = Some [''cpu'' \<mapsto> ''2'']\<rparr>
       \<lparr>ProviderID = i, NodeName = [], Capacity = None, Allocatable = None, Conditions = []\<rparr>)"

definition bench_provider :: ProxmoxProvider where
  "bench_provider = ObjectMeta.extend (bench_meta ''pve'')
     (ProxmoxProvider.fields bench_spec \<lparr>ProviderConditions = []\<rparr>)"

definition bench_secret :: Secret where
  "bench_secret = ObjectMeta.extend (bench_meta ''join'') (Secret.fields (Some [''token'' \<mapsto> ''abc'']))"

definition bench_cluster :: "XenonNodeClaim \<Rightarrow> bench" where
  "bench_cluster claim = bench_world\<lparr>bPools := [bench_pool], bProviders := [bench_provider],
     bSecrets := [bench_secret], bClaims := [claim]\<rparr>"

text \<open>The same claim while it is deleted, with the machine \<open>pve1/101\<close> in place.\<close>

definition bench_deleting :: XenonNodeClaim where
  "bench_deleting = (bench_claim ''proxmox://pve1/101'')
     \<lparr>Finalizers := [FinalizerNodeClaim], DeletionTimestamp := Some 0\<rparr>"

definition bench_teardown :: bench where
  "bench_teardown = (bench_cluster bench_deleting)\<lparr>bMachines := [(''pve1'', 101), (''pve0'', 900)]\<rparr>"



lemmas bench_objects =
  bench_meta_def bench_pool_def bench_claim_def bench_provider_def bench_secret_def bench_cluster_def
  bench_deleting_def bench_teardown_def bench_world_def bench_spec_def
  XenonNodePool.defs XenonNodeClaim.defs ProxmoxProvider.defs Secret.defs ObjectMeta.defs

lemmas proxmox_run =
  New_def as_Provider_def Provider_Create_def clone_template_def finish_vm_def configure_def
  configure_options_def WaitFor_def targetNode_def device_def cloudInitStorage_def Provider_Delete_def
  Provider_Get_def stop_if_running_def destroy_vm_def call_Create_def call_Delete_def call_Get_def

lemma bench_new_ids:
  "newProviderID ''pve1'' 101 = ''proxmox://pve1/101''" "newProviderID ''pve1'' 102 = ''proxmox://pve1/102''"
  by (simp_all add: newProviderID_def providerIDScheme_def fmt_d_def dec.simps digit_def char_of_def bit_0)

lemma bench_ids: "parseProviderID ''proxmox://pve1/101'' = Inr (''pve1'', 101)"
  using parse_newProviderID [of "''pve1''" 101] by (simp add: bench_new_ids id_ok_def is_int64_def)

lemmas bench_run = wp_simps start_def Let_def proxmox_run bench_ids bench_new_ids bench_defs bench_objects

end
