(* ===== verification/NodeClaim.thy ===== *)
theory NodeClaim
  imports BenchCluster
begin

text \<open>
  \<open>internal/controller/xenonnodeclaim_controller.go\<close>: the reconciler that owns the lifecycle
  of one claim. It puts its finalizer on the claim, creates the backing machine once, waits
  for the node to join, and on deletion destroys the machine before it lets the claim go. The
  functions are in the order they call each other; a function that changes the claim it is given
  returns it.
\<close>

subsection \<open>The reconciler\<close>

record 'w XenonNodeClaimReconciler =
  claimClient :: "'w Client"
  claimScheme :: SchemeRef
  NewProvider :: "(ProxmoxProviderSpec \<Rightarrow> PveCredentials \<Rightarrow> 'w Provider) option"
  SystemNamespace :: string

definition nodeRegistrationPoll :: int where
  "nodeRegistrationPoll = 15 * Second"

subsection \<open>Helpers\<close>

definition setCondition ::
  "'w Lib \<Rightarrow> XenonNodeClaim \<Rightarrow> string \<Rightarrow> string \<Rightarrow> string \<Rightarrow> string \<Rightarrow> ('w, XenonNodeClaim) M" where
  "setCondition L claim condType status reason msg = do {
     cs \<leftarrow> effect (SetStatusCondition L (Conditions (Status claim))
       \<lparr>CondType = condType, CondStatus = status, CondReason = reason, CondMessage = msg\<rparr>);
     ret (claim\<lparr>Status := (Status claim)\<lparr>Conditions := cs\<rparr>\<rparr>)
   }"

definition requestedSize :: "'w Lib \<Rightarrow> XenonNodeClaim \<Rightarrow> int \<times> int \<times> int" where
  "requestedSize L claim =
     (let rs = Resources (Spec claim);
          cores = (case mget rs ResourceCPU of Some cpu \<Rightarrow> QuantityValue L cpu | None \<Rightarrow> 0);
          memMB = (case mget rs ResourceMemory of
                     Some mem \<Rightarrow> QuantityValue L mem sdiv (1024 * 1024) | None \<Rightarrow> 0);
          diskGB = (case mget rs ResourceStorage of
                     Some disk \<Rightarrow> QuantityValue L disk sdiv (1024 * 1024 * 1024) | None \<Rightarrow> 0)
      in (cores, memMB, diskGB))"

fun conditions_ready :: "Condition list \<Rightarrow> bool" where
  "conditions_ready [] = False"
| "conditions_ready (c # cs) =
     (if CondType c = NodeReady then CondStatus c = ConditionTrue else conditions_ready cs)"

definition isNodeReady :: "Node \<Rightarrow> bool" where
  "isNodeReady node = conditions_ready (NodeConditions node)"

text \<open>
  \<open>labelNode\<close> sets the two labels where they differ, on a map made beforehand when it is \<open>nil\<close>,
  and patches the node only if one of them changed.
\<close>

definition setLabel :: "string gomap \<Rightarrow> string \<Rightarrow> string \<Rightarrow> (string gomap \<times> bool) option" where
  "setLabel labels k v =
     (if mindex labels k \<noteq> v then map_option (\<lambda>m. (m, True)) (massign labels k v)
      else Some (labels, False))"

definition labelNode ::
  "'w XenonNodeClaimReconciler \<Rightarrow> Node \<Rightarrow> XenonNodeClaim \<Rightarrow> ('w, error + Node) M" where
  "labelNode r node claim =
     (let labels = mmake (Labels node) in
      case setLabel labels LabelNodePool (NodePoolRef (Spec claim)) of
        None \<Rightarrow> ret (Inl PanicNilMap)
      | Some (labels, changed1) \<Rightarrow>
          case setLabel labels LabelNodeClaim (Name claim) of
            None \<Rightarrow> ret (Inl PanicNilMap)
          | Some (labels, changed2) \<Rightarrow>
              let changed = (changed1 \<or> changed2); node' = node\<lparr>Labels := labels\<rparr> in
              if \<not> changed then ret (Inr node')
              else call (PatchNode (claimClient r) node node') (EvPatchNode node node'))"

definition readSecretKey ::
  "'w XenonNodeClaimReconciler \<Rightarrow> SecretKeyRef \<Rightarrow> ('w, error + string) M" where
  "readSecretKey r ref = do {
     let key = \<lparr>Namespace = SystemNamespace r, KeyName = SecretName ref\<rparr>;
     secret \<leftarrow> call (GetSecret (claimClient r) key) (EvGetSecret key);
     case secret of
       Inl err \<Rightarrow> ret (Inl (Errorf (GetSecretFailed key) (Some err)))
     | Inr secret \<Rightarrow>
         (case mget (SecretData secret) (SecretKey ref) of
            None \<Rightarrow> ret (Inl (Errorf (SecretHasNoKey key (SecretKey ref)) None))
          | Some val \<Rightarrow> ret (Inr val))
   }"

definition renderCloudInit ::
  "'w Lib \<Rightarrow> 'w XenonNodeClaimReconciler \<Rightarrow> XenonNodeClaim \<Rightarrow> ProxmoxProviderSpec \<Rightarrow> ('w, error + string) M" where
  "renderCloudInit L r claim sp = do {
     token \<leftarrow> readSecretKey r (TokenSecretRef (Bootstrap sp));
     case token of
       Inl err \<Rightarrow> ret (Inl err)
     | Inr token \<Rightarrow>
         (case TemplateParse L (UserData (CloudInit sp)) of
            Inl err \<Rightarrow> ret (Inl (Errorf ParseCloudInitFailed (Some err)))
          | Inr tmpl \<Rightarrow>
              (case TemplateExecute L tmpl
                 [''NodeName'' \<mapsto> Name claim, ''Server'' \<mapsto> Server (Bootstrap sp), ''Token'' \<mapsto> token] of
                 Inl err \<Rightarrow> ret (Inl (Errorf RenderCloudInitFailed (Some err)))
               | Inr text \<Rightarrow> ret (Inr text)))
   }"

definition proxmoxCredentials :: "ProxmoxCredentials \<Rightarrow> PveCredentials" where
  "proxmoxCredentials c = \<lparr>PveUsername = Username c, PvePassword = Password c, PveRealm = Realm c\<rparr>"

definition resolveProvider ::
  "'w Lib \<Rightarrow> 'w XenonNodeClaimReconciler \<Rightarrow> XenonNodeClaim
   \<Rightarrow> ('w, error + 'w Provider \<times> ProxmoxProviderSpec) M" where
  "resolveProvider L r claim = do {
     let poolName = NodePoolRef (Spec claim);
     let key = \<lparr>Namespace = [], KeyName = poolName\<rparr>;
     pool \<leftarrow> call (GetPool (claimClient r) key) (EvGetPool key);
     case pool of
       Inl err \<Rightarrow> ret (Inl (Errorf (GetNodePoolFailed poolName) (Some err)))
     | Inr pool \<Rightarrow> do {
         let ref = ProviderRef (PoolSpec pool);
         if RefKind ref \<noteq> ''ProxmoxProvider''
         then ret (Inl (Errorf (UnsupportedProviderKind (RefKind ref)) None))
         else do {
           let key = \<lparr>Namespace = [], KeyName = RefName ref\<rparr>;
           pp \<leftarrow> call (GetProvider (claimClient r) key) (EvGetProvider key);
           case pp of
             Inl err \<Rightarrow> ret (Inl (Errorf (GetProxmoxProviderFailed (RefName ref)) (Some err)))
           | Inr pp \<Rightarrow> do {
               let creds = proxmoxCredentials (Credentials (ProviderSpec pp));
               let factory = (case NewProvider r of
                   None \<Rightarrow> (\<lambda>s c. as_Provider (New (NewPveClient L) s c))
                 | Some f \<Rightarrow> f);
               ret (Inr (factory (ProviderSpec pp) creds, ProviderSpec pp))
             }
         }
       }
   }"

definition UpdateStatus ::
  "'w XenonNodeClaimReconciler \<Rightarrow> XenonNodeClaim \<Rightarrow> ('w, error + XenonNodeClaim) M" where
  "UpdateStatus r claim = call (StatusUpdateClaim (claimClient r) claim) (EvUpdateClaimStatus claim)"

definition Update ::
  "'w XenonNodeClaimReconciler \<Rightarrow> XenonNodeClaim \<Rightarrow> ('w, error + XenonNodeClaim) M" where
  "Update r claim = call (UpdateClaim (claimClient r) claim) (EvUpdateClaim claim)"

subsection \<open>Deleting\<close>

definition removeFinalizer ::
  "'w Lib \<Rightarrow> 'w XenonNodeClaimReconciler \<Rightarrow> XenonNodeClaim \<Rightarrow> ('w, outcome) M" where
  "removeFinalizer L r claim =
     (case RemoveFinalizer L (Finalizers claim) FinalizerNodeClaim of (fs, changed) \<Rightarrow>
        if changed then do {
          res \<leftarrow> Update r (claim\<lparr>Finalizers := fs\<rparr>);
          case res of
            Inl err \<Rightarrow> ret (NoRequeue, Some err)
          | Inr _ \<Rightarrow> ret (NoRequeue, None)
        } else ret (NoRequeue, None))"

definition reconcileDelete ::
  "'w Lib \<Rightarrow> 'w XenonNodeClaimReconciler \<Rightarrow> XenonNodeClaim \<Rightarrow> ('w, outcome) M" where
  "reconcileDelete L r claim =
     (if \<not> ContainsFinalizer L (Finalizers claim) FinalizerNodeClaim then ret (NoRequeue, None)
      else if ProviderID (Status claim) = [] then removeFinalizer L r claim
      else do {
        resolved \<leftarrow> resolveProvider L r claim;
        case resolved of
          Inl err \<Rightarrow> ret (NoRequeue, Some (Errorf CannotResolveForCleanup (Some err)))
        | Inr (prov, _) \<Rightarrow> do {
            err \<leftarrow> call_Delete prov (ProviderID (Status claim));
            case err of
              Some err \<Rightarrow> ret (NoRequeue, Some err)
            | None \<Rightarrow> do {
                inst \<leftarrow> call_Get prov (ProviderID (Status claim));
                case inst of
                  Inl err \<Rightarrow> ret (NoRequeue, Some err)
                | Inr (Some _) \<Rightarrow>
                    ret (NoRequeue, Some (Errorf (MachineStillExists (ProviderID (Status claim))) None))
                | Inr None \<Rightarrow> removeFinalizer L r claim
              }
          }
      })"

subsection \<open>Waiting for the node\<close>

definition reconcileReadiness ::
  "'w Lib \<Rightarrow> 'w XenonNodeClaimReconciler \<Rightarrow> XenonNodeClaim \<Rightarrow> ('w, outcome) M" where
  "reconcileReadiness L r claim = do {
     let key = \<lparr>Namespace = [], KeyName = Name claim\<rparr>;
     node \<leftarrow> call (GetNode (claimClient r) key) (EvGetNode key);
     case node of
       Inl err \<Rightarrow>
         if IsNotFound L err then do {
           claim \<leftarrow> setCondition L claim ''Ready'' ConditionFalse ''NodeNotRegistered''
             ''waiting for node to join'';
           res \<leftarrow> UpdateStatus r claim;
           case res of
             Inl err \<Rightarrow> ret (NoRequeue, Some err)
           | Inr _ \<Rightarrow> ret (\<lparr>RequeueAfter = nodeRegistrationPoll\<rparr>, None)
         } else ret (NoRequeue, Some err)
     | Inr node \<Rightarrow> do {
         labelled \<leftarrow> labelNode r node claim;
         case labelled of
           Inl err \<Rightarrow> ret (NoRequeue, Some err)
         | Inr node \<Rightarrow> do {
             claim \<leftarrow>
               (if isNodeReady node
                then setCondition L claim ''Ready'' ConditionTrue ''NodeReady'' ''node registered and ready''
                else setCondition L claim ''Ready'' ConditionFalse ''NodeNotReady''
                       ''node registered, kubelet not ready'');
             res \<leftarrow> UpdateStatus r claim;
             case res of
               Inl err \<Rightarrow> ret (NoRequeue, Some err)
             | Inr _ \<Rightarrow>
                 if \<not> isNodeReady node then ret (\<lparr>RequeueAfter = nodeRegistrationPoll\<rparr>, None)
                 else ret (NoRequeue, None)
           }
       }
   }"

subsection \<open>Creating\<close>

definition reconcileCreate ::
  "'w Lib \<Rightarrow> 'w XenonNodeClaimReconciler \<Rightarrow> XenonNodeClaim \<Rightarrow> 'w Provider \<Rightarrow> ProxmoxProviderSpec
   \<Rightarrow> ('w, outcome) M" where
  "reconcileCreate L r claim prov sp = do {
     userData \<leftarrow> renderCloudInit L r claim sp;
     case userData of
       Inl err \<Rightarrow> do {
         claim \<leftarrow> setCondition L claim ''Ready'' ConditionFalse ''CloudInitRenderFailed'' (ErrorText L err);
         _ \<leftarrow> UpdateStatus r claim;
         ret (NoRequeue, Some err)
       }
     | Inr userData \<Rightarrow> do {
         let (cores, memMB, diskGB) = requestedSize L claim;
         (providerID, createErr) \<leftarrow> call_Create prov
           \<lparr>ReqName = Name claim, Cores = cores, MemoryMB = memMB, DiskGB = diskGB,
            CloudInitUserData = userData\<rparr>;
         let claim = (if providerID \<noteq> [] \<and> ProviderID (Status claim) = []
                      then claim\<lparr>Status := (Status claim)\<lparr>ProviderID := providerID\<rparr>\<rparr> else claim);
         case createErr of
           Some err \<Rightarrow> do {
             claim \<leftarrow> setCondition L claim ''Launched'' ConditionFalse ''CreateFailed'' (ErrorText L err);
             _ \<leftarrow> UpdateStatus r claim;
             ret (NoRequeue, Some err)
           }
         | None \<Rightarrow> do {
             claim \<leftarrow> setCondition L claim ''Launched'' ConditionTrue ''Created'' ''backing machine created'';
             res \<leftarrow> UpdateStatus r claim;
             case res of
               Inl err \<Rightarrow> ret (NoRequeue, Some err)
             | Inr _ \<Rightarrow> ret (\<lparr>RequeueAfter = nodeRegistrationPoll\<rparr>, None)
           }
       }
   }"

subsection \<open>Reconcile\<close>

text \<open>
  \<open>ensureFinalizer\<close> is the step of \<open>Reconcile\<close> that stores the finalizer, with the claim as the
  server answers it; \<open>provision\<close> is what follows once it is stored.
\<close>

definition ensureFinalizer ::
  "'w Lib \<Rightarrow> 'w XenonNodeClaimReconciler \<Rightarrow> XenonNodeClaim \<Rightarrow> ('w, error + XenonNodeClaim) M" where
  "ensureFinalizer L r claim =
     (case AddFinalizer L (Finalizers claim) FinalizerNodeClaim of (fs, changed) \<Rightarrow>
        if changed then Update r (claim\<lparr>Finalizers := fs\<rparr>)
        else ret (Inr (claim\<lparr>Finalizers := fs\<rparr>)))"

definition provision ::
  "'w Lib \<Rightarrow> 'w XenonNodeClaimReconciler \<Rightarrow> XenonNodeClaim \<Rightarrow> ('w, outcome) M" where
  "provision L r claim = do {
     resolved \<leftarrow> resolveProvider L r claim;
     case resolved of
       Inl err \<Rightarrow> do {
         claim \<leftarrow> setCondition L claim ''Ready'' ConditionFalse ''ProviderResolveFailed'' (ErrorText L err);
         _ \<leftarrow> UpdateStatus r claim;
         ret (NoRequeue, Some err)
       }
     | Inr (prov, provSpec) \<Rightarrow>
         if ProviderID (Status claim) = [] then reconcileCreate L r claim prov provSpec
         else reconcileReadiness L r claim
   }"

definition Reconcile ::
  "'w Lib \<Rightarrow> 'w XenonNodeClaimReconciler \<Rightarrow> NamespacedName \<Rightarrow> ('w, outcome) M" where
  "Reconcile L r req = do {
     claim \<leftarrow> call (GetClaim (claimClient r) req) (EvGetClaim req);
     case claim of
       Inl err \<Rightarrow> ret (NoRequeue, IgnoreNotFound L err)
     | Inr claim \<Rightarrow>
         if \<not> IsZero L (DeletionTimestamp claim) then reconcileDelete L r claim
         else do {
           stored \<leftarrow> ensureFinalizer L r claim;
           case stored of
             Inl err \<Rightarrow> ret (NoRequeue, Some err)
           | Inr claim \<Rightarrow> provision L r claim
         }
   }"

text \<open>\<open>SetupWithManager\<close>: the \<open>For\<close> clause requests a reconcile of the claim that an event is about.\<close>

definition claimEnqueued :: "Object \<Rightarrow> NamespacedName list" where
  "claimEnqueued obj = (case obj of ClaimObject claim \<Rightarrow> [request (Name claim)] | _ \<Rightarrow> [])"

subsection \<open>The provider a reconciler uses\<close>

definition factory_ok :: "'w XenonNodeClaimReconciler \<Rightarrow> bool" where
  "factory_ok r \<longleftrightarrow>
     (case NewProvider r of None \<Rightarrow> True | Some f \<Rightarrow> \<forall>sp creds. provider_ok (f sp creds))"

lemma resolved_ok:
  "factory_ok r \<Longrightarrow>
   provider_ok ((case NewProvider r of None \<Rightarrow> (\<lambda>s c. as_Provider (New nc s c)) | Some f \<Rightarrow> f) sp creds)"
  by (auto simp: factory_ok_def as_Provider_ok split: option.splits)

definition reads_config :: "event \<Rightarrow> bool" where
  "reads_config e \<longleftrightarrow> (case e of EvGetPool _ _ \<Rightarrow> True | EvGetProvider _ _ \<Rightarrow> True | EvGetSecret _ _ \<Rightarrow> True | _ \<Rightarrow> False)"

lemma wp_resolveProvider:
  assumes "factory_ok r"
    and "\<And>e w es. list_all reads_config es \<Longrightarrow> Q (Inl e) \<lparr>outside = w, calls = calls s @ es\<rparr>"
    and "\<And>prov sp w es. list_all reads_config es \<Longrightarrow> provider_ok prov
      \<Longrightarrow> Q (Inr (prov, sp)) \<lparr>outside = w, calls = calls s @ es\<rparr>"
  shows "wp (resolveProvider L r claim) Q s"
  unfolding resolveProvider_def
  by (auto simp: wp_simps Let_def reads_config_def split: prod.splits sum.splits
      intro!: assms(2,3) resolved_ok [OF assms(1)])

lemma wp_renderCloudInit:
  assumes "\<And>x w es. list_all reads_config es \<Longrightarrow> Q x \<lparr>outside = w, calls = calls s @ es\<rparr>"
  shows "wp (renderCloudInit L r claim sp) Q s"
  unfolding renderCloudInit_def readSecretKey_def
  by (auto simp: wp_simps Let_def reads_config_def split: prod.splits sum.splits option.splits intro!: assms)

lemma wp_setCondition:
  assumes "\<And>cs w. SetStatusCondition L (Conditions (Status claim))
       \<lparr>CondType = ty, CondStatus = st, CondReason = reason, CondMessage = msg\<rparr> (outside s) = (cs, w)
      \<Longrightarrow> Q (claim\<lparr>Status := (Status claim)\<lparr>Conditions := cs\<rparr>\<rparr>) (s\<lparr>outside := w\<rparr>)"
  shows "wp (setCondition L claim ty st reason msg) Q s"
  unfolding setCondition_def by (auto simp: wp_simps split: prod.splits intro!: assms)

lemma wp_UpdateStatus:
  assumes "\<And>x w. Q x \<lparr>outside = w, calls = calls s @ [EvUpdateClaimStatus claim x]\<rparr>"
  shows "wp (UpdateStatus r claim) Q s"
  unfolding UpdateStatus_def by (auto simp: wp_simps split: prod.splits intro!: assms)

lemma wp_Update:
  assumes "\<And>x w. Q x \<lparr>outside = w, calls = calls s @ [EvUpdateClaim claim x]\<rparr>"
  shows "wp (Update r claim) Q s"
  unfolding Update_def by (auto simp: wp_simps split: prod.splits intro!: assms)

lemma wp_get_claim:
  assumes "\<And>x w. Q x \<lparr>outside = w, calls = calls s @ [EvGetClaim req x]\<rparr>"
  shows "wp (call (GetClaim C req) (EvGetClaim req)) Q s"
  by (auto simp: wp_simps split: prod.splits intro!: assms)

subsection \<open>When the finalizer is dropped\<close>

text \<open>
  \<open>release_ok\<close>: an update that stores a claim without the finalizer stores the claim that was read,
  which was being deleted, and if it had a machine then \<open>Delete\<close> of that machine has reported success
  and the call just before the update is a \<open>Get\<close> that reports it gone.
\<close>

definition drops_finalizer :: "XenonNodeClaim \<Rightarrow> XenonNodeClaim \<Rightarrow> bool" where
  "drops_finalizer claim c \<longleftrightarrow>
     FinalizerNodeClaim \<in> set (Finalizers claim) \<and>
     c = claim\<lparr>Finalizers := filter (\<lambda>f. f \<noteq> FinalizerNodeClaim) (Finalizers claim)\<rparr>"

definition seen_gone :: "string \<Rightarrow> event list \<Rightarrow> bool" where
  "seen_gone i h \<longleftrightarrow> EvProviderDelete i None \<in> set h \<and> h \<noteq> [] \<and> last h = EvProviderGet i (Inr None)"

definition release_ok :: "'w Lib \<Rightarrow> NamespacedName \<Rightarrow> event list \<Rightarrow> event \<Rightarrow> bool" where
  "release_ok L req h e =
     (case e of
        EvUpdateClaim c r \<Rightarrow>
          FinalizerNodeClaim \<in> set (Finalizers c) \<or>
          (\<exists>claim. EvGetClaim req (Inr claim) \<in> set h \<and> \<not> IsZero L (DeletionTimestamp claim) \<and>
             drops_finalizer claim c \<and>
             (ProviderID (Status claim) = [] \<or> seen_gone (ProviderID (Status claim)) h))
      | _ \<Rightarrow> True)"

lemma release_ok_irrelevant: "is_pve e \<or> reads_config e \<Longrightarrow> release_ok L req h e"
  by (cases e) (auto simp: release_ok_def reads_config_def)

lemma release_every:
  "list_all is_pve es \<Longrightarrow> every_call (release_ok L req) h es"
  "list_all reads_config es \<Longrightarrow> every_call (release_ok L req) h es"
  by (auto intro: every_call_irrelevant simp: release_ok_irrelevant)

lemma removeFinalizer_release:
  assumes "finalizer_laws L" "every_call (release_ok L req) [] (calls s)"
    and "EvGetClaim req (Inr claim) \<in> set (calls s)" "\<not> IsZero L (DeletionTimestamp claim)"
    and "ProviderID (Status claim) = [] \<or> seen_gone (ProviderID (Status claim)) (calls s)"
  shows "wp (removeFinalizer L r claim) (\<lambda>_ t. every_call (release_ok L req) [] (calls t)) s"
  unfolding removeFinalizer_def using assms
  by (auto simp: wp_simps finalizer_laws_def release_ok_def drops_finalizer_def
      split: sum.splits intro!: wp_Update)

lemma reconcileDelete_release:
  assumes "finalizer_laws L" "factory_ok r" "every_call (release_ok L req) [] (calls s)"
    and "EvGetClaim req (Inr claim) \<in> set (calls s)" "\<not> IsZero L (DeletionTimestamp claim)"
  shows "wp (reconcileDelete L r claim) (\<lambda>_ t. every_call (release_ok L req) [] (calls t)) s"
  unfolding reconcileDelete_def using assms
  by (auto simp: wp_bind wp_ret release_every seen_gone_def
      split: option.splits sum.splits
      intro!: wp_resolveProvider wp_call_Delete wp_call_Get removeFinalizer_release)
    (auto simp: release_ok_def)

subsection \<open>The calls of a claim that is not being deleted\<close>

text \<open>
  What \<open>provision\<close> calls, after reading the configuration: a claim without a machine gets one
  status update, preceded by one \<open>Create\<close> when the configuration could be read; a claim with a
  machine gets no call to the provider at all.
\<close>

definition created_trace :: "'w Lib \<Rightarrow> XenonNodeClaim \<Rightarrow> outcome \<Rightarrow> event list \<Rightarrow> bool" where
  "created_trace L claim out es \<longleftrightarrow>
     (\<exists>pve q i e c x. es = pve @ [EvProviderCreate q (i, e), EvUpdateClaimStatus c x] \<and>
        list_all is_pve pve \<and> ReqName q = Name claim \<and>
        (Cores q, MemoryMB q, DiskGB q) = requestedSize L claim \<and>
        ProviderID (Status c) = i \<and> Name c = Name claim \<and>
        (snd out = None \<longleftrightarrow> e = None \<and> \<not> isl x) \<and>
        (RequeueAfter (fst out) = (if snd out = None then nodeRegistrationPoll else 0)))"

definition failed_trace :: "XenonNodeClaim \<Rightarrow> outcome \<Rightarrow> event list \<Rightarrow> bool" where
  "failed_trace claim out es \<longleftrightarrow>
     (\<exists>c x. es = [EvUpdateClaimStatus c x] \<and> ProviderID (Status c) = ProviderID (Status claim) \<and>
        fst out = NoRequeue \<and> snd out \<noteq> None)"

definition about_node :: "event \<Rightarrow> bool" where
  "about_node e \<longleftrightarrow>
     (case e of EvGetNode _ _ \<Rightarrow> True | EvPatchNode _ _ _ \<Rightarrow> True | EvUpdateClaimStatus _ _ \<Rightarrow> True | _ \<Rightarrow> False)"

definition provision_trace :: "'w Lib \<Rightarrow> XenonNodeClaim \<Rightarrow> outcome \<Rightarrow> event list \<Rightarrow> bool" where
  "provision_trace L claim out es \<longleftrightarrow>
     (\<exists>cfg rest. es = cfg @ rest \<and> list_all reads_config cfg \<and>
        (failed_trace claim out rest \<or>
         (if ProviderID (Status claim) = [] then created_trace L claim out rest else list_all about_node rest)))"

lemma config_prefix:
  "list_all reads_config cfg \<Longrightarrow> P rest \<Longrightarrow> \<exists>c r. cfg @ rest = c @ r \<and> list_all reads_config c \<and> P r"
  by blast

lemma wp_reconcileCreate:
  assumes "provider_ok prov" "ProviderID (Status claim) = []"
  shows "wp (reconcileCreate L r claim prov sp)
    (\<lambda>out t. \<exists>cfg rest. calls t = calls s @ cfg @ rest \<and> list_all reads_config cfg \<and>
       (failed_trace claim out rest \<or> created_trace L claim out rest)) s"
  unfolding reconcileCreate_def wp_bind
proof (rule wp_renderCloudInit, goal_cases)
  case (1 x w cfg)
  show ?case
  proof (cases x)
    case (Inl err)
    then show ?thesis using 1
      by (auto simp: wp_bind wp_ret failed_trace_def intro!: wp_setCondition wp_UpdateStatus config_prefix)
  next
    case (Inr userData)
    then show ?thesis using assms 1
      by (auto simp: wp_bind wp_ret Let_def created_trace_def NoRequeue_def
          split: option.splits sum.splits prod.splits
          intro!: wp_call_Create wp_setCondition wp_UpdateStatus config_prefix)
  qed
qed

lemma wp_labelNode:
  assumes "\<And>x w es. list_all about_node es \<Longrightarrow> Q x \<lparr>outside = w, calls = calls s @ es\<rparr>"
  shows "wp (labelNode r node claim) Q s"
proof -
  have "Q x s" for x using assms [of "[]" x "outside s"] by (cases s) simp
  then show ?thesis unfolding labelNode_def Let_def
    by (auto simp: wp_simps about_node_def split: option.splits prod.splits intro!: assms)
qed

lemma wp_reconcileReadiness:
  "wp (reconcileReadiness L r claim) (\<lambda>out t. \<exists>es. calls t = calls s @ es \<and> list_all about_node es) s"
  unfolding reconcileReadiness_def
  by (auto simp: wp_simps Let_def about_node_def [of "EvGetNode _ _"] about_node_def [of "EvUpdateClaimStatus _ _"]
      split: option.splits sum.splits prod.splits
      intro!: wp_labelNode wp_setCondition wp_UpdateStatus)

lemma provision_failedI:
  "list_all reads_config cfg \<Longrightarrow> failed_trace claim out rest \<Longrightarrow> provision_trace L claim out (cfg @ rest)"
  by (auto simp: provision_trace_def)

lemma provision_createdI:
  "list_all reads_config cfg \<Longrightarrow> created_trace L claim out rest \<Longrightarrow> ProviderID (Status claim) = []
   \<Longrightarrow> provision_trace L claim out (cfg @ rest)"
  by (auto simp: provision_trace_def)

lemma provision_cfgI:
  "list_all reads_config cfg \<Longrightarrow> provision_trace L claim out es \<Longrightarrow> provision_trace L claim out (cfg @ es)"
  unfolding provision_trace_def by (metis append_assoc list_all_append)

lemma wp_provision:
  assumes "factory_ok r"
  shows "wp (provision L r claim)
    (\<lambda>out t. \<exists>es. calls t = calls s @ es \<and> provision_trace L claim out es) s"
  unfolding provision_def wp_bind
proof (rule wp_resolveProvider [OF assms], goal_cases)
  case (1 e w cfg)
  then show ?case
    by (auto simp: wp_bind wp_ret intro!: wp_setCondition wp_UpdateStatus provision_failedI)
      (auto simp: failed_trace_def)
next
  case (2 prov sp w cfg)
  show ?case
  proof (cases "ProviderID (Status claim) = []")
    case True
    show ?thesis
      by (simp add: True, rule wp_mono [OF wp_reconcileCreate [OF 2(2) True]])
        (use 2(1) True in \<open>auto intro: provision_cfgI provision_failedI provision_createdI\<close>)
  next
    case False
    show ?thesis
      by (simp add: False, rule wp_mono [OF wp_reconcileReadiness])
        (use 2(1) False in \<open>auto simp: provision_trace_def\<close>)
  qed
qed

definition is_create :: "event \<Rightarrow> bool" where
  "is_create e \<longleftrightarrow> (case e of EvProviderCreate _ _ \<Rightarrow> True | _ \<Rightarrow> False)"

lemma provision_events:
  "provision_trace L claim out es \<Longrightarrow>
   list_all (\<lambda>e. reads_config e \<or> is_pve e \<or> about_node e \<or> is_create e) es"
  by (auto simp: provision_trace_def created_trace_def failed_trace_def list_all_iff
      about_node_def [of "EvUpdateClaimStatus _ _"] is_create_def split: if_splits)

subsection \<open>A whole reconcile\<close>

text \<open>
  The calls that come before \<open>provision\<close>: the claim as it is handed on carries the finalizer on the
  server, either because it was read with it or because an update that carries it was accepted.
\<close>

definition finalized :: "NamespacedName \<Rightarrow> event list \<Rightarrow> XenonNodeClaim \<Rightarrow> bool" where
  "finalized req h claim \<longleftrightarrow>
     (h = [EvGetClaim req (Inr claim)] \<and> FinalizerNodeClaim \<in> set (Finalizers claim)) \<or>
     (\<exists>old. FinalizerNodeClaim \<notin> set (Finalizers old) \<and>
        h = [EvGetClaim req (Inr old),
             EvUpdateClaim (old\<lparr>Finalizers := Finalizers old @ [FinalizerNodeClaim]\<rparr>) (Inr claim)])"

lemma wp_Reconcile:
  assumes F: "finalizer_laws L"
    and "\<And>err w'. GetClaim (claimClient r) req w = (Inl err, w')
      \<Longrightarrow> Q (NoRequeue, IgnoreNotFound L err) \<lparr>outside = w', calls = [EvGetClaim req (Inl err)]\<rparr>"
    and "\<And>claim w'. GetClaim (claimClient r) req w = (Inr claim, w') \<Longrightarrow> \<not> IsZero L (DeletionTimestamp claim)
      \<Longrightarrow> wp (reconcileDelete L r claim) Q \<lparr>outside = w', calls = [EvGetClaim req (Inr claim)]\<rparr>"
    and "\<And>claim err w1 w2. GetClaim (claimClient r) req w = (Inr claim, w1)
      \<Longrightarrow> FinalizerNodeClaim \<notin> set (Finalizers claim)
      \<Longrightarrow> Q (NoRequeue, Some err) \<lparr>outside = w2, calls = [EvGetClaim req (Inr claim),
            EvUpdateClaim (claim\<lparr>Finalizers := Finalizers claim @ [FinalizerNodeClaim]\<rparr>) (Inl err)]\<rparr>"
    and "\<And>old claim h w1 w2. GetClaim (claimClient r) req w = (Inr old, w1) \<Longrightarrow> IsZero L (DeletionTimestamp old)
      \<Longrightarrow> FinalizerNodeClaim \<in> set (Finalizers old) \<longrightarrow> claim = old \<and> w2 = w1
      \<Longrightarrow> finalized req h claim \<Longrightarrow> wp (provision L r claim) Q \<lparr>outside = w2, calls = h\<rparr>"
  shows "wp (Reconcile L r req) Q (start w)"
proof -
  have add: "AddFinalizer L fs FinalizerNodeClaim =
      (if FinalizerNodeClaim \<in> set fs then (fs, False) else (fs @ [FinalizerNodeClaim], True))" for fs
    using F by (simp add: finalizer_laws_def)
  show ?thesis
    unfolding Reconcile_def ensureFinalizer_def Update_def
    by (auto simp: wp_simps start_def add finalized_def split: prod.splits sum.splits intro!: assms(2-5))
qed

lemma provision_release:
  assumes "provision_trace L claim out es"
  shows "every_call (release_ok L' req) h es"
proof (rule every_call_irrelevant [OF provision_events [OF assms]])
  show "reads_config e \<or> is_pve e \<or> about_node e \<or> is_create e \<Longrightarrow> release_ok L' req h e" for h e
    by (cases e) (auto simp: release_ok_def reads_config_def about_node_def is_create_def)
qed

definition bench_reconciler :: "bench XenonNodeClaimReconciler" where
  "bench_reconciler =
     \<lparr>claimClient = bench_client, claimScheme = 0, NewProvider = None, SystemNamespace = ''xenonite-system''\<rparr>"

definition bench_key :: NamespacedName where
  "bench_key = \<lparr>Namespace = [], KeyName = ''n1''\<rparr>"

lemmas claim_run =
  bench_run Reconcile_def ensureFinalizer_def provision_def reconcileCreate_def reconcileReadiness_def
  reconcileDelete_def removeFinalizer_def Update_def UpdateStatus_def resolveProvider_def
  renderCloudInit_def readSecretKey_def setCondition_def requestedSize_def labelNode_def isNodeReady_def
  bench_reconciler_def bench_key_def

lemma bench_factory_ok: "factory_ok bench_reconciler"
  by (simp add: factory_ok_def bench_reconciler_def)

text \<open>
  C2: the finalizer is dropped only when it is safe. In every run of \<open>Reconcile\<close>, an update that
  stores a claim without the finalizer stores the claim that was read, which was being
  deleted; and unless no machine had ever been recorded for it, \<open>Delete\<close> of its machine has
  succeeded and \<open>Get\<close> has just reported the machine gone.
\<close>

theorem finalizer_dropped_only_when_gone:
  assumes "finalizer_laws L" "factory_ok r"
  shows "every_call (release_ok L req) [] (calls (snd (run_state (Reconcile L r req) (start w))))"
proof -
  have "wp (Reconcile L r req) (\<lambda>_ t. every_call (release_ok L req) [] (calls t)) (start w)"
  proof (rule wp_Reconcile [OF assms(1)], goal_cases)
    case (2 claim w')
    then show ?case
      by (auto intro!: reconcileDelete_release assms simp: release_ok_def)
  next
    case (4 old claim h w1 w2)
    then show ?case
      by (intro wp_mono [OF wp_provision [OF assms(2)]])
        (auto simp: finalized_def release_ok_def [of _ _ _ "EvGetClaim _ _"] release_ok_def [of _ _ _ "EvUpdateClaim _ _"]
          intro: provision_release)
  qed (auto simp: release_ok_def)
  then show ?thesis by (simp add: wp_def split: prod.splits)
qed

theorem finalizer_dropped_only_when_gone_witness:
  "finalizer_laws bench_lib \<and> factory_ok bench_reconciler \<and>
   every_call (release_ok bench_lib bench_key) []
     (calls (snd (run_state (Reconcile bench_lib bench_reconciler bench_key) (start bench_teardown)))) \<and>
   wp (Reconcile bench_lib bench_reconciler bench_key)
     (\<lambda>out t. out = (NoRequeue, None) \<and> bClaims (outside t) = [] \<and> bMachines (outside t) = [(''pve0'', 900)])
     (start bench_teardown)"
proof (intro conjI bench_finalizer_laws bench_factory_ok
    finalizer_dropped_only_when_gone [OF bench_finalizer_laws bench_factory_ok])
  show "wp (Reconcile bench_lib bench_reconciler bench_key)
     (\<lambda>out t. out = (NoRequeue, None) \<and> bClaims (outside t) = [] \<and> bMachines (outside t) = [(''pve0'', 900)])
     (start bench_teardown)"
    by (simp add: claim_run)
qed

subsection \<open>Creating the machine\<close>

text \<open>
  \<open>create_ok\<close>: a machine is asked for only when none was before, for a claim that has no machine and
  that the server holds with the finalizer, under the claim's name and with the claim's size.
\<close>

definition create_ok :: "'w Lib \<Rightarrow> NamespacedName \<Rightarrow> event list \<Rightarrow> event \<Rightarrow> bool" where
  "create_ok L req h e =
     (case e of
        EvProviderCreate q r \<Rightarrow>
          \<not> list_ex is_create h \<and>
          (\<exists>claim pre post. h = pre @ post \<and> finalized req pre claim \<and> ProviderID (Status claim) = [] \<and>
             ReqName q = Name claim \<and> (Cores q, MemoryMB q, DiskGB q) = requestedSize L claim)
      | _ \<Rightarrow> True)"

definition not_create :: "event \<Rightarrow> bool" where
  "not_create e \<longleftrightarrow> \<not> is_create e"

lemma not_create_ok: "not_create e \<Longrightarrow> create_ok L req h e"
  by (cases e) (auto simp: create_ok_def not_create_def is_create_def)

lemma not_create_irrelevant: "list_all not_create es \<Longrightarrow> every_call (create_ok L req) h es"
  by (erule every_call_irrelevant) (rule not_create_ok)

lemma not_create_kinds:
  "list_all is_pve es \<Longrightarrow> list_all not_create es"
  "list_all reads_config es \<Longrightarrow> list_all not_create es"
  "list_all about_node es \<Longrightarrow> list_all not_create es"
  by (auto simp: list_all_iff not_create_def is_create_def reads_config_def about_node_def split: event.splits)

lemma list_ex_not_create: "list_all not_create es \<Longrightarrow> \<not> list_ex is_create es"
  by (auto simp: list_all_iff list_ex_iff not_create_def)

lemma not_create_events [simp]:
  "not_create (EvGetClaim req x)" "not_create (EvUpdateClaim c y)" "not_create (EvUpdateClaimStatus c y)"
  "not_create (EvProviderDelete i z)" "not_create (EvProviderGet i v)" "\<not> not_create (EvProviderCreate q u)"
  by (simp_all add: not_create_def is_create_def)

lemma wp_reconcileDelete_no_create:
  assumes "factory_ok r"
  shows "wp (reconcileDelete L r claim) (\<lambda>_ t. \<exists>es. calls t = calls s @ es \<and> list_all not_create es) s"
  unfolding reconcileDelete_def removeFinalizer_def using assms
  by (auto simp: wp_bind wp_ret not_create_kinds
      split: option.splits sum.splits prod.splits
      intro!: wp_resolveProvider wp_call_Delete wp_call_Get wp_Update)

lemma provision_create_ok:
  assumes "provision_trace L claim out es" "finalized req h claim"
  shows "every_call (create_ok L req) h es"
proof -
  have h: "\<not> list_ex is_create h" using assms(2) by (auto simp: finalized_def is_create_def)
  from assms(1) obtain cfg rest where es: "es = cfg @ rest" "list_all reads_config cfg"
    and rest: "failed_trace claim out rest \<or>
      (if ProviderID (Status claim) = [] then created_trace L claim out rest else list_all about_node rest)"
    by (auto simp: provision_trace_def)
  have "every_call (create_ok L req) (h @ cfg) rest" if new: "created_trace L claim out rest" "ProviderID (Status claim) = []"
  proof -
    obtain pve q i e c x where r: "rest = pve @ [EvProviderCreate q (i, e), EvUpdateClaimStatus c x]"
      "list_all is_pve pve" "ReqName q = Name claim" "(Cores q, MemoryMB q, DiskGB q) = requestedSize L claim"
      using new(1) by (auto simp: created_trace_def)
    have "create_ok L req (h @ cfg @ pve) (EvProviderCreate q (i, e))"
      using h es r new(2) assms(2) by (auto simp: create_ok_def list_ex_not_create not_create_kinds)
    then show ?thesis using r
      by (simp add: not_create_irrelevant not_create_kinds) (simp add: create_ok_def)
  qed
  then show ?thesis using es rest
    by (auto simp: not_create_irrelevant not_create_kinds not_create_ok failed_trace_def split: if_splits)
qed

text \<open>
  C3: a machine is created only for a claim whose finalizer the server has stored and that has no
  machine, at most once in a reconcile, with the claim's name and requested size.
\<close>

theorem created_only_once_finalized:
  assumes "finalizer_laws L" "factory_ok r"
  shows "every_call (create_ok L req) [] (calls (snd (run_state (Reconcile L r req) (start w))))"
proof -
  have "wp (Reconcile L r req) (\<lambda>_ t. every_call (create_ok L req) [] (calls t)) (start w)"
  proof (rule wp_Reconcile [OF assms(1)], goal_cases)
    case (2 claim w')
    then show ?case
      by (intro wp_mono [OF wp_reconcileDelete_no_create [OF assms(2)]]) (auto simp: not_create_irrelevant not_create_ok)
  next
    case (4 old claim h w1 w2)
    then have "list_all not_create h" by (auto simp: finalized_def)
    then show ?case using 4
      by (intro wp_mono [OF wp_provision [OF assms(2)]])
        (auto simp: not_create_irrelevant intro: provision_create_ok)
  qed (auto simp: not_create_ok)
  then show ?thesis by (simp add: wp_def split: prod.splits)
qed

theorem created_only_once_finalized_witness:
  "finalizer_laws bench_lib \<and> factory_ok bench_reconciler \<and>
   every_call (create_ok bench_lib bench_key) []
     (calls (snd (run_state (Reconcile bench_lib bench_reconciler bench_key)
       (start (bench_cluster (bench_claim [])))))) \<and>
   wp (Reconcile bench_lib bench_reconciler bench_key)
     (\<lambda>out t. list_ex is_create (calls t) \<and> bMachines (outside t) = [(''pve1'', 101), (''pve0'', 900)])
     (start (bench_cluster (bench_claim [])))"
proof (intro conjI bench_finalizer_laws bench_factory_ok
    created_only_once_finalized [OF bench_finalizer_laws bench_factory_ok])
  show "wp (Reconcile bench_lib bench_reconciler bench_key)
     (\<lambda>out t. list_ex is_create (calls t) \<and> bMachines (outside t) = [(''pve1'', 101), (''pve0'', 900)])
     (start (bench_cluster (bench_claim [])))"
    by (simp add: claim_run is_create_def)
qed

subsection \<open>Recording the machine\<close>

text \<open>
  \<open>recorded\<close>: the call after a \<open>Create\<close> sends the identifier it returned to the server, whether or
  not \<open>Create\<close> failed. \<open>stored\<close>: the server has accepted it.
\<close>

primrec recorded :: "event list \<Rightarrow> bool" where
  "recorded [] = True"
| "recorded (e # es) =
     ((case e of
         EvProviderCreate q (i, err) \<Rightarrow>
           (case es of EvUpdateClaimStatus c x # _ \<Rightarrow> ProviderID (Status c) = i | _ \<Rightarrow> False)
       | _ \<Rightarrow> True) \<and> recorded es)"

definition stored :: "string \<Rightarrow> event list \<Rightarrow> bool" where
  "stored i es \<longleftrightarrow> (\<exists>c c'. EvUpdateClaimStatus c (Inr c') \<in> set es \<and> ProviderID (Status c) = i)"

definition creates_stored :: "event list \<Rightarrow> bool" where
  "creates_stored es \<longleftrightarrow>
     (\<forall>q i err. EvProviderCreate q (i, err) \<in> set es \<longrightarrow> err = None \<and> stored i es)"

lemma recorded_skip: "list_all not_create es \<Longrightarrow> recorded (es @ es') = recorded es'"
proof (induction es)
  case (Cons e es)
  then show ?case by (cases e) auto
qed simp

lemma recorded_not_create: "list_all not_create es \<Longrightarrow> recorded es"
  using recorded_skip [of es "[]"] by simp

lemma no_create: "list_all not_create es \<Longrightarrow> EvProviderCreate q u \<notin> set es"
  by (auto simp: list_all_iff)

lemma no_create_recorded: "list_all not_create es \<Longrightarrow> recorded es \<and> creates_stored es"
  by (auto simp: recorded_not_create creates_stored_def no_create)

lemma provision_recorded:
  assumes "provision_trace L claim out es" "list_all not_create h"
  shows "recorded (h @ es) \<and> (snd out = None \<longrightarrow> creates_stored (h @ es))"
proof -
  from assms(1) obtain cfg rest where es: "es = cfg @ rest" "list_all not_create cfg"
    and rest: "failed_trace claim out rest \<or>
      (if ProviderID (Status claim) = [] then created_trace L claim out rest else list_all about_node rest)"
    by (auto simp: provision_trace_def not_create_kinds)
  show ?thesis
  proof (cases "created_trace L claim out rest")
    case True
    then obtain pve q i e c x where r: "rest = pve @ [EvProviderCreate q (i, e), EvUpdateClaimStatus c x]"
      "list_all not_create pve" "ProviderID (Status c) = i" "snd out = None \<longleftrightarrow> e = None \<and> \<not> isl x"
      unfolding created_trace_def by (elim exE conjE) (rule that, auto simp: not_create_kinds(1) simp del: not_None_eq)
    have "creates_stored (h @ es)" if "snd out = None"
    proof -
      from that r(4) obtain c' where "e = None" "x = Inr c'" by (cases x) auto
      then have "stored i (h @ es)" using es r by (auto simp: stored_def)
      then show ?thesis using es assms(2) r(1,2) \<open>e = None\<close> by (auto simp: creates_stored_def no_create)
    qed
    then show ?thesis using es assms(2) r by (simp add: recorded_skip)
  next
    case False
    then have "list_all not_create rest"
      using rest by (auto simp: failed_trace_def not_create_kinds split: if_splits)
    then show ?thesis using es assms(2) no_create_recorded [of "h @ es"] by simp
  qed
qed

text \<open>
  C8: no identifier the provider returns is dropped. In every reconcile the call right after
  \<open>Create\<close> sends the returned identifier to the server, also when \<open>Create\<close> failed; and a
  reconcile that made a machine and reports success had the identifier accepted.
\<close>

theorem created_machine_recorded:
  assumes "finalizer_laws L" "factory_ok r"
    and "run_state (Reconcile L r req) (start w) = (out, t)"
  shows "recorded (calls t) \<and> (snd out = None \<longrightarrow> creates_stored (calls t))"
proof -
  have "wp (Reconcile L r req)
    (\<lambda>out t. recorded (calls t) \<and> (snd out = None \<longrightarrow> creates_stored (calls t))) (start w)"
  proof (rule wp_Reconcile [OF assms(1)], goal_cases)
    case (2 claim w')
    then show ?case
      by (intro wp_mono [OF wp_reconcileDelete_no_create [OF assms(2)]]) (auto simp: no_create_recorded)
  next
    case (4 old claim h w1 w2)
    then have "list_all not_create h" by (auto simp: finalized_def)
    then show ?case
      by (intro wp_mono [OF wp_provision [OF assms(2)]]) (auto dest: provision_recorded)
  qed (simp_all add: no_create_recorded)
  from wp_runD [OF this assms(3)] show ?thesis .
qed

theorem created_machine_recorded_witness:
  "wp (Reconcile bench_lib bench_reconciler bench_key)
     (\<lambda>out t. list_ex is_create (calls t) \<and> recorded (calls t) \<and> snd out = None) (start (bench_cluster (bench_claim [])))"
proof -
  let ?m = "Reconcile bench_lib bench_reconciler bench_key" and ?s = "start (bench_cluster (bench_claim []))"
  have "wp ?m (\<lambda>out t. list_ex is_create (calls t) \<and> snd out = None) ?s"
    by (simp add: claim_run is_create_def)
  moreover have "wp ?m (\<lambda>out t. recorded (calls t)) ?s"
    by (rule wp_runI) (use created_machine_recorded [OF bench_finalizer_laws bench_factory_ok] in blast)
  ultimately show ?thesis by (simp add: wp_conj)
qed

definition is_machine_call :: "event \<Rightarrow> bool" where
  "is_machine_call e \<longleftrightarrow> is_pve e \<or>
     (case e of EvProviderCreate _ _ \<Rightarrow> True | EvProviderDelete _ _ \<Rightarrow> True | EvProviderGet _ _ \<Rightarrow> True | _ \<Rightarrow> False)"

lemma no_machine_calls:
  "list_all reads_config es \<Longrightarrow> \<not> list_ex is_machine_call es"
  "list_all about_node es \<Longrightarrow> \<not> list_ex is_machine_call es"
  by (auto simp: list_all_iff list_ex_iff is_machine_call_def reads_config_def about_node_def split: event.splits)

text \<open>
  C24: provision once. The reconcile of a claim that has a machine and the finalizer (which C1 shows a recorded
  machine to imply) and is not being deleted makes no call to the provider or to the hypervisor, whatever the state of that machine.
\<close>

theorem provisioned_claim_left_alone:
  assumes "finalizer_laws L" "factory_ok r"
    and "GetClaim (claimClient r) req w = (Inr claim, w1)"
    and "IsZero L (DeletionTimestamp claim)" "FinalizerNodeClaim \<in> set (Finalizers claim)"
    and "ProviderID (Status claim) \<noteq> []"
  shows "\<not> list_ex is_machine_call (calls (snd (run_state (Reconcile L r req) (start w))))"
proof -
  have "wp (Reconcile L r req) (\<lambda>_ t. \<not> list_ex is_machine_call (calls t)) (start w)"
  proof (rule wp_Reconcile [OF assms(1)], goal_cases)
    case (4 old claim' h w1 w2)
    then have "claim' = claim" and h: "\<not> list_ex is_machine_call h"
      using assms(3-5) by (auto simp: finalized_def is_machine_call_def)
    then show ?case
      by (intro wp_mono [OF wp_provision [OF assms(2)]])
        (use assms(6) in \<open>auto simp: provision_trace_def failed_trace_def no_machine_calls
           is_machine_call_def [of "EvUpdateClaimStatus _ _"]\<close>)
  qed (use assms(3-5) in auto)
  then show ?thesis by (simp add: wp_def split: prod.splits)
qed

theorem provisioned_claim_left_alone_witness:
  "\<not> list_ex is_machine_call (calls (snd (run_state (Reconcile bench_lib bench_reconciler bench_key)
     (start (bench_cluster ((bench_claim ''proxmox://pve1/101'')\<lparr>Finalizers := [FinalizerNodeClaim]\<rparr>))))))"
  by (rule provisioned_claim_left_alone [OF bench_finalizer_laws bench_factory_ok, of _ _
        "(bench_claim ''proxmox://pve1/101'')\<lparr>Finalizers := [FinalizerNodeClaim]\<rparr>"
        "bench_cluster ((bench_claim ''proxmox://pve1/101'')\<lparr>Finalizers := [FinalizerNodeClaim]\<rparr>)"])
    (simp_all add: claim_run)

subsection \<open>Deleting\<close>

definition released :: "XenonNodeClaim \<Rightarrow> event list \<Rightarrow> bool" where
  "released claim es \<longleftrightarrow>
     es \<noteq> [] \<and> (case last es of EvUpdateClaim c (Inr _) \<Rightarrow> drops_finalizer claim c | _ \<Rightarrow> False)"

definition delete_done :: "XenonNodeClaim \<Rightarrow> outcome \<Rightarrow> event list \<Rightarrow> bool" where
  "delete_done claim out es \<longleftrightarrow>
     fst out = NoRequeue \<and>
     (snd out = None) = (if FinalizerNodeClaim \<in> set (Finalizers claim) then released claim es else es = [])"

lemma released_config: "list_all reads_config es \<Longrightarrow> \<not> released claim es"
  by (cases es rule: rev_cases) (auto simp: released_def reads_config_def split: event.splits)

lemma wp_removeFinalizer:
  assumes "finalizer_laws L" "FinalizerNodeClaim \<in> set (Finalizers claim)"
    and "\<And>c x w. drops_finalizer claim c
      \<Longrightarrow> Q (NoRequeue, case x of Inl err \<Rightarrow> Some err | Inr _ \<Rightarrow> None)
            \<lparr>outside = w, calls = calls s @ [EvUpdateClaim c x]\<rparr>"
  shows "wp (removeFinalizer L r claim) Q s"
proof -
  have "drops_finalizer claim
      (claim\<lparr>Finalizers := filter (\<lambda>f. f \<noteq> FinalizerNodeClaim) (Finalizers claim)\<rparr>)"
    using assms(2) by (simp add: drops_finalizer_def)
  note Q = assms(3) [OF this]
  show ?thesis
    unfolding removeFinalizer_def using assms(1,2) Q [of "Inl _"] Q [of "Inr _"]
    by (auto simp: finalizer_laws_def wp_bind wp_ret split: sum.splits intro!: wp_Update)
qed

text \<open>
  C14: the outcome of a deletion tells whether the claim was let go. \<open>reconcileDelete\<close> of a claim
  with the finalizer reports success exactly when its last call is an accepted update that
  drops the finalizer; every other way out is an error, so that the queue retries. A claim without
  the finalizer is left alone.
\<close>

theorem reconcileDelete_outcome:
  assumes "finalizer_laws L" "factory_ok r"
  shows "wp (reconcileDelete L r claim)
    (\<lambda>out t. \<exists>es. calls t = calls s @ es \<and> delete_done claim out es) s"
proof -
  have "ContainsFinalizer L fs f \<longleftrightarrow> f \<in> set fs" for fs f
    using assms(1) by (simp add: finalizer_laws_def)
  then show ?thesis
    unfolding reconcileDelete_def delete_done_def using assms
    by (auto simp: wp_bind wp_ret released_config released_def [of _ "_ @ _"] released_def [of _ "_ # _"] NoRequeue_def
        split: option.splits sum.splits
        intro!: wp_resolveProvider wp_call_Delete wp_call_Get wp_removeFinalizer)
qed

theorem reconcileDelete_outcome_witness:
  "wp (reconcileDelete bench_lib bench_reconciler bench_deleting)
     (\<lambda>out t. (\<exists>es. calls t = [] @ es \<and> delete_done bench_deleting out es) \<and> snd out = None) (start bench_teardown)"
proof -
  have "wp (reconcileDelete bench_lib bench_reconciler bench_deleting) (\<lambda>out t. snd out = None) (start bench_teardown)"
    by (simp add: claim_run)
  then show ?thesis
    using reconcileDelete_outcome [OF bench_finalizer_laws bench_factory_ok, of bench_deleting "start bench_teardown"]
    by (simp add: wp_conj start_def)
qed

text \<open>
  The hypervisor behind a reconciler that builds the Proxmox provider: every client that \<open>NewClient\<close>
  makes reaches the machines \<open>ms\<close>, and storing a claim on the API server does not touch them.
\<close>

definition proxmox_backed ::
  "'w Lib \<Rightarrow> 'w XenonNodeClaimReconciler \<Rightarrow> ('w \<Rightarrow> (string \<times> int) set) \<Rightarrow> bool" where
  "proxmox_backed L r ms \<longleftrightarrow>
     NewProvider r = None \<and> (\<forall>url http creds. pve_laws (NewPveClient L url http creds) ms) \<and>
     (\<forall>c. keeps ms (UpdateClaim (claimClient r) c))"

lemma proxmox_backed_ok: "proxmox_backed L r ms \<Longrightarrow> factory_ok r"
  by (simp add: proxmox_backed_def factory_ok_def)

definition reaches :: "('w \<Rightarrow> (string \<times> int) set) \<Rightarrow> 'w Provider \<Rightarrow> bool" where
  "reaches ms prov \<longleftrightarrow> (\<exists>p. prov = as_Provider p \<and> pve_laws (client p) ms)"

lemma reaches_New: "proxmox_backed L r ms \<Longrightarrow> reaches ms (as_Provider (New (NewPveClient L) sp creds))"
  unfolding reaches_def
  by (intro exI [of _ "New (NewPveClient L) sp creds"]) (simp add: proxmox_backed_def New_def Let_def)

lemma machine_key_not_Nil: "machine_key i = Some k \<Longrightarrow> i \<noteq> []"
  using parseProviderID_sound [of i "fst k" "snd k"]
  by (auto simp: machine_key_def providerIDScheme_def split: sum.splits)

lemma wp_resolve_proxmox:
  assumes "proxmox_backed L r ms"
    and "\<And>e w es. list_all reads_config es \<Longrightarrow> Q (Inl e) \<lparr>outside = w, calls = calls s @ es\<rparr>"
    and "\<And>prov sp w es. list_all reads_config es \<Longrightarrow> reaches ms prov
      \<Longrightarrow> Q (Inr (prov, sp)) \<lparr>outside = w, calls = calls s @ es\<rparr>"
  shows "wp (resolveProvider L r claim) Q s"
proof -
  have "NewProvider r = None" using assms(1) by (simp add: proxmox_backed_def)
  then show ?thesis unfolding resolveProvider_def
    by (auto simp: wp_simps Let_def reads_config_def split: prod.splits sum.splits
        intro!: assms(2,3) reaches_New [OF assms(1)])
qed

lemma reaches_ok: "reaches ms prov \<Longrightarrow> provider_ok prov"
  by (auto simp: reaches_def as_Provider_ok)

lemma wp_call_Get_gone:
  assumes "reaches ms prov" "machine_key i = Some k"
    and "\<And>x t es. list_all is_pve es \<Longrightarrow> x = Inr None \<longrightarrow> k \<notin> ms (outside t)
      \<Longrightarrow> calls t = calls s @ es @ [EvProviderGet i x] \<Longrightarrow> Q x t"
  shows "wp (call_Get prov i) Q s"
proof -
  obtain p where p: "prov = as_Provider p" "pve_laws (client p) ms"
    using assms(1) by (auto simp: reaches_def)
  have "wp (Provider_Get p i) (\<lambda>x t. (x = Inr None \<longrightarrow> k \<notin> ms (outside t)) \<and>
      (\<exists>es. calls t = calls s @ es \<and> list_all is_pve es)) s"
    unfolding wp_conj
    using proxmox_removal.get_gone [of "(p, ms)" i k s] p(2) assms(2) Provider_Get_only_pve [of p i]
    by (simp add: only_pve_def)
  then show ?thesis
    unfolding call_Get_def p(1) as_Provider_def wp_simps Provider.select_convs
    by (rule wp_mono) (auto intro!: assms(3))
qed

lemma removeFinalizer_keeps:
  assumes "\<And>c. keeps ms (UpdateClaim (claimClient r) c)" "k \<notin> ms (outside s)"
    and "\<And>out t. k \<notin> ms (outside t) \<Longrightarrow> Q out t"
  shows "wp (removeFinalizer L r claim) Q s"
  unfolding removeFinalizer_def Update_def
  by (auto simp: wp_simps split: prod.splits sum.splits)
    (use assms in \<open>metis keeps_def sys.select_convs(1)\<close>)+

definition stores_claim :: "event \<Rightarrow> bool" where
  "stores_claim e \<longleftrightarrow> (case e of EvUpdateClaim _ _ \<Rightarrow> True | _ \<Rightarrow> False)"

lemma no_stores:
  "list_all is_pve es \<Longrightarrow> \<not> list_ex stores_claim es"
  "list_all reads_config es \<Longrightarrow> \<not> list_ex stores_claim es"
  by (auto simp: list_all_iff list_ex_iff stores_claim_def reads_config_def split: event.splits)

text \<open>
  C4: no machine is left behind. With the Proxmox provider on a hypervisor that behaves as
  documented, when the deletion of a claim reaches the update that lets the claim go, the machine
  the claim's provider ID names does not exist any more.
\<close>

theorem released_machine_gone:
  assumes "proxmox_backed L r ms" "machine_key (ProviderID (Status claim)) = Some k"
  shows "wp (reconcileDelete L r claim)
    (\<lambda>out t. list_ex stores_claim (calls t) \<longrightarrow> k \<notin> ms (outside t)) (start w)"
proof -
  have id: "ProviderID (Status claim) \<noteq> []"
    by (rule machine_key_not_Nil [OF assms(2)])
  have keep: "keeps ms (UpdateClaim (claimClient r) c)" for c
    using assms(1) by (simp add: proxmox_backed_def)
  show ?thesis
    unfolding reconcileDelete_def wp_bind
    by (auto simp: id wp_bind wp_ret start_def no_stores stores_claim_def [of "EvProviderDelete _ _"]
          stores_claim_def [of "EvProviderGet _ _"]
        split: option.splits sum.splits
        intro!: wp_resolve_proxmox [OF assms(1)] wp_call_Delete reaches_ok
          wp_call_Get_gone [OF _ assms(2), where ms = ms] removeFinalizer_keeps [OF keep, where k = k])
qed

lemma bench_proxmox_backed: "proxmox_backed bench_lib bench_reconciler (\<lambda>w. set (bMachines w))"
proof -
  have "keeps (\<lambda>w. set (bMachines w)) (bench_update c)" for c
    by (auto simp: keeps_def bench_update_def Let_def split: option.splits)
  moreover have "NewPveClient bench_lib url http creds = bench_pve" for url http creds
    by (simp add: bench_lib_def)
  ultimately show ?thesis
    by (simp add: proxmox_backed_def bench_reconciler_def bench_client_def bench_pve_laws)
qed

theorem released_machine_gone_witness:
  "wp (reconcileDelete bench_lib bench_reconciler bench_deleting)
     (\<lambda>out t. list_ex stores_claim (calls t) \<and> (''pve1'', 101) \<notin> set (bMachines (outside t))) (start bench_teardown)"
proof -
  have "machine_key (ProviderID (Status bench_deleting)) = Some (''pve1'', 101)"
    by (simp add: machine_key_def bench_objects bench_ids)
  from released_machine_gone [OF bench_proxmox_backed this]
  have "wp (reconcileDelete bench_lib bench_reconciler bench_deleting)
     (\<lambda>out t. list_ex stores_claim (calls t) \<longrightarrow> (''pve1'', 101) \<notin> set (bMachines (outside t))) (start bench_teardown)" .
  moreover have "wp (reconcileDelete bench_lib bench_reconciler bench_deleting)
     (\<lambda>out t. list_ex stores_claim (calls t)) (start bench_teardown)"
    by (simp add: claim_run stores_claim_def)
  ultimately show ?thesis
    by (simp add: wp_def split: prod.splits)
qed


subsection \<open>Labels\<close>

text \<open>\<open>labelled\<close>: the node with both labels set, every other label and every other field as it was.\<close>

definition labelled :: "Node \<Rightarrow> XenonNodeClaim \<Rightarrow> Node \<Rightarrow> bool" where
  "labelled node claim node' \<longleftrightarrow>
     mindex (Labels node') LabelNodePool = NodePoolRef (Spec claim) \<and>
     mindex (Labels node') LabelNodeClaim = Name claim \<and>
     (\<forall>k. k \<noteq> LabelNodePool \<longrightarrow> k \<noteq> LabelNodeClaim \<longrightarrow> mget (Labels node') k = mget (Labels node) k) \<and>
     node'\<lparr>Labels := Labels node\<rparr> = node"

definition has_labels :: "Node \<Rightarrow> XenonNodeClaim \<Rightarrow> bool" where
  "has_labels node claim \<longleftrightarrow>
     mindex (Labels node) LabelNodePool = NodePoolRef (Spec claim) \<and>
     mindex (Labels node) LabelNodeClaim = Name claim"

lemma setLabel_spec:
  assumes "m \<noteq> None"
  obtains m' where "setLabel m k v = Some (m', mindex m k \<noteq> v)" "m' \<noteq> None" "mindex m' k = v"
    "\<And>k'. k' \<noteq> k \<Longrightarrow> mget m' k' = mget m k'"
proof -
  have "\<exists>m'. setLabel m k v = Some (m', mindex m k \<noteq> v) \<and> m' \<noteq> None \<and> mindex m' k = v \<and>
      (\<forall>k'. k' \<noteq> k \<longrightarrow> mget m' k' = mget m k')"
    using assms by (cases m) (auto simp: setLabel_def massign_def mindex_def)
  then show thesis using that by blast
qed

lemma mindex_cong: "mget m k = mget m' k \<Longrightarrow> mindex m k = mindex m' k"
  by (simp add: mindex_def)

lemma labelNode_eq:
  obtains node' where "labelled node claim node'"
    and "labelNode r node claim =
      (if has_labels node claim then ret (Inr node')
       else call (PatchNode (claimClient r) node node') (EvPatchNode node node'))"
proof -
  obtain m1 where m1: "setLabel (mmake (Labels node)) LabelNodePool (NodePoolRef (Spec claim)) =
      Some (m1, mindex (mmake (Labels node)) LabelNodePool \<noteq> NodePoolRef (Spec claim))"
    "m1 \<noteq> None" "mindex m1 LabelNodePool = NodePoolRef (Spec claim)"
    "\<And>k. k \<noteq> LabelNodePool \<Longrightarrow> mget m1 k = mget (Labels node) k"
    by (rule setLabel_spec [OF mmake_not_nil]) auto
  obtain m2 where m2: "setLabel m1 LabelNodeClaim (Name claim) = Some (m2, mindex m1 LabelNodeClaim \<noteq> Name claim)"
    "mindex m2 LabelNodeClaim = Name claim" "\<And>k. k \<noteq> LabelNodeClaim \<Longrightarrow> mget m2 k = mget m1 k"
    by (rule setLabel_spec [OF m1(2)]) auto
  have same: "mindex m1 LabelNodeClaim = mindex (Labels node) LabelNodeClaim"
    "mindex (mmake (Labels node)) LabelNodePool = mindex (Labels node) LabelNodePool"
    "mindex m2 LabelNodePool = mindex m1 LabelNodePool"
    using m1(4) m2(3) label_keys_differ by (auto intro!: mindex_cong)
  show thesis
  proof (rule that [of "node\<lparr>Labels := m2\<rparr>"])
    show "labelled node claim (node\<lparr>Labels := m2\<rparr>)"
      using m1 m2 same by (simp add: labelled_def)
    show "labelNode r node claim =
        (if has_labels node claim then ret (Inr (node\<lparr>Labels := m2\<rparr>))
         else call (PatchNode (claimClient r) node (node\<lparr>Labels := m2\<rparr>)) (EvPatchNode node (node\<lparr>Labels := m2\<rparr>)))"
      using m1(1) m2(1) same by (auto simp: labelNode_def Let_def has_labels_def)
  qed
qed

text \<open>
  C25: labelling a node never writes to a nil map. \<open>labelNode\<close> makes no call when both labels are
  right, and otherwise exactly one patch, from the node as it was read to the node with the
  pool and the claim label set and everything else unchanged.
\<close>

theorem labelNode_correct:
  "\<exists>node'. labelled node claim node' \<and>
     wp (labelNode r node claim)
       (\<lambda>res t. if has_labels node claim then t = s \<and> res = Inr node'
                else calls t = calls s @ [EvPatchNode node node' res] \<and>
                     PatchNode (claimClient r) node node' (outside s) = (res, outside t)) s"
proof -
  obtain node' where n: "labelled node claim node'" and "labelNode r node claim =
      (if has_labels node claim then ret (Inr node')
       else call (PatchNode (claimClient r) node node') (EvPatchNode node node'))"
    by (rule labelNode_eq)
  then show ?thesis
    by (intro exI [of _ node']) (auto simp: wp_simps split: prod.splits)
qed

text \<open>Labelling a node that carries the labels makes no call.\<close>

lemma labelled_trans: "labelled node claim node' \<Longrightarrow> labelled node' claim n \<Longrightarrow> labelled node claim n"
  by (cases node; cases node'; cases n) (auto simp: labelled_def)

lemma labelNode_again:
  assumes "labelled node claim node'"
  shows "wp (labelNode r node' claim) (\<lambda>res t. t = s \<and> (\<exists>n. res = Inr n \<and> labelled node claim n)) s"
proof -
  have "has_labels node' claim" using assms by (simp add: labelled_def has_labels_def)
  then obtain n where "labelled node' claim n" "labelNode r node' claim = ret (Inr n)"
    using labelNode_eq [of node' claim r] by auto
  then show ?thesis using labelled_trans [OF assms] by (auto simp: wp_simps)
qed

subsection \<open>Readiness\<close>

text \<open>
  \<open>node_seen\<close>: what a reconcile knows of the node when it writes the status, which is the answer
  of its last call. \<open>ready_ok\<close>: the status it writes has \<open>Ready\<close> true exactly if that node is ready.
\<close>

definition node_seen :: "event list \<Rightarrow> Node option" where
  "node_seen h =
     (if h = [] then None
      else case last h of
        EvGetNode _ (Inr n) \<Rightarrow> Some n
      | EvPatchNode _ _ (Inr n) \<Rightarrow> Some n
      | _ \<Rightarrow> None)"

definition ready_seen :: "event list \<Rightarrow> bool" where
  "ready_seen h = (case node_seen h of None \<Rightarrow> False | Some n \<Rightarrow> isNodeReady n)"

definition ready_ok :: "'w Lib \<Rightarrow> event list \<Rightarrow> event \<Rightarrow> bool" where
  "ready_ok L h e =
     (case e of
        EvUpdateClaimStatus c r \<Rightarrow>
          IsStatusConditionTrue L (Conditions (Status c)) ''Ready'' = ready_seen h
      | _ \<Rightarrow> True)"

definition readiness_done :: "'w Lib \<Rightarrow> outcome \<Rightarrow> event list \<Rightarrow> bool" where
  "readiness_done L out es \<longleftrightarrow>
     (case snd out of
        Some _ \<Rightarrow> fst out = NoRequeue
      | None \<Rightarrow>
          es \<noteq> [] \<and>
          (case last es of
             EvUpdateClaimStatus c (Inr _) \<Rightarrow>
               RequeueAfter (fst out) = (if ready_seen (butlast es) then 0 else nodeRegistrationPoll)
           | _ \<Rightarrow> False))"

lemma isNodeReady_labels: "labelled node claim node' \<Longrightarrow> isNodeReady node' = isNodeReady node"
  by (cases node; cases node') (auto simp: labelled_def isNodeReady_def)

lemma wp_setReady:
  assumes "condition_laws L"
    and "\<And>c w. IsStatusConditionTrue L (Conditions (Status c)) ''Ready'' = (st = ConditionTrue)
      \<Longrightarrow> Q c (s\<lparr>outside := w\<rparr>)"
  shows "wp (setCondition L claim ''Ready'' st reason msg) Q s"
proof (rule wp_setCondition, rule assms(2))
  fix cs w
  assume "SetStatusCondition L (Conditions (Status claim))
       \<lparr>CondType = ''Ready'', CondStatus = st, CondReason = reason, CondMessage = msg\<rparr> (outside s) = (cs, w)"
  then show "IsStatusConditionTrue L (Conditions (Status
      (claim\<lparr>Status := (Status claim)\<lparr>Conditions := cs\<rparr>\<rparr>))) ''Ready'' = (st = ConditionTrue)"
    using assms(1) [unfolded condition_laws_def, rule_format, of "Conditions (Status claim)"] by simp
qed

lemma wp_labelNode_seen:
  assumes "node_seen (calls s) = Some node" "every_call (ready_ok L) [] (calls s)"
    and "\<And>e t. every_call (ready_ok L) [] (calls t) \<Longrightarrow> Q (Inl e) t"
    and "\<And>n t. every_call (ready_ok L) [] (calls t) \<Longrightarrow> ready_seen (calls t) = isNodeReady n \<Longrightarrow> Q (Inr n) t"
  shows "wp (labelNode r node claim) Q s"
proof -
  obtain node' where "labelled node claim node'" and "labelNode r node claim =
      (if has_labels node claim then ret (Inr node')
       else call (PatchNode (claimClient r) node node') (EvPatchNode node node'))"
    by (rule labelNode_eq)
  moreover have "Q res \<lparr>outside = w, calls = calls s @ [EvPatchNode node node' res]\<rparr>" for res w
    using assms(2) by (cases res) (auto intro!: assms(3,4) simp: ready_seen_def node_seen_def ready_ok_def)
  ultimately show ?thesis using assms(1,2)
    by (auto simp: wp_simps ready_seen_def isNodeReady_labels split: prod.splits intro!: assms(4))
qed

text \<open>
  C15: \<open>Ready\<close> tells the truth about the node. In every run of \<open>reconcileReadiness\<close>, the status
  written for the claim has the condition \<open>Ready\<close> true exactly when the node, as last seen, exists
  and its kubelet reports ready; a run without an error ends with the server accepting that status,
  and comes back after the polling interval unless the node was ready.
\<close>

theorem readiness_truthful:
  assumes "condition_laws L"
  shows "wp (reconcileReadiness L r claim)
    (\<lambda>out t. every_call (ready_ok L) [] (calls t) \<and> readiness_done L out (calls t)) (start w)"
  unfolding reconcileReadiness_def Let_def wp_bind
proof (subst wp_call, clarsimp split: prod.splits, goal_cases)
  case (1 res w1)
  show ?case
  proof (cases res)
    case (Inl err)
    then show ?thesis
      by (auto simp: wp_bind wp_ret start_def ready_ok_def readiness_done_def NoRequeue_def ready_seen_def
          node_seen_def kube_constants split: sum.splits intro!: wp_setReady [OF assms] wp_UpdateStatus)
  next
    case (Inr node)
    show ?thesis
      unfolding Inr sum.case wp_bind
    proof (rule wp_labelNode_seen [where L = L], goal_cases)
      case (4 n t)
      then show ?case
        by (auto simp: wp_bind wp_ret kube_constants ready_ok_def readiness_done_def NoRequeue_def
            split: sum.splits intro!: wp_setReady [OF assms] wp_UpdateStatus)
    qed (auto simp: wp_ret start_def node_seen_def ready_ok_def readiness_done_def)
  qed
qed

theorem readiness_truthful_witness:
  "condition_laws bench_lib \<and>
   wp (reconcileReadiness bench_lib bench_reconciler (bench_claim ''proxmox://pve1/101''))
    (\<lambda>out t. every_call (ready_ok bench_lib) [] (calls t) \<and> readiness_done bench_lib out (calls t))
    (start ((bench_cluster (bench_claim ''proxmox://pve1/101''))\<lparr>bNodes :=
      [ObjectMeta.extend (bench_meta ''n1'') (Node.fields
        [\<lparr>CondType = ''Ready'', CondStatus = ''True'', CondReason = [], CondMessage = []\<rparr>])]\<rparr>))"
  using readiness_truthful [OF bench_condition_laws] bench_condition_laws by blast

end
