(* ===== verification/Provisioner.thy ===== *)
theory Provisioner
  imports BenchCluster
begin

text \<open>
  \<open>internal/controller/provisioner_controller.go\<close>: the reconciler that turns scheduling pressure
  into claims. For one pool at a time it counts the pods that wait for the pool, creates the
  claims that are missing up to the pool's limit, and deletes the claims whose nodes have been
  empty for the grace period. The end of the model is the wiring of the watches: which pools an
  event on a pod, a claim or a node brings back into the queue.
\<close>

subsection \<open>The reconciler and its constants\<close>

record 'w ProvisionerReconciler =
  provisionerClient :: "'w Client"
  provisionerScheme :: SchemeRef

definition reevaluateInterval :: int where
  "reevaluateInterval = 30 * Second"

definition emptyGracePeriod :: int where
  "emptyGracePeriod = 5 * Minute"

definition annotationEmptySince :: string where
  "annotationEmptySince = ''xenonite.io/empty-since''"

subsection \<open>Pure helpers\<close>

fun exprs_request :: "NodeSelectorRequirement list \<Rightarrow> string \<Rightarrow> bool" where
  "exprs_request [] poolName = False"
| "exprs_request (expr # exprs) poolName =
     (if Key expr \<noteq> LabelNodePool \<or> Operator expr \<noteq> NodeSelectorOpIn then exprs_request exprs poolName
      else if list_ex (\<lambda>v. v = poolName) (Values expr) then True
      else exprs_request exprs poolName)"

fun terms_request :: "NodeSelectorTerm list \<Rightarrow> string \<Rightarrow> bool" where
  "terms_request [] poolName = False"
| "terms_request (term # terms) poolName =
     (if exprs_request (MatchExpressions term) poolName then True else terms_request terms poolName)"

text \<open>The required node-affinity terms of a pod, \<^const>\<open>None\<close> where one of the pointers on the way is \<open>nil\<close>.\<close>

definition required_terms :: "Pod \<Rightarrow> NodeSelectorTerm list option" where
  "required_terms pod =
     (case Affinity pod of
        None \<Rightarrow> None
      | Some aff \<Rightarrow>
          (case NodeAffinity aff of
             None \<Rightarrow> None
           | Some na \<Rightarrow> map_option NodeSelectorTerms (RequiredDuringSchedulingIgnoredDuringExecution na)))"

definition podRequestsPool :: "Pod \<Rightarrow> string \<Rightarrow> bool" where
  "podRequestsPool pod poolName =
     (if mindex (NodeSelector pod) LabelNodePool = poolName then True
      else case required_terms pod of None \<Rightarrow> False | Some terms \<Rightarrow> terms_request terms poolName)"

definition isPodUnschedulable :: "Pod \<Rightarrow> bool" where
  "isPodUnschedulable pod =
     (if PodNodeName pod \<noteq> [] \<or> Phase pod \<noteq> PodPending then False
      else list_ex (\<lambda>c. CondType c = PodScheduled \<and> CondStatus c = ConditionFalse \<and>
                        CondReason c = PodReasonUnschedulable) (PodConditions pod))"

definition isReschedulablePod :: "'w Lib \<Rightarrow> Pod \<Rightarrow> bool" where
  "isReschedulablePod L pod =
     (if \<not> IsZero L (DeletionTimestamp pod) then False
      else if mget (Annotations pod) ''kubernetes.io/config.mirror'' \<noteq> None then False
      else if list_ex (\<lambda>owner. OwnerKind owner = ''DaemonSet'') (OwnerReferences pod) then False
      else if Phase pod = PodSucceeded \<or> Phase pod = PodFailed then False
      else True)"

definition isClaimReady :: "'w Lib \<Rightarrow> XenonNodeClaim \<Rightarrow> bool" where
  "isClaimReady L claim = IsStatusConditionTrue L (Conditions (Status claim)) ''Ready''"

definition poolNodeLimit :: "'w Lib \<Rightarrow> XenonNodePool \<Rightarrow> int" where
  "poolNodeLimit L pool =
     (case mget (Limits (PoolSpec pool)) ''nodes'' of Some q \<Rightarrow> QuantityValue L q | None \<Rightarrow> 0)"

fun exprs_pool :: "NodeSelectorRequirement list \<Rightarrow> string option" where
  "exprs_pool [] = None"
| "exprs_pool (expr # exprs) =
     (if Key expr = LabelNodePool \<and> Operator expr = NodeSelectorOpIn \<and> Values expr \<noteq> []
      then Some (hd (Values expr)) else exprs_pool exprs)"

fun terms_pool :: "NodeSelectorTerm list \<Rightarrow> string option" where
  "terms_pool [] = None"
| "terms_pool (term # terms) =
     (case exprs_pool (MatchExpressions term) of Some v \<Rightarrow> Some v | None \<Rightarrow> terms_pool terms)"

definition requestedPoolName :: "Pod \<Rightarrow> string" where
  "requestedPoolName pod =
     (if mindex (NodeSelector pod) LabelNodePool \<noteq> [] then mindex (NodeSelector pod) LabelNodePool
      else case required_terms pod of
        None \<Rightarrow> []
      | Some terms \<Rightarrow> (case terms_pool terms of Some v \<Rightarrow> v | None \<Rightarrow> []))"

subsection \<open>Reading the cluster\<close>

definition pendingPodsForPool ::
  "'w ProvisionerReconciler \<Rightarrow> string \<Rightarrow> ('w, error + Pod list) M" where
  "pendingPodsForPool r poolName = do {
     pods \<leftarrow> call (ListPods (provisionerClient r) []) (EvListPods []);
     case pods of
       Inl err \<Rightarrow> ret (Inl err)
     | Inr items \<Rightarrow> ret (Inr (filter (\<lambda>p. isPodUnschedulable p \<and> podRequestsPool p poolName) items))
   }"

definition claimsForPool ::
  "'w ProvisionerReconciler \<Rightarrow> string \<Rightarrow> ('w, error + XenonNodeClaim list) M" where
  "claimsForPool r poolName =
     call (ListClaims (provisionerClient r) [(LabelNodePool, poolName)])
       (EvListClaims [(LabelNodePool, poolName)])"

definition isClaimNodeEmpty ::
  "'w Lib \<Rightarrow> 'w ProvisionerReconciler \<Rightarrow> XenonNodeClaim \<Rightarrow> ('w, error + bool) M" where
  "isClaimNodeEmpty L r claim = do {
     let key = \<lparr>Namespace = [], KeyName = Name claim\<rparr>;
     node \<leftarrow> call (GetNode (provisionerClient r) key) (EvGetNode key);
     case node of
       Inl err \<Rightarrow> if IsNotFound L err then ret (Inr False) else ret (Inl err)
     | Inr node \<Rightarrow> do {
         let sel = [(''spec.nodeName'', Name node)];
         pods \<leftarrow> call (ListPods (provisionerClient r) sel) (EvListPods sel);
         case pods of
           Inl err \<Rightarrow> ret (Inl err)
         | Inr items \<Rightarrow>
             if list_ex (isReschedulablePod L) items then ret (Inr False) else ret (Inr True)
       }
   }"

subsection \<open>The time stamp of an empty node\<close>

text \<open>The two branches that write a stamp patch the claim from what it was to the claim with the stamp.\<close>

definition patchClaim ::
  "'w ProvisionerReconciler \<Rightarrow> XenonNodeClaim \<Rightarrow> XenonNodeClaim \<Rightarrow> ('w, error + XenonNodeClaim) M" where
  "patchClaim r base claim =
     call (PatchClaim (provisionerClient r) base claim) (EvPatchClaim base claim)"

definition stamp ::
  "'w ProvisionerReconciler \<Rightarrow> XenonNodeClaim \<Rightarrow> string gomap \<Rightarrow> int \<Rightarrow> ('w, error + bool) M" where
  "stamp r claim annotations now =
     (case massign annotations annotationEmptySince (FormatRFC3339 now) of
        None \<Rightarrow> ret (Inl PanicNilMap)
      | Some annotations \<Rightarrow> do {
          res \<leftarrow> patchClaim r claim (claim\<lparr>Annotations := annotations\<rparr>);
          case res of Inl err \<Rightarrow> ret (Inl err) | Inr _ \<Rightarrow> ret (Inr False)
        })"

definition markEmptyAndCheckGrace ::
  "'w Lib \<Rightarrow> 'w ProvisionerReconciler \<Rightarrow> XenonNodeClaim \<Rightarrow> ('w, error + bool) M" where
  "markEmptyAndCheckGrace L r claim = do {
     now \<leftarrow> Now L;
     if mindex (Annotations claim) annotationEmptySince = []
     then stamp r claim (mmake (Annotations claim)) now
     else case ParseRFC3339 (mindex (Annotations claim) annotationEmptySince) of
       None \<Rightarrow> stamp r claim (Annotations claim) now
     | Some since \<Rightarrow> ret (Inr (Sub now since \<ge> emptyGracePeriod))
   }"

definition clearEmptySince ::
  "'w ProvisionerReconciler \<Rightarrow> XenonNodeClaim \<Rightarrow> ('w, unit) M" where
  "clearEmptySince r claim =
     (if mindex (Annotations claim) annotationEmptySince = [] then ret ()
      else do {
        _ \<leftarrow> patchClaim r claim (claim\<lparr>Annotations := mdelete (Annotations claim) annotationEmptySince\<rparr>);
        ret ()
      })"

subsection \<open>Scaling\<close>

definition newClaim :: "XenonNodePool \<Rightarrow> XenonNodeClaim" where
  "newClaim pool =
     \<lparr>Name = [], GenerateName = Name pool @ ''-'', Labels = Some [LabelNodePool \<mapsto> Name pool],
      Annotations = None, Finalizers = [], DeletionTimestamp = None, OwnerReferences = [],
      Spec = \<lparr>NodePoolRef = Name pool,
              Requirements = TemplateRequirements (TemplateSpec (Template (PoolSpec pool))),
              Resources = TemplateResources (TemplateSpec (Template (PoolSpec pool)))\<rparr>,
      Status = \<lparr>ProviderID = [], NodeName = [], Capacity = None, Allocatable = None, Conditions = []\<rparr>\<rparr>"

definition createClaim ::
  "'w Lib \<Rightarrow> 'w ProvisionerReconciler \<Rightarrow> XenonNodePool \<Rightarrow> ('w, error option) M" where
  "createClaim L r pool =
     (case SetControllerReference L pool (newClaim pool) of
        Inl err \<Rightarrow> ret (Some err)
      | Inr claim \<Rightarrow> call (CreateClaim (provisionerClient r) claim) (EvCreateClaim claim))"

definition neededClaims :: "'w Lib \<Rightarrow> XenonNodePool \<Rightarrow> Pod list \<Rightarrow> XenonNodeClaim list \<Rightarrow> int" where
  "neededClaims L pool pending claims =
     (let inFlight = int (length (filter (\<lambda>c. \<not> isClaimReady L c) claims));
          needed = int (length pending) - inFlight;
          max = poolNodeLimit L pool
      in if max > 0 \<and> int (length claims) + needed > max then max - int (length claims) else needed)"

fun createClaims :: "'w Lib \<Rightarrow> 'w ProvisionerReconciler \<Rightarrow> XenonNodePool \<Rightarrow> nat \<Rightarrow> ('w, error option) M" where
  "createClaims L r pool 0 = ret None"
| "createClaims L r pool (Suc n) = do {
     err \<leftarrow> createClaim L r pool;
     case err of
       Some err \<Rightarrow> ret (Some err)
     | None \<Rightarrow> createClaims L r pool n
   }"

definition scaleUp ::
  "'w Lib \<Rightarrow> 'w ProvisionerReconciler \<Rightarrow> XenonNodePool \<Rightarrow> Pod list \<Rightarrow> XenonNodeClaim list
   \<Rightarrow> ('w, error option) M" where
  "scaleUp L r pool pending claims =
     (if length pending = 0 then ret None
      else createClaims L r pool (nat (neededClaims L pool pending claims)))"

fun clearAll :: "'w ProvisionerReconciler \<Rightarrow> XenonNodeClaim list \<Rightarrow> ('w, unit) M" where
  "clearAll r [] = ret ()"
| "clearAll r (claim # claims) = do {
     _ \<leftarrow> clearEmptySince r claim;
     clearAll r claims
   }"

definition deleteIdle ::
  "'w Lib \<Rightarrow> 'w ProvisionerReconciler \<Rightarrow> XenonNodeClaim \<Rightarrow> ('w, error option) M" where
  "deleteIdle L r claim = do {
     err \<leftarrow> call (DeleteClaim (provisionerClient r) claim) (EvDeleteClaim claim);
     case err of
       None \<Rightarrow> ret None
     | Some err \<Rightarrow> if \<not> IsNotFound L err then ret (Some err) else ret None
   }"

text \<open>One iteration of the loop of \<open>scaleDown\<close>: \<^const>\<open>Some\<close> is a return, \<^const>\<open>None\<close> the next claim.\<close>

definition scaleDownClaim ::
  "'w Lib \<Rightarrow> 'w ProvisionerReconciler \<Rightarrow> XenonNodeClaim \<Rightarrow> ('w, error option) M" where
  "scaleDownClaim L r claim =
     (if \<not> IsZero L (DeletionTimestamp claim) then ret None
      else do {
        nodeEmpty \<leftarrow> isClaimNodeEmpty L r claim;
        case nodeEmpty of
          Inl err \<Rightarrow> ret (Some err)
        | Inr nodeEmpty \<Rightarrow>
            if \<not> nodeEmpty then do { _ \<leftarrow> clearEmptySince r claim; ret None }
            else do {
              expired \<leftarrow> markEmptyAndCheckGrace L r claim;
              case expired of
                Inl err \<Rightarrow> ret (Some err)
              | Inr expired \<Rightarrow> if expired then deleteIdle L r claim else ret None
            }
      })"

fun scaleDownClaims ::
  "'w Lib \<Rightarrow> 'w ProvisionerReconciler \<Rightarrow> XenonNodeClaim list \<Rightarrow> ('w, error option) M" where
  "scaleDownClaims L r [] = ret None"
| "scaleDownClaims L r (claim # claims) = do {
     err \<leftarrow> scaleDownClaim L r claim;
     case err of
       Some err \<Rightarrow> ret (Some err)
     | None \<Rightarrow> scaleDownClaims L r claims
   }"

definition scaleDown ::
  "'w Lib \<Rightarrow> 'w ProvisionerReconciler \<Rightarrow> XenonNodePool \<Rightarrow> Pod list \<Rightarrow> XenonNodeClaim list
   \<Rightarrow> ('w, error option) M" where
  "scaleDown L r pool pending claims =
     (if length pending > 0 then do { _ \<leftarrow> clearAll r claims; ret None }
      else scaleDownClaims L r claims)"

definition updateStatus ::
  "'w Lib \<Rightarrow> 'w ProvisionerReconciler \<Rightarrow> XenonNodePool \<Rightarrow> nat \<Rightarrow> ('w, unit) M" where
  "updateStatus L r pool claimCount = do {
     cs \<leftarrow> effect (SetStatusCondition L (PoolConditions (PoolStatus pool))
       \<lparr>CondType = ''Active'', CondStatus = ConditionTrue, CondReason = ''Reconciled'',
        CondMessage = ''pool reconciled''\<rparr>);
     let pool = pool\<lparr>PoolStatus := (PoolStatus pool)\<lparr>PoolConditions := cs\<rparr>\<rparr>;
     _ \<leftarrow> call (StatusUpdatePool (provisionerClient r) pool) (EvUpdatePoolStatus pool);
     ret ()
   }"

subsection \<open>Reconcile\<close>

text \<open>\<open>scalePool\<close> is what \<open>Reconcile\<close> does once the pods and the claims of the pool are known.\<close>

definition scalePool ::
  "'w Lib \<Rightarrow> 'w ProvisionerReconciler \<Rightarrow> XenonNodePool \<Rightarrow> Pod list \<Rightarrow> XenonNodeClaim list
   \<Rightarrow> ('w, outcome) M" where
  "scalePool L r pool pendingPods claims = do {
     err \<leftarrow> scaleUp L r pool pendingPods claims;
     case err of
       Some err \<Rightarrow> ret (NoRequeue, Some err)
     | None \<Rightarrow> do {
         err \<leftarrow> scaleDown L r pool pendingPods claims;
         case err of
           Some err \<Rightarrow> ret (NoRequeue, Some err)
         | None \<Rightarrow> do {
             _ \<leftarrow> updateStatus L r pool (length claims);
             ret (\<lparr>RequeueAfter = reevaluateInterval\<rparr>, None)
           }
       }
   }"

definition reconcilePool ::
  "'w Lib \<Rightarrow> 'w ProvisionerReconciler \<Rightarrow> NamespacedName \<Rightarrow> ('w, outcome) M" where
  "reconcilePool L r req = do {
     pool \<leftarrow> call (GetPool (provisionerClient r) req) (EvGetPool req);
     case pool of
       Inl err \<Rightarrow> ret (NoRequeue, IgnoreNotFound L err)
     | Inr pool \<Rightarrow>
         if \<not> IsZero L (DeletionTimestamp pool) then ret (NoRequeue, None)
         else do {
           pendingPods \<leftarrow> pendingPodsForPool r (Name pool);
           case pendingPods of
             Inl err \<Rightarrow> ret (NoRequeue, Some err)
           | Inr pendingPods \<Rightarrow> do {
               claims \<leftarrow> claimsForPool r (Name pool);
               case claims of
                 Inl err \<Rightarrow> ret (NoRequeue, Some err)
               | Inr claims \<Rightarrow> scalePool L r pool pendingPods claims
             }
         }
   }"

subsection \<open>Watches\<close>

definition poolForPod :: "Object \<Rightarrow> NamespacedName list" where
  "poolForPod obj =
     (case obj of
        PodObject pod \<Rightarrow>
          let name = requestedPoolName pod in if name = [] then [] else [request name]
      | _ \<Rightarrow> [])"

definition poolForClaim :: "Object \<Rightarrow> NamespacedName list" where
  "poolForClaim obj =
     (case obj of
        ClaimObject claim \<Rightarrow>
          if NodePoolRef (Spec claim) = [] then [] else [request (NodePoolRef (Spec claim))]
      | _ \<Rightarrow> [])"

definition poolForNode :: "Object \<Rightarrow> NamespacedName list" where
  "poolForNode obj =
     (case obj of
        NodeObject node \<Rightarrow>
          let name = mindex (Labels node) LabelNodePool in if name = [] then [] else [request name]
      | _ \<Rightarrow> [])"

text \<open>
  \<open>SetupWithManager\<close>: the field index of the pods (\<^const>\<open>None\<close> is the panic of the type assertion)
  and, for an event on an object, the requests of the \<open>For\<close> and \<open>Watches\<close> clauses.
\<close>

definition indexPodNodeName :: "Object \<Rightarrow> string list option" where
  "indexPodNodeName obj = (case obj of PodObject pod \<Rightarrow> Some [PodNodeName pod] | _ \<Rightarrow> None)"

definition enqueued :: "Object \<Rightarrow> NamespacedName list" where
  "enqueued obj =
     (case obj of
        PoolObject pool \<Rightarrow> [request (Name pool)]
      | PodObject _ \<Rightarrow> poolForPod obj
      | ClaimObject _ \<Rightarrow> poolForClaim obj
      | NodeObject _ \<Rightarrow> poolForNode obj)"

subsection \<open>How many claims are created\<close>

definition claims_to_create :: "'w Lib \<Rightarrow> XenonNodePool \<Rightarrow> Pod list \<Rightarrow> XenonNodeClaim list \<Rightarrow> nat" where
  "claims_to_create L pool pending claims =
     (if pending = [] then 0 else nat (neededClaims L pool pending claims))"

definition creates_for :: "'w Lib \<Rightarrow> XenonNodePool \<Rightarrow> event \<Rightarrow> bool" where
  "creates_for L pool e =
     (case e of EvCreateClaim c _ \<Rightarrow> SetControllerReference L pool (newClaim pool) = Inr c | _ \<Rightarrow> False)"

definition create_succeeded :: "event \<Rightarrow> bool" where
  "create_succeeded e = (case e of EvCreateClaim _ None \<Rightarrow> True | _ \<Rightarrow> False)"

definition created_exactly :: "'w Lib \<Rightarrow> XenonNodePool \<Rightarrow> nat \<Rightarrow> error option \<Rightarrow> event list \<Rightarrow> bool" where
  "created_exactly L pool n err es \<longleftrightarrow>
     list_all (creates_for L pool) es \<and> length es \<le> n \<and>
     (case err of
        None \<Rightarrow> length es = n \<and> list_all create_succeeded es
      | Some _ \<Rightarrow>
          if isl (SetControllerReference L pool (newClaim pool)) then es = []
          else es \<noteq> [] \<and> list_all create_succeeded (butlast es) \<and> \<not> create_succeeded (last es))"

lemma created_exactly_Cons:
  "created_exactly L pool n err es \<Longrightarrow> creates_for L pool e \<Longrightarrow> create_succeeded e
   \<Longrightarrow> created_exactly L pool (Suc n) err (e # es)"
  by (cases "SetControllerReference L pool (newClaim pool)"; cases es rule: rev_cases)
    (auto simp: created_exactly_def creates_for_def split: option.splits event.splits)

lemma wp_createClaims:
  "wp (createClaims L r pool n) (\<lambda>err t. \<exists>es. calls t = calls s @ es \<and> created_exactly L pool n err es) s"
proof (induction n arbitrary: s)
  case 0
  then show ?case by (simp add: wp_simps created_exactly_def)
next
  case (Suc n)
  show ?case
  proof (cases "SetControllerReference L pool (newClaim pool)")
    case (Inl e)
    then show ?thesis by (simp add: createClaim_def wp_simps created_exactly_def)
  next
    case (Inr c)
    have "wp (createClaims L r pool n) (\<lambda>err t. \<exists>es. calls t = calls s @ es \<and> created_exactly L pool (Suc n) err es)
        \<lparr>outside = w, calls = calls s @ [EvCreateClaim c None]\<rparr>" for w
      by (rule wp_mono [OF Suc.IH])
        (use Inr in \<open>fastforce intro: created_exactly_Cons simp: creates_for_def create_succeeded_def\<close>)
    moreover have "created_exactly L pool (Suc n) (Some e) [EvCreateClaim c (Some e)]" for e
      using Inr by (simp add: created_exactly_def creates_for_def create_succeeded_def)
    ultimately show ?thesis using Inr
      by (auto simp: createClaim_def wp_simps split: prod.splits option.split)
  qed
qed

lemma scaleUp_trace:
  "wp (scaleUp L r pool pending claims)
     (\<lambda>err t. \<exists>es. calls t = calls s @ es \<and>
        created_exactly L pool (claims_to_create L pool pending claims) err es) s"
proof (cases "pending = []")
  case True
  then show ?thesis by (simp add: scaleUp_def wp_simps claims_to_create_def created_exactly_def)
next
  case False
  then show ?thesis using wp_createClaims by (simp add: scaleUp_def claims_to_create_def)
qed

definition in_flight :: "'w Lib \<Rightarrow> XenonNodeClaim list \<Rightarrow> nat" where
  "in_flight L claims = length (filter (\<lambda>c. \<not> isClaimReady L c) claims)"

text \<open>
  C7: the number of claims to create is right. No more than the waiting pods that no claim in
  flight covers; never past a positive limit of the pool; and as many as these two allow.
\<close>

theorem claims_to_create_right:
  "claims_to_create L pool pending claims =
     (let uncovered = length pending - in_flight L claims
      in if poolNodeLimit L pool \<le> 0 then uncovered
         else min uncovered (nat (poolNodeLimit L pool) - length claims))"
  by (auto simp: claims_to_create_def neededClaims_def in_flight_def Let_def)

subsection \<open>When a claim is deleted\<close>

text \<open>
  \<open>idle_check\<close>: the three calls that find a claim idle past the grace period. Its node exists, hosts no
  pod that would have to move, and carries a stamp that is at least the grace period old.
\<close>

definition stamped_since :: "XenonNodeClaim \<Rightarrow> int option" where
  "stamped_since claim =
     (if mindex (Annotations claim) annotationEmptySince = [] then None
      else ParseRFC3339 (mindex (Annotations claim) annotationEmptySince))"

definition node_key :: "XenonNodeClaim \<Rightarrow> NamespacedName" where
  "node_key claim = \<lparr>Namespace = [], KeyName = Name claim\<rparr>"

definition idle_check :: "'w Lib \<Rightarrow> XenonNodeClaim \<Rightarrow> event list \<Rightarrow> bool" where
  "idle_check L claim h \<longleftrightarrow>
     (\<exists>node items now since.
        h = [EvGetNode (node_key claim) (Inr node), EvListPods [(''spec.nodeName'', Name node)] (Inr items),
             EvNow now] \<and>
        IsZero L (DeletionTimestamp claim) \<and> \<not> list_ex (isReschedulablePod L) items \<and>
        stamped_since claim = Some since \<and> emptyGracePeriod \<le> now - since)"

definition is_delete :: "event \<Rightarrow> bool" where
  "is_delete e \<longleftrightarrow> (case e of EvDeleteClaim _ _ \<Rightarrow> True | _ \<Rightarrow> False)"

definition is_creation :: "event \<Rightarrow> bool" where
  "is_creation e \<longleftrightarrow> (case e of EvCreateClaim _ _ \<Rightarrow> True | _ \<Rightarrow> False)"

definition is_scaling :: "event \<Rightarrow> bool" where
  "is_scaling e \<longleftrightarrow> is_delete e \<or> is_creation e"

lemmas scaling_defs = is_scaling_def is_delete_def is_creation_def

definition scale_down_trace :: "'w Lib \<Rightarrow> XenonNodeClaim \<Rightarrow> event list \<Rightarrow> bool" where
  "scale_down_trace L claim es \<longleftrightarrow>
     (if idle_check L claim (take 3 es) then \<exists>x. es = take 3 es @ [EvDeleteClaim claim x]
      else \<not> list_ex is_scaling es)"

lemma Sub_grace: "emptyGracePeriod \<le> Sub now since \<longleftrightarrow> emptyGracePeriod \<le> now - since"
  by (rule Sub_ge_iff) (simp_all add: emptyGracePeriod_def Minute_def Second_def nanos_def)

lemma wp_isClaimNodeEmpty:
  assumes "\<And>e w. IsNotFound L e \<Longrightarrow> Q (Inr False) \<lparr>outside = w, calls = calls s @ [EvGetNode (node_key claim) (Inl e)]\<rparr>"
    and "\<And>e w. Q (Inl e) \<lparr>outside = w, calls = calls s @ [EvGetNode (node_key claim) (Inl e)]\<rparr>"
    and "\<And>node e w. Q (Inl e) \<lparr>outside = w, calls = calls s @
      [EvGetNode (node_key claim) (Inr node), EvListPods [(''spec.nodeName'', Name node)] (Inl e)]\<rparr>"
    and "\<And>node items w. Q (Inr (\<not> list_ex (isReschedulablePod L) items)) \<lparr>outside = w, calls = calls s @
      [EvGetNode (node_key claim) (Inr node), EvListPods [(''spec.nodeName'', Name node)] (Inr items)]\<rparr>"
  shows "wp (isClaimNodeEmpty L r claim) Q s"
proof -
  have "Q (Inr False) \<lparr>outside = w, calls = calls s @
      [EvGetNode (node_key claim) (Inr node), EvListPods [(''spec.nodeName'', Name node)] (Inr items)]\<rparr>"
    if "list_ex (isReschedulablePod L) items" for node items w
    using assms(4) [of items w node] that by simp
  moreover have "Q (Inr True) \<lparr>outside = w, calls = calls s @
      [EvGetNode (node_key claim) (Inr node), EvListPods [(''spec.nodeName'', Name node)] (Inr items)]\<rparr>"
    if "\<not> list_ex (isReschedulablePod L) items" for node items w
    using assms(4) [of items w node] that by simp
  ultimately show ?thesis
    unfolding isClaimNodeEmpty_def Let_def node_key_def [symmetric]
    by (simp add: wp_simps assms(1-3) split: prod.split sum.split)
qed

lemma wp_clearEmptySince:
  assumes "Q () s"
    and "\<And>x w. Q () \<lparr>outside = w, calls = calls s @ [EvPatchClaim claim
      (claim\<lparr>Annotations := mdelete (Annotations claim) annotationEmptySince\<rparr>) x]\<rparr>"
  shows "wp (clearEmptySince r claim) Q s"
  unfolding clearEmptySince_def patchClaim_def by (simp add: wp_simps assms split: prod.split)

text \<open>The stamped claim: the annotation holds the time in RFC 3339, everything else is as it was.\<close>

definition stamped :: "XenonNodeClaim \<Rightarrow> int \<Rightarrow> XenonNodeClaim \<Rightarrow> bool" where
  "stamped claim now claim' \<longleftrightarrow>
     (\<exists>m. Annotations claim' = Some m \<and> m annotationEmptySince = Some (FormatRFC3339 now) \<and>
        (\<forall>k. k \<noteq> annotationEmptySince \<longrightarrow> m k = mget (Annotations claim) k)) \<and>
     claim'\<lparr>Annotations := Annotations claim\<rparr> = claim"

lemma wp_stamp:
  assumes "annotations \<noteq> None" "\<And>k. mget annotations k = mget (Annotations claim) k"
    and "\<And>claim' x w. stamped claim now claim' \<Longrightarrow>
      Q (case x of Inl err \<Rightarrow> Inl err | Inr _ \<Rightarrow> Inr False)
        \<lparr>outside = w, calls = calls s @ [EvPatchClaim claim claim' x]\<rparr>"
  shows "wp (stamp r claim annotations now) Q s"
proof -
  obtain m where m: "annotations = Some m" using assms(1) by auto
  let ?c = "claim\<lparr>Annotations := Some (m(annotationEmptySince \<mapsto> FormatRFC3339 now))\<rparr>"
  have "stamped claim now ?c"
    using assms(2) m by (auto simp: stamped_def)
  from assms(3) [OF this, of "Inl _"] assms(3) [OF this, of "Inr _"] show ?thesis
    unfolding stamp_def patchClaim_def m by (simp add: wp_simps split: prod.split sum.split)
qed

lemma wp_markEmptyAndCheckGrace:
  assumes "\<And>now claim' x w. stamped_since claim = None \<Longrightarrow> stamped claim now claim' \<Longrightarrow>
      Q (case x of Inl err \<Rightarrow> Inl err | Inr _ \<Rightarrow> Inr False)
        \<lparr>outside = w, calls = calls s @ [EvNow now, EvPatchClaim claim claim' x]\<rparr>"
    and "\<And>now since w. stamped_since claim = Some since \<Longrightarrow>
      Q (Inr (emptyGracePeriod \<le> now - since)) \<lparr>outside = w, calls = calls s @ [EvNow now]\<rparr>"
  shows "wp (markEmptyAndCheckGrace L r claim) Q s"
proof -
  have "Annotations claim \<noteq> None" if "mindex (Annotations claim) annotationEmptySince \<noteq> []"
    using that by (cases "Annotations claim") (auto simp: mindex_def)
  moreover obtain m where "mmake (Annotations claim) = Some m" "\<And>k. m k = mget (Annotations claim) k"
    by (cases "Annotations claim") (auto simp: mmake_def)
  ultimately show ?thesis
    unfolding markEmptyAndCheckGrace_def Now_def
    by (auto simp: wp_simps Sub_grace stamped_since_def
        split: prod.splits option.splits intro!: wp_stamp assms)
qed

lemma wp_deleteIdle:
  assumes "\<And>e x w. Q e \<lparr>outside = w, calls = calls s @ [EvDeleteClaim claim x]\<rparr>"
  shows "wp (deleteIdle L r claim) Q s"
  unfolding deleteIdle_def by (simp add: wp_simps assms split: prod.split option.split)

lemma scale_down_trace_simps:
  "scale_down_trace L claim []"
  "scale_down_trace L claim [EvGetNode k x]"
  "scale_down_trace L claim [EvGetNode k (Inl e), EvPatchClaim c c' y]"
  "scale_down_trace L claim [EvGetNode k x, EvListPods sel z]"
  "scale_down_trace L claim [EvGetNode k x, EvListPods sel z, EvPatchClaim c c' y]"
  by (auto simp: scale_down_trace_def scaling_defs idle_check_def)

lemma scale_down_trace_checked:
  assumes "IsZero L (DeletionTimestamp claim)" "\<not> list_ex (isReschedulablePod L) items"
  shows "stamped_since claim = None \<Longrightarrow> scale_down_trace L claim
      [EvGetNode (node_key claim) (Inr node), EvListPods [(''spec.nodeName'', Name node)] (Inr items), EvNow now,
       EvPatchClaim c c' y]"
    and "stamped_since claim = Some since \<Longrightarrow> emptyGracePeriod \<le> now - since \<Longrightarrow> scale_down_trace L claim
      [EvGetNode (node_key claim) (Inr node), EvListPods [(''spec.nodeName'', Name node)] (Inr items), EvNow now,
       EvDeleteClaim claim x]"
    and "stamped_since claim = Some since \<Longrightarrow> \<not> emptyGracePeriod \<le> now - since \<Longrightarrow> scale_down_trace L claim
      [EvGetNode (node_key claim) (Inr node), EvListPods [(''spec.nodeName'', Name node)] (Inr items), EvNow now]"
  using assms by (auto simp: scale_down_trace_def scaling_defs idle_check_def)

lemma scaleDownClaim_trace:
  "wp (scaleDownClaim L r claim) (\<lambda>err t. \<exists>es. calls t = calls s @ es \<and> scale_down_trace L claim es) s"
  unfolding scaleDownClaim_def
  by (auto simp: wp_bind wp_ret scale_down_trace_simps scale_down_trace_checked split: sum.split if_splits
      intro!: wp_isClaimNodeEmpty wp_clearEmptySince wp_markEmptyAndCheckGrace wp_deleteIdle)

text \<open>
  C12: a claim is deleted exactly when its node is idle past the grace period. Given what the
  cluster and the clock answer, one step of \<open>scaleDown\<close> on a claim that is not already being deleted
  asks for its deletion if and only if no pod on its node would have to move and the claim carries a
  readable stamp that is at least the grace period old.
\<close>

theorem scaleDownClaim_iff_idle:
  assumes "GetNode (provisionerClient r) (node_key claim) w = (Inr node, w1)"
    and "ListPods (provisionerClient r) [(''spec.nodeName'', Name node)] w1 = (Inr items, w2)"
    and "TimeNow L w2 = (now, w3)" "IsZero L (DeletionTimestamp claim)"
  shows "list_ex is_delete (calls (snd (run_state (scaleDownClaim L r claim) (start w)))) \<longleftrightarrow>
    \<not> list_ex (isReschedulablePod L) items \<and>
    (case stamped_since claim of None \<Rightarrow> False | Some since \<Rightarrow> emptyGracePeriod \<le> now - since)"
proof -
  have "wp (scaleDownClaim L r claim) (\<lambda>_ t. list_ex is_delete (calls t) \<longleftrightarrow>
      \<not> list_ex (isReschedulablePod L) items \<and>
      (case stamped_since claim of None \<Rightarrow> False | Some since \<Rightarrow> emptyGracePeriod \<le> now - since)) (start w)"
    unfolding scaleDownClaim_def isClaimNodeEmpty_def Let_def node_key_def [symmetric] clearEmptySince_def
      markEmptyAndCheckGrace_def stamp_def patchClaim_def deleteIdle_def Now_def start_def
    using assms
    by (auto simp: wp_simps is_delete_def stamped_since_def Sub_grace split: prod.splits sum.splits option.splits)
  then show ?thesis by (simp add: wp_def split: prod.splits)
qed

subsection \<open>A whole reconcile of a pool\<close>

text \<open>
  \<open>delete_ok\<close>: a deletion is of a claim that was listed for the pool, at a time when no pod was waiting
  for the pool, and the three calls before it find the claim idle past the grace period.
\<close>

definition waiting :: "string \<Rightarrow> Pod list \<Rightarrow> Pod list" where
  "waiting poolName pods = filter (\<lambda>p. isPodUnschedulable p \<and> podRequestsPool p poolName) pods"

definition listed :: "NamespacedName \<Rightarrow> XenonNodePool \<Rightarrow> Pod list \<Rightarrow> XenonNodeClaim list \<Rightarrow> event list" where
  "listed req pool pods claims =
     [EvGetPool req (Inr pool), EvListPods [] (Inr pods),
      EvListClaims [(LabelNodePool, Name pool)] (Inr claims)]"

definition idle_ok :: "'w Lib \<Rightarrow> XenonNodeClaim list \<Rightarrow> event list \<Rightarrow> event \<Rightarrow> bool" where
  "idle_ok L claims h e =
     (case e of
        EvDeleteClaim c _ \<Rightarrow> c \<in> set claims \<and> (\<exists>pre chk. h = pre @ chk \<and> idle_check L c chk)
      | EvCreateClaim _ _ \<Rightarrow> False
      | _ \<Rightarrow> True)"

definition delete_ok :: "'w Lib \<Rightarrow> NamespacedName \<Rightarrow> event list \<Rightarrow> event \<Rightarrow> bool" where
  "delete_ok L req h e =
     (case e of
        EvDeleteClaim c _ \<Rightarrow>
          (\<exists>pool pods claims rest chk. h = listed req pool pods claims @ rest @ chk \<and>
             waiting (Name pool) pods = [] \<and> c \<in> set claims \<and> idle_check L c chk)
      | _ \<Rightarrow> True)"

lemma not_delete_ok: "\<not> is_scaling e \<Longrightarrow> idle_ok L claims h e" "\<not> is_delete e \<Longrightarrow> delete_ok L req h e"
  by (cases e; simp add: scaling_defs idle_ok_def delete_ok_def)+

lemma not_delete_every:
  "\<not> list_ex is_scaling es \<Longrightarrow> every_call (idle_ok L claims) h es"
  "\<not> list_ex is_delete es \<Longrightarrow> every_call (delete_ok L req) h es"
  by (induction es arbitrary: h) (auto simp: not_delete_ok)

lemma scale_down_trace_idle:
  assumes "scale_down_trace L claim es"
  shows "every_call (idle_ok L (claim # claims)) h es"
proof (cases "idle_check L claim (take 3 es)")
  case True
  then obtain x where es: "es = take 3 es @ [EvDeleteClaim claim x]"
    using assms by (auto simp: scale_down_trace_def)
  have "\<not> list_ex is_scaling (take 3 es)"
    using True by (auto simp: idle_check_def scaling_defs)
  then have "every_call (idle_ok L (claim # claims)) h (take 3 es @ [EvDeleteClaim claim x])"
    using True by (auto simp: not_delete_every idle_ok_def)
  then show ?thesis using es by simp
next
  case False
  then show ?thesis using assms by (simp add: scale_down_trace_def not_delete_every)
qed

lemma every_call_mono: "every_call P h es \<Longrightarrow> (\<And>h e. P h e \<Longrightarrow> Q h e) \<Longrightarrow> every_call Q h es"
  by (induction es arbitrary: h) auto

lemma wp_scaleDownClaims:
  "wp (scaleDownClaims L r claims)
     (\<lambda>err t. \<exists>es. calls t = calls s @ es \<and> every_call (idle_ok L claims) (calls s) es) s"
proof (induction claims arbitrary: s)
  case Nil
  then show ?case by (simp add: wp_simps)
next
  case (Cons claim claims)
  have more: "idle_ok L claims h e \<Longrightarrow> idle_ok L (claim # claims) h e" for h e
    by (cases e) (auto simp: idle_ok_def)
  show ?case
    unfolding scaleDownClaims.simps wp_bind
  proof (rule wp_mono [OF scaleDownClaim_trace], goal_cases)
    case (1 err t)
    then obtain es where es: "calls t = calls s @ es" "every_call (idle_ok L (claim # claims)) (calls s) es"
      using scale_down_trace_idle by blast
    have "wp (scaleDownClaims L r claims)
        (\<lambda>err u. \<exists>es. calls u = calls s @ es \<and> every_call (idle_ok L (claim # claims)) (calls s) es) t"
      by (rule wp_mono [OF Cons.IH]) (use es in \<open>auto intro: every_call_mono [OF _ more]\<close>)
    then show ?case using es by (auto simp: wp_ret split: option.split)
  qed
qed

definition is_patch :: "event \<Rightarrow> bool" where
  "is_patch e \<longleftrightarrow> (case e of EvPatchClaim _ _ _ \<Rightarrow> True | _ \<Rightarrow> False)"

lemma wp_clearAll:
  assumes "\<And>w es. list_all is_patch es \<Longrightarrow> Q () \<lparr>outside = w, calls = calls s @ es\<rparr>"
  shows "wp (clearAll r claims) Q s"
  using assms
proof (induction claims arbitrary: s)
  case Nil
  from Nil [of "[]" "outside s"] show ?case by (cases s) (simp add: wp_simps)
next
  case (Cons claim claims)
  have "wp (clearAll r claims) Q \<lparr>outside = w, calls = calls s @ es\<rparr>" if "list_all is_patch es" for w es
    by (rule Cons.IH) (use that Cons.prems [of "es @ _"] in simp)
  from this [of "[]" "outside s"] this [of "[EvPatchClaim _ _ _]"] show ?case
    by (cases s) (auto simp: wp_bind is_patch_def intro!: wp_clearEmptySince)
qed

lemma no_deletes:
  "list_all is_patch es \<Longrightarrow> \<not> list_ex is_delete es"
  "list_all (creates_for L pool) es \<Longrightarrow> \<not> list_ex is_delete es"
  by (auto simp: list_all_iff list_ex_iff is_patch_def creates_for_def is_delete_def split: event.splits)

lemma wp_updateStatus:
  assumes "\<And>p x w. Q () \<lparr>outside = w, calls = calls s @ [EvUpdatePoolStatus p x]\<rparr>"
  shows "wp (updateStatus L r pool n) Q s"
  unfolding updateStatus_def Let_def by (simp add: wp_simps assms split: prod.split)

text \<open>What \<open>scaleDown\<close> calls: patches only while pods wait, and otherwise deletions of idle claims.\<close>

lemma wp_scaleDown:
  "wp (scaleDown L r pool pending claims)
     (\<lambda>err t. \<exists>es. calls t = calls s @ es \<and>
        (if pending = [] then every_call (idle_ok L claims) (calls s) es else list_all is_patch es)) s"
  using wp_scaleDownClaims [of L r claims s]
  by (auto simp: scaleDown_def wp_bind wp_ret intro!: wp_clearAll)

lemma idle_ok_no_creation: "every_call (idle_ok L claims) h es \<Longrightarrow> \<not> list_ex is_creation es"
  by (induction es arbitrary: h) (auto simp: is_creation_def idle_ok_def split: event.splits)

text \<open>The calls of \<open>scalePool\<close>: first creations, then \<open>scaleDown\<close>, then at most one status update.\<close>

definition scale_trace ::
  "'w Lib \<Rightarrow> XenonNodePool \<Rightarrow> Pod list \<Rightarrow> XenonNodeClaim list \<Rightarrow> event list \<Rightarrow> outcome \<Rightarrow> event list \<Rightarrow> bool" where
  "scale_trace L pool pending claims h out es \<longleftrightarrow>
     (\<exists>up err down st. es = up @ down @ st \<and>
        created_exactly L pool (claims_to_create L pool pending claims) err up \<and>
        (if pending = [] then every_call (idle_ok L claims) (h @ up) down else list_all is_patch down) \<and>
        (case snd out of
           None \<Rightarrow> err = None \<and> RequeueAfter (fst out) = reevaluateInterval \<and> (\<exists>p x. st = [EvUpdatePoolStatus p x])
         | Some _ \<Rightarrow> fst out = NoRequeue \<and> st = []))"

lemma wp_scalePool:
  "wp (scalePool L r pool pending claims)
     (\<lambda>out t. \<exists>es. calls t = calls s @ es \<and> scale_trace L pool pending claims (calls s) out es) s"
  unfolding scalePool_def wp_bind
proof (rule wp_mono [OF scaleUp_trace], goal_cases)
  case (1 err t)
  then obtain up where up: "calls t = calls s @ up"
    "created_exactly L pool (claims_to_create L pool pending claims) err up" by blast
  show ?case
  proof (cases err)
    case (Some e)
    have "scale_trace L pool pending claims (calls s) (NoRequeue, Some e) up"
      unfolding scale_trace_def using up Some by (intro exI [of _ up] exI [of _ "Some e"] exI [of _ "[]"]) auto
    then show ?thesis using up Some by (auto simp: wp_ret)
  next
    case None
    show ?thesis
      unfolding None option.case wp_bind
    proof (rule wp_mono [OF wp_scaleDown], goal_cases)
      case (1 err2 u)
      then obtain down where down: "calls u = calls s @ up @ down"
        "if pending = [] then every_call (idle_ok L claims) (calls s @ up) down else list_all is_patch down"
        using 1 [unfolded up(1)] by auto
      have "scale_trace L pool pending claims (calls s) (NoRequeue, Some e) (up @ down)" for e
        unfolding scale_trace_def using up down None
        by (intro exI [of _ up] exI [of _ "None"] exI [of _ down] exI [of _ "[]"]) auto
      moreover have "scale_trace L pool pending claims (calls s)
          (\<lparr>RequeueAfter = reevaluateInterval\<rparr>, None) (up @ down @ [EvUpdatePoolStatus p x])" for p x
        unfolding scale_trace_def using up down None
        by (intro exI [of _ up] exI [of _ "None"] exI [of _ down] exI [of _ "[EvUpdatePoolStatus p x]"]) auto
      ultimately show ?case using down
        by (auto simp: wp_bind wp_ret split: option.split intro!: wp_updateStatus)
    qed
  qed
qed

definition reads_cluster :: "event \<Rightarrow> bool" where
  "reads_cluster e \<longleftrightarrow>
     (case e of EvGetPool _ _ \<Rightarrow> True | EvListPods _ _ \<Rightarrow> True | EvListClaims _ _ \<Rightarrow> True | _ \<Rightarrow> False)"

definition completely_listed :: "event list \<Rightarrow> bool" where
  "completely_listed es \<longleftrightarrow> (\<exists>req pool pods claims rest. es = listed req pool pods claims @ rest)"

lemma wp_reconcilePool:
  assumes "\<And>out w es. list_all reads_cluster es \<Longrightarrow> \<not> completely_listed es
      \<Longrightarrow> fst out = NoRequeue \<Longrightarrow> Q out \<lparr>outside = w, calls = es\<rparr>"
    and "\<And>out pool pods claims t es. IsZero L (DeletionTimestamp pool)
      \<Longrightarrow> scale_trace L pool (waiting (Name pool) pods) claims (listed req pool pods claims) out es
      \<Longrightarrow> calls t = listed req pool pods claims @ es \<Longrightarrow> Q out t"
  shows "wp (reconcilePool L r req) Q (start w)"
proof -
  have "wp (scalePool L r pool (waiting (Name pool) pods) claims) Q
      \<lparr>outside = w, calls = listed req pool pods claims\<rparr>" if "IsZero L (DeletionTimestamp pool)"
    for pool pods claims w
    by (rule wp_mono [OF wp_scalePool]) (use assms(2) that in auto)
  then show ?thesis
    unfolding reconcilePool_def pendingPodsForPool_def claimsForPool_def waiting_def [symmetric] start_def
    by (auto simp: wp_simps reads_cluster_def completely_listed_def listed_def
        split: prod.splits sum.splits intro!: assms(1))
qed

lemma idle_after_listing:
  assumes "waiting (Name pool) pods = []" "idle_ok L claims (listed req pool pods claims @ h) e"
  shows "delete_ok L req (listed req pool pods claims @ h) e"
proof (cases "is_delete e")
  case True
  then obtain c x where e: "e = EvDeleteClaim c x" by (auto simp: is_delete_def split: event.splits)
  then obtain pre chk where c: "c \<in> set claims" and chk: "idle_check L c chk"
    and h: "listed req pool pods claims @ h = pre @ chk" using assms(2) by (auto simp: idle_ok_def)
  have "\<exists>rest. h = rest @ chk"
    using h chk by (auto simp: append_eq_append_conv2 idle_check_def listed_def append_eq_Cons_conv Cons_eq_append_conv)
  then show ?thesis unfolding delete_ok_def e event.case using assms(1) c chk by blast
qed (simp add: not_delete_ok)

lemma scale_trace_deletes:
  assumes "scale_trace L pool (waiting (Name pool) pods) claims (listed req pool pods claims) out es"
  shows "every_call (delete_ok L req) (listed req pool pods claims) es"
proof -
  let ?h = "listed req pool pods claims"
  from assms obtain up err down st where es: "es = up @ down @ st"
    and up: "created_exactly L pool (claims_to_create L pool (waiting (Name pool) pods) claims) err up"
    and down: "if waiting (Name pool) pods = [] then every_call (idle_ok L claims) (?h @ up) down
      else list_all is_patch down" and st: "\<not> list_ex is_delete st"
    unfolding scale_trace_def
    by (elim exE conjE) (rule that, auto simp: is_delete_def split: option.splits)
  have "every_call (delete_ok L req) (?h @ up) down"
  proof (cases "waiting (Name pool) pods = []")
    case True
    have "every_call (idle_ok L claims) (?h @ up) down \<Longrightarrow> every_call (delete_ok L req) (?h @ up) down"
      unfolding every_call_iff by (auto intro!: idle_after_listing [OF True])
    then show ?thesis using down True by simp
  qed (use down in \<open>simp add: not_delete_every no_deletes\<close>)
  moreover have "\<not> list_ex is_delete up" using up by (auto simp: created_exactly_def no_deletes)
  ultimately show ?thesis using st by (simp add: es not_delete_every)
qed

text \<open>
  C5: scaling down is safe. In every reconcile of a pool, a claim is deleted only if it was listed
  for the pool, no pod was waiting for the pool, and the three calls right before the deletion
  found its node registered, free of pods that would have to move, and stamped as empty at least
  the grace period ago.
\<close>

theorem reconcilePool_deletes_only_idle:
  "every_call (delete_ok L req) [] (calls (snd (run_state (reconcilePool L r req) (start w))))"
proof -
  have "wp (reconcilePool L r req) (\<lambda>_ t. every_call (delete_ok L req) [] (calls t)) (start w)"
  proof (rule wp_reconcilePool, goal_cases)
    case (1 out w es)
    then have "\<not> list_ex is_delete es"
      by (auto simp: list_all_iff list_ex_iff reads_cluster_def is_delete_def split: event.splits)
    then show ?case by (simp add: not_delete_every)
  next
    case (2 out pool pods claims t es)
    then show ?case using scale_trace_deletes [OF 2(2)]
      by (simp add: not_delete_every listed_def is_delete_def not_delete_ok)
  qed
  then show ?thesis by (simp add: wp_def split: prod.splits)
qed

subsection \<open>What a reconcile creates\<close>

definition creations :: "event list \<Rightarrow> nat" where
  "creations es = length (filter is_creation es)"

definition scaled_right :: "'w Lib \<Rightarrow> NamespacedName \<Rightarrow> outcome \<Rightarrow> event list \<Rightarrow> bool" where
  "scaled_right L req out es \<longleftrightarrow>
     (if completely_listed es
      then \<exists>pool pods claims rest.
        es = listed req pool pods claims @ rest \<and>
        (\<forall>e\<in>set rest. is_creation e \<longrightarrow> creates_for L pool e) \<and>
        creations rest \<le> claims_to_create L pool (waiting (Name pool) pods) claims \<and>
        (snd out = None \<longrightarrow> creations rest = claims_to_create L pool (waiting (Name pool) pods) claims)
      else creations es = 0)"

lemma creations_none: "\<not> list_ex is_creation es \<Longrightarrow> creations es = 0"
  by (auto simp: creations_def list_ex_iff)

lemma creations_append: "creations (es @ es') = creations es + creations es'"
  by (simp add: creations_def)

lemma no_creation:
  "list_all is_patch es \<Longrightarrow> \<not> list_ex is_creation es"
  "list_all reads_cluster es \<Longrightarrow> \<not> list_ex is_creation es"
  by (auto simp: list_all_iff list_ex_iff is_patch_def is_creation_def reads_cluster_def split: event.splits)

lemma creates_for_creation: "creates_for L pool e \<Longrightarrow> is_creation e"
  by (auto simp: creates_for_def is_creation_def split: event.splits)

lemma scale_trace_creates:
  assumes "scale_trace L pool pending claims h out es"
  shows "(\<forall>e\<in>set es. is_creation e \<longrightarrow> creates_for L pool e) \<and>
    creations es \<le> claims_to_create L pool pending claims \<and>
    (snd out = None \<longrightarrow> creations es = claims_to_create L pool pending claims)"
proof -
  from assms obtain up err down st where es: "es = up @ down @ st"
    and up: "created_exactly L pool (claims_to_create L pool pending claims) err up"
    and down: "\<not> list_ex is_creation down" and st: "\<not> list_ex is_creation st"
    and out: "snd out = None \<Longrightarrow> err = None"
    unfolding scale_trace_def
    by (elim exE conjE) (rule that, auto simp: is_creation_def no_creation split: option.splits if_splits
        dest: idle_ok_no_creation)
  have "filter is_creation up = up"
    using up by (auto simp: created_exactly_def list_all_iff filter_id_conv intro: creates_for_creation)
  then have "creations up = length up" by (simp add: creations_def)
  then show ?thesis
    using es up down st out
    by (auto simp: creations_append creations_none created_exactly_def list_all_iff list_ex_iff)
qed

text \<open>
  C6: a reconcile creates the right number of claims. Once the pods and the claims of a pool
  are listed, every claim it creates is the pool's, there are at most \<open>claims_to_create\<close> of them,
  exactly that many when the reconcile succeeds; a reconcile that cannot list them creates none.
\<close>

theorem reconcilePool_creates_right:
  "wp (reconcilePool L r req) (\<lambda>out t. scaled_right L req out (calls t)) (start w)"
proof (rule wp_reconcilePool, goal_cases)
  case (1 out w es)
  then show ?case by (simp add: scaled_right_def creations_none no_creation)
next
  case (2 out pool pods claims t es)
  then have cl: "completely_listed (calls t)" unfolding completely_listed_def by blast
  show ?case
    unfolding scaled_right_def if_P [OF cl]
    by (rule exI [of _ pool], rule exI [of _ pods], rule exI [of _ claims], rule exI [of _ es])
      (use 2(3) scale_trace_creates [OF 2(2)] in simp)
qed

subsection \<open>The grace period\<close>

text \<open>
  C13: the grace period holds up to the second that the stamp drops. For a claim stamped at
  \<open>t0\<close>, the check at \<open>now\<close> reports the grace period as over if \<open>now\<close> is at least the grace period
  after \<open>t0\<close>, and never unless it is more than the grace period less one second after \<open>t0\<close>.
\<close>

theorem grace_period_respected:
  assumes "stamped claim t0 claim'" "year_in_range t0" "TimeNow L (outside s) = (now, w)"
  shows "\<exists>expired. run_state (markEmptyAndCheckGrace L r claim') s =
      (Inr expired, \<lparr>outside = w, calls = calls s @ [EvNow now]\<rparr>) \<and>
    (emptyGracePeriod \<le> now - t0 \<longrightarrow> expired) \<and>
    (expired \<longrightarrow> emptyGracePeriod - Second < now - t0)"
proof -
  have m: "mindex (Annotations claim') annotationEmptySince = FormatRFC3339 t0"
    using assms(1) by (auto simp: stamped_def mindex_def)
  have "run_state (markEmptyAndCheckGrace L r claim') s =
      (Inr (emptyGracePeriod \<le> now - whole_seconds t0), \<lparr>outside = w, calls = calls s @ [EvNow now]\<rparr>)"
    using assms(3) rfc3339.decode [OF assms(2)]
    by (simp add: markEmptyAndCheckGrace_def m Now_def call_def Sub_grace)
  then show ?thesis using whole_seconds_bounds [of t0] by (auto simp: Second_def)
qed

text \<open>
  C26: the time stamp is written safely. \<open>markEmptyAndCheckGrace\<close> never writes to a nil map: a claim
  without a readable stamp gets exactly one patch, which sets the annotation to the current
  time and keeps everything else, and is not reported as expired; a claim with a stamp is not
  written at all.
\<close>

theorem markEmpty_stamps_once:
  "wp (markEmptyAndCheckGrace L r claim)
     (\<lambda>res t. \<exists>now. (case stamped_since claim of
        None \<Rightarrow> \<exists>claim' x. stamped claim now claim' \<and> calls t = calls s @ [EvNow now, EvPatchClaim claim claim' x] \<and>
                  res = (case x of Inl err \<Rightarrow> Inl err | Inr _ \<Rightarrow> Inr False)
      | Some since \<Rightarrow> calls t = calls s @ [EvNow now] \<and> res = Inr (emptyGracePeriod \<le> now - since))) s"
  by (rule wp_markEmptyAndCheckGrace) auto

text \<open>Clearing a stamp undoes it: on a claim that had no stamp the annotations read as before.\<close>

lemma clear_after_stamp:
  assumes "stamped claim t claim'" "mget (Annotations claim) annotationEmptySince = None"
  shows "mget (mdelete (Annotations claim') annotationEmptySince) k = mget (Annotations claim) k"
  using assms by (auto simp: stamped_def mdelete_def)

subsection \<open>Which pods ask for a pool\<close>

text \<open>The expressions of a pod's required affinity that ask for pools, in the order of the pod: those with a value.\<close>

definition pool_exprs :: "Pod \<Rightarrow> NodeSelectorRequirement list" where
  "pool_exprs pod =
     filter (\<lambda>e. Key e = LabelNodePool \<and> Operator e = NodeSelectorOpIn \<and> Values e \<noteq> [])
       (concat (map MatchExpressions (case required_terms pod of None \<Rightarrow> [] | Some terms \<Rightarrow> terms)))"

text \<open>The affinity's first choice, the first value of the first such expression.\<close>

definition first_choice :: "Pod \<Rightarrow> string" where
  "first_choice pod = hd (Values (hd (pool_exprs pod)))"

lemma exprs_request_iff:
  "exprs_request exprs p \<longleftrightarrow>
     (\<exists>expr\<in>set exprs. Key expr = LabelNodePool \<and> Operator expr = NodeSelectorOpIn \<and> p \<in> set (Values expr))"
  by (induction exprs p rule: exprs_request.induct) (auto simp: list_ex_iff)

lemma terms_request_iff:
  "terms_request terms p \<longleftrightarrow> (\<exists>term\<in>set terms. exprs_request (MatchExpressions term) p)"
  by (induction terms p rule: terms_request.induct) auto

lemma podRequestsPool_iff:
  "podRequestsPool pod p \<longleftrightarrow>
     mindex (NodeSelector pod) LabelNodePool = p \<or> (\<exists>expr\<in>set (pool_exprs pod). p \<in> set (Values expr))"
proof (cases "required_terms pod")
  case (Some terms)
  have "terms_request terms p \<longleftrightarrow> (\<exists>expr\<in>set (pool_exprs pod). p \<in> set (Values expr))"
    unfolding terms_request_iff exprs_request_iff pool_exprs_def Some by auto
  then show ?thesis by (simp add: podRequestsPool_def Some)
qed (simp add: podRequestsPool_def pool_exprs_def)

definition first_value :: "NodeSelectorRequirement list \<Rightarrow> string option" where
  "first_value exprs =
     (case filter (\<lambda>e. Key e = LabelNodePool \<and> Operator e = NodeSelectorOpIn \<and> Values e \<noteq> []) exprs of
        [] \<Rightarrow> None | e # _ \<Rightarrow> Some (hd (Values e)))"

lemma first_value_append:
  "first_value (es @ es') = (case first_value es of Some v \<Rightarrow> Some v | None \<Rightarrow> first_value es')"
  by (simp add: first_value_def split: list.split)

lemma exprs_pool_first: "exprs_pool exprs = first_value exprs"
  by (induction exprs rule: exprs_pool.induct) (simp_all add: first_value_def)

lemma terms_pool_first: "terms_pool terms = first_value (concat (map MatchExpressions terms))"
  by (induction terms rule: terms_pool.induct)
    (auto simp: exprs_pool_first first_value_append first_value_def [of "[]"] split: option.split)

lemma requestedPoolName_first:
  "requestedPoolName pod =
     (if mindex (NodeSelector pod) LabelNodePool \<noteq> [] then mindex (NodeSelector pod) LabelNodePool
      else if pool_exprs pod = [] then [] else first_choice pod)"
  by (auto simp: requestedPoolName_def terms_pool_first first_value_def first_choice_def pool_exprs_def
      split: option.split list.split)

lemma first_choice_requested: "pool_exprs pod \<noteq> [] \<Longrightarrow> podRequestsPool pod (first_choice pod)"
proof -
  assume "pool_exprs pod \<noteq> []"
  then have "hd (pool_exprs pod) \<in> set (pool_exprs pod)" by simp
  moreover from this have "Values (hd (pool_exprs pod)) \<noteq> []" by (simp add: pool_exprs_def)
  ultimately show ?thesis unfolding podRequestsPool_iff first_choice_def using hd_in_set by blast
qed

text \<open>
  C29: which pool an event on a pod brings back. A pod that asks for some pool brings back exactly one pool, and one that
  it asks for, except in one case: its node selector names no pool and the first choice of its affinity is the empty
  value. Then nothing is brought back, whatever pools the further values ask for.
\<close>

theorem pod_event_reaches_a_pool:
  assumes "podRequestsPool pod p" "p \<noteq> []"
  shows "if mindex (NodeSelector pod) LabelNodePool = [] \<and> first_choice pod = [] then enqueued (PodObject pod) = []
    else \<exists>q. q \<noteq> [] \<and> enqueued (PodObject pod) = [request q] \<and> podRequestsPool pod q"
proof (cases "mindex (NodeSelector pod) LabelNodePool = []")
  case True
  then have "pool_exprs pod \<noteq> []" using assms by (auto simp: podRequestsPool_iff)
  then show ?thesis using True first_choice_requested [of pod]
    by (auto simp: enqueued_def poolForPod_def requestedPoolName_first)
next
  case False
  then show ?thesis by (auto simp: enqueued_def poolForPod_def requestedPoolName_first podRequestsPool_iff)
qed

definition bench_pod :: "string list \<Rightarrow> Pod" where
  "bench_pod values = ObjectMeta.extend (bench_meta ''web'') (Pod.fields [] None
     (Some \<lparr>NodeAffinity = Some \<lparr>RequiredDuringSchedulingIgnoredDuringExecution = Some \<lparr>NodeSelectorTerms =
       [\<lparr>MatchExpressions = [\<lparr>Key = LabelNodePool, Operator = NodeSelectorOpIn, Values = values\<rparr>]\<rparr>]\<rparr>\<rparr>\<rparr>)
     ''Pending'' [\<lparr>CondType = ''PodScheduled'', CondStatus = ''False'', CondReason = ''Unschedulable'', CondMessage = []\<rparr>])"

lemmas bench_pod_defs = bench_pod_def bench_meta_def Pod.defs ObjectMeta.defs

lemma bench_pod_selector: "mindex (NodeSelector (bench_pod vs)) LabelNodePool = []"
  by (simp add: bench_pod_defs mindex_def)

lemma bench_pod_exprs:
  "vs \<noteq> [] \<Longrightarrow> pool_exprs (bench_pod vs) = [\<lparr>Key = LabelNodePool, Operator = NodeSelectorOpIn, Values = vs\<rparr>]"
  by (simp add: pool_exprs_def required_terms_def bench_pod_defs)

lemma bench_pod_unschedulable: "isPodUnschedulable (bench_pod vs)"
  by (simp add: isPodUnschedulable_def bench_pod_defs kube_constants)

theorem pod_event_reaches_a_pool_witness:
  "(\<exists>q. q \<noteq> [] \<and> enqueued (PodObject (bench_pod [''gpu'', ''workers''])) = [request q]) \<and>
   podRequestsPool (bench_pod [[], ''workers'']) ''workers'' \<and> enqueued (PodObject (bench_pod [[], ''workers''])) = []"
proof -
  have asks: "podRequestsPool (bench_pod [v, ''workers'']) ''workers''" for v
    by (simp add: podRequestsPool_iff bench_pod_exprs)
  show ?thesis
    using pod_event_reaches_a_pool [OF asks [of "''gpu''"]] pod_event_reaches_a_pool [OF asks [of "[]"]] asks [of "[]"]
    by (auto simp: bench_pod_selector bench_pod_exprs first_choice_def)
qed

text \<open>
  C38: the event of a waiting pod does not reach every pool that counts it. For an unschedulable pod whose node
  selector names no pool, every pool that its affinity allows other than the first choice counts the pod as
  waiting whenever it lists it, but is not brought back by the pod's event.
\<close>

theorem pod_event_misses_a_pool:
  assumes "isPodUnschedulable pod" "mindex (NodeSelector pod) LabelNodePool = []"
    and "expr \<in> set (pool_exprs pod)" "p \<in> set (Values expr)" "p \<noteq> first_choice pod"
  shows "(\<forall>pods. pod \<in> set pods \<longrightarrow> pod \<in> set (waiting p pods)) \<and> request p \<notin> set (enqueued (PodObject pod))"
proof -
  have "podRequestsPool pod p" using assms(3,4) by (auto simp: podRequestsPool_iff)
  then show ?thesis using assms
    by (auto simp: waiting_def enqueued_def poolForPod_def requestedPoolName_first request_def Let_def)
qed

theorem pod_event_misses_a_pool_witness:
  "bench_pod [''gpu'', ''workers''] \<in> set (waiting ''workers'' [bench_pod [''gpu'', ''workers'']]) \<and>
   request ''workers'' \<notin> set (enqueued (PodObject (bench_pod [''gpu'', ''workers''])))"
  using pod_event_misses_a_pool [OF bench_pod_unschedulable bench_pod_selector, of _ "[''gpu'', ''workers'']" "''workers''"]
  by (simp add: bench_pod_exprs first_choice_def)

subsection \<open>Outcomes\<close>

text \<open>
  C30: a pool comes back. A reconcile that got as far as listing the pool's pods and claims and
  ends without an error is repeated after the re-evaluation interval; every other reconcile asks
  for no repetition of its own (the pool is gone, is being deleted, or the error is retried).
\<close>

theorem reconcilePool_outcome:
  "wp (reconcilePool L r req)
     (\<lambda>out t. fst out = (if snd out = None \<and> completely_listed (calls t)
                         then \<lparr>RequeueAfter = reevaluateInterval\<rparr> else NoRequeue)) (start w)"
proof (rule wp_reconcilePool, goal_cases)
  case (2 out pool pods claims t es)
  then have "completely_listed (calls t)" unfolding completely_listed_def by blast
  then show ?case using 2(2) by (auto simp: scale_trace_def NoRequeue_def split: option.splits)
qed simp

subsection \<open>Runs on the bench\<close>

definition bench_provisioner :: "bench ProvisionerReconciler" where
  "bench_provisioner = \<lparr>provisionerClient = bench_client, provisionerScheme = 0\<rparr>"

definition bench_since :: int where
  "bench_since = 1699999000 * nanos"

definition bench_idle :: XenonNodeClaim where
  "bench_idle = (bench_claim ''proxmox://pve1/101'')
     \<lparr>Annotations := Some [annotationEmptySince \<mapsto> FormatRFC3339 bench_since]\<rparr>"

definition bench_node :: Node where
  "bench_node = ObjectMeta.extend (bench_meta ''n1'') (Node.fields [])"

definition bench_idle_world :: bench where
  "bench_idle_world = (bench_cluster bench_idle)\<lparr>bNodes := [bench_node]\<rparr>"

lemma bench_since_in_range: "year_in_range bench_since"
  by (simp add: year_in_range_def bench_since_def nanos_def date_of_days_def year_yday_def unix_epoch_days_def Let_def split: prod.split)

lemma bench_stamped: "stamped (bench_claim ''proxmox://pve1/101'') bench_since bench_idle"
  by (auto simp: stamped_def bench_idle_def bench_claim_def bench_meta_def XenonNodeClaim.defs ObjectMeta.defs)

lemma bench_stamped_since: "stamped_since bench_idle = Some (whole_seconds bench_since)"
  using rfc3339.decode [OF bench_since_in_range]
  by (simp add: stamped_since_def bench_idle_def mindex_def)

theorem grace_period_respected_witness:
  "\<exists>expired. run_state (markEmptyAndCheckGrace bench_lib bench_provisioner bench_idle) (start bench_idle_world) =
      (Inr expired, \<lparr>outside = bench_idle_world, calls = [EvNow (1700000000 * nanos)]\<rparr>) \<and>
    (emptyGracePeriod \<le> 1700000000 * nanos - bench_since \<longrightarrow> expired) \<and>
    (expired \<longrightarrow> emptyGracePeriod - Second < 1700000000 * nanos - bench_since)"
proof -
  have "TimeNow bench_lib (outside (start bench_idle_world)) = (1700000000 * nanos, bench_idle_world)"
    by (simp add: bench_lib_def start_def bench_idle_world_def bench_cluster_def bench_world_def)
  from grace_period_respected [OF bench_stamped bench_since_in_range this] show ?thesis
    by (simp add: start_def)
qed

theorem scaleDownClaim_iff_idle_witness:
  "list_ex is_delete (calls (snd (run_state (scaleDownClaim bench_lib bench_provisioner bench_idle)
     (start bench_idle_world))))"
proof -
  have "list_ex is_delete (calls (snd (run_state (scaleDownClaim bench_lib bench_provisioner bench_idle)
       (start bench_idle_world)))) \<longleftrightarrow>
      \<not> list_ex (isReschedulablePod bench_lib) [] \<and>
      (case stamped_since bench_idle of None \<Rightarrow> False
       | Some since \<Rightarrow> emptyGracePeriod \<le> 1700000000 * nanos - since)"
    by (rule scaleDownClaim_iff_idle [where node = bench_node and ?w1.0 = bench_idle_world
          and ?w2.0 = bench_idle_world and ?w3.0 = bench_idle_world])
      (simp_all add: bench_provisioner_def bench_idle_world_def node_key_def bench_node_def bench_idle_def Node.defs
        bench_defs bench_objects)
  then show ?thesis
    by (simp add: bench_stamped_since bench_since_def whole_seconds_def nanos_def emptyGracePeriod_def
        Minute_def Second_def)
qed

end
