(* ===== verification/Manager.thy ===== *)
theory Manager
  imports NodeClaim Provisioner "HOL-Library.Sublist"
begin

text \<open>
  \<open>cmd/main.go\<close>: the command line, the options of the metrics and webhook servers, and the sequence
  that builds the manager, registers both controllers and the health checks, and starts. The
  manager is controller-runtime's: a record of functions (\<open>ManagerLib\<close>) that is a parameter, as is
  the set of flags that the logging and the client libraries register (\<open>extra\<close>).
\<close>

subsection \<open>The command line\<close>

record Flags =
  metricsAddr :: string
  probeAddr :: string
  enableLeaderElection :: bool
  secureMetrics :: bool
  webhookCertPath :: string
  webhookCertName :: string
  webhookCertKey :: string
  metricsCertPath :: string
  metricsCertName :: string
  metricsCertKey :: string
  enableHTTP2 :: bool

definition flag_defaults :: Flags where
  "flag_defaults =
     \<lparr>metricsAddr = ''0'', probeAddr = '':8081'', enableLeaderElection = False, secureMetrics = True,
      webhookCertPath = [], webhookCertName = ''tls.crt'', webhookCertKey = ''tls.key'',
      metricsCertPath = [], metricsCertName = ''tls.crt'', metricsCertKey = ''tls.key'',
      enableHTTP2 = False\<rparr>"

definition string_flags :: "(string \<times> (string \<Rightarrow> Flags \<Rightarrow> Flags)) list" where
  "string_flags =
     [(''metrics-bind-address'', \<lambda>v fl. fl\<lparr>metricsAddr := v\<rparr>),
      (''health-probe-bind-address'', \<lambda>v fl. fl\<lparr>probeAddr := v\<rparr>),
      (''webhook-cert-path'', \<lambda>v fl. fl\<lparr>webhookCertPath := v\<rparr>),
      (''webhook-cert-name'', \<lambda>v fl. fl\<lparr>webhookCertName := v\<rparr>),
      (''webhook-cert-key'', \<lambda>v fl. fl\<lparr>webhookCertKey := v\<rparr>),
      (''metrics-cert-path'', \<lambda>v fl. fl\<lparr>metricsCertPath := v\<rparr>),
      (''metrics-cert-name'', \<lambda>v fl. fl\<lparr>metricsCertName := v\<rparr>),
      (''metrics-cert-key'', \<lambda>v fl. fl\<lparr>metricsCertKey := v\<rparr>)]"

definition bool_flags :: "(string \<times> (bool \<Rightarrow> Flags \<Rightarrow> Flags)) list" where
  "bool_flags =
     [(''leader-elect'', \<lambda>v fl. fl\<lparr>enableLeaderElection := v\<rparr>),
      (''metrics-secure'', \<lambda>v fl. fl\<lparr>secureMetrics := v\<rparr>),
      (''enable-http2'', \<lambda>v fl. fl\<lparr>enableHTTP2 := v\<rparr>)]"

text \<open>
  Package \<open>flag\<close>: what a flag name stands for, one step of \<open>Parse\<close> per argument, and the two ways
  it ends the program (\<open>-help\<close>, and an error). \<open>extra\<close> gives the flags of the libraries: whether
  one is boolean, and which values it accepts.
\<close>

definition ParseBool :: "string \<Rightarrow> bool option" where
  "ParseBool s =
     (if s \<in> {''1'', ''t'', ''T'', ''TRUE'', ''true'', ''True''} then Some True
      else if s \<in> {''0'', ''f'', ''F'', ''FALSE'', ''false'', ''False''} then Some False
      else None)"

datatype flag_stop = ErrHelp | FlagSyntax string | FlagUndefined string | FlagNeedsArgument string | FlagValue string string

datatype flag_kind =
    BoolFlag "bool \<Rightarrow> Flags \<Rightarrow> Flags"
  | StringFlag "string \<Rightarrow> Flags \<Rightarrow> Flags"
  | ExtraFlag bool "string \<Rightarrow> bool"

definition lookup_flag :: "(string \<rightharpoonup> bool \<times> (string \<Rightarrow> bool)) \<Rightarrow> string \<Rightarrow> flag_kind option" where
  "lookup_flag extra name =
     (case map_of bool_flags name of
        Some f \<Rightarrow> Some (BoolFlag f)
      | None \<Rightarrow>
          (case map_of string_flags name of
             Some f \<Rightarrow> Some (StringFlag f)
           | None \<Rightarrow> map_option (\<lambda>(b, ok). ExtraFlag b ok) (extra name)))"

definition is_bool :: "flag_kind \<Rightarrow> bool" where
  "is_bool k = (case k of BoolFlag _ \<Rightarrow> True | StringFlag _ \<Rightarrow> False | ExtraFlag b _ \<Rightarrow> b)"

definition set_flag :: "flag_kind \<Rightarrow> string \<Rightarrow> string \<Rightarrow> Flags \<Rightarrow> flag_stop + Flags" where
  "set_flag k name v fl =
     (case k of
        BoolFlag f \<Rightarrow> (case ParseBool v of Some b \<Rightarrow> Inr (f b fl) | None \<Rightarrow> Inl (FlagValue name v))
      | StringFlag f \<Rightarrow> Inr (f v fl)
      | ExtraFlag _ ok \<Rightarrow> if ok v then Inr fl else Inl (FlagValue name v))"

definition flag_text :: "string \<Rightarrow> string" where
  "flag_text s = (if s ! 1 = CHR ''-'' then drop 2 s else drop 1 s)"

definition ends_flags :: "string \<Rightarrow> bool" where
  "ends_flags s \<longleftrightarrow> length s < 2 \<or> hd s \<noteq> CHR ''-'' \<or> s = ''--''"

fun Parse :: "(string \<rightharpoonup> bool \<times> (string \<Rightarrow> bool)) \<Rightarrow> string list \<Rightarrow> Flags \<Rightarrow> flag_stop + Flags" where
  "Parse extra [] fl = Inr fl"
| "Parse extra (s # args) fl =
     (if ends_flags s then Inr fl
      else let text = flag_text s in
        if text = [] \<or> hd text = CHR ''-'' \<or> hd text = CHR ''='' then Inl (FlagSyntax s)
        else case Cut text (CHR ''='') of (name, value, hasValue) \<Rightarrow>
          (case lookup_flag extra name of
             None \<Rightarrow> if name = ''help'' \<or> name = ''h'' then Inl ErrHelp else Inl (FlagUndefined name)
           | Some k \<Rightarrow>
               if is_bool k then
                 (case set_flag k name (if hasValue then value else ''true'') fl of
                    Inl e \<Rightarrow> Inl e
                  | Inr fl' \<Rightarrow> Parse extra args fl')
               else if hasValue then
                 (case set_flag k name value fl of Inl e \<Rightarrow> Inl e | Inr fl' \<Rightarrow> Parse extra args fl')
               else
                 (case args of
                    [] \<Rightarrow> Inl (FlagNeedsArgument name)
                  | v # rest \<Rightarrow>
                      (case set_flag k name v fl of Inl e \<Rightarrow> Inl e | Inr fl' \<Rightarrow> Parse extra rest fl'))))"

subsection \<open>The options of the servers\<close>

record TlsConfig =
  NextProtos :: "string list"

type_synonym TlsOpt = "TlsConfig \<Rightarrow> TlsConfig"

definition disableHTTP2 :: TlsOpt where
  "disableHTTP2 c = c\<lparr>NextProtos := [''http/1.1'']\<rparr>"

definition tlsOpts :: "Flags \<Rightarrow> TlsOpt list" where
  "tlsOpts fl = (if \<not> enableHTTP2 fl then [] @ [disableHTTP2] else [])"

record WebhookOptions =
  WebhookTLSOpts :: "TlsOpt list"
  WebhookCertDir :: string
  WebhookCertName :: string
  WebhookKeyName :: string

definition webhookServerOptions :: "Flags \<Rightarrow> WebhookOptions" where
  "webhookServerOptions fl =
     (let opts = \<lparr>WebhookTLSOpts = tlsOpts fl, WebhookCertDir = [], WebhookCertName = [], WebhookKeyName = []\<rparr>
      in if length (webhookCertPath fl) > 0
         then opts\<lparr>WebhookCertDir := webhookCertPath fl, WebhookCertName := webhookCertName fl,
                   WebhookKeyName := webhookCertKey fl\<rparr>
         else opts)"

datatype FilterProvider = WithAuthenticationAndAuthorization

record MetricsOptions =
  BindAddress :: string
  SecureServing :: bool
  MetricsTLSOpts :: "TlsOpt list"
  MetricsFilterProvider :: "FilterProvider option"
  MetricsCertDir :: string
  MetricsCertName :: string
  MetricsKeyName :: string

definition metricsServerOptions :: "Flags \<Rightarrow> MetricsOptions" where
  "metricsServerOptions fl =
     (let opts = \<lparr>BindAddress = metricsAddr fl, SecureServing = secureMetrics fl, MetricsTLSOpts = tlsOpts fl,
                  MetricsFilterProvider = None, MetricsCertDir = [], MetricsCertName = [], MetricsKeyName = []\<rparr>;
          opts = (if secureMetrics fl
                  then opts\<lparr>MetricsFilterProvider := Some WithAuthenticationAndAuthorization\<rparr> else opts)
      in if length (metricsCertPath fl) > 0
         then opts\<lparr>MetricsCertDir := metricsCertPath fl, MetricsCertName := metricsCertName fl,
                   MetricsKeyName := metricsCertKey fl\<rparr>
         else opts)"

record ManagerOptions =
  OptionsScheme :: SchemeRef
  Metrics :: MetricsOptions
  WebhookServer :: WebhookOptions
  HealthProbeBindAddress :: string
  LeaderElection :: bool
  LeaderElectionID :: string

definition managerOptions :: "SchemeRef \<Rightarrow> Flags \<Rightarrow> ManagerOptions" where
  "managerOptions scheme fl =
     \<lparr>OptionsScheme = scheme, Metrics = metricsServerOptions fl, WebhookServer = webhookServerOptions fl,
      HealthProbeBindAddress = probeAddr fl, LeaderElection = enableLeaderElection fl,
      LeaderElectionID = ''d8121aff.xenonite.io''\<rparr>"

subsection \<open>The main program\<close>

text \<open>
  The manager: what it is built from, what is registered with it, and what it gives out, its client and its
  scheme (\<open>GetClient\<close>, \<open>GetScheme\<close>). \<open>GetConfig\<close> is \<open>GetConfigOrDie\<close>, whose
  failure ends the program with status 1. A step that fails logs and ends the program the same way.
\<close>

record 'w ManagerLib =
  GetConfig :: "'w \<Rightarrow> error option \<times> 'w"
  NewManager :: "ManagerOptions \<Rightarrow> 'w \<Rightarrow> (error + 'w Client \<times> SchemeRef) \<times> 'w"
  Getenv :: "string \<Rightarrow> 'w \<Rightarrow> string \<times> 'w"
  SetupClaimController :: "'w XenonNodeClaimReconciler \<Rightarrow> 'w \<Rightarrow> error option \<times> 'w"
  SetupProvisioner :: "'w ProvisionerReconciler \<Rightarrow> 'w \<Rightarrow> error option \<times> 'w"
  AddHealthzCheck :: "string \<Rightarrow> 'w \<Rightarrow> error option \<times> 'w"
  AddReadyzCheck :: "string \<Rightarrow> 'w \<Rightarrow> error option \<times> 'w"
  StartManager :: "'w \<Rightarrow> error option \<times> 'w"

definition systemNamespace :: "string \<Rightarrow> string" where
  "systemNamespace env = (if env = [] then ''xenonite-system'' else env)"

text \<open>Run a step; on an error end with status 1, otherwise go on.\<close>

definition or_exit :: "('w \<Rightarrow> error option \<times> 'w) \<Rightarrow> ('w, int) state \<Rightarrow> ('w, int) state" where
  "or_exit f rest = do { err \<leftarrow> State f; case err of Some _ \<Rightarrow> ret 1 | None \<Rightarrow> rest }"

definition run_manager :: "'w ManagerLib \<Rightarrow> SchemeRef \<Rightarrow> Flags \<Rightarrow> ('w, int) state" where
  "run_manager ML scheme fl =
     or_exit (GetConfig ML) (do {
       mgr \<leftarrow> State (NewManager ML (managerOptions scheme fl));
       case mgr of
         Inl _ \<Rightarrow> ret 1
       | Inr (apiClient, mgrScheme) \<Rightarrow> do {
           env \<leftarrow> State (Getenv ML ''POD_NAMESPACE'');
           or_exit (SetupClaimController ML
                \<lparr>claimClient = apiClient, claimScheme = mgrScheme, NewProvider = None,
                 SystemNamespace = systemNamespace env\<rparr>)
             (or_exit (SetupProvisioner ML \<lparr>provisionerClient = apiClient, provisionerScheme = mgrScheme\<rparr>)
               (or_exit (AddHealthzCheck ML ''healthz'')
                 (or_exit (AddReadyzCheck ML ''readyz'')
                   (or_exit (StartManager ML) (ret 0)))))
         }
     })"

text \<open>\<open>scheme\<close> is the package's variable, filled by \<open>init\<close>.\<close>

definition main ::
  "(string \<rightharpoonup> bool \<times> (string \<Rightarrow> bool)) \<Rightarrow> 'w ManagerLib \<Rightarrow> SchemeRef \<Rightarrow> string list \<Rightarrow> ('w, int) state" where
  "main extra ML scheme args =
     (case Parse extra args flag_defaults of
        Inl ErrHelp \<Rightarrow> ret 0
      | Inl _ \<Rightarrow> ret 2
      | Inr fl \<Rightarrow> run_manager ML scheme fl)"

subsection \<open>Command lines round trip\<close>

text \<open>A command line that spells out a value for every flag.\<close>

definition fmt_bool :: "bool \<Rightarrow> string" where
  "fmt_bool b = (if b then ''true'' else ''false'')"

definition setting :: "string \<Rightarrow> string \<Rightarrow> string" where
  "setting name v = ''--'' @ name @ ''='' @ v"

definition spell_out :: "Flags \<Rightarrow> string list" where
  "spell_out fl =
     [setting ''metrics-bind-address'' (metricsAddr fl), setting ''health-probe-bind-address'' (probeAddr fl),
      setting ''leader-elect'' (fmt_bool (enableLeaderElection fl)),
      setting ''metrics-secure'' (fmt_bool (secureMetrics fl)),
      setting ''webhook-cert-path'' (webhookCertPath fl), setting ''webhook-cert-name'' (webhookCertName fl),
      setting ''webhook-cert-key'' (webhookCertKey fl), setting ''metrics-cert-path'' (metricsCertPath fl),
      setting ''metrics-cert-name'' (metricsCertName fl), setting ''metrics-cert-key'' (metricsCertKey fl),
      setting ''enable-http2'' (fmt_bool (enableHTTP2 fl))]"

lemma ParseBool_fmt [simp]: "ParseBool (fmt_bool b) = Some b"
  by (simp add: ParseBool_def fmt_bool_def)

lemma Parse_setting:
  assumes "name \<noteq> []" "CHR ''='' \<notin> set name" "hd name \<noteq> CHR ''-''" "name \<noteq> ''help''" "name \<noteq> ''h''"
  shows "Parse extra (setting name v # args) fl =
    (case lookup_flag extra name of
       None \<Rightarrow> Inl (FlagUndefined name)
     | Some k \<Rightarrow> (case set_flag k name v fl of Inl e \<Rightarrow> Inl e | Inr fl' \<Rightarrow> Parse extra args fl'))"
proof -
  have "hd name \<noteq> CHR ''=''" using assms(1,2) by (cases name) auto
  then have "\<not> ends_flags (setting name v)" "flag_text (setting name v) = name @ CHR ''='' # v"
    "hd (name @ CHR ''='' # v) = hd name"
    using assms(1) by (auto simp: ends_flags_def setting_def flag_text_def)
  then show ?thesis using assms \<open>hd name \<noteq> CHR ''=''\<close>
    by (simp add: Cut_found Let_def split: option.split)
qed

declare Parse.simps(2) [simp del]

lemmas known_flags = lookup_flag_def bool_flags_def string_flags_def set_flag_def

text \<open>
  C33: the command line determines the options. A command line that spells out every flag is read as
  exactly those values, whatever flags the libraries add.
\<close>

theorem command_line_round_trip: "Parse extra (spell_out fl) flag_defaults = Inr fl"
  by (simp add: spell_out_def Parse_setting known_flags)

subsection \<open>HTTP/2\<close>

definition flag_name :: "string \<Rightarrow> string" where
  "flag_name arg = fst (Cut (flag_text arg) (CHR ''=''))"

lemma set_flag_keeps_http2:
  "lookup_flag extra name = Some k \<Longrightarrow> name \<noteq> ''enable-http2'' \<Longrightarrow> set_flag k name v fl = Inr fl'
   \<Longrightarrow> enableHTTP2 fl' = enableHTTP2 fl"
  by (auto simp: known_flags split: if_splits option.splits flag_kind.splits)

lemma Parse_step:
  assumes "Parse extra (s # args) fl = Inr fl'"
  obtains "fl' = fl"
  | k v fl1 rest where "lookup_flag extra (flag_name s) = Some k" "set_flag k (flag_name s) v fl = Inr fl1"
      "suffix rest args" "Parse extra rest fl1 = Inr fl'"
proof -
  obtain name v hasValue where c: "Cut (flag_text s) (CHR ''='') = (name, v, hasValue)"
    by (metis prod_cases3)
  then have n: "flag_name s = name" by (simp add: flag_name_def)
  show thesis
  proof (cases "lookup_flag extra name")
    case None
    then show thesis using assms c that(1) by (auto simp: Parse.simps(2) Let_def split: if_splits)
  next
    case (Some k)
    then show thesis
      using assms c n that(1) that(2) [of k "if hasValue then v else ''true''" _ args]
        that(2) [of k v _ args] that(2) [of k "hd args" _ "tl args"]
      by (auto simp: Parse.simps(2) Let_def suffix_tl split: if_splits sum.splits list.splits)
  qed
qed

lemma Parse_keeps_http2:
  "Parse extra args fl = Inr fl' \<Longrightarrow> \<forall>a\<in>set args. flag_name a \<noteq> ''enable-http2''
   \<Longrightarrow> enableHTTP2 fl' = enableHTTP2 fl"
proof (induction args arbitrary: fl rule: length_induct)
  case (1 args)
  show ?case
  proof (cases args)
    case Nil
    then show ?thesis using "1.prems" by simp
  next
    case (Cons s as)
    with "1.prems" have p: "Parse extra (s # as) fl = Inr fl'" and n: "flag_name s \<noteq> ''enable-http2''" by auto
    show ?thesis
    proof (rule Parse_step [OF p])
      fix k v fl1 rest
      assume k: "lookup_flag extra (flag_name s) = Some k" "set_flag k (flag_name s) v fl = Inr fl1"
        and r: "suffix rest as" "Parse extra rest fl1 = Inr fl'"
      have "length rest < length args" "set rest \<subseteq> set args"
        using r(1) Cons by (auto simp: suffix_def)
      then have "enableHTTP2 fl' = enableHTTP2 fl1" using "1.IH" "1.prems"(2) r(2) by blast
      then show ?thesis using set_flag_keeps_http2 [OF k(1) n k(2)] by simp
    qed simp
  qed
qed

definition apply_tls :: "TlsOpt list \<Rightarrow> TlsConfig \<Rightarrow> TlsConfig" where
  "apply_tls opts c = fold (\<lambda>opt. opt) opts c"

text \<open>
  C34: HTTP/2 stays off unless it is asked for. When no argument of an accepted command line names
  the flag \<open>enable-http2\<close>, both servers offer HTTP/1.1 only, whatever their TLS configuration was.
\<close>

theorem http2_off_unless_asked:
  assumes "Parse extra args flag_defaults = Inr fl" "\<forall>a\<in>set args. flag_name a \<noteq> ''enable-http2''"
  shows "NextProtos (apply_tls (WebhookTLSOpts (WebhookServer (managerOptions scheme fl))) c) = [''http/1.1''] \<and>
    NextProtos (apply_tls (MetricsTLSOpts (Metrics (managerOptions scheme fl))) c) = [''http/1.1'']"
proof -
  have "\<not> enableHTTP2 fl"
    using Parse_keeps_http2 [OF assms] by (simp add: flag_defaults_def)
  then show ?thesis
    by (simp add: managerOptions_def webhookServerOptions_def metricsServerOptions_def tlsOpts_def apply_tls_def
        disableHTTP2_def Let_def)
qed

theorem http2_off_unless_asked_witness:
  "\<exists>fl. Parse (\<lambda>_. None) [''--leader-elect'', ''--metrics-bind-address'', '':8443''] flag_defaults = Inr fl \<and>
     BindAddress (Metrics (managerOptions 0 fl)) = '':8443'' \<and> LeaderElection (managerOptions 0 fl) \<and>
     NextProtos (apply_tls (MetricsTLSOpts (Metrics (managerOptions 0 fl))) \<lparr>NextProtos = [''h2'']\<rparr>) = [''http/1.1'']"
proof -
  let ?args = "[''--leader-elect'', ''--metrics-bind-address'', '':8443'']"
  let ?fl = "flag_defaults\<lparr>enableLeaderElection := True, metricsAddr := '':8443''\<rparr>"
  have p: "Parse (\<lambda>_. None) ?args flag_defaults = Inr ?fl"
    by (simp add: Parse.simps(2) ends_flags_def flag_text_def known_flags is_bool_def ParseBool_def)
  have n: "\<forall>a\<in>set ?args. flag_name a \<noteq> ''enable-http2''"
    by (simp add: flag_name_def flag_text_def)
  show ?thesis
    using http2_off_unless_asked [OF p n, of 0 "\<lparr>NextProtos = [''h2'']\<rparr>"] p
    by (intro exI [of _ ?fl]) (simp add: managerOptions_def metricsServerOptions_def Let_def)
qed

subsection \<open>Starting up\<close>

lemma systemNamespace_not_Nil: "systemNamespace env \<noteq> []"
  by (simp add: systemNamespace_def)

lemma run_or_exit:
  "run_state (or_exit f rest) w = (0, w') \<longleftrightarrow> (\<exists>w1. f w = (None, w1) \<and> run_state rest w1 = (0, w'))"
  by (auto simp: or_exit_def split: prod.splits option.splits)

lemma run_bind_State:
  "run_state (State_Monad.bind (State f) g) w = (0, w') \<longleftrightarrow> (\<exists>a w1. f w = (a, w1) \<and> run_state (g a) w1 = (0, w'))"
  by (auto split: prod.splits)

lemma run_case_sum:
  "run_state (case x of Inl _ \<Rightarrow> ret (1 :: int) | Inr (c, d) \<Rightarrow> g c d) w = (0, w') \<longleftrightarrow>
     (\<exists>c d. x = Inr (c, d) \<and> run_state (g c d) w = (0, w'))"
  by (auto split: sum.split)

text \<open>
  C35: the program ends well only if every step did. The exit status of a run with valid flags is 0
  exactly when the configuration was found, the manager was built from the scheme and the options of the
  command line, both controllers were registered on its client and scheme, the claim controller with a namespace
  that is never empty, both health checks were added, and the manager ran without an error, in
  this order.
\<close>

theorem manager_exit_status:
  "run_state (run_manager ML scheme fl) w = (0, w') \<longleftrightarrow>
     (\<exists>w1 apiClient mgrScheme w2 env w3 w4 w5 w6 w7.
        GetConfig ML w = (None, w1) \<and> NewManager ML (managerOptions scheme fl) w1 = (Inr (apiClient, mgrScheme), w2) \<and>
        Getenv ML ''POD_NAMESPACE'' w2 = (env, w3) \<and> systemNamespace env \<noteq> [] \<and>
        SetupClaimController ML
          \<lparr>claimClient = apiClient, claimScheme = mgrScheme, NewProvider = None,
           SystemNamespace = systemNamespace env\<rparr> w3 = (None, w4) \<and>
        SetupProvisioner ML \<lparr>provisionerClient = apiClient, provisionerScheme = mgrScheme\<rparr> w4 = (None, w5) \<and>
        AddHealthzCheck ML ''healthz'' w5 = (None, w6) \<and> AddReadyzCheck ML ''readyz'' w6 = (None, w7) \<and>
        StartManager ML w7 = (None, w'))"
  unfolding run_manager_def
  unfolding run_or_exit run_bind_State run_case_sum
  by (auto simp: systemNamespace_not_Nil)

end
