(* ===== verification/GoHeap.thy ===== *)
theory GoHeap
  imports GoStd "HOL-Library.AList"
begin

text \<open>
  Go's memory, as far as copying is concerned: slices, maps and pointers are references into a heap
  of cells, allocation takes a fresh address, and a struct holds the references of its fields. A
  program on the heap returns \<open>None\<close> where Go would panic or where the memory is not what its type says.

  The locale \<open>layout\<close> says what a type is in memory: a reading of it as a value and the
  addresses this reading depends on. The locale \<open>deep_copier\<close> is the contract of a function that copies
  it: the copy succeeds, reads as the same value, shares no address with anything that
  existed before, and leaves everything that existed before as it was. The lemmas of the last sections
  show that the loops of generated code keep the contract.
\<close>

subsection \<open>Cells\<close>

type_synonym addr = nat

type_synonym ref = "addr option"

record 'c heap =
  limit :: nat
  cells :: "addr \<rightharpoonup> 'c"

type_synonym ('c, 'm) copier = "'m \<Rightarrow> 'c heap \<Rightarrow> ('m \<times> 'c heap) option"

definition ok :: "'c heap \<Rightarrow> bool" where
  "ok h \<longleftrightarrow> (\<forall>a \<ge> limit h. cells h a = None)"

definition store :: "'c heap \<Rightarrow> addr \<Rightarrow> 'c \<Rightarrow> 'c heap" where
  "store h a c = h\<lparr>cells := (cells h)(a \<mapsto> c)\<rparr>"

definition alloc :: "'c \<Rightarrow> 'c heap \<Rightarrow> addr \<times> 'c heap" where
  "alloc c h = (limit h, \<lparr>limit = Suc (limit h), cells = (cells h)(limit h \<mapsto> c)\<rparr>)"

definition fetch :: "('c \<Rightarrow> 'x option) \<Rightarrow> 'c heap \<Rightarrow> addr \<Rightarrow> 'x option" where
  "fetch sel h a = Option.bind (cells h a) sel"

text \<open>\<open>grows h g\<close>: everything of \<open>h\<close> is still there, unchanged, in \<open>g\<close>.\<close>

definition grows :: "'c heap \<Rightarrow> 'c heap \<Rightarrow> bool" where
  "grows h g \<longleftrightarrow> ok g \<and> cells h \<subseteq>\<^sub>m cells g"

lemma cells_store [simp]: "cells (store h a c) = (cells h)(a \<mapsto> c)"
  by (simp add: store_def)

lemma fetch_Some_dom: "fetch sel h a = Some x \<Longrightarrow> a \<in> dom (cells h)"
  by (auto simp: fetch_def bind_eq_Some_conv)

lemma fetch_store [simp]: "fetch sel (store h a c) a = sel c"
  by (simp add: fetch_def)

lemma fetch_cong: "cells g a = cells h a \<Longrightarrow> fetch sel g a = fetch sel h a"
  by (simp add: fetch_def)

lemma grows_refl [simp]: "ok h \<Longrightarrow> grows h h"
  by (simp add: grows_def)

lemma grows_trans [trans]: "grows h g \<Longrightarrow> grows g k \<Longrightarrow> grows h k"
  by (auto simp: grows_def intro: map_le_trans)

lemma grows_ok: "grows h g \<Longrightarrow> ok g"
  by (simp add: grows_def)

lemma grows_cell: "grows h g \<Longrightarrow> a \<in> dom (cells h) \<Longrightarrow> cells g a = cells h a"
  by (auto simp: grows_def map_le_def)

lemma grows_dom: "grows h g \<Longrightarrow> dom (cells h) \<subseteq> dom (cells g)"
  by (auto simp: grows_def dest: map_le_implies_dom_le)

lemma grows_fetch: "grows h g \<Longrightarrow> fetch sel h a = Some x \<Longrightarrow> fetch sel g a = Some x"
  by (metis fetch_Some_dom fetch_cong grows_cell)

lemma store_grows: "grows h g \<Longrightarrow> a \<in> dom (cells g) \<Longrightarrow> a \<notin> dom (cells h) \<Longrightarrow> grows h (store g a c)"
  by (auto simp: grows_def ok_def store_def map_le_def)

lemma alloc_grows:
  assumes "ok h" "alloc c h = (a, g)"
  shows "grows h g" "a \<notin> dom (cells h)" "cells g a = Some c"
  using assms by (auto simp: alloc_def grows_def ok_def map_le_def)

subsection \<open>What a type is in memory, and copying it\<close>

locale layout =
  fixes rd :: "'c heap \<Rightarrow> 'm \<Rightarrow> 'v option" and foot :: "'c heap \<Rightarrow> 'm \<Rightarrow> addr set"
  assumes footed: "rd h m = Some v \<Longrightarrow> foot h m \<subseteq> dom (cells h)"
    and local_read: "rd h m = Some v \<Longrightarrow> (\<And>a. a \<in> foot h m \<Longrightarrow> cells g a = cells h a) \<Longrightarrow> rd g m = Some v"
    and local_foot: "rd h m = Some v \<Longrightarrow> (\<And>a. a \<in> foot h m \<Longrightarrow> cells g a = cells h a) \<Longrightarrow> foot g m = foot h m"
begin

lemma grows_read: "grows h g \<Longrightarrow> rd h m = Some v \<Longrightarrow> rd g m = Some v"
  using local_read [of h m v g] footed [of h m v] grows_cell [of h g] by blast

lemma grows_foot: "grows h g \<Longrightarrow> rd h m = Some v \<Longrightarrow> foot g m = foot h m"
  using local_foot [of h m v g] footed [of h m v] grows_cell [of h g] by blast

lemma store_read: "rd h m = Some v \<Longrightarrow> a \<notin> foot h m \<Longrightarrow> rd (store h a c) m = Some v"
  by (rule local_read) auto

lemma store_foot: "rd h m = Some v \<Longrightarrow> a \<notin> foot h m \<Longrightarrow> foot (store h a c) m = foot h m"
  by (rule local_foot) auto

end

locale deep_copier = layout rd foot
  for rd :: "'c heap \<Rightarrow> 'm \<Rightarrow> 'v option" and foot :: "'c heap \<Rightarrow> 'm \<Rightarrow> addr set" +
  fixes cp :: "('c, 'm) copier"
  assumes copies: "ok h \<Longrightarrow> rd h m = Some v \<Longrightarrow>
    \<exists>m' h'. cp m h = Some (m', h') \<and> grows h h' \<and> rd h' m' = Some v \<and> foot h' m' \<inter> dom (cells h) = {}"
begin

lemma copyE:
  assumes "ok h" "rd h m = Some v"
  obtains m' h' where "cp m h = Some (m', h')" "grows h h'" "rd h' m' = Some v"
    "foot h' m' \<inter> dom (cells h) = {}"
  using copies [OF assms] by blast

lemma copy_result:
  assumes "ok h" "rd h m = Some v" "cp m h = Some (m', h')"
  shows "grows h h'" "rd h' m' = Some v" "foot h' m' \<inter> dom (cells h) = {}"
  using copies [OF assms(1,2)] assms(3) by auto

lemma copy_disjoint:
  assumes "ok h" "rd h m = Some v" "cp m h = Some (m', h')"
  shows "foot h' m' \<inter> foot h' m = {}"
  using copy_result [OF assms] footed [OF assms(2)] grows_foot [OF _ assms(2)] by blast

text \<open>Writing to a cell of one of the two leaves what the other reads as.\<close>

lemma copy_unaffected:
  assumes "ok h" "rd h m = Some v" "cp m h = Some (m', h')" "a \<in> foot h' m"
  shows "rd (store h' a c) m' = Some v"
  using copy_result [OF assms(1-3)] copy_disjoint [OF assms(1-3)] assms(4) store_read by blast

lemma original_unaffected:
  assumes "ok h" "rd h m = Some v" "cp m h = Some (m', h')" "a \<in> foot h' m'"
  shows "rd (store h' a c) m = Some v"
  using copy_result [OF assms(1-3)] copy_disjoint [OF assms(1-3)] assms(2,4) grows_read store_read by blast

end

subsection \<open>References, and the contents of slices and maps\<close>

text \<open>
  A reference to a cell, read together with what the cell holds; nil reads as \<open>None\<close>. The cell of a slice
  holds the elements, the cell of a map its entries in some order, with distinct keys.
\<close>

definition rd_ref :: "('c \<Rightarrow> 'x option) \<Rightarrow> ('c heap \<Rightarrow> 'x \<Rightarrow> 'v option) \<Rightarrow> 'c heap \<Rightarrow> ref \<Rightarrow> 'v option option" where
  "rd_ref sel rd h r =
     (case r of None \<Rightarrow> Some None | Some a \<Rightarrow> Option.bind (fetch sel h a) (\<lambda>x. map_option Some (rd h x)))"

definition foot_ref :: "('c \<Rightarrow> 'x option) \<Rightarrow> ('c heap \<Rightarrow> 'x \<Rightarrow> addr set) \<Rightarrow> 'c heap \<Rightarrow> ref \<Rightarrow> addr set" where
  "foot_ref sel foot h r =
     (case r of None \<Rightarrow> {} | Some a \<Rightarrow> insert a (case fetch sel h a of None \<Rightarrow> {} | Some x \<Rightarrow> foot h x))"

definition rd_flat :: "'c heap \<Rightarrow> 'x \<Rightarrow> 'x option" where
  "rd_flat h x = Some x"

definition foot_flat :: "'c heap \<Rightarrow> 'x \<Rightarrow> addr set" where
  "foot_flat h x = {}"

definition rd_elems :: "('c heap \<Rightarrow> 'm \<Rightarrow> 'v option) \<Rightarrow> 'c heap \<Rightarrow> 'm list \<Rightarrow> 'v list option" where
  "rd_elems rd h xs = those (map (rd h) xs)"

definition foot_elems :: "('c heap \<Rightarrow> 'm \<Rightarrow> addr set) \<Rightarrow> 'c heap \<Rightarrow> 'm list \<Rightarrow> addr set" where
  "foot_elems foot h xs = (\<Union>x \<in> set xs. foot h x)"

definition rd_entries ::
  "('c heap \<Rightarrow> 'm \<Rightarrow> 'v option) \<Rightarrow> 'c heap \<Rightarrow> (string \<times> 'm) list \<Rightarrow> (string \<rightharpoonup> 'v) option" where
  "rd_entries rd h kvs =
     (if distinct (map fst kvs)
      then map_option (\<lambda>vs. map_of (zip (map fst kvs) vs)) (rd_elems rd h (map snd kvs)) else None)"

definition foot_entries :: "('c heap \<Rightarrow> 'm \<Rightarrow> addr set) \<Rightarrow> 'c heap \<Rightarrow> (string \<times> 'm) list \<Rightarrow> addr set" where
  "foot_entries foot h kvs = foot_elems foot h (map snd kvs)"

lemma those_map: "those (map f xs) = Some vs \<longleftrightarrow> list_all2 (\<lambda>x v. f x = Some v) xs vs"
  by (induction xs arbitrary: vs) (auto simp: list_all2_Cons1 split: option.splits)

lemma rd_elems_iff: "rd_elems rd h xs = Some vs \<longleftrightarrow> list_all2 (\<lambda>x v. rd h x = Some v) xs vs"
  by (simp add: rd_elems_def those_map)

lemma rd_elems_in: "rd_elems rd h xs = Some vs \<Longrightarrow> x \<in> set xs \<Longrightarrow> \<exists>v. rd h x = Some v"
  by (auto simp: rd_elems_iff list_all2_conv_all_nth in_set_conv_nth)

lemma layout_flat: "layout rd_flat foot_flat"
  by unfold_locales (auto simp: rd_flat_def foot_flat_def)

lemma layout_elems:
  assumes "layout rd foot" shows "layout (rd_elems rd) (foot_elems foot)"
proof
  fix h g :: "'a heap" and xs vs
  assume vs: "rd_elems rd h xs = Some vs"
  show "foot_elems foot h xs \<subseteq> dom (cells h)"
    using layout.footed [OF assms] rd_elems_in [OF vs] by (fastforce simp: foot_elems_def)
  assume same: "\<And>a. a \<in> foot_elems foot h xs \<Longrightarrow> cells g a = cells h a"
  have "rd g x = rd h x \<and> foot g x = foot h x" if x: "x \<in> set xs" for x
  proof -
    obtain v where v: "rd h x = Some v" using rd_elems_in [OF vs x] by blast
    have "a \<in> foot h x \<Longrightarrow> cells g a = cells h a" for a using same x by (auto simp: foot_elems_def)
    then show ?thesis using v by (metis layout.local_read [OF assms v] layout.local_foot [OF assms v])
  qed
  then show "rd_elems rd g xs = Some vs" "foot_elems foot g xs = foot_elems foot h xs"
    using vs by (simp_all add: rd_elems_def foot_elems_def cong: map_cong)
qed

lemma layout_entries:
  assumes "layout rd foot" shows "layout (rd_entries rd) (foot_entries foot)"
proof
  fix h g :: "'a heap" and kvs v
  note elems = layout_elems [OF assms]
  assume v: "rd_entries rd h kvs = Some v"
  then obtain vs where vs: "rd_elems rd h (map snd kvs) = Some vs"
    by (auto simp: rd_entries_def split: if_splits)
  show "foot_entries foot h kvs \<subseteq> dom (cells h)"
    using layout.footed [OF elems vs] by (simp add: foot_entries_def)
  assume same: "\<And>a. a \<in> foot_entries foot h kvs \<Longrightarrow> cells g a = cells h a"
  have "rd_elems rd g (map snd kvs) = Some vs"
    by (rule layout.local_read [OF elems vs]) (rule same, simp add: foot_entries_def)
  moreover have "foot_elems foot g (map snd kvs) = foot_elems foot h (map snd kvs)"
    by (rule layout.local_foot [OF elems vs]) (rule same, simp add: foot_entries_def)
  ultimately show "rd_entries rd g kvs = Some v" "foot_entries foot g kvs = foot_entries foot h kvs"
    using v vs by (simp_all add: rd_entries_def foot_entries_def split: if_splits)
qed

lemma rd_ref_simps [simp]:
  "rd_ref sel rd h None = Some None"
  "rd_ref sel rd h (Some a) = Some v \<longleftrightarrow> (\<exists>x y. fetch sel h a = Some x \<and> rd h x = Some y \<and> v = Some y)"
  by (auto simp: rd_ref_def bind_eq_Some_conv)

lemma foot_ref_simps [simp]:
  "foot_ref sel foot h None = {}"
  "fetch sel h a = Some x \<Longrightarrow> foot_ref sel foot h (Some a) = insert a (foot h x)"
  by (simp_all add: foot_ref_def)

lemma layout_ref:
  assumes "layout rd foot" shows "layout (rd_ref sel rd) (foot_ref sel foot)"
proof
  fix h g :: "'a heap" and r v
  assume v: "rd_ref sel rd h r = Some v"
  show "foot_ref sel foot h r \<subseteq> dom (cells h)"
  proof (cases r)
    case (Some a)
    then obtain x y where x: "fetch sel h a = Some x" "rd h x = Some y" using v by auto
    then show ?thesis
      using Some layout.footed [OF assms x(2)] fetch_Some_dom [OF x(1)] by simp
  qed simp
  assume same: "\<And>a. a \<in> foot_ref sel foot h r \<Longrightarrow> cells g a = cells h a"
  have "rd_ref sel rd g r = Some v \<and> foot_ref sel foot g r = foot_ref sel foot h r"
  proof (cases r)
    case (Some a)
    then obtain x y where x: "fetch sel h a = Some x" "rd h x = Some y" "v = Some y" using v by auto
    then have "fetch sel g a = Some x" using same Some fetch_cong [of g a h sel] by simp
    moreover have agree: "b \<in> foot h x \<Longrightarrow> cells g b = cells h b" for b using same Some x(1) by simp
    have "rd g x = Some y" by (rule layout.local_read [OF assms x(2) agree])
    moreover have "foot g x = foot h x" by (rule layout.local_foot [OF assms x(2) agree])
    ultimately show ?thesis using x Some by simp
  qed (use v in simp)
  then show "rd_ref sel rd g r = Some v" "foot_ref sel foot g r = foot_ref sel foot h r" by simp_all
qed

subsection \<open>The copying loops of generated code\<close>

text \<open>
  \<open>copy_slice\<close> is \<open>make([]T, len(*in))\<close> followed by the loop that copies each element into its place,
  \<open>copy_map\<close> is \<open>make(map[K]V, len(*in))\<close> followed by the loop over the entries, \<open>copy_flat\<close> allocates a zero
  value and then copies a content that holds no references (\<open>copy(*out, *in)\<close>, \<open>**out = **in\<close>), and
  \<open>copy_ptr\<close> is a \<open>DeepCopy\<close> method: nil for nil, else a new zero struct filled by \<open>DeepCopyInto\<close>.
\<close>

fun copy_elems ::
  "('c \<Rightarrow> 'm list option) \<Rightarrow> ('m list \<Rightarrow> 'c) \<Rightarrow> ('c, 'm) copier \<Rightarrow> addr \<Rightarrow> addr \<Rightarrow> nat list \<Rightarrow> 'c heap \<Rightarrow> 'c heap option"
  where
  "copy_elems sel mk cp src dst [] h = Some h"
| "copy_elems sel mk cp src dst (i # is) h = do {
     xs \<leftarrow> fetch sel h src;
     (if i < length xs then do {
        (y, h) \<leftarrow> cp (xs ! i) h;
        ys \<leftarrow> fetch sel h dst;
        (if i < length ys then copy_elems sel mk cp src dst is (store h dst (mk (ys[i := y]))) else None)
      } else None)
   }"

definition copy_slice ::
  "('c \<Rightarrow> 'm list option) \<Rightarrow> ('m list \<Rightarrow> 'c) \<Rightarrow> 'm \<Rightarrow> ('c, 'm) copier \<Rightarrow> ('c, ref) copier" where
  "copy_slice sel mk zero cp r h =
     (case r of None \<Rightarrow> Some (None, h)
      | Some src \<Rightarrow> do {
          xs \<leftarrow> fetch sel h src;
          let (dst, h) = alloc (mk (replicate (length xs) zero)) h;
          h \<leftarrow> copy_elems sel mk cp src dst [0..<length xs] h;
          Some (Some dst, h)
        })"

fun copy_entries ::
  "('c \<Rightarrow> (string \<times> 'm) list option) \<Rightarrow> ((string \<times> 'm) list \<Rightarrow> 'c) \<Rightarrow> ('c, 'm) copier \<Rightarrow> addr
   \<Rightarrow> (string \<times> 'm) list \<Rightarrow> 'c heap \<Rightarrow> 'c heap option" where
  "copy_entries sel mk cp dst [] h = Some h"
| "copy_entries sel mk cp dst ((k, x) # kvs) h = do {
     (y, h) \<leftarrow> cp x h;
     entries \<leftarrow> fetch sel h dst;
     copy_entries sel mk cp dst kvs (store h dst (mk (AList.update k y entries)))
   }"

definition copy_map ::
  "('c \<Rightarrow> (string \<times> 'm) list option) \<Rightarrow> ((string \<times> 'm) list \<Rightarrow> 'c) \<Rightarrow> ('c, 'm) copier \<Rightarrow> ('c, ref) copier" where
  "copy_map sel mk cp r h =
     (case r of None \<Rightarrow> Some (None, h)
      | Some src \<Rightarrow> do {
          kvs \<leftarrow> fetch sel h src;
          let (dst, h) = alloc (mk []) h;
          h \<leftarrow> copy_entries sel mk cp dst kvs h;
          Some (Some dst, h)
        })"

definition copy_flat :: "('c \<Rightarrow> 'x option) \<Rightarrow> ('x \<Rightarrow> 'c) \<Rightarrow> ('x \<Rightarrow> 'x) \<Rightarrow> ('c, ref) copier" where
  "copy_flat sel mk zero r h =
     (case r of None \<Rightarrow> Some (None, h)
      | Some src \<Rightarrow> do {
          x \<leftarrow> fetch sel h src;
          let (dst, h) = alloc (mk (zero x)) h;
          Some (Some dst, store h dst (mk x))
        })"

definition copy_ptr :: "('c \<Rightarrow> 'm option) \<Rightarrow> ('m \<Rightarrow> 'c) \<Rightarrow> 'm \<Rightarrow> ('c, 'm) copier \<Rightarrow> ('c, ref) copier" where
  "copy_ptr sel mk zero cp r h =
     (case r of None \<Rightarrow> Some (None, h)
      | Some src \<Rightarrow> do {
          let (dst, h) = alloc (mk zero) h;
          x \<leftarrow> fetch sel h src;
          (y, h) \<leftarrow> cp x h;
          Some (Some dst, store h dst (mk y))
        })"

text \<open>It is enough to show what a copied reference points to.\<close>

lemma ref_copierI:
  assumes "layout rd foot" "\<And>h. cp None h = Some (None, h)"
    and "\<And>h a x v. ok h \<Longrightarrow> fetch sel h a = Some x \<Longrightarrow> rd h x = Some v \<Longrightarrow>
      \<exists>b h' y. cp (Some a) h = Some (Some b, h') \<and> grows h h' \<and> b \<notin> dom (cells h) \<and>
        fetch sel h' b = Some y \<and> rd h' y = Some v \<and> foot h' y \<inter> dom (cells h) = {}"
  shows "deep_copier (rd_ref sel rd) (foot_ref sel foot) cp"
proof (intro deep_copier.intro deep_copier_axioms.intro layout_ref assms(1))
  fix h r v assume h: "ok h" and v: "rd_ref sel rd h r = Some v"
  show "\<exists>r' h'. cp r h = Some (r', h') \<and> grows h h' \<and> rd_ref sel rd h' r' = Some v \<and>
      foot_ref sel foot h' r' \<inter> dom (cells h) = {}"
  proof (cases r)
    case None then show ?thesis using h v assms(2) by simp
  next
    case (Some a)
    then obtain x y where x: "fetch sel h a = Some x" "rd h x = Some y" "v = Some y" using v by auto
    from assms(3) [OF h x(1,2)] show ?thesis using Some x(3) by (fastforce simp del: rd_ref_simps(2) simp: rd_ref_def)
  qed
qed

lemma flat_copier:
  assumes "\<And>x. sel (mk x) = Some x"
  shows "deep_copier (rd_ref sel rd_flat) (foot_ref sel foot_flat) (copy_flat sel mk zero)"
proof (rule ref_copierI [OF layout_flat])
  fix h a x v assume h: "ok h" and x: "fetch sel h a = Some x" "rd_flat h x = Some v"
  obtain b g where b: "alloc (mk (zero x)) h = (b, g)" by fastforce
  note g = alloc_grows [OF h b]
  then have "grows h (store g b (mk x))" by (auto intro: store_grows)
  then show "\<exists>b h' y. copy_flat sel mk zero (Some a) h = Some (Some b, h') \<and> grows h h' \<and>
      b \<notin> dom (cells h) \<and> fetch sel h' b = Some y \<and> rd_flat h' y = Some v \<and> foot_flat h' y \<inter> dom (cells h) = {}"
    using x b g by (simp add: copy_flat_def rd_flat_def foot_flat_def fetch_def assms)
qed (simp add: copy_flat_def)

text \<open>
  While a loop fills the cell \<open>b\<close>, allocated since the heap was \<open>h0\<close>: the copies made so far read as
  the values they are copies of, and reach neither \<open>b\<close> nor a cell of \<open>h0\<close>.
\<close>

definition fresh_copy ::
  "('c heap \<Rightarrow> 'm \<Rightarrow> 'v option) \<Rightarrow> ('c heap \<Rightarrow> 'm \<Rightarrow> addr set) \<Rightarrow> 'c heap \<Rightarrow> addr \<Rightarrow> 'c heap \<Rightarrow> 'm \<Rightarrow> 'v \<Rightarrow> bool"
  where
  "fresh_copy rd foot h0 b h y v \<longleftrightarrow>
     rd h y = Some v \<and> foot h y \<inter> insert b (dom (cells h0)) = {}"

abbreviation fresh_copies ::
  "('c heap \<Rightarrow> 'm \<Rightarrow> 'v option) \<Rightarrow> ('c heap \<Rightarrow> 'm \<Rightarrow> addr set) \<Rightarrow> 'c heap \<Rightarrow> addr \<Rightarrow> 'c heap \<Rightarrow> 'm list \<Rightarrow> 'v list \<Rightarrow> bool"
  where
  "fresh_copies rd foot h0 b h \<equiv> list_all2 (fresh_copy rd foot h0 b h)"

lemma fresh_copies_reads:
  "fresh_copies rd foot h0 b h ys vs \<Longrightarrow> rd_elems rd h ys = Some vs \<and> foot_elems foot h ys \<inter> dom (cells h0) = {}"
  by (fastforce simp: fresh_copy_def rd_elems_iff foot_elems_def list_all2_conv_all_nth in_set_conv_nth)

lemma update_new: "k \<notin> fst ` set kvs \<Longrightarrow> AList.update k v kvs = kvs @ [(k, v)]"
  by (induction kvs) auto

context deep_copier
begin

lemma copy_ptr_copier:
  assumes "\<And>x. sel (mk x) = Some x"
  shows "deep_copier (rd_ref sel rd) (foot_ref sel foot) (copy_ptr sel mk zero cp)"
proof (rule ref_copierI [OF layout_axioms])
  fix h a x v assume h: "ok h" and x: "fetch sel h a = Some x" "rd h x = Some v"
  obtain b g where b: "alloc (mk zero) h = (b, g)" by fastforce
  note g = alloc_grows [OF h b]
  obtain y k where y: "cp x g = Some (y, k)" "grows g k" "rd k y = Some v" "foot k y \<inter> dom (cells g) = {}"
    using copyE [OF grows_ok [OF g(1)] grows_read [OF g(1) x(2)]] .
  have b': "b \<notin> foot k y" "b \<in> dom (cells k)" using y(2,4) g(3) grows_dom [OF y(2)] by auto
  have "grows h (store k b (mk y))" using store_grows [OF grows_trans [OF g(1) y(2)] b'(2) g(2)] .
  moreover have "foot (store k b (mk y)) y \<inter> dom (cells h) = {}"
    unfolding store_foot [OF y(3) b'(1)] using y(4) grows_dom [OF g(1)] by blast
  ultimately show "\<exists>b h' y. copy_ptr sel mk zero cp (Some a) h = Some (Some b, h') \<and> grows h h' \<and>
      b \<notin> dom (cells h) \<and> fetch sel h' b = Some y \<and> rd h' y = Some v \<and> foot h' y \<inter> dom (cells h) = {}"
    using b y(1) g(2) grows_fetch [OF g(1) x(1)] store_read [OF y(3) b'(1)]
    by (simp add: copy_ptr_def assms)
qed (simp add: copy_ptr_def)

text \<open>One more copy, and the write of the cell that holds it.\<close>

lemma fresh_copies_step:
  assumes "fresh_copies rd foot h0 b h ys vs" "grows h0 h" "b \<in> dom (cells h)" "b \<notin> dom (cells h0)"
    and "rd h0 x = Some v"
  obtains y k where "cp x h = Some (y, k)" "cells k b = cells h b"
    "\<forall>c. grows h0 (store k b c)" "\<forall>c. fresh_copies rd foot h0 b (store k b c) (ys @ [y]) (vs @ [v])"
proof -
  obtain y k where y: "cp x h = Some (y, k)" "grows h k" "rd k y = Some v" "foot k y \<inter> dom (cells h) = {}"
    using copyE [OF grows_ok [OF assms(2)] grows_read [OF assms(2,5)]] .
  have b: "b \<in> dom (cells k)" using grows_dom [OF y(2)] assms(3) by blast
  have old: "fresh_copy rd foot h0 b (store k b c) z w" if "fresh_copy rd foot h0 b h z w" for z w c
  proof -
    have z: "rd h z = Some w" "b \<notin> foot h z" "foot h z \<inter> dom (cells h0) = {}"
      using that by (auto simp: fresh_copy_def)
    have "b \<notin> foot k z" using z(2) grows_foot [OF y(2) z(1)] by simp
    note kz = store_read [OF grows_read [OF y(2) z(1)] this] store_foot [OF grows_read [OF y(2) z(1)] this]
    show ?thesis unfolding fresh_copy_def kz grows_foot [OF y(2) z(1)] using z by simp
  qed
  have new: "fresh_copy rd foot h0 b (store k b c) y v" for c
  proof -
    have b: "b \<notin> foot k y" using y(4) assms(3) by blast
    show ?thesis unfolding fresh_copy_def store_read [OF y(3) b] store_foot [OF y(3) b]
      using b y(4) grows_dom [OF assms(2)] by blast
  qed
  show ?thesis
  proof (rule that [OF y(1)])
    show "cells k b = cells h b" by (rule grows_cell [OF y(2) assms(3)])
    show "\<forall>c. grows h0 (store k b c)" by (intro allI) (rule store_grows [OF grows_trans [OF assms(2) y(2)] b assms(4)])
    show "\<forall>c. fresh_copies rd foot h0 b (store k b c) (ys @ [y]) (vs @ [v])"
      using assms(1) old new by (intro allI list_all2_appendI) (auto elim: list_all2_mono)
  qed
qed

lemma copy_elems_copies:
  assumes kind: "\<And>xs. sel (mk xs) = Some xs"
    and "grows h0 h" "b \<notin> dom (cells h0)" "fetch sel h0 a = Some xs" "fetch sel h b = Some ys"
    and "length ys = length xs" "i \<le> length xs" "rd_elems rd h0 xs = Some vs"
    and "fresh_copies rd foot h0 b h (take i ys) (take i vs)"
  shows "\<exists>h' zs. copy_elems sel mk cp a b [i..<length xs] h = Some h' \<and> grows h0 h' \<and>
    fetch sel h' b = Some zs \<and> fresh_copies rd foot h0 b h' zs vs"
  using assms(2-)
proof (induction "length xs - i" arbitrary: i h ys)
  case 0
  moreover have "length xs = length vs" using 0 by (simp add: rd_elems_iff list_all2_lengthD)
  ultimately show ?case by (auto simp: upt_rec)
next
  case (Suc n)
  then have i: "i < length xs" "i < length vs" by (auto simp: rd_elems_iff dest: list_all2_lengthD)
  have v: "rd h0 (xs ! i) = Some (vs ! i)" using Suc.prems(7) i(1) by (simp add: rd_elems_iff list_all2_conv_all_nth)
  obtain y k where y: "cp (xs ! i) h = Some (y, k)" "cells k b = cells h b"
    and k: "\<forall>c. grows h0 (store k b c)"
      "\<forall>c. fresh_copies rd foot h0 b (store k b c) (take i ys @ [y]) (take i vs @ [vs ! i])"
    using fresh_copies_step [OF Suc.prems(8,1) fetch_Some_dom [OF Suc.prems(4)] Suc.prems(2) v] .
  have "take i ys @ [y] = take (Suc i) (ys[i := y])"
    using i Suc.prems(5) by (simp add: take_Suc_conv_app_nth take_update_cancel)
  moreover have "take i vs @ [vs ! i] = take (Suc i) vs" using i(2) by (simp add: take_Suc_conv_app_nth)
  ultimately have step: "\<exists>h' zs. copy_elems sel mk cp a b [Suc i..<length xs] (store k b (mk (ys[i := y]))) = Some h' \<and>
      grows h0 h' \<and> fetch sel h' b = Some zs \<and> fresh_copies rd foot h0 b h' zs vs"
    using Suc.hyps(1) [of "Suc i" "store k b (mk (ys[i := y]))" "ys[i := y]"] Suc.hyps(2) Suc.prems k i
    by (simp add: kind del: upt_Suc)
  have "[i..<length xs] = i # [Suc i..<length xs]" using i(1) by (simp add: upt_rec)
  then show ?case
    using step y(1) fetch_cong [OF y(2), of sel] Suc.prems(4,5) i(1) grows_fetch [OF Suc.prems(1,3)] by simp
qed

lemma copy_slice_copier:
  assumes kind: "\<And>xs. sel (mk xs) = Some xs"
  shows "deep_copier (rd_ref sel (rd_elems rd)) (foot_ref sel (foot_elems foot)) (copy_slice sel mk zero cp)"
proof (rule ref_copierI [OF layout_elems [OF layout_axioms]])
  fix h a xs vs assume h: "ok h" and x: "fetch sel h a = Some xs" "rd_elems rd h xs = Some vs"
  obtain b g where b: "alloc (mk (replicate (length xs) zero)) h = (b, g)" by fastforce
  note g = alloc_grows [OF h b]
  have "fetch sel g b = Some (replicate (length xs) zero)" using g(3) by (simp add: fetch_def kind)
  from copy_elems_copies [OF kind g(1,2) x(1) this _ _ x(2), of 0]
  obtain h' zs where "copy_elems sel mk cp a b [0..<length xs] g = Some h'" "grows h h'" "fetch sel h' b = Some zs"
    and zs: "fresh_copies rd foot h b h' zs vs"
    by auto
  then show "\<exists>b h' y. copy_slice sel mk zero cp (Some a) h = Some (Some b, h') \<and> grows h h' \<and> b \<notin> dom (cells h) \<and>
      fetch sel h' b = Some y \<and> rd_elems rd h' y = Some vs \<and> foot_elems foot h' y \<inter> dom (cells h) = {}"
    using x(1) b g(2) fresh_copies_reads [OF zs] by (simp add: copy_slice_def)
qed (simp add: copy_slice_def)

lemma copy_entries_copies:
  assumes kind: "\<And>kvs. sel (mk kvs) = Some kvs"
    and "grows h0 h" "b \<notin> dom (cells h0)" "fetch sel h b = Some out"
    and "rd_elems rd h0 (map snd kvs) = Some vs" "distinct (map fst out @ map fst kvs)"
    and "fresh_copies rd foot h0 b h (map snd out) ws"
  shows "\<exists>h' out'. copy_entries sel mk cp b kvs h = Some h' \<and> grows h0 h' \<and> fetch sel h' b = Some out' \<and>
    map fst out' = map fst out @ map fst kvs \<and> fresh_copies rd foot h0 b h' (map snd out') (ws @ vs)"
  using assms(2-)
proof (induction kvs arbitrary: h out ws vs)
  case Nil
  then show ?case by (simp add: rd_elems_def)
next
  case (Cons kv kvs)
  obtain key x where kv: "kv = (key, x)" by fastforce
  obtain v vs' where v: "vs = v # vs'" "rd h0 x = Some v" "rd_elems rd h0 (map snd kvs) = Some vs'"
    using Cons.prems(4) kv by (auto simp: rd_elems_iff list_all2_Cons1)
  obtain y k where y: "cp x h = Some (y, k)" "cells k b = cells h b"
    and k: "\<forall>c. grows h0 (store k b c)"
      "\<forall>c. fresh_copies rd foot h0 b (store k b c) (map snd out @ [y]) (ws @ [v])"
    using fresh_copies_step [OF Cons.prems(6,1) fetch_Some_dom [OF Cons.prems(3)] Cons.prems(2) v(2)] .
  have "AList.update key y out = out @ [(key, y)]"
    using Cons.prems(5) kv by (simp add: update_new)
  then show ?case
    using Cons.IH [OF k(1) [rule_format, of "mk (out @ [(key, y)])"] Cons.prems(2) _ v(3), of "out @ [(key, y)]" "ws @ [v]"] k(2) y(1) fetch_cong [OF y(2), of sel]
      Cons.prems(3,5) kv v(1)
    by (simp add: kind)
qed

lemma copy_map_copier:
  assumes kind: "\<And>kvs. sel (mk kvs) = Some kvs"
  shows "deep_copier (rd_ref sel (rd_entries rd)) (foot_ref sel (foot_entries foot)) (copy_map sel mk cp)"
proof (rule ref_copierI [OF layout_entries [OF layout_axioms]])
  fix h a kvs v assume h: "ok h" and x: "fetch sel h a = Some kvs" "rd_entries rd h kvs = Some v"
  obtain vs where vs: "distinct (map fst kvs)" "rd_elems rd h (map snd kvs) = Some vs"
    "v = map_of (zip (map fst kvs) vs)"
    using x(2) by (auto simp: rd_entries_def split: if_splits)
  obtain b g where b: "alloc (mk []) h = (b, g)" by fastforce
  note g = alloc_grows [OF h b]
  have "fetch sel g b = Some []" using g(3) by (simp add: fetch_def kind)
  from copy_entries_copies [OF kind g(1,2) this vs(2), of "[]"] vs(1)
  obtain h' out where "copy_entries sel mk cp b kvs g = Some h'" "grows h h'" "fetch sel h' b = Some out"
    "map fst out = map fst kvs" and out: "fresh_copies rd foot h b h' (map snd out) vs"
    by auto
  then show "\<exists>b h' y. copy_map sel mk cp (Some a) h = Some (Some b, h') \<and> grows h h' \<and> b \<notin> dom (cells h) \<and>
      fetch sel h' b = Some y \<and> rd_entries rd h' y = Some v \<and> foot_entries foot h' y \<inter> dom (cells h) = {}"
    using x(1) b g(2) fresh_copies_reads [OF out] vs by (simp add: copy_map_def rd_entries_def foot_entries_def)
qed (simp add: copy_map_def)

end

subsection \<open>Structs\<close>

text \<open>
  A struct with references is copied by assigning it and then replacing its references one after the
  other. For the proof its references are a tuple: \<open>parts\<close> reads it, \<open>replace\<close> writes it, and the struct
  reads as \<open>build s v\<close> when the tuple reads as \<open>v\<close>.
\<close>

definition rd_pair ::
  "('c heap \<Rightarrow> 'm \<Rightarrow> 'v option) \<Rightarrow> ('c heap \<Rightarrow> 'n \<Rightarrow> 'w option) \<Rightarrow> 'c heap \<Rightarrow> 'm \<times> 'n \<Rightarrow> ('v \<times> 'w) option" where
  "rd_pair rd rd' h p = do { v \<leftarrow> rd h (fst p); w \<leftarrow> rd' h (snd p); Some (v, w) }"

definition foot_pair ::
  "('c heap \<Rightarrow> 'm \<Rightarrow> addr set) \<Rightarrow> ('c heap \<Rightarrow> 'n \<Rightarrow> addr set) \<Rightarrow> 'c heap \<Rightarrow> 'm \<times> 'n \<Rightarrow> addr set" where
  "foot_pair foot foot' h p = foot h (fst p) \<union> foot' h (snd p)"

definition copy_pair :: "('c, 'm) copier \<Rightarrow> ('c, 'n) copier \<Rightarrow> ('c, 'm \<times> 'n) copier" where
  "copy_pair cp cp' p h = do { (x, h) \<leftarrow> cp (fst p) h; (y, h) \<leftarrow> cp' (snd p) h; Some ((x, y), h) }"

lemma rd_pair_Some [simp]:
  "rd_pair rd rd' h (x, y) = Some v \<longleftrightarrow> rd h x = Some (fst v) \<and> rd' h y = Some (snd v)"
  by (cases v) (auto simp: rd_pair_def bind_eq_Some_conv)

lemma layout_pair:
  assumes "layout rd foot" "layout rd' foot'"
  shows "layout (rd_pair rd rd') (foot_pair foot foot')"
proof
  fix h g :: "'a heap" and p v
  assume pv: "rd_pair rd rd' h p = Some v"
  obtain x y where p: "p = (x, y)" by fastforce
  then have v: "rd h x = Some (fst v)" "rd' h y = Some (snd v)" using pv by simp_all
  show "foot_pair foot foot' h p \<subseteq> dom (cells h)"
    using layout.footed [OF assms(1) v(1)] layout.footed [OF assms(2) v(2)] p by (simp add: foot_pair_def)
  assume same: "\<And>a. a \<in> foot_pair foot foot' h p \<Longrightarrow> cells g a = cells h a"
  then have x: "a \<in> foot h x \<Longrightarrow> cells g a = cells h a" and y: "a \<in> foot' h y \<Longrightarrow> cells g a = cells h a" for a
    using p by (simp_all add: foot_pair_def)
  show "rd_pair rd rd' g p = Some v"
    using layout.local_read [OF assms(1) v(1) x] layout.local_read [OF assms(2) v(2) y] p by simp
  show "foot_pair foot foot' g p = foot_pair foot foot' h p"
    using layout.local_foot [OF assms(1) v(1) x] layout.local_foot [OF assms(2) v(2) y] p by (simp add: foot_pair_def)
qed

lemma pair_copier:
  assumes "deep_copier rd foot cp" "deep_copier rd' foot' cp'"
  shows "deep_copier (rd_pair rd rd') (foot_pair foot foot') (copy_pair cp cp')"
proof (intro deep_copier.intro deep_copier_axioms.intro layout_pair deep_copier.axioms(1) [OF assms(1)]
    deep_copier.axioms(1) [OF assms(2)])
  fix h p v assume h: "ok h" and v: "rd_pair rd rd' h p = Some v"
  obtain x y where p: "p = (x, y)" by fastforce
  note l = deep_copier.axioms(1) [OF assms(1)] and l' = deep_copier.axioms(1) [OF assms(2)]
  have xy: "rd h x = Some (fst v)" "rd' h y = Some (snd v)" using v p by simp_all
  obtain x' g where x': "cp x h = Some (x', g)" "grows h g" "rd g x' = Some (fst v)" "foot g x' \<inter> dom (cells h) = {}"
    using deep_copier.copyE [OF assms(1) h xy(1)] .
  obtain y' k where y': "cp' y g = Some (y', k)" "grows g k" "rd' k y' = Some (snd v)" "foot' k y' \<inter> dom (cells g) = {}"
    using deep_copier.copyE [OF assms(2) grows_ok [OF x'(2)] layout.grows_read [OF l' x'(2) xy(2)]] .
  have "foot_pair foot foot' k (x', y') \<inter> dom (cells h) = {}"
    unfolding foot_pair_def fst_conv snd_conv layout.grows_foot [OF l y'(2) x'(3)]
    using x'(4) y'(4) grows_dom [OF x'(2)] by blast
  then show "\<exists>p' h'. copy_pair cp cp' p h = Some (p', h') \<and> grows h h' \<and> rd_pair rd rd' h' p' = Some v \<and>
      foot_pair foot foot' h' p' \<inter> dom (cells h) = {}"
    using x'(1) y'(1,3) p grows_trans [OF x'(2) y'(2)] layout.grows_read [OF l y'(2) x'(3)]
    by (simp add: copy_pair_def)
qed

lemma struct_copier:
  assumes "deep_copier rdf footf cpf"
    and "\<And>s p. parts (replace s p) = p" "\<And>s p. build (replace s p) = build s"
    and rd: "\<And>h s. rd h s = map_option (build s) (rdf h (parts s))"
    and foot: "\<And>h s. foot h s = footf h (parts s)"
    and cp: "\<And>s h. cp s h = do { (p, h) \<leftarrow> cpf (parts s) h; Some (replace s p, h) }"
  shows "deep_copier rd foot cp"
proof -
  note l = deep_copier.axioms(1) [OF assms(1)]
  have "layout rd foot"
  proof
    fix h g :: "'a heap" and s v assume "rd h s = Some v"
    then obtain w where w: "rdf h (parts s) = Some w" "v = build s w" using rd by auto
    show "foot h s \<subseteq> dom (cells h)" unfolding foot by (rule layout.footed [OF l w(1)])
    assume "\<And>a. a \<in> foot h s \<Longrightarrow> cells g a = cells h a"
    then have same: "a \<in> footf h (parts s) \<Longrightarrow> cells g a = cells h a" for a using foot by simp
    show "rd g s = Some v" using layout.local_read [OF l w(1) same] w(2) rd by simp
    show "foot g s = foot h s" unfolding foot by (rule layout.local_foot [OF l w(1) same])
  qed
  moreover have "\<exists>s' h'. cp s h = Some (s', h') \<and> grows h h' \<and> rd h' s' = Some v \<and> foot h' s' \<inter> dom (cells h) = {}"
    if h: "ok h" "rd h s = Some v" for h s v
  proof -
    obtain w where w: "rdf h (parts s) = Some w" "v = build s w" using h(2) rd by auto
    obtain p g where "cpf (parts s) h = Some (p, g)" "grows h g" "rdf g p = Some w" "footf g p \<inter> dom (cells h) = {}"
      using deep_copier.copyE [OF assms(1) h(1) w(1)] .
    then show ?thesis using w(2) assms(2,3) rd foot cp by simp
  qed
  ultimately show ?thesis by (intro deep_copier.intro deep_copier_axioms.intro) simp_all
qed

text \<open>A value without references is copied by assignment.\<close>

definition copy_plain :: "('c, 'm) copier" where
  "copy_plain x h = Some (x, h)"

lemma plain_copier: "deep_copier rd_flat foot_flat copy_plain"
  by (intro deep_copier.intro layout_flat deep_copier_axioms.intro)
    (simp add: rd_flat_def foot_flat_def copy_plain_def)

end
