(* ===== verification/ApiMemory.thy ===== *)
theory ApiMemory
  imports GoHeap ApiTypes
begin

text \<open>
  The types of \<open>api/v1\<close> as they lie in Go's memory, over the heap of \<open>GoHeap\<close>. A type with references has a
  second record, named after it with the ending \<open>_mem\<close>, in which slices, maps and pointers are references.
  \<open>rd_T\<close> reads it as a value of the record type of \<open>ApiTypes\<close> (together with the \<open>TypeMeta\<close>, where it has
  one); it is \<open>None\<close> when a reference leads nowhere or to a cell of another type. \<open>foot_T\<close> is the set of the
  addresses it reaches.
\<close>

subsection \<open>Structs in memory\<close>

text \<open>The Kubernetes types, with the fields \<open>ApiTypes\<close> keeps; a \<open>Quantity\<close> is a text or points to a big decimal.\<close>

record ObjectMeta_mem =
  mName :: string
  mGenerateName :: string
  mLabels :: ref
  mAnnotations :: ref
  mFinalizers :: ref
  mDeletionTimestamp :: ref
  mOwnerReferences :: ref

record ListMeta_mem =
  mListResourceVersion :: string
  mListContinue :: string
  mRemainingItemCount :: ref

record Quantity_mem =
  mQuantityText :: string
  mQuantityDec :: ref

record NodeSelectorRequirement_mem =
  mKey :: string
  mOperator :: string
  mValues :: ref

record TypedLocalObjectReference_mem =
  mRefAPIGroup :: ref
  mRefKind :: string
  mRefName :: string

text \<open>The types of \<open>api/v1\<close> that hold references.\<close>

record ProxmoxProviderSpec_mem =
  mEndpoint :: string
  mInsecure :: bool
  mCredentials :: ProxmoxCredentials
  mNodes :: ref
  mProxmoxPool :: string
  mSourceTemplate :: TemplateSource
  mStorage :: string
  mNetworkBridge :: string
  mTags :: ref
  mCloudInit :: CloudInitConfig
  mBootstrap :: BootstrapConfig

record ProxmoxProviderStatus_mem =
  mProviderConditions :: ref

record ProxmoxProvider_mem =
  mProviderTypeMeta :: TypeMeta
  mProviderMeta :: ObjectMeta_mem
  mProviderSpec :: ProxmoxProviderSpec_mem
  mProviderStatus :: ProxmoxProviderStatus_mem

record ProxmoxProviderList_mem =
  mProviderListTypeMeta :: TypeMeta
  mProviderListMeta :: ListMeta_mem
  mProviderItems :: ref

record XenonNodeClaimSpec_mem =
  mNodePoolRef :: string
  mRequirements :: ref
  mResources :: ref

record XenonNodeClaimStatus_mem =
  mProviderID :: string
  mNodeName :: string
  mCapacity :: ref
  mAllocatable :: ref
  mConditions :: ref

record XenonNodeClaim_mem =
  mClaimTypeMeta :: TypeMeta
  mClaimMeta :: ObjectMeta_mem
  mClaimSpec :: XenonNodeClaimSpec_mem
  mClaimStatus :: XenonNodeClaimStatus_mem

record XenonNodeClaimList_mem =
  mClaimListTypeMeta :: TypeMeta
  mClaimListMeta :: ListMeta_mem
  mClaimItems :: ref

record XenonNodeClaimTemplateSpec_mem =
  mTemplateRequirements :: ref
  mTemplateResources :: ref

record XenonNodeClaimTemplate_mem =
  mTemplateLabels :: ref
  mTemplateAnnotations :: ref
  mTemplateSpec :: XenonNodeClaimTemplateSpec_mem

record XenonNodePoolSpec_mem =
  mProviderRef :: TypedLocalObjectReference_mem
  mTemplate :: XenonNodeClaimTemplate_mem
  mLimits :: ref
  mWeight :: ref

record XenonNodePoolStatus_mem =
  mPoolResources :: ref
  mPoolConditions :: ref

record XenonNodePool_mem =
  mPoolTypeMeta :: TypeMeta
  mPoolMeta :: ObjectMeta_mem
  mPoolSpec :: XenonNodePoolSpec_mem
  mPoolStatus :: XenonNodePoolStatus_mem

record XenonNodePoolList_mem =
  mPoolListTypeMeta :: TypeMeta
  mPoolListMeta :: ListMeta_mem
  mPoolItems :: ref

subsection \<open>Cells\<close>

text \<open>What an address can hold: the contents of a slice or a map, a scalar, or a struct.\<close>

datatype cell =
    StringsCell "string list"
  | StringMapCell "(string \<times> string) list"
  | QuantityMapCell "(string \<times> Quantity_mem) list"
  | RequirementsCell "NodeSelectorRequirement_mem list"
  | ConditionsCell "Condition list"
  | OwnersCell "OwnerReference list"
  | Int32Cell int
  | Int64Cell int
  | StringCell string
  | TimeCell int
  | DecimalCell string
  | ProvidersCell "ProxmoxProvider_mem list"
  | ClaimsCell "XenonNodeClaim_mem list"
  | PoolsCell "XenonNodePool_mem list"
  | BootstrapConfigCell BootstrapConfig
  | CloudInitConfigCell CloudInitConfig
  | ProxmoxCredentialsCell ProxmoxCredentials
  | ProxmoxProviderCell ProxmoxProvider_mem
  | ProxmoxProviderListCell ProxmoxProviderList_mem
  | ProxmoxProviderSpecCell ProxmoxProviderSpec_mem
  | ProxmoxProviderStatusCell ProxmoxProviderStatus_mem
  | SecretKeyRefCell SecretKeyRef
  | TemplateSourceCell TemplateSource
  | XenonNodeClaimCell XenonNodeClaim_mem
  | XenonNodeClaimListCell XenonNodeClaimList_mem
  | XenonNodeClaimSpecCell XenonNodeClaimSpec_mem
  | XenonNodeClaimStatusCell XenonNodeClaimStatus_mem
  | XenonNodeClaimTemplateCell XenonNodeClaimTemplate_mem
  | XenonNodeClaimTemplateSpecCell XenonNodeClaimTemplateSpec_mem
  | XenonNodePoolCell XenonNodePool_mem
  | XenonNodePoolListCell XenonNodePoolList_mem
  | XenonNodePoolSpecCell XenonNodePoolSpec_mem
  | XenonNodePoolStatusCell XenonNodePoolStatus_mem

definition as_Strings :: "cell \<Rightarrow> (string list) option" where
  "as_Strings c = (case c of StringsCell x \<Rightarrow> Some x | _ \<Rightarrow> None)"

definition as_StringMap :: "cell \<Rightarrow> ((string \<times> string) list) option" where
  "as_StringMap c = (case c of StringMapCell x \<Rightarrow> Some x | _ \<Rightarrow> None)"

definition as_QuantityMap :: "cell \<Rightarrow> ((string \<times> Quantity_mem) list) option" where
  "as_QuantityMap c = (case c of QuantityMapCell x \<Rightarrow> Some x | _ \<Rightarrow> None)"

definition as_Requirements :: "cell \<Rightarrow> (NodeSelectorRequirement_mem list) option" where
  "as_Requirements c = (case c of RequirementsCell x \<Rightarrow> Some x | _ \<Rightarrow> None)"

definition as_Conditions :: "cell \<Rightarrow> (Condition list) option" where
  "as_Conditions c = (case c of ConditionsCell x \<Rightarrow> Some x | _ \<Rightarrow> None)"

definition as_Owners :: "cell \<Rightarrow> (OwnerReference list) option" where
  "as_Owners c = (case c of OwnersCell x \<Rightarrow> Some x | _ \<Rightarrow> None)"

definition as_Int32 :: "cell \<Rightarrow> int option" where
  "as_Int32 c = (case c of Int32Cell x \<Rightarrow> Some x | _ \<Rightarrow> None)"

definition as_Int64 :: "cell \<Rightarrow> int option" where
  "as_Int64 c = (case c of Int64Cell x \<Rightarrow> Some x | _ \<Rightarrow> None)"

definition as_String :: "cell \<Rightarrow> string option" where
  "as_String c = (case c of StringCell x \<Rightarrow> Some x | _ \<Rightarrow> None)"

definition as_Time :: "cell \<Rightarrow> int option" where
  "as_Time c = (case c of TimeCell x \<Rightarrow> Some x | _ \<Rightarrow> None)"

definition as_Decimal :: "cell \<Rightarrow> string option" where
  "as_Decimal c = (case c of DecimalCell x \<Rightarrow> Some x | _ \<Rightarrow> None)"

definition as_Providers :: "cell \<Rightarrow> (ProxmoxProvider_mem list) option" where
  "as_Providers c = (case c of ProvidersCell x \<Rightarrow> Some x | _ \<Rightarrow> None)"

definition as_Claims :: "cell \<Rightarrow> (XenonNodeClaim_mem list) option" where
  "as_Claims c = (case c of ClaimsCell x \<Rightarrow> Some x | _ \<Rightarrow> None)"

definition as_Pools :: "cell \<Rightarrow> (XenonNodePool_mem list) option" where
  "as_Pools c = (case c of PoolsCell x \<Rightarrow> Some x | _ \<Rightarrow> None)"

definition as_BootstrapConfig :: "cell \<Rightarrow> BootstrapConfig option" where
  "as_BootstrapConfig c = (case c of BootstrapConfigCell x \<Rightarrow> Some x | _ \<Rightarrow> None)"

definition as_CloudInitConfig :: "cell \<Rightarrow> CloudInitConfig option" where
  "as_CloudInitConfig c = (case c of CloudInitConfigCell x \<Rightarrow> Some x | _ \<Rightarrow> None)"

definition as_ProxmoxCredentials :: "cell \<Rightarrow> ProxmoxCredentials option" where
  "as_ProxmoxCredentials c = (case c of ProxmoxCredentialsCell x \<Rightarrow> Some x | _ \<Rightarrow> None)"

definition as_ProxmoxProvider :: "cell \<Rightarrow> ProxmoxProvider_mem option" where
  "as_ProxmoxProvider c = (case c of ProxmoxProviderCell x \<Rightarrow> Some x | _ \<Rightarrow> None)"

definition as_ProxmoxProviderList :: "cell \<Rightarrow> ProxmoxProviderList_mem option" where
  "as_ProxmoxProviderList c = (case c of ProxmoxProviderListCell x \<Rightarrow> Some x | _ \<Rightarrow> None)"

definition as_ProxmoxProviderSpec :: "cell \<Rightarrow> ProxmoxProviderSpec_mem option" where
  "as_ProxmoxProviderSpec c = (case c of ProxmoxProviderSpecCell x \<Rightarrow> Some x | _ \<Rightarrow> None)"

definition as_ProxmoxProviderStatus :: "cell \<Rightarrow> ProxmoxProviderStatus_mem option" where
  "as_ProxmoxProviderStatus c = (case c of ProxmoxProviderStatusCell x \<Rightarrow> Some x | _ \<Rightarrow> None)"

definition as_SecretKeyRef :: "cell \<Rightarrow> SecretKeyRef option" where
  "as_SecretKeyRef c = (case c of SecretKeyRefCell x \<Rightarrow> Some x | _ \<Rightarrow> None)"

definition as_TemplateSource :: "cell \<Rightarrow> TemplateSource option" where
  "as_TemplateSource c = (case c of TemplateSourceCell x \<Rightarrow> Some x | _ \<Rightarrow> None)"

definition as_XenonNodeClaim :: "cell \<Rightarrow> XenonNodeClaim_mem option" where
  "as_XenonNodeClaim c = (case c of XenonNodeClaimCell x \<Rightarrow> Some x | _ \<Rightarrow> None)"

definition as_XenonNodeClaimList :: "cell \<Rightarrow> XenonNodeClaimList_mem option" where
  "as_XenonNodeClaimList c = (case c of XenonNodeClaimListCell x \<Rightarrow> Some x | _ \<Rightarrow> None)"

definition as_XenonNodeClaimSpec :: "cell \<Rightarrow> XenonNodeClaimSpec_mem option" where
  "as_XenonNodeClaimSpec c = (case c of XenonNodeClaimSpecCell x \<Rightarrow> Some x | _ \<Rightarrow> None)"

definition as_XenonNodeClaimStatus :: "cell \<Rightarrow> XenonNodeClaimStatus_mem option" where
  "as_XenonNodeClaimStatus c = (case c of XenonNodeClaimStatusCell x \<Rightarrow> Some x | _ \<Rightarrow> None)"

definition as_XenonNodeClaimTemplate :: "cell \<Rightarrow> XenonNodeClaimTemplate_mem option" where
  "as_XenonNodeClaimTemplate c = (case c of XenonNodeClaimTemplateCell x \<Rightarrow> Some x | _ \<Rightarrow> None)"

definition as_XenonNodeClaimTemplateSpec :: "cell \<Rightarrow> XenonNodeClaimTemplateSpec_mem option" where
  "as_XenonNodeClaimTemplateSpec c = (case c of XenonNodeClaimTemplateSpecCell x \<Rightarrow> Some x | _ \<Rightarrow> None)"

definition as_XenonNodePool :: "cell \<Rightarrow> XenonNodePool_mem option" where
  "as_XenonNodePool c = (case c of XenonNodePoolCell x \<Rightarrow> Some x | _ \<Rightarrow> None)"

definition as_XenonNodePoolList :: "cell \<Rightarrow> XenonNodePoolList_mem option" where
  "as_XenonNodePoolList c = (case c of XenonNodePoolListCell x \<Rightarrow> Some x | _ \<Rightarrow> None)"

definition as_XenonNodePoolSpec :: "cell \<Rightarrow> XenonNodePoolSpec_mem option" where
  "as_XenonNodePoolSpec c = (case c of XenonNodePoolSpecCell x \<Rightarrow> Some x | _ \<Rightarrow> None)"

definition as_XenonNodePoolStatus :: "cell \<Rightarrow> XenonNodePoolStatus_mem option" where
  "as_XenonNodePoolStatus c = (case c of XenonNodePoolStatusCell x \<Rightarrow> Some x | _ \<Rightarrow> None)"

lemma as_cell [simp]:
  "as_Strings (StringsCell x0) = Some x0"
  "as_StringMap (StringMapCell x1) = Some x1"
  "as_QuantityMap (QuantityMapCell x2) = Some x2"
  "as_Requirements (RequirementsCell x3) = Some x3"
  "as_Conditions (ConditionsCell x4) = Some x4"
  "as_Owners (OwnersCell x5) = Some x5"
  "as_Int32 (Int32Cell x6) = Some x6"
  "as_Int64 (Int64Cell x7) = Some x7"
  "as_String (StringCell x8) = Some x8"
  "as_Time (TimeCell x9) = Some x9"
  "as_Decimal (DecimalCell x10) = Some x10"
  "as_Providers (ProvidersCell x11) = Some x11"
  "as_Claims (ClaimsCell x12) = Some x12"
  "as_Pools (PoolsCell x13) = Some x13"
  "as_BootstrapConfig (BootstrapConfigCell x14) = Some x14"
  "as_CloudInitConfig (CloudInitConfigCell x15) = Some x15"
  "as_ProxmoxCredentials (ProxmoxCredentialsCell x16) = Some x16"
  "as_ProxmoxProvider (ProxmoxProviderCell x17) = Some x17"
  "as_ProxmoxProviderList (ProxmoxProviderListCell x18) = Some x18"
  "as_ProxmoxProviderSpec (ProxmoxProviderSpecCell x19) = Some x19"
  "as_ProxmoxProviderStatus (ProxmoxProviderStatusCell x20) = Some x20"
  "as_SecretKeyRef (SecretKeyRefCell x21) = Some x21"
  "as_TemplateSource (TemplateSourceCell x22) = Some x22"
  "as_XenonNodeClaim (XenonNodeClaimCell x23) = Some x23"
  "as_XenonNodeClaimList (XenonNodeClaimListCell x24) = Some x24"
  "as_XenonNodeClaimSpec (XenonNodeClaimSpecCell x25) = Some x25"
  "as_XenonNodeClaimStatus (XenonNodeClaimStatusCell x26) = Some x26"
  "as_XenonNodeClaimTemplate (XenonNodeClaimTemplateCell x27) = Some x27"
  "as_XenonNodeClaimTemplateSpec (XenonNodeClaimTemplateSpecCell x28) = Some x28"
  "as_XenonNodePool (XenonNodePoolCell x29) = Some x29"
  "as_XenonNodePoolList (XenonNodePoolListCell x30) = Some x30"
  "as_XenonNodePoolSpec (XenonNodePoolSpecCell x31) = Some x31"
  "as_XenonNodePoolStatus (XenonNodePoolStatusCell x32) = Some x32"
  by (simp_all add: as_Strings_def as_StringMap_def as_QuantityMap_def as_Requirements_def as_Conditions_def
    as_Owners_def as_Int32_def as_Int64_def as_String_def as_Time_def as_Decimal_def
    as_Providers_def as_Claims_def as_Pools_def as_BootstrapConfig_def as_CloudInitConfig_def
    as_ProxmoxCredentials_def as_ProxmoxProvider_def as_ProxmoxProviderList_def
    as_ProxmoxProviderSpec_def as_ProxmoxProviderStatus_def as_SecretKeyRef_def
    as_TemplateSource_def as_XenonNodeClaim_def as_XenonNodeClaimList_def
    as_XenonNodeClaimSpec_def as_XenonNodeClaimStatus_def as_XenonNodeClaimTemplate_def
    as_XenonNodeClaimTemplateSpec_def as_XenonNodePool_def as_XenonNodePoolList_def
    as_XenonNodePoolSpec_def as_XenonNodePoolStatus_def)

subsection \<open>Reading structs\<close>

abbreviation rd_strings where "rd_strings \<equiv> rd_ref as_Strings rd_flat"
abbreviation foot_strings where "foot_strings \<equiv> foot_ref as_Strings foot_flat"
abbreviation rd_string_map where "rd_string_map \<equiv> rd_ref as_StringMap (rd_entries rd_flat)"
abbreviation foot_string_map where "foot_string_map \<equiv> foot_ref as_StringMap (foot_entries foot_flat)"
abbreviation rd_conditions where "rd_conditions \<equiv> rd_ref as_Conditions (rd_elems rd_flat)"
abbreviation foot_conditions where "foot_conditions \<equiv> foot_ref as_Conditions (foot_elems foot_flat)"

text \<open>The value level does not tell a nil slice from one without elements.\<close>

definition slice_of :: "'a list option \<Rightarrow> 'a list" where
  "slice_of r = (case r of None \<Rightarrow> [] | Some xs \<Rightarrow> xs)"

definition rd_ObjectMeta :: "cell heap \<Rightarrow> ObjectMeta_mem \<Rightarrow> ObjectMeta option" where
  "rd_ObjectMeta h m = do {
     labels \<leftarrow> rd_string_map h (mLabels m);
     annotations \<leftarrow> rd_string_map h (mAnnotations m);
     finalizers \<leftarrow> rd_strings h (mFinalizers m);
     deleted \<leftarrow> rd_ref as_Time rd_flat h (mDeletionTimestamp m);
     owners \<leftarrow> rd_ref as_Owners rd_flat h (mOwnerReferences m);
     Some \<lparr>Name = mName m, GenerateName = mGenerateName m, Labels = labels, Annotations = annotations,
       Finalizers = slice_of finalizers, DeletionTimestamp = deleted, OwnerReferences = slice_of owners\<rparr>
   }"

definition foot_ObjectMeta :: "cell heap \<Rightarrow> ObjectMeta_mem \<Rightarrow> addr set" where
  "foot_ObjectMeta h m = foot_string_map h (mLabels m) \<union> (foot_string_map h (mAnnotations m) \<union>
     (foot_strings h (mFinalizers m) \<union> (foot_ref as_Time foot_flat h (mDeletionTimestamp m) \<union>
       foot_ref as_Owners foot_flat h (mOwnerReferences m))))"

definition rd_ListMeta :: "cell heap \<Rightarrow> ListMeta_mem \<Rightarrow> ListMeta option" where
  "rd_ListMeta h m = do {
     remaining \<leftarrow> rd_ref as_Int64 rd_flat h (mRemainingItemCount m);
     Some \<lparr>ListResourceVersion = mListResourceVersion m, ListContinue = mListContinue m, RemainingItemCount = remaining\<rparr>
   }"

definition foot_ListMeta :: "cell heap \<Rightarrow> ListMeta_mem \<Rightarrow> addr set" where
  "foot_ListMeta h m = foot_ref as_Int64 foot_flat h (mRemainingItemCount m)"

definition rd_Quantity :: "cell heap \<Rightarrow> Quantity_mem \<Rightarrow> Quantity option" where
  "rd_Quantity h m = do {
     dec \<leftarrow> rd_ref as_Decimal rd_flat h (mQuantityDec m);
     Some (case dec of None \<Rightarrow> mQuantityText m | Some d \<Rightarrow> d)
   }"

definition foot_Quantity :: "cell heap \<Rightarrow> Quantity_mem \<Rightarrow> addr set" where
  "foot_Quantity h m = foot_ref as_Decimal foot_flat h (mQuantityDec m)"

definition rd_Requirement :: "cell heap \<Rightarrow> NodeSelectorRequirement_mem \<Rightarrow> NodeSelectorRequirement option" where
  "rd_Requirement h m = do {
     vals \<leftarrow> rd_strings h (mValues m);
     Some \<lparr>Key = mKey m, Operator = mOperator m, Values = slice_of vals\<rparr>
   }"

definition foot_Requirement :: "cell heap \<Rightarrow> NodeSelectorRequirement_mem \<Rightarrow> addr set" where
  "foot_Requirement h m = foot_strings h (mValues m)"

definition rd_Reference :: "cell heap \<Rightarrow> TypedLocalObjectReference_mem \<Rightarrow> TypedLocalObjectReference option" where
  "rd_Reference h m = do {
     group \<leftarrow> rd_ref as_String rd_flat h (mRefAPIGroup m);
     Some \<lparr>RefAPIGroup = group, RefKind = mRefKind m, RefName = mRefName m\<rparr>
   }"

definition foot_Reference :: "cell heap \<Rightarrow> TypedLocalObjectReference_mem \<Rightarrow> addr set" where
  "foot_Reference h m = foot_ref as_String foot_flat h (mRefAPIGroup m)"

abbreviation rd_resources where "rd_resources \<equiv> rd_ref as_QuantityMap (rd_entries rd_Quantity)"
abbreviation foot_resources where "foot_resources \<equiv> foot_ref as_QuantityMap (foot_entries foot_Quantity)"
abbreviation rd_requirements where "rd_requirements \<equiv> rd_ref as_Requirements (rd_elems rd_Requirement)"
abbreviation foot_requirements where "foot_requirements \<equiv> foot_ref as_Requirements (foot_elems foot_Requirement)"

definition rd_ProxmoxProviderSpec :: "cell heap \<Rightarrow> ProxmoxProviderSpec_mem \<Rightarrow> ProxmoxProviderSpec option" where
  "rd_ProxmoxProviderSpec h m = do {
     nodes \<leftarrow> rd_strings h (mNodes m);
     tags \<leftarrow> rd_strings h (mTags m);
     Some \<lparr>Endpoint = mEndpoint m, Insecure = mInsecure m, Credentials = mCredentials m, Nodes = slice_of nodes,
       ProxmoxPool = mProxmoxPool m, SourceTemplate = mSourceTemplate m, Storage = mStorage m,
       NetworkBridge = mNetworkBridge m, Tags = slice_of tags, CloudInit = mCloudInit m, Bootstrap = mBootstrap m\<rparr>
   }"

definition foot_ProxmoxProviderSpec :: "cell heap \<Rightarrow> ProxmoxProviderSpec_mem \<Rightarrow> addr set" where
  "foot_ProxmoxProviderSpec h m = foot_strings h (mNodes m) \<union> foot_strings h (mTags m)"

definition rd_ProxmoxProviderStatus :: "cell heap \<Rightarrow> ProxmoxProviderStatus_mem \<Rightarrow> ProxmoxProviderStatus option" where
  "rd_ProxmoxProviderStatus h m = do {
     conds \<leftarrow> rd_conditions h (mProviderConditions m);
     Some \<lparr>ProviderConditions = slice_of conds\<rparr>
   }"

definition foot_ProxmoxProviderStatus :: "cell heap \<Rightarrow> ProxmoxProviderStatus_mem \<Rightarrow> addr set" where
  "foot_ProxmoxProviderStatus h m = foot_conditions h (mProviderConditions m)"

definition rd_ProxmoxProvider :: "cell heap \<Rightarrow> ProxmoxProvider_mem \<Rightarrow> (TypeMeta \<times> ProxmoxProvider) option" where
  "rd_ProxmoxProvider h m = do {
     meta \<leftarrow> rd_ObjectMeta h (mProviderMeta m);
     sp \<leftarrow> rd_ProxmoxProviderSpec h (mProviderSpec m);
     st \<leftarrow> rd_ProxmoxProviderStatus h (mProviderStatus m);
     Some (mProviderTypeMeta m, ObjectMeta.extend meta (ProxmoxProvider.fields sp st))
   }"

definition foot_ProxmoxProvider :: "cell heap \<Rightarrow> ProxmoxProvider_mem \<Rightarrow> addr set" where
  "foot_ProxmoxProvider h m = foot_ObjectMeta h (mProviderMeta m) \<union>
     (foot_ProxmoxProviderSpec h (mProviderSpec m) \<union> foot_ProxmoxProviderStatus h (mProviderStatus m))"

definition rd_ProxmoxProviderList :: "cell heap \<Rightarrow> ProxmoxProviderList_mem \<Rightarrow> ProxmoxProviderList option" where
  "rd_ProxmoxProviderList h m = do {
     meta \<leftarrow> rd_ListMeta h (mProviderListMeta m);
     items \<leftarrow> rd_ref as_Providers (rd_elems rd_ProxmoxProvider) h (mProviderItems m);
     Some \<lparr>ProviderListTypeMeta = mProviderListTypeMeta m, ProviderListMeta = meta, ProviderItems = slice_of items\<rparr>
   }"

definition foot_ProxmoxProviderList :: "cell heap \<Rightarrow> ProxmoxProviderList_mem \<Rightarrow> addr set" where
  "foot_ProxmoxProviderList h m = foot_ListMeta h (mProviderListMeta m) \<union>
     foot_ref as_Providers (foot_elems foot_ProxmoxProvider) h (mProviderItems m)"

definition rd_XenonNodeClaimSpec :: "cell heap \<Rightarrow> XenonNodeClaimSpec_mem \<Rightarrow> XenonNodeClaimSpec option" where
  "rd_XenonNodeClaimSpec h m = do {
     reqs \<leftarrow> rd_requirements h (mRequirements m);
     res \<leftarrow> rd_resources h (mResources m);
     Some \<lparr>NodePoolRef = mNodePoolRef m, Requirements = slice_of reqs, Resources = res\<rparr>
   }"

definition foot_XenonNodeClaimSpec :: "cell heap \<Rightarrow> XenonNodeClaimSpec_mem \<Rightarrow> addr set" where
  "foot_XenonNodeClaimSpec h m = foot_requirements h (mRequirements m) \<union> foot_resources h (mResources m)"

definition rd_XenonNodeClaimStatus :: "cell heap \<Rightarrow> XenonNodeClaimStatus_mem \<Rightarrow> XenonNodeClaimStatus option" where
  "rd_XenonNodeClaimStatus h m = do {
     capacity \<leftarrow> rd_resources h (mCapacity m);
     allocatable \<leftarrow> rd_resources h (mAllocatable m);
     conds \<leftarrow> rd_conditions h (mConditions m);
     Some \<lparr>ProviderID = mProviderID m, NodeName = mNodeName m, Capacity = capacity, Allocatable = allocatable,
       Conditions = slice_of conds\<rparr>
   }"

definition foot_XenonNodeClaimStatus :: "cell heap \<Rightarrow> XenonNodeClaimStatus_mem \<Rightarrow> addr set" where
  "foot_XenonNodeClaimStatus h m = foot_resources h (mCapacity m) \<union>
     (foot_resources h (mAllocatable m) \<union> foot_conditions h (mConditions m))"

definition rd_XenonNodeClaim :: "cell heap \<Rightarrow> XenonNodeClaim_mem \<Rightarrow> (TypeMeta \<times> XenonNodeClaim) option" where
  "rd_XenonNodeClaim h m = do {
     meta \<leftarrow> rd_ObjectMeta h (mClaimMeta m);
     sp \<leftarrow> rd_XenonNodeClaimSpec h (mClaimSpec m);
     st \<leftarrow> rd_XenonNodeClaimStatus h (mClaimStatus m);
     Some (mClaimTypeMeta m, ObjectMeta.extend meta (XenonNodeClaim.fields sp st))
   }"

definition foot_XenonNodeClaim :: "cell heap \<Rightarrow> XenonNodeClaim_mem \<Rightarrow> addr set" where
  "foot_XenonNodeClaim h m = foot_ObjectMeta h (mClaimMeta m) \<union>
     (foot_XenonNodeClaimSpec h (mClaimSpec m) \<union> foot_XenonNodeClaimStatus h (mClaimStatus m))"

definition rd_XenonNodeClaimList :: "cell heap \<Rightarrow> XenonNodeClaimList_mem \<Rightarrow> XenonNodeClaimList option" where
  "rd_XenonNodeClaimList h m = do {
     meta \<leftarrow> rd_ListMeta h (mClaimListMeta m);
     items \<leftarrow> rd_ref as_Claims (rd_elems rd_XenonNodeClaim) h (mClaimItems m);
     Some \<lparr>ClaimListTypeMeta = mClaimListTypeMeta m, ClaimListMeta = meta, ClaimItems = slice_of items\<rparr>
   }"

definition foot_XenonNodeClaimList :: "cell heap \<Rightarrow> XenonNodeClaimList_mem \<Rightarrow> addr set" where
  "foot_XenonNodeClaimList h m = foot_ListMeta h (mClaimListMeta m) \<union>
     foot_ref as_Claims (foot_elems foot_XenonNodeClaim) h (mClaimItems m)"

definition rd_XenonNodeClaimTemplateSpec ::
  "cell heap \<Rightarrow> XenonNodeClaimTemplateSpec_mem \<Rightarrow> XenonNodeClaimTemplateSpec option" where
  "rd_XenonNodeClaimTemplateSpec h m = do {
     reqs \<leftarrow> rd_requirements h (mTemplateRequirements m);
     res \<leftarrow> rd_resources h (mTemplateResources m);
     Some \<lparr>TemplateRequirements = slice_of reqs, TemplateResources = res\<rparr>
   }"

definition foot_XenonNodeClaimTemplateSpec :: "cell heap \<Rightarrow> XenonNodeClaimTemplateSpec_mem \<Rightarrow> addr set" where
  "foot_XenonNodeClaimTemplateSpec h m =
     foot_requirements h (mTemplateRequirements m) \<union> foot_resources h (mTemplateResources m)"

definition rd_XenonNodeClaimTemplate :: "cell heap \<Rightarrow> XenonNodeClaimTemplate_mem \<Rightarrow> XenonNodeClaimTemplate option" where
  "rd_XenonNodeClaimTemplate h m = do {
     labels \<leftarrow> rd_string_map h (mTemplateLabels m);
     annotations \<leftarrow> rd_string_map h (mTemplateAnnotations m);
     sp \<leftarrow> rd_XenonNodeClaimTemplateSpec h (mTemplateSpec m);
     Some \<lparr>TemplateLabels = labels, TemplateAnnotations = annotations, TemplateSpec = sp\<rparr>
   }"

definition foot_XenonNodeClaimTemplate :: "cell heap \<Rightarrow> XenonNodeClaimTemplate_mem \<Rightarrow> addr set" where
  "foot_XenonNodeClaimTemplate h m = foot_string_map h (mTemplateLabels m) \<union>
     (foot_string_map h (mTemplateAnnotations m) \<union> foot_XenonNodeClaimTemplateSpec h (mTemplateSpec m))"

definition rd_XenonNodePoolSpec :: "cell heap \<Rightarrow> XenonNodePoolSpec_mem \<Rightarrow> XenonNodePoolSpec option" where
  "rd_XenonNodePoolSpec h m = do {
     ref \<leftarrow> rd_Reference h (mProviderRef m);
     template \<leftarrow> rd_XenonNodeClaimTemplate h (mTemplate m);
     limits \<leftarrow> rd_resources h (mLimits m);
     weight \<leftarrow> rd_ref as_Int32 rd_flat h (mWeight m);
     Some \<lparr>ProviderRef = ref, Template = template, Limits = limits, Weight = weight\<rparr>
   }"

definition foot_XenonNodePoolSpec :: "cell heap \<Rightarrow> XenonNodePoolSpec_mem \<Rightarrow> addr set" where
  "foot_XenonNodePoolSpec h m = foot_Reference h (mProviderRef m) \<union> (foot_XenonNodeClaimTemplate h (mTemplate m) \<union>
     (foot_resources h (mLimits m) \<union> foot_ref as_Int32 foot_flat h (mWeight m)))"

definition rd_XenonNodePoolStatus :: "cell heap \<Rightarrow> XenonNodePoolStatus_mem \<Rightarrow> XenonNodePoolStatus option" where
  "rd_XenonNodePoolStatus h m = do {
     res \<leftarrow> rd_resources h (mPoolResources m);
     conds \<leftarrow> rd_conditions h (mPoolConditions m);
     Some \<lparr>PoolResources = res, PoolConditions = slice_of conds\<rparr>
   }"

definition foot_XenonNodePoolStatus :: "cell heap \<Rightarrow> XenonNodePoolStatus_mem \<Rightarrow> addr set" where
  "foot_XenonNodePoolStatus h m = foot_resources h (mPoolResources m) \<union> foot_conditions h (mPoolConditions m)"

definition rd_XenonNodePool :: "cell heap \<Rightarrow> XenonNodePool_mem \<Rightarrow> (TypeMeta \<times> XenonNodePool) option" where
  "rd_XenonNodePool h m = do {
     meta \<leftarrow> rd_ObjectMeta h (mPoolMeta m);
     sp \<leftarrow> rd_XenonNodePoolSpec h (mPoolSpec m);
     st \<leftarrow> rd_XenonNodePoolStatus h (mPoolStatus m);
     Some (mPoolTypeMeta m, ObjectMeta.extend meta (XenonNodePool.fields sp st))
   }"

definition foot_XenonNodePool :: "cell heap \<Rightarrow> XenonNodePool_mem \<Rightarrow> addr set" where
  "foot_XenonNodePool h m = foot_ObjectMeta h (mPoolMeta m) \<union>
     (foot_XenonNodePoolSpec h (mPoolSpec m) \<union> foot_XenonNodePoolStatus h (mPoolStatus m))"

definition rd_XenonNodePoolList :: "cell heap \<Rightarrow> XenonNodePoolList_mem \<Rightarrow> XenonNodePoolList option" where
  "rd_XenonNodePoolList h m = do {
     meta \<leftarrow> rd_ListMeta h (mPoolListMeta m);
     items \<leftarrow> rd_ref as_Pools (rd_elems rd_XenonNodePool) h (mPoolItems m);
     Some \<lparr>PoolListTypeMeta = mPoolListTypeMeta m, PoolListMeta = meta, PoolItems = slice_of items\<rparr>
   }"

definition foot_XenonNodePoolList :: "cell heap \<Rightarrow> XenonNodePoolList_mem \<Rightarrow> addr set" where
  "foot_XenonNodePoolList h m = foot_ListMeta h (mPoolListMeta m) \<union>
     foot_ref as_Pools (foot_elems foot_XenonNodePool) h (mPoolItems m)"

end
