(* ===== verification/DeepCopy.thy ===== *)
theory DeepCopy
  imports ApiMemory
begin

text \<open>
  \<open>zz_generated.deepcopy.go\<close>: the generated copy methods of the types of \<open>api/v1\<close>. \<open>T_DeepCopyInto\<close> returns the
  struct that the Go method writes to \<open>out\<close>; \<open>T_DeepCopy\<close> works on pointers. The copy methods of the Kubernetes
  types are not part of the repository: they are the parameter \<open>Copiers\<close>, and \<open>k8s_copies\<close> says
  that they keep the contract of \<open>GoHeap\<close>. The theorems show that then the methods here keep it as well: a
  copy succeeds, reads as the value of the original and shares no memory with it. This is what lets the
  rest of the development treat objects as values.
\<close>

subsection \<open>The copy methods of other packages\<close>

record Copiers =
  ObjectMetaCopy :: "(cell, ObjectMeta_mem) copier"
  ListMetaCopy :: "(cell, ListMeta_mem) copier"
  ConditionCopy :: "(cell, Condition) copier"
  RequirementCopy :: "(cell, NodeSelectorRequirement_mem) copier"
  ReferenceCopy :: "(cell, TypedLocalObjectReference_mem) copier"
  QuantityCopy :: "(cell, Quantity_mem) copier"

definition k8s_copies :: "Copiers \<Rightarrow> bool" where
  "k8s_copies K \<longleftrightarrow>
     deep_copier rd_ObjectMeta foot_ObjectMeta (ObjectMetaCopy K) \<and>
     deep_copier rd_ListMeta foot_ListMeta (ListMetaCopy K) \<and>
     deep_copier rd_flat foot_flat (ConditionCopy K) \<and>
     deep_copier rd_Requirement foot_Requirement (RequirementCopy K) \<and>
     deep_copier rd_Reference foot_Reference (ReferenceCopy K) \<and>
     deep_copier rd_Quantity foot_Quantity (QuantityCopy K)"

subsection \<open>Zero values\<close>

text \<open>What \<open>new(T)\<close> and \<open>make([]T, n)\<close> fill memory with.\<close>

definition zero_ObjectMeta :: ObjectMeta_mem where
  "zero_ObjectMeta = \<lparr>mName = [], mGenerateName = [], mLabels = None, mAnnotations = None, mFinalizers = None,
     mDeletionTimestamp = None, mOwnerReferences = None\<rparr>"

definition zero_ListMeta :: ListMeta_mem where
  "zero_ListMeta = \<lparr>mListResourceVersion = [], mListContinue = [], mRemainingItemCount = None\<rparr>"

definition zero_TypeMeta :: TypeMeta where
  "zero_TypeMeta = \<lparr>TypeKind = [], TypeAPIVersion = []\<rparr>"

definition zero_Condition :: Condition where
  "zero_Condition = \<lparr>CondType = [], CondStatus = [], CondReason = [], CondMessage = []\<rparr>"

definition zero_Requirement :: NodeSelectorRequirement_mem where
  "zero_Requirement = \<lparr>mKey = [], mOperator = [], mValues = None\<rparr>"

definition zero_Reference :: TypedLocalObjectReference_mem where
  "zero_Reference = \<lparr>mRefAPIGroup = None, mRefKind = [], mRefName = []\<rparr>"

definition zero_SecretKeyRef :: SecretKeyRef where
  "zero_SecretKeyRef = \<lparr>SecretName = [], SecretKey = []\<rparr>"

definition zero_BootstrapConfig :: BootstrapConfig where
  "zero_BootstrapConfig = \<lparr>Server = [], TokenSecretRef = zero_SecretKeyRef\<rparr>"

definition zero_CloudInitConfig :: CloudInitConfig where
  "zero_CloudInitConfig = \<lparr>UserData = [], CloudInitStorage = [], Device = []\<rparr>"

definition zero_ProxmoxCredentials :: ProxmoxCredentials where
  "zero_ProxmoxCredentials = \<lparr>Username = [], Password = [], Realm = []\<rparr>"

definition zero_TemplateSource :: TemplateSource where
  "zero_TemplateSource = \<lparr>SourceNode = [], VMID = 0\<rparr>"

definition zero_ProxmoxProviderSpec :: ProxmoxProviderSpec_mem where
  "zero_ProxmoxProviderSpec = \<lparr>mEndpoint = [], mInsecure = False, mCredentials = zero_ProxmoxCredentials,
     mNodes = None, mProxmoxPool = [], mSourceTemplate = zero_TemplateSource, mStorage = [],
     mNetworkBridge = [], mTags = None, mCloudInit = zero_CloudInitConfig, mBootstrap = zero_BootstrapConfig\<rparr>"

definition zero_ProxmoxProviderStatus :: ProxmoxProviderStatus_mem where
  "zero_ProxmoxProviderStatus = \<lparr>mProviderConditions = None\<rparr>"

definition zero_ProxmoxProvider :: ProxmoxProvider_mem where
  "zero_ProxmoxProvider = \<lparr>mProviderTypeMeta = zero_TypeMeta, mProviderMeta = zero_ObjectMeta,
     mProviderSpec = zero_ProxmoxProviderSpec, mProviderStatus = zero_ProxmoxProviderStatus\<rparr>"

definition zero_ProxmoxProviderList :: ProxmoxProviderList_mem where
  "zero_ProxmoxProviderList = \<lparr>mProviderListTypeMeta = zero_TypeMeta, mProviderListMeta = zero_ListMeta,
     mProviderItems = None\<rparr>"

definition zero_XenonNodeClaimSpec :: XenonNodeClaimSpec_mem where
  "zero_XenonNodeClaimSpec = \<lparr>mNodePoolRef = [], mRequirements = None, mResources = None\<rparr>"

definition zero_XenonNodeClaimStatus :: XenonNodeClaimStatus_mem where
  "zero_XenonNodeClaimStatus = \<lparr>mProviderID = [], mNodeName = [], mCapacity = None, mAllocatable = None, mConditions = None\<rparr>"

definition zero_XenonNodeClaim :: XenonNodeClaim_mem where
  "zero_XenonNodeClaim = \<lparr>mClaimTypeMeta = zero_TypeMeta, mClaimMeta = zero_ObjectMeta,
     mClaimSpec = zero_XenonNodeClaimSpec, mClaimStatus = zero_XenonNodeClaimStatus\<rparr>"

definition zero_XenonNodeClaimList :: XenonNodeClaimList_mem where
  "zero_XenonNodeClaimList = \<lparr>mClaimListTypeMeta = zero_TypeMeta, mClaimListMeta = zero_ListMeta, mClaimItems = None\<rparr>"

definition zero_XenonNodeClaimTemplateSpec :: XenonNodeClaimTemplateSpec_mem where
  "zero_XenonNodeClaimTemplateSpec = \<lparr>mTemplateRequirements = None, mTemplateResources = None\<rparr>"

definition zero_XenonNodeClaimTemplate :: XenonNodeClaimTemplate_mem where
  "zero_XenonNodeClaimTemplate = \<lparr>mTemplateLabels = None, mTemplateAnnotations = None,
     mTemplateSpec = zero_XenonNodeClaimTemplateSpec\<rparr>"

definition zero_XenonNodePoolSpec :: XenonNodePoolSpec_mem where
  "zero_XenonNodePoolSpec = \<lparr>mProviderRef = zero_Reference, mTemplate = zero_XenonNodeClaimTemplate,
     mLimits = None, mWeight = None\<rparr>"

definition zero_XenonNodePoolStatus :: XenonNodePoolStatus_mem where
  "zero_XenonNodePoolStatus = \<lparr>mPoolResources = None, mPoolConditions = None\<rparr>"

definition zero_XenonNodePool :: XenonNodePool_mem where
  "zero_XenonNodePool = \<lparr>mPoolTypeMeta = zero_TypeMeta, mPoolMeta = zero_ObjectMeta,
     mPoolSpec = zero_XenonNodePoolSpec, mPoolStatus = zero_XenonNodePoolStatus\<rparr>"

definition zero_XenonNodePoolList :: XenonNodePoolList_mem where
  "zero_XenonNodePoolList = \<lparr>mPoolListTypeMeta = zero_TypeMeta, mPoolListMeta = zero_ListMeta, mPoolItems = None\<rparr>"

subsection \<open>Copying the fields\<close>

text \<open>The blocks of generated code for a field of each shape; nil stays nil in all of them.\<close>

definition copy_strings :: "(cell, ref) copier" where
  "copy_strings = copy_flat as_Strings StringsCell (\<lambda>xs. replicate (length xs) [])"

definition copy_int32 :: "(cell, ref) copier" where
  "copy_int32 = copy_flat as_Int32 Int32Cell (\<lambda>_. 0)"

definition copy_string_map :: "(cell, ref) copier" where
  "copy_string_map = copy_map as_StringMap StringMapCell copy_plain"

definition copy_resources :: "Copiers \<Rightarrow> (cell, ref) copier" where
  "copy_resources K = copy_map as_QuantityMap QuantityMapCell (QuantityCopy K)"

definition copy_requirements :: "Copiers \<Rightarrow> (cell, ref) copier" where
  "copy_requirements K = copy_slice as_Requirements RequirementsCell zero_Requirement (RequirementCopy K)"

definition copy_conditions :: "Copiers \<Rightarrow> (cell, ref) copier" where
  "copy_conditions K = copy_slice as_Conditions ConditionsCell zero_Condition (ConditionCopy K)"

subsection \<open>Structs without references\<close>

definition BootstrapConfig_DeepCopyInto :: "(cell, BootstrapConfig) copier" where
  "BootstrapConfig_DeepCopyInto inp h = (let out = inp; out = out\<lparr>TokenSecretRef := TokenSecretRef inp\<rparr> in Some (out, h))"

definition CloudInitConfig_DeepCopyInto :: "(cell, CloudInitConfig) copier" where
  "CloudInitConfig_DeepCopyInto inp h = Some (inp, h)"

definition ProxmoxCredentials_DeepCopyInto :: "(cell, ProxmoxCredentials) copier" where
  "ProxmoxCredentials_DeepCopyInto inp h = Some (inp, h)"

definition SecretKeyRef_DeepCopyInto :: "(cell, SecretKeyRef) copier" where
  "SecretKeyRef_DeepCopyInto inp h = Some (inp, h)"

definition TemplateSource_DeepCopyInto :: "(cell, TemplateSource) copier" where
  "TemplateSource_DeepCopyInto inp h = Some (inp, h)"

subsection \<open>Structs with references\<close>

definition ProxmoxProviderSpec_DeepCopyInto :: "(cell, ProxmoxProviderSpec_mem) copier" where
  "ProxmoxProviderSpec_DeepCopyInto inp h = do {
     let out = inp;
     let out = out\<lparr>mCredentials := mCredentials inp\<rparr>;
     (nodes, h) \<leftarrow> copy_strings (mNodes inp) h;
     let out = out\<lparr>mNodes := nodes\<rparr>;
     let out = out\<lparr>mSourceTemplate := mSourceTemplate inp\<rparr>;
     (tags, h) \<leftarrow> copy_strings (mTags inp) h;
     let out = out\<lparr>mTags := tags\<rparr>;
     let out = out\<lparr>mCloudInit := mCloudInit inp\<rparr>;
     let out = out\<lparr>mBootstrap := mBootstrap inp\<rparr>;
     Some (out, h)
   }"

definition ProxmoxProviderStatus_DeepCopyInto :: "Copiers \<Rightarrow> (cell, ProxmoxProviderStatus_mem) copier" where
  "ProxmoxProviderStatus_DeepCopyInto K inp h = do {
     let out = inp;
     (conds, h) \<leftarrow> copy_conditions K (mProviderConditions inp) h;
     let out = out\<lparr>mProviderConditions := conds\<rparr>;
     Some (out, h)
   }"

definition ProxmoxProvider_DeepCopyInto :: "Copiers \<Rightarrow> (cell, ProxmoxProvider_mem) copier" where
  "ProxmoxProvider_DeepCopyInto K inp h = do {
     let out = inp;
     let out = out\<lparr>mProviderTypeMeta := mProviderTypeMeta inp\<rparr>;
     (meta, h) \<leftarrow> ObjectMetaCopy K (mProviderMeta inp) h;
     let out = out\<lparr>mProviderMeta := meta\<rparr>;
     (sp, h) \<leftarrow> ProxmoxProviderSpec_DeepCopyInto (mProviderSpec inp) h;
     let out = out\<lparr>mProviderSpec := sp\<rparr>;
     (st, h) \<leftarrow> ProxmoxProviderStatus_DeepCopyInto K (mProviderStatus inp) h;
     let out = out\<lparr>mProviderStatus := st\<rparr>;
     Some (out, h)
   }"

definition ProxmoxProviderList_DeepCopyInto :: "Copiers \<Rightarrow> (cell, ProxmoxProviderList_mem) copier" where
  "ProxmoxProviderList_DeepCopyInto K inp h = do {
     let out = inp;
     let out = out\<lparr>mProviderListTypeMeta := mProviderListTypeMeta inp\<rparr>;
     (meta, h) \<leftarrow> ListMetaCopy K (mProviderListMeta inp) h;
     let out = out\<lparr>mProviderListMeta := meta\<rparr>;
     (items, h) \<leftarrow> copy_slice as_Providers ProvidersCell zero_ProxmoxProvider
       (ProxmoxProvider_DeepCopyInto K) (mProviderItems inp) h;
     let out = out\<lparr>mProviderItems := items\<rparr>;
     Some (out, h)
   }"

definition XenonNodeClaimSpec_DeepCopyInto :: "Copiers \<Rightarrow> (cell, XenonNodeClaimSpec_mem) copier" where
  "XenonNodeClaimSpec_DeepCopyInto K inp h = do {
     let out = inp;
     let out = out\<lparr>mNodePoolRef := mNodePoolRef inp\<rparr>;
     (reqs, h) \<leftarrow> copy_requirements K (mRequirements inp) h;
     let out = out\<lparr>mRequirements := reqs\<rparr>;
     (res, h) \<leftarrow> copy_resources K (mResources inp) h;
     let out = out\<lparr>mResources := res\<rparr>;
     Some (out, h)
   }"

definition XenonNodeClaimStatus_DeepCopyInto :: "Copiers \<Rightarrow> (cell, XenonNodeClaimStatus_mem) copier" where
  "XenonNodeClaimStatus_DeepCopyInto K inp h = do {
     let out = inp;
     (capacity, h) \<leftarrow> copy_resources K (mCapacity inp) h;
     let out = out\<lparr>mCapacity := capacity\<rparr>;
     (allocatable, h) \<leftarrow> copy_resources K (mAllocatable inp) h;
     let out = out\<lparr>mAllocatable := allocatable\<rparr>;
     (conds, h) \<leftarrow> copy_conditions K (mConditions inp) h;
     let out = out\<lparr>mConditions := conds\<rparr>;
     Some (out, h)
   }"

definition XenonNodeClaim_DeepCopyInto :: "Copiers \<Rightarrow> (cell, XenonNodeClaim_mem) copier" where
  "XenonNodeClaim_DeepCopyInto K inp h = do {
     let out = inp;
     let out = out\<lparr>mClaimTypeMeta := mClaimTypeMeta inp\<rparr>;
     (meta, h) \<leftarrow> ObjectMetaCopy K (mClaimMeta inp) h;
     let out = out\<lparr>mClaimMeta := meta\<rparr>;
     (sp, h) \<leftarrow> XenonNodeClaimSpec_DeepCopyInto K (mClaimSpec inp) h;
     let out = out\<lparr>mClaimSpec := sp\<rparr>;
     (st, h) \<leftarrow> XenonNodeClaimStatus_DeepCopyInto K (mClaimStatus inp) h;
     let out = out\<lparr>mClaimStatus := st\<rparr>;
     Some (out, h)
   }"

definition XenonNodeClaimList_DeepCopyInto :: "Copiers \<Rightarrow> (cell, XenonNodeClaimList_mem) copier" where
  "XenonNodeClaimList_DeepCopyInto K inp h = do {
     let out = inp;
     let out = out\<lparr>mClaimListTypeMeta := mClaimListTypeMeta inp\<rparr>;
     (meta, h) \<leftarrow> ListMetaCopy K (mClaimListMeta inp) h;
     let out = out\<lparr>mClaimListMeta := meta\<rparr>;
     (items, h) \<leftarrow> copy_slice as_Claims ClaimsCell zero_XenonNodeClaim
       (XenonNodeClaim_DeepCopyInto K) (mClaimItems inp) h;
     let out = out\<lparr>mClaimItems := items\<rparr>;
     Some (out, h)
   }"

definition XenonNodeClaimTemplateSpec_DeepCopyInto :: "Copiers \<Rightarrow> (cell, XenonNodeClaimTemplateSpec_mem) copier" where
  "XenonNodeClaimTemplateSpec_DeepCopyInto K inp h = do {
     let out = inp;
     (reqs, h) \<leftarrow> copy_requirements K (mTemplateRequirements inp) h;
     let out = out\<lparr>mTemplateRequirements := reqs\<rparr>;
     (res, h) \<leftarrow> copy_resources K (mTemplateResources inp) h;
     let out = out\<lparr>mTemplateResources := res\<rparr>;
     Some (out, h)
   }"

definition XenonNodeClaimTemplate_DeepCopyInto :: "Copiers \<Rightarrow> (cell, XenonNodeClaimTemplate_mem) copier" where
  "XenonNodeClaimTemplate_DeepCopyInto K inp h = do {
     let out = inp;
     (labels, h) \<leftarrow> copy_string_map (mTemplateLabels inp) h;
     let out = out\<lparr>mTemplateLabels := labels\<rparr>;
     (annotations, h) \<leftarrow> copy_string_map (mTemplateAnnotations inp) h;
     let out = out\<lparr>mTemplateAnnotations := annotations\<rparr>;
     (sp, h) \<leftarrow> XenonNodeClaimTemplateSpec_DeepCopyInto K (mTemplateSpec inp) h;
     let out = out\<lparr>mTemplateSpec := sp\<rparr>;
     Some (out, h)
   }"

definition XenonNodePoolSpec_DeepCopyInto :: "Copiers \<Rightarrow> (cell, XenonNodePoolSpec_mem) copier" where
  "XenonNodePoolSpec_DeepCopyInto K inp h = do {
     let out = inp;
     (ref, h) \<leftarrow> ReferenceCopy K (mProviderRef inp) h;
     let out = out\<lparr>mProviderRef := ref\<rparr>;
     (template, h) \<leftarrow> XenonNodeClaimTemplate_DeepCopyInto K (mTemplate inp) h;
     let out = out\<lparr>mTemplate := template\<rparr>;
     (limits, h) \<leftarrow> copy_resources K (mLimits inp) h;
     let out = out\<lparr>mLimits := limits\<rparr>;
     (weight, h) \<leftarrow> copy_int32 (mWeight inp) h;
     let out = out\<lparr>mWeight := weight\<rparr>;
     Some (out, h)
   }"

definition XenonNodePoolStatus_DeepCopyInto :: "Copiers \<Rightarrow> (cell, XenonNodePoolStatus_mem) copier" where
  "XenonNodePoolStatus_DeepCopyInto K inp h = do {
     let out = inp;
     (res, h) \<leftarrow> copy_resources K (mPoolResources inp) h;
     let out = out\<lparr>mPoolResources := res\<rparr>;
     (conds, h) \<leftarrow> copy_conditions K (mPoolConditions inp) h;
     let out = out\<lparr>mPoolConditions := conds\<rparr>;
     Some (out, h)
   }"

definition XenonNodePool_DeepCopyInto :: "Copiers \<Rightarrow> (cell, XenonNodePool_mem) copier" where
  "XenonNodePool_DeepCopyInto K inp h = do {
     let out = inp;
     let out = out\<lparr>mPoolTypeMeta := mPoolTypeMeta inp\<rparr>;
     (meta, h) \<leftarrow> ObjectMetaCopy K (mPoolMeta inp) h;
     let out = out\<lparr>mPoolMeta := meta\<rparr>;
     (sp, h) \<leftarrow> XenonNodePoolSpec_DeepCopyInto K (mPoolSpec inp) h;
     let out = out\<lparr>mPoolSpec := sp\<rparr>;
     (st, h) \<leftarrow> XenonNodePoolStatus_DeepCopyInto K (mPoolStatus inp) h;
     let out = out\<lparr>mPoolStatus := st\<rparr>;
     Some (out, h)
   }"

definition XenonNodePoolList_DeepCopyInto :: "Copiers \<Rightarrow> (cell, XenonNodePoolList_mem) copier" where
  "XenonNodePoolList_DeepCopyInto K inp h = do {
     let out = inp;
     let out = out\<lparr>mPoolListTypeMeta := mPoolListTypeMeta inp\<rparr>;
     (meta, h) \<leftarrow> ListMetaCopy K (mPoolListMeta inp) h;
     let out = out\<lparr>mPoolListMeta := meta\<rparr>;
     (items, h) \<leftarrow> copy_slice as_Pools PoolsCell zero_XenonNodePool
       (XenonNodePool_DeepCopyInto K) (mPoolItems inp) h;
     let out = out\<lparr>mPoolItems := items\<rparr>;
     Some (out, h)
   }"

subsection \<open>DeepCopy and DeepCopyObject\<close>

definition BootstrapConfig_DeepCopy :: "(cell, ref) copier" where
  "BootstrapConfig_DeepCopy = copy_ptr as_BootstrapConfig BootstrapConfigCell zero_BootstrapConfig BootstrapConfig_DeepCopyInto"

definition CloudInitConfig_DeepCopy :: "(cell, ref) copier" where
  "CloudInitConfig_DeepCopy = copy_ptr as_CloudInitConfig CloudInitConfigCell zero_CloudInitConfig CloudInitConfig_DeepCopyInto"

definition ProxmoxCredentials_DeepCopy :: "(cell, ref) copier" where
  "ProxmoxCredentials_DeepCopy = copy_ptr as_ProxmoxCredentials ProxmoxCredentialsCell zero_ProxmoxCredentials ProxmoxCredentials_DeepCopyInto"

definition ProxmoxProvider_DeepCopy :: "Copiers \<Rightarrow> (cell, ref) copier" where
  "ProxmoxProvider_DeepCopy K = copy_ptr as_ProxmoxProvider ProxmoxProviderCell zero_ProxmoxProvider (ProxmoxProvider_DeepCopyInto K)"

definition ProxmoxProviderList_DeepCopy :: "Copiers \<Rightarrow> (cell, ref) copier" where
  "ProxmoxProviderList_DeepCopy K = copy_ptr as_ProxmoxProviderList ProxmoxProviderListCell zero_ProxmoxProviderList (ProxmoxProviderList_DeepCopyInto K)"

definition ProxmoxProviderSpec_DeepCopy :: "(cell, ref) copier" where
  "ProxmoxProviderSpec_DeepCopy = copy_ptr as_ProxmoxProviderSpec ProxmoxProviderSpecCell zero_ProxmoxProviderSpec ProxmoxProviderSpec_DeepCopyInto"

definition ProxmoxProviderStatus_DeepCopy :: "Copiers \<Rightarrow> (cell, ref) copier" where
  "ProxmoxProviderStatus_DeepCopy K = copy_ptr as_ProxmoxProviderStatus ProxmoxProviderStatusCell zero_ProxmoxProviderStatus (ProxmoxProviderStatus_DeepCopyInto K)"

definition SecretKeyRef_DeepCopy :: "(cell, ref) copier" where
  "SecretKeyRef_DeepCopy = copy_ptr as_SecretKeyRef SecretKeyRefCell zero_SecretKeyRef SecretKeyRef_DeepCopyInto"

definition TemplateSource_DeepCopy :: "(cell, ref) copier" where
  "TemplateSource_DeepCopy = copy_ptr as_TemplateSource TemplateSourceCell zero_TemplateSource TemplateSource_DeepCopyInto"

definition XenonNodeClaim_DeepCopy :: "Copiers \<Rightarrow> (cell, ref) copier" where
  "XenonNodeClaim_DeepCopy K = copy_ptr as_XenonNodeClaim XenonNodeClaimCell zero_XenonNodeClaim (XenonNodeClaim_DeepCopyInto K)"

definition XenonNodeClaimList_DeepCopy :: "Copiers \<Rightarrow> (cell, ref) copier" where
  "XenonNodeClaimList_DeepCopy K = copy_ptr as_XenonNodeClaimList XenonNodeClaimListCell zero_XenonNodeClaimList (XenonNodeClaimList_DeepCopyInto K)"

definition XenonNodeClaimSpec_DeepCopy :: "Copiers \<Rightarrow> (cell, ref) copier" where
  "XenonNodeClaimSpec_DeepCopy K = copy_ptr as_XenonNodeClaimSpec XenonNodeClaimSpecCell zero_XenonNodeClaimSpec (XenonNodeClaimSpec_DeepCopyInto K)"

definition XenonNodeClaimStatus_DeepCopy :: "Copiers \<Rightarrow> (cell, ref) copier" where
  "XenonNodeClaimStatus_DeepCopy K = copy_ptr as_XenonNodeClaimStatus XenonNodeClaimStatusCell zero_XenonNodeClaimStatus (XenonNodeClaimStatus_DeepCopyInto K)"

definition XenonNodeClaimTemplate_DeepCopy :: "Copiers \<Rightarrow> (cell, ref) copier" where
  "XenonNodeClaimTemplate_DeepCopy K = copy_ptr as_XenonNodeClaimTemplate XenonNodeClaimTemplateCell zero_XenonNodeClaimTemplate (XenonNodeClaimTemplate_DeepCopyInto K)"

definition XenonNodeClaimTemplateSpec_DeepCopy :: "Copiers \<Rightarrow> (cell, ref) copier" where
  "XenonNodeClaimTemplateSpec_DeepCopy K = copy_ptr as_XenonNodeClaimTemplateSpec XenonNodeClaimTemplateSpecCell zero_XenonNodeClaimTemplateSpec (XenonNodeClaimTemplateSpec_DeepCopyInto K)"

definition XenonNodePool_DeepCopy :: "Copiers \<Rightarrow> (cell, ref) copier" where
  "XenonNodePool_DeepCopy K = copy_ptr as_XenonNodePool XenonNodePoolCell zero_XenonNodePool (XenonNodePool_DeepCopyInto K)"

definition XenonNodePoolList_DeepCopy :: "Copiers \<Rightarrow> (cell, ref) copier" where
  "XenonNodePoolList_DeepCopy K = copy_ptr as_XenonNodePoolList XenonNodePoolListCell zero_XenonNodePoolList (XenonNodePoolList_DeepCopyInto K)"

definition XenonNodePoolSpec_DeepCopy :: "Copiers \<Rightarrow> (cell, ref) copier" where
  "XenonNodePoolSpec_DeepCopy K = copy_ptr as_XenonNodePoolSpec XenonNodePoolSpecCell zero_XenonNodePoolSpec (XenonNodePoolSpec_DeepCopyInto K)"

definition XenonNodePoolStatus_DeepCopy :: "Copiers \<Rightarrow> (cell, ref) copier" where
  "XenonNodePoolStatus_DeepCopy K = copy_ptr as_XenonNodePoolStatus XenonNodePoolStatusCell zero_XenonNodePoolStatus (XenonNodePoolStatus_DeepCopyInto K)"

text \<open>
  A \<open>runtime.Object\<close> is an interface value: nil, or a pointer together with its type. An interface that
  holds a nil pointer is not nil; \<open>DeepCopyObject\<close> takes care not to return one.
\<close>

record RuntimeObject =
  DynamicType :: string
  Pointer :: ref

definition as_object ::
  "string \<Rightarrow> (cell, ref) copier \<Rightarrow> ref \<Rightarrow> cell heap \<Rightarrow> (RuntimeObject option \<times> cell heap) option" where
  "as_object ty deepCopy inp h = do {
     (c, h) \<leftarrow> deepCopy inp h;
     (if c \<noteq> None then Some (Some \<lparr>DynamicType = ty, Pointer = c\<rparr>, h) else Some (None, h))
   }"

definition ProxmoxProvider_DeepCopyObject ::
  "Copiers \<Rightarrow> ref \<Rightarrow> cell heap \<Rightarrow> (RuntimeObject option \<times> cell heap) option" where
  "ProxmoxProvider_DeepCopyObject K = as_object ''ProxmoxProvider'' (ProxmoxProvider_DeepCopy K)"

definition ProxmoxProviderList_DeepCopyObject ::
  "Copiers \<Rightarrow> ref \<Rightarrow> cell heap \<Rightarrow> (RuntimeObject option \<times> cell heap) option" where
  "ProxmoxProviderList_DeepCopyObject K = as_object ''ProxmoxProviderList'' (ProxmoxProviderList_DeepCopy K)"

definition XenonNodeClaim_DeepCopyObject ::
  "Copiers \<Rightarrow> ref \<Rightarrow> cell heap \<Rightarrow> (RuntimeObject option \<times> cell heap) option" where
  "XenonNodeClaim_DeepCopyObject K = as_object ''XenonNodeClaim'' (XenonNodeClaim_DeepCopy K)"

definition XenonNodeClaimList_DeepCopyObject ::
  "Copiers \<Rightarrow> ref \<Rightarrow> cell heap \<Rightarrow> (RuntimeObject option \<times> cell heap) option" where
  "XenonNodeClaimList_DeepCopyObject K = as_object ''XenonNodeClaimList'' (XenonNodeClaimList_DeepCopy K)"

definition XenonNodePool_DeepCopyObject ::
  "Copiers \<Rightarrow> ref \<Rightarrow> cell heap \<Rightarrow> (RuntimeObject option \<times> cell heap) option" where
  "XenonNodePool_DeepCopyObject K = as_object ''XenonNodePool'' (XenonNodePool_DeepCopy K)"

definition XenonNodePoolList_DeepCopyObject ::
  "Copiers \<Rightarrow> ref \<Rightarrow> cell heap \<Rightarrow> (RuntimeObject option \<times> cell heap) option" where
  "XenonNodePoolList_DeepCopyObject K = as_object ''XenonNodePoolList'' (XenonNodePoolList_DeepCopy K)"

section \<open>Every copy method keeps the contract\<close>

lemma strings_copier: "deep_copier rd_strings foot_strings copy_strings"
  unfolding copy_strings_def by (rule flat_copier) simp

lemma int32_copier: "deep_copier (rd_ref as_Int32 rd_flat) (foot_ref as_Int32 foot_flat) copy_int32"
  unfolding copy_int32_def by (rule flat_copier) simp

lemma string_map_copier: "deep_copier rd_string_map foot_string_map copy_string_map"
  unfolding copy_string_map_def by (rule deep_copier.copy_map_copier [OF plain_copier]) simp

lemma resources_copier: "k8s_copies K \<Longrightarrow> deep_copier rd_resources foot_resources (copy_resources K)"
  unfolding copy_resources_def by (rule deep_copier.copy_map_copier) (simp_all add: k8s_copies_def)

lemma requirements_copier: "k8s_copies K \<Longrightarrow> deep_copier rd_requirements foot_requirements (copy_requirements K)"
  unfolding copy_requirements_def by (rule deep_copier.copy_slice_copier) (simp_all add: k8s_copies_def)

lemma conditions_copier: "k8s_copies K \<Longrightarrow> deep_copier rd_conditions foot_conditions (copy_conditions K)"
  unfolding copy_conditions_def by (rule deep_copier.copy_slice_copier) (simp_all add: k8s_copies_def)

lemma k8s_copiers:
  assumes "k8s_copies K"
  shows "deep_copier rd_ObjectMeta foot_ObjectMeta (ObjectMetaCopy K)"
    "deep_copier rd_ListMeta foot_ListMeta (ListMetaCopy K)"
    "deep_copier rd_Reference foot_Reference (ReferenceCopy K)"
  using assms by (simp_all add: k8s_copies_def)

lemma map_option_bind: "map_option f (Option.bind m g) = Option.bind m (\<lambda>x. map_option f (g x))"
  by (cases m) simp_all

lemma bind_Some_map: "Option.bind m (\<lambda>x. Some (f x)) = map_option f m"
  by (cases m) simp_all

lemmas struct_simps = Let_def split_def copy_pair_def rd_pair_def foot_pair_def map_option_bind

interpretation provider_spec:
  deep_copier rd_ProxmoxProviderSpec foot_ProxmoxProviderSpec ProxmoxProviderSpec_DeepCopyInto
  by (rule struct_copier [OF pair_copier [OF strings_copier strings_copier],
        where parts = "\<lambda>m. (mNodes m, mTags m)" and replace = "\<lambda>m p. m\<lparr>mNodes := fst p, mTags := snd p\<rparr>"
          and build = "\<lambda>m v. \<lparr>Endpoint = mEndpoint m, Insecure = mInsecure m, Credentials = mCredentials m,
            Nodes = slice_of (fst v), ProxmoxPool = mProxmoxPool m, SourceTemplate = mSourceTemplate m,
            Storage = mStorage m, NetworkBridge = mNetworkBridge m, Tags = slice_of (snd v),
            CloudInit = mCloudInit m, Bootstrap = mBootstrap m\<rparr>"])
    (simp_all add: rd_ProxmoxProviderSpec_def foot_ProxmoxProviderSpec_def ProxmoxProviderSpec_DeepCopyInto_def struct_simps)

lemma ProxmoxProviderStatus_copier:
  assumes "k8s_copies K"
  shows "deep_copier rd_ProxmoxProviderStatus foot_ProxmoxProviderStatus (ProxmoxProviderStatus_DeepCopyInto K)"
  by (rule struct_copier [OF conditions_copier [OF assms],
        where parts = "\<lambda>m. mProviderConditions m"
          and replace = "\<lambda>m p. m\<lparr>mProviderConditions := p\<rparr>"
          and build = "\<lambda>m v. \<lparr>ProviderConditions = slice_of v\<rparr>"])
    (simp_all add: rd_ProxmoxProviderStatus_def foot_ProxmoxProviderStatus_def ProxmoxProviderStatus_DeepCopyInto_def Let_def split_def bind_Some_map)

lemma ProxmoxProvider_copier:
  assumes "k8s_copies K"
  shows "deep_copier rd_ProxmoxProvider foot_ProxmoxProvider (ProxmoxProvider_DeepCopyInto K)"
  by (rule struct_copier [OF pair_copier [OF k8s_copiers(1) [OF assms] pair_copier [OF provider_spec.deep_copier_axioms ProxmoxProviderStatus_copier [OF assms]]],
        where parts = "\<lambda>m. (mProviderMeta m, (mProviderSpec m, mProviderStatus m))"
          and replace = "\<lambda>m p. m\<lparr>mProviderMeta := fst p, mProviderSpec := fst (snd p), mProviderStatus := snd (snd p)\<rparr>"
          and build = "\<lambda>m v. (mProviderTypeMeta m, ObjectMeta.extend (fst v) (ProxmoxProvider.fields (fst (snd v)) (snd (snd v))))"])
    (simp_all add: rd_ProxmoxProvider_def foot_ProxmoxProvider_def ProxmoxProvider_DeepCopyInto_def struct_simps)

lemma ProxmoxProviderList_copier:
  assumes "k8s_copies K"
  shows "deep_copier rd_ProxmoxProviderList foot_ProxmoxProviderList (ProxmoxProviderList_DeepCopyInto K)"
  by (rule struct_copier [OF pair_copier [OF k8s_copiers(2) [OF assms] deep_copier.copy_slice_copier [OF ProxmoxProvider_copier [OF assms], where sel = as_Providers and mk = ProvidersCell and zero = zero_ProxmoxProvider, OF as_cell(12)]],
        where parts = "\<lambda>m. (mProviderListMeta m, mProviderItems m)"
          and replace = "\<lambda>m p. m\<lparr>mProviderListMeta := fst p, mProviderItems := snd p\<rparr>"
          and build = "\<lambda>m v. \<lparr>ProviderListTypeMeta = mProviderListTypeMeta m, ProviderListMeta = fst v, ProviderItems = slice_of (snd v)\<rparr>"])
    (simp_all add: rd_ProxmoxProviderList_def foot_ProxmoxProviderList_def ProxmoxProviderList_DeepCopyInto_def struct_simps)

lemma XenonNodeClaimSpec_copier:
  assumes "k8s_copies K"
  shows "deep_copier rd_XenonNodeClaimSpec foot_XenonNodeClaimSpec (XenonNodeClaimSpec_DeepCopyInto K)"
  by (rule struct_copier [OF pair_copier [OF requirements_copier [OF assms] resources_copier [OF assms]],
        where parts = "\<lambda>m. (mRequirements m, mResources m)"
          and replace = "\<lambda>m p. m\<lparr>mRequirements := fst p, mResources := snd p\<rparr>"
          and build = "\<lambda>m v. \<lparr>NodePoolRef = mNodePoolRef m, Requirements = slice_of (fst v), Resources = snd v\<rparr>"])
    (simp_all add: rd_XenonNodeClaimSpec_def foot_XenonNodeClaimSpec_def XenonNodeClaimSpec_DeepCopyInto_def struct_simps)

lemma XenonNodeClaimStatus_copier:
  assumes "k8s_copies K"
  shows "deep_copier rd_XenonNodeClaimStatus foot_XenonNodeClaimStatus (XenonNodeClaimStatus_DeepCopyInto K)"
  by (rule struct_copier [OF pair_copier [OF resources_copier [OF assms] pair_copier [OF resources_copier [OF assms] conditions_copier [OF assms]]],
        where parts = "\<lambda>m. (mCapacity m, (mAllocatable m, mConditions m))"
          and replace = "\<lambda>m p. m\<lparr>mCapacity := fst p, mAllocatable := fst (snd p), mConditions := snd (snd p)\<rparr>"
          and build = "\<lambda>m v. \<lparr>ProviderID = mProviderID m, NodeName = mNodeName m, Capacity = fst v, Allocatable = fst (snd v), Conditions = slice_of (snd (snd v))\<rparr>"])
    (simp_all add: rd_XenonNodeClaimStatus_def foot_XenonNodeClaimStatus_def XenonNodeClaimStatus_DeepCopyInto_def struct_simps)

lemma XenonNodeClaim_copier:
  assumes "k8s_copies K"
  shows "deep_copier rd_XenonNodeClaim foot_XenonNodeClaim (XenonNodeClaim_DeepCopyInto K)"
  by (rule struct_copier [OF pair_copier [OF k8s_copiers(1) [OF assms] pair_copier [OF XenonNodeClaimSpec_copier [OF assms] XenonNodeClaimStatus_copier [OF assms]]],
        where parts = "\<lambda>m. (mClaimMeta m, (mClaimSpec m, mClaimStatus m))"
          and replace = "\<lambda>m p. m\<lparr>mClaimMeta := fst p, mClaimSpec := fst (snd p), mClaimStatus := snd (snd p)\<rparr>"
          and build = "\<lambda>m v. (mClaimTypeMeta m, ObjectMeta.extend (fst v) (XenonNodeClaim.fields (fst (snd v)) (snd (snd v))))"])
    (simp_all add: rd_XenonNodeClaim_def foot_XenonNodeClaim_def XenonNodeClaim_DeepCopyInto_def struct_simps)

lemma XenonNodeClaimList_copier:
  assumes "k8s_copies K"
  shows "deep_copier rd_XenonNodeClaimList foot_XenonNodeClaimList (XenonNodeClaimList_DeepCopyInto K)"
  by (rule struct_copier [OF pair_copier [OF k8s_copiers(2) [OF assms] deep_copier.copy_slice_copier [OF XenonNodeClaim_copier [OF assms], where sel = as_Claims and mk = ClaimsCell and zero = zero_XenonNodeClaim, OF as_cell(13)]],
        where parts = "\<lambda>m. (mClaimListMeta m, mClaimItems m)"
          and replace = "\<lambda>m p. m\<lparr>mClaimListMeta := fst p, mClaimItems := snd p\<rparr>"
          and build = "\<lambda>m v. \<lparr>ClaimListTypeMeta = mClaimListTypeMeta m, ClaimListMeta = fst v, ClaimItems = slice_of (snd v)\<rparr>"])
    (simp_all add: rd_XenonNodeClaimList_def foot_XenonNodeClaimList_def XenonNodeClaimList_DeepCopyInto_def struct_simps)

lemma XenonNodeClaimTemplateSpec_copier:
  assumes "k8s_copies K"
  shows "deep_copier rd_XenonNodeClaimTemplateSpec foot_XenonNodeClaimTemplateSpec (XenonNodeClaimTemplateSpec_DeepCopyInto K)"
  by (rule struct_copier [OF pair_copier [OF requirements_copier [OF assms] resources_copier [OF assms]],
        where parts = "\<lambda>m. (mTemplateRequirements m, mTemplateResources m)"
          and replace = "\<lambda>m p. m\<lparr>mTemplateRequirements := fst p, mTemplateResources := snd p\<rparr>"
          and build = "\<lambda>m v. \<lparr>TemplateRequirements = slice_of (fst v), TemplateResources = snd v\<rparr>"])
    (simp_all add: rd_XenonNodeClaimTemplateSpec_def foot_XenonNodeClaimTemplateSpec_def XenonNodeClaimTemplateSpec_DeepCopyInto_def struct_simps)

lemma XenonNodeClaimTemplate_copier:
  assumes "k8s_copies K"
  shows "deep_copier rd_XenonNodeClaimTemplate foot_XenonNodeClaimTemplate (XenonNodeClaimTemplate_DeepCopyInto K)"
  by (rule struct_copier [OF pair_copier [OF string_map_copier pair_copier [OF string_map_copier XenonNodeClaimTemplateSpec_copier [OF assms]]],
        where parts = "\<lambda>m. (mTemplateLabels m, (mTemplateAnnotations m, mTemplateSpec m))"
          and replace = "\<lambda>m p. m\<lparr>mTemplateLabels := fst p, mTemplateAnnotations := fst (snd p), mTemplateSpec := snd (snd p)\<rparr>"
          and build = "\<lambda>m v. \<lparr>TemplateLabels = fst v, TemplateAnnotations = fst (snd v), TemplateSpec = snd (snd v)\<rparr>"])
    (simp_all add: rd_XenonNodeClaimTemplate_def foot_XenonNodeClaimTemplate_def XenonNodeClaimTemplate_DeepCopyInto_def struct_simps)

lemma XenonNodePoolSpec_copier:
  assumes "k8s_copies K"
  shows "deep_copier rd_XenonNodePoolSpec foot_XenonNodePoolSpec (XenonNodePoolSpec_DeepCopyInto K)"
  by (rule struct_copier [OF pair_copier [OF k8s_copiers(3) [OF assms] pair_copier [OF XenonNodeClaimTemplate_copier [OF assms] pair_copier [OF resources_copier [OF assms] int32_copier]]],
        where parts = "\<lambda>m. (mProviderRef m, (mTemplate m, (mLimits m, mWeight m)))"
          and replace = "\<lambda>m p. m\<lparr>mProviderRef := fst p, mTemplate := fst (snd p), mLimits := fst (snd (snd p)), mWeight := snd (snd (snd p))\<rparr>"
          and build = "\<lambda>m v. \<lparr>ProviderRef = fst v, Template = fst (snd v), Limits = fst (snd (snd v)), Weight = snd (snd (snd v))\<rparr>"])
    (simp_all add: rd_XenonNodePoolSpec_def foot_XenonNodePoolSpec_def XenonNodePoolSpec_DeepCopyInto_def struct_simps)

lemma XenonNodePoolStatus_copier:
  assumes "k8s_copies K"
  shows "deep_copier rd_XenonNodePoolStatus foot_XenonNodePoolStatus (XenonNodePoolStatus_DeepCopyInto K)"
  by (rule struct_copier [OF pair_copier [OF resources_copier [OF assms] conditions_copier [OF assms]],
        where parts = "\<lambda>m. (mPoolResources m, mPoolConditions m)"
          and replace = "\<lambda>m p. m\<lparr>mPoolResources := fst p, mPoolConditions := snd p\<rparr>"
          and build = "\<lambda>m v. \<lparr>PoolResources = fst v, PoolConditions = slice_of (snd v)\<rparr>"])
    (simp_all add: rd_XenonNodePoolStatus_def foot_XenonNodePoolStatus_def XenonNodePoolStatus_DeepCopyInto_def struct_simps)

lemma XenonNodePool_copier:
  assumes "k8s_copies K"
  shows "deep_copier rd_XenonNodePool foot_XenonNodePool (XenonNodePool_DeepCopyInto K)"
  by (rule struct_copier [OF pair_copier [OF k8s_copiers(1) [OF assms] pair_copier [OF XenonNodePoolSpec_copier [OF assms] XenonNodePoolStatus_copier [OF assms]]],
        where parts = "\<lambda>m. (mPoolMeta m, (mPoolSpec m, mPoolStatus m))"
          and replace = "\<lambda>m p. m\<lparr>mPoolMeta := fst p, mPoolSpec := fst (snd p), mPoolStatus := snd (snd p)\<rparr>"
          and build = "\<lambda>m v. (mPoolTypeMeta m, ObjectMeta.extend (fst v) (XenonNodePool.fields (fst (snd v)) (snd (snd v))))"])
    (simp_all add: rd_XenonNodePool_def foot_XenonNodePool_def XenonNodePool_DeepCopyInto_def struct_simps)

lemma XenonNodePoolList_copier:
  assumes "k8s_copies K"
  shows "deep_copier rd_XenonNodePoolList foot_XenonNodePoolList (XenonNodePoolList_DeepCopyInto K)"
  by (rule struct_copier [OF pair_copier [OF k8s_copiers(2) [OF assms] deep_copier.copy_slice_copier [OF XenonNodePool_copier [OF assms], where sel = as_Pools and mk = PoolsCell and zero = zero_XenonNodePool, OF as_cell(14)]],
        where parts = "\<lambda>m. (mPoolListMeta m, mPoolItems m)"
          and replace = "\<lambda>m p. m\<lparr>mPoolListMeta := fst p, mPoolItems := snd p\<rparr>"
          and build = "\<lambda>m v. \<lparr>PoolListTypeMeta = mPoolListTypeMeta m, PoolListMeta = fst v, PoolItems = slice_of (snd v)\<rparr>"])
    (simp_all add: rd_XenonNodePoolList_def foot_XenonNodePoolList_def XenonNodePoolList_DeepCopyInto_def struct_simps)

lemma ProxmoxProvider_pointer_copier:
  "k8s_copies K \<Longrightarrow> deep_copier (rd_ref as_ProxmoxProvider rd_ProxmoxProvider) (foot_ref as_ProxmoxProvider foot_ProxmoxProvider) (ProxmoxProvider_DeepCopy K)"
  unfolding ProxmoxProvider_DeepCopy_def by (rule deep_copier.copy_ptr_copier [OF ProxmoxProvider_copier]) simp_all

lemma ProxmoxProviderList_pointer_copier:
  "k8s_copies K \<Longrightarrow> deep_copier (rd_ref as_ProxmoxProviderList rd_ProxmoxProviderList) (foot_ref as_ProxmoxProviderList foot_ProxmoxProviderList) (ProxmoxProviderList_DeepCopy K)"
  unfolding ProxmoxProviderList_DeepCopy_def by (rule deep_copier.copy_ptr_copier [OF ProxmoxProviderList_copier]) simp_all

lemma XenonNodeClaim_pointer_copier:
  "k8s_copies K \<Longrightarrow> deep_copier (rd_ref as_XenonNodeClaim rd_XenonNodeClaim) (foot_ref as_XenonNodeClaim foot_XenonNodeClaim) (XenonNodeClaim_DeepCopy K)"
  unfolding XenonNodeClaim_DeepCopy_def by (rule deep_copier.copy_ptr_copier [OF XenonNodeClaim_copier]) simp_all

lemma XenonNodeClaimList_pointer_copier:
  "k8s_copies K \<Longrightarrow> deep_copier (rd_ref as_XenonNodeClaimList rd_XenonNodeClaimList) (foot_ref as_XenonNodeClaimList foot_XenonNodeClaimList) (XenonNodeClaimList_DeepCopy K)"
  unfolding XenonNodeClaimList_DeepCopy_def by (rule deep_copier.copy_ptr_copier [OF XenonNodeClaimList_copier]) simp_all

lemma XenonNodePool_pointer_copier:
  "k8s_copies K \<Longrightarrow> deep_copier (rd_ref as_XenonNodePool rd_XenonNodePool) (foot_ref as_XenonNodePool foot_XenonNodePool) (XenonNodePool_DeepCopy K)"
  unfolding XenonNodePool_DeepCopy_def by (rule deep_copier.copy_ptr_copier [OF XenonNodePool_copier]) simp_all

lemma XenonNodePoolList_pointer_copier:
  "k8s_copies K \<Longrightarrow> deep_copier (rd_ref as_XenonNodePoolList rd_XenonNodePoolList) (foot_ref as_XenonNodePoolList foot_XenonNodePoolList) (XenonNodePoolList_DeepCopy K)"
  unfolding XenonNodePoolList_DeepCopy_def by (rule deep_copier.copy_ptr_copier [OF XenonNodePoolList_copier]) simp_all

lemmas pointer_copiers =
  ProxmoxProvider_pointer_copier
  ProxmoxProviderList_pointer_copier
  XenonNodeClaim_pointer_copier
  XenonNodeClaimList_pointer_copier
  XenonNodePool_pointer_copier
  XenonNodePoolList_pointer_copier

section \<open>An instance of the other packages' copy methods\<close>

text \<open>The same blocks of code for the fields that \<open>ApiMemory\<close> gives the Kubernetes types.\<close>

definition copy_meta :: "(cell, ObjectMeta_mem) copier" where
  "copy_meta m h = do {
     (labels, h) \<leftarrow> copy_string_map (mLabels m) h;
     (annotations, h) \<leftarrow> copy_string_map (mAnnotations m) h;
     (finalizers, h) \<leftarrow> copy_strings (mFinalizers m) h;
     (deleted, h) \<leftarrow> copy_flat as_Time TimeCell (\<lambda>_. 0) (mDeletionTimestamp m) h;
     (owners, h) \<leftarrow> copy_flat as_Owners OwnersCell (\<lambda>_. []) (mOwnerReferences m) h;
     Some (m\<lparr>mLabels := labels, mAnnotations := annotations, mFinalizers := finalizers,
       mDeletionTimestamp := deleted, mOwnerReferences := owners\<rparr>, h)
   }"

definition bench_copiers :: Copiers where
  "bench_copiers = \<lparr>
     ObjectMetaCopy = copy_meta,
     ListMetaCopy = (\<lambda>m h. do { (r, h) \<leftarrow> copy_flat as_Int64 Int64Cell (\<lambda>_. 0) (mRemainingItemCount m) h;
       Some (m\<lparr>mRemainingItemCount := r\<rparr>, h) }),
     ConditionCopy = copy_plain,
     RequirementCopy = (\<lambda>m h. do { (r, h) \<leftarrow> copy_strings (mValues m) h; Some (m\<lparr>mValues := r\<rparr>, h) }),
     ReferenceCopy = (\<lambda>m h. do { (r, h) \<leftarrow> copy_flat as_String StringCell (\<lambda>_. []) (mRefAPIGroup m) h;
       Some (m\<lparr>mRefAPIGroup := r\<rparr>, h) }),
     QuantityCopy = (\<lambda>m h. do { (r, h) \<leftarrow> copy_flat as_Decimal DecimalCell (\<lambda>_. []) (mQuantityDec m) h;
       Some (m\<lparr>mQuantityDec := r\<rparr>, h) })\<rparr>"

lemma one_field_copier:
  assumes "deep_copier rdf footf cpf" "\<And>s p. part (replace s p) = p" "\<And>s p. build (replace s p) = build s"
  shows "deep_copier (\<lambda>h m. do { x \<leftarrow> rdf h (part m); Some (build m x) }) (\<lambda>h m. footf h (part m))
    (\<lambda>m h. do { (r, h) \<leftarrow> cpf (part m) h; Some (replace m r, h) })"
  by (rule struct_copier [OF assms]) (simp_all add: bind_Some_map)

lemma meta_copier: "deep_copier rd_ObjectMeta foot_ObjectMeta copy_meta"
  by (rule struct_copier [OF pair_copier [OF string_map_copier pair_copier [OF string_map_copier
        pair_copier [OF strings_copier pair_copier [OF
          flat_copier [where sel = as_Time and mk = TimeCell and zero = "\<lambda>_. 0", OF as_cell(10)]
          flat_copier [where sel = as_Owners and mk = OwnersCell and zero = "\<lambda>_. []", OF as_cell(6)]]]]],
        where parts = "\<lambda>m. (mLabels m, mAnnotations m, mFinalizers m, mDeletionTimestamp m, mOwnerReferences m)"
          and replace = "\<lambda>m p. m\<lparr>mLabels := fst p, mAnnotations := fst (snd p), mFinalizers := fst (snd (snd p)),
            mDeletionTimestamp := fst (snd (snd (snd p))), mOwnerReferences := snd (snd (snd (snd p)))\<rparr>"
          and build = "\<lambda>m v. \<lparr>Name = mName m, GenerateName = mGenerateName m, Labels = fst v, Annotations = fst (snd v),
            Finalizers = slice_of (fst (snd (snd v))), DeletionTimestamp = fst (snd (snd (snd v))),
            OwnerReferences = slice_of (snd (snd (snd (snd v))))\<rparr>"])
    (simp_all add: rd_ObjectMeta_def foot_ObjectMeta_def copy_meta_def struct_simps)

lemma bench_copiers_copy: "k8s_copies bench_copiers"
  unfolding k8s_copies_def bench_copiers_def Copiers.simps
    rd_ListMeta_def [abs_def] foot_ListMeta_def [abs_def] rd_Requirement_def [abs_def] foot_Requirement_def [abs_def]
    rd_Reference_def [abs_def] foot_Reference_def [abs_def] rd_Quantity_def [abs_def] foot_Quantity_def [abs_def]
  by (intro conjI meta_copier plain_copier
      one_field_copier [OF strings_copier, where replace = "\<lambda>m r. m\<lparr>mValues := r\<rparr>"]
      one_field_copier [OF flat_copier, where replace = "\<lambda>m r. m\<lparr>mRemainingItemCount := r\<rparr>"]
      one_field_copier [OF flat_copier, where replace = "\<lambda>m r. m\<lparr>mRefAPIGroup := r\<rparr>"]
      one_field_copier [OF flat_copier, where replace = "\<lambda>m r. m\<lparr>mQuantityDec := r\<rparr>"])
    (simp_all add: fun_eq_iff split: option.split)

text \<open>A memory that holds a claim with a label, a request for a big quantity and no annotations.\<close>

definition bench_claim_mem :: XenonNodeClaim_mem where
  "bench_claim_mem = \<lparr>mClaimTypeMeta = \<lparr>TypeKind = ''XenonNodeClaim'', TypeAPIVersion = ''core.xenonite.io/v1''\<rparr>,
     mClaimMeta = zero_ObjectMeta\<lparr>mName := ''workers-1'', mLabels := Some 1\<rparr>,
     mClaimSpec = \<lparr>mNodePoolRef = ''workers'', mRequirements = None, mResources = Some 2\<rparr>,
     mClaimStatus = zero_XenonNodeClaimStatus\<rparr>"

definition bench_heap :: "cell heap" where
  "bench_heap = \<lparr>limit = 4, cells = [0 \<mapsto> XenonNodeClaimCell bench_claim_mem,
     1 \<mapsto> StringMapCell [(''xenonite.io/nodepool'', ''workers'')],
     2 \<mapsto> QuantityMapCell [(''memory'', \<lparr>mQuantityText = [], mQuantityDec = Some 3\<rparr>)], 3 \<mapsto> DecimalCell ''8Gi'']\<rparr>"

definition bench_claim_value :: "TypeMeta \<times> XenonNodeClaim" where
  "bench_claim_value = (mClaimTypeMeta bench_claim_mem,
     \<lparr>Name = ''workers-1'', GenerateName = [], Labels = Some [''xenonite.io/nodepool'' \<mapsto> ''workers''],
      Annotations = None, Finalizers = [], DeletionTimestamp = None, OwnerReferences = [],
      Spec = \<lparr>NodePoolRef = ''workers'', Requirements = [], Resources = Some [''memory'' \<mapsto> ''8Gi'']\<rparr>,
      Status = \<lparr>ProviderID = [], NodeName = [], Capacity = None, Allocatable = None, Conditions = []\<rparr>\<rparr>)"

lemma bench_heap_ok: "ok bench_heap"
  by (simp add: ok_def bench_heap_def)

lemma bench_heap_reads: "rd_ref as_XenonNodeClaim rd_XenonNodeClaim bench_heap (Some 0) = Some (Some bench_claim_value)"
  by (simp add: bench_heap_def bench_claim_mem_def bench_claim_value_def zero_ObjectMeta_def zero_XenonNodeClaimStatus_def
      rd_XenonNodeClaim_def rd_ObjectMeta_def rd_XenonNodeClaimSpec_def rd_XenonNodeClaimStatus_def rd_Quantity_def
      rd_ref_def rd_entries_def rd_elems_def rd_flat_def fetch_def slice_of_def
      ObjectMeta.defs XenonNodeClaim.defs)

section \<open>What a copy is\<close>

subsection \<open>It reads as the original\<close>

definition equal_copy ::
  "(cell heap \<Rightarrow> 'm \<Rightarrow> 'v option) \<Rightarrow> (cell, 'm) copier \<Rightarrow> cell heap \<Rightarrow> 'm \<Rightarrow> bool" where
  "equal_copy rd cp h p \<longleftrightarrow>
     (\<forall>v. rd h p = Some v \<longrightarrow> (\<exists>q h'. cp p h = Some (q, h') \<and> ok h' \<and> rd h' q = Some v \<and> rd h' p = Some v))"

lemma equal_copyI:
  assumes "deep_copier rd foot cp" "ok h" shows "equal_copy rd cp h p"
proof (unfold equal_copy_def, intro allI impI)
  fix v assume v: "rd h p = Some v"
  obtain q h' where q: "cp p h = Some (q, h')" "grows h h'" "rd h' q = Some v"
    using deep_copier.copyE [OF assms v] .
  then show "\<exists>q h'. cp p h = Some (q, h') \<and> ok h' \<and> rd h' q = Some v \<and> rd h' p = Some v"
    using grows_ok layout.grows_read [OF deep_copier.axioms(1) [OF assms(1)] q(2) v] by blast
qed

text \<open>
  C9: \<open>DeepCopy\<close> is the identity on values. For each of the six API objects (the three kinds
  and their lists), copying an object whose memory is as its type says never panics, whatever of it is nil; the copy
  reads as the same value as the original did, and the original still reads as it did.
\<close>

theorem deep_copy_same_value:
  assumes "k8s_copies K" "ok h"
  shows "equal_copy (rd_ref as_ProxmoxProvider rd_ProxmoxProvider) (ProxmoxProvider_DeepCopy K) h p \<and>
    equal_copy (rd_ref as_ProxmoxProviderList rd_ProxmoxProviderList) (ProxmoxProviderList_DeepCopy K) h p \<and>
    equal_copy (rd_ref as_XenonNodeClaim rd_XenonNodeClaim) (XenonNodeClaim_DeepCopy K) h p \<and>
    equal_copy (rd_ref as_XenonNodeClaimList rd_XenonNodeClaimList) (XenonNodeClaimList_DeepCopy K) h p \<and>
    equal_copy (rd_ref as_XenonNodePool rd_XenonNodePool) (XenonNodePool_DeepCopy K) h p \<and>
    equal_copy (rd_ref as_XenonNodePoolList rd_XenonNodePoolList) (XenonNodePoolList_DeepCopy K) h p"
  by (intro conjI; rule equal_copyI, rule pointer_copiers [OF assms(1)], rule assms(2))

theorem deep_copy_same_value_witness:
  "\<exists>q h'. XenonNodeClaim_DeepCopy bench_copiers (Some 0) bench_heap = Some (q, h') \<and>
     rd_ref as_XenonNodeClaim rd_XenonNodeClaim h' q = Some (Some bench_claim_value)"
  using deep_copy_same_value [OF bench_copiers_copy bench_heap_ok, of "Some 0"] bench_heap_reads
  unfolding equal_copy_def by blast

subsection \<open>It shares no memory with the original\<close>

text \<open>
  \<open>isolated_copy\<close>: \<open>h'\<close> is the memory after the copy was made. Whatever happens later to the
  cells of the copy, and to memory allocated later, the original reads as before; and the same with
  the two exchanged.
\<close>

definition isolated_copy ::
  "(cell heap \<Rightarrow> 'm \<Rightarrow> 'v option) \<Rightarrow> (cell heap \<Rightarrow> 'm \<Rightarrow> addr set) \<Rightarrow> (cell, 'm) copier \<Rightarrow> cell heap \<Rightarrow> 'm \<Rightarrow> bool" where
  "isolated_copy rd foot cp h p \<longleftrightarrow>
     (\<forall>v q h' g. rd h p = Some v \<longrightarrow> cp p h = Some (q, h') \<longrightarrow>
        ((\<forall>a \<in> dom (cells h') - foot h' q. cells g a = cells h' a) \<longrightarrow> rd g p = Some v) \<and>
        ((\<forall>a \<in> dom (cells h') - foot h' p. cells g a = cells h' a) \<longrightarrow> rd g q = Some v))"

lemma isolated_copyI:
  assumes "deep_copier rd foot cp" "ok h" shows "isolated_copy rd foot cp h p"
proof (unfold isolated_copy_def, intro allI impI)
  fix v q h' g assume v: "rd h p = Some v" and cp: "cp p h = Some (q, h')"
  note l = deep_copier.axioms(1) [OF assms(1)]
  note q = deep_copier.copy_result [OF assms v cp] and disjoint = deep_copier.copy_disjoint [OF assms v cp]
  have p: "rd h' p = Some v" by (rule layout.grows_read [OF l q(1) v])
  have "rd g p = Some v" if "\<forall>a \<in> dom (cells h') - foot h' q. cells g a = cells h' a"
    using that disjoint layout.footed [OF l p] by (intro layout.local_read [OF l p]) blast
  moreover have "rd g q = Some v" if "\<forall>a \<in> dom (cells h') - foot h' p. cells g a = cells h' a"
    using that disjoint layout.footed [OF l q(2)] by (intro layout.local_read [OF l q(2)]) blast
  ultimately show "((\<forall>a \<in> dom (cells h') - foot h' q. cells g a = cells h' a) \<longrightarrow> rd g p = Some v) \<and>
      ((\<forall>a \<in> dom (cells h') - foot h' p. cells g a = cells h' a) \<longrightarrow> rd g q = Some v)"
    by blast
qed

text \<open>
  C10: an object and its copy are independent. For each of the six API objects, no later change of the
  memory of one of them (of its maps, slices, pointers, to any depth) and no later allocation changes what
  the other reads as.
\<close>

theorem deep_copy_isolated:
  assumes "k8s_copies K" "ok h"
  shows "isolated_copy (rd_ref as_ProxmoxProvider rd_ProxmoxProvider)
      (foot_ref as_ProxmoxProvider foot_ProxmoxProvider) (ProxmoxProvider_DeepCopy K) h p \<and>
    isolated_copy (rd_ref as_ProxmoxProviderList rd_ProxmoxProviderList)
      (foot_ref as_ProxmoxProviderList foot_ProxmoxProviderList) (ProxmoxProviderList_DeepCopy K) h p \<and>
    isolated_copy (rd_ref as_XenonNodeClaim rd_XenonNodeClaim)
      (foot_ref as_XenonNodeClaim foot_XenonNodeClaim) (XenonNodeClaim_DeepCopy K) h p \<and>
    isolated_copy (rd_ref as_XenonNodeClaimList rd_XenonNodeClaimList)
      (foot_ref as_XenonNodeClaimList foot_XenonNodeClaimList) (XenonNodeClaimList_DeepCopy K) h p \<and>
    isolated_copy (rd_ref as_XenonNodePool rd_XenonNodePool)
      (foot_ref as_XenonNodePool foot_XenonNodePool) (XenonNodePool_DeepCopy K) h p \<and>
    isolated_copy (rd_ref as_XenonNodePoolList rd_XenonNodePoolList)
      (foot_ref as_XenonNodePoolList foot_XenonNodePoolList) (XenonNodePoolList_DeepCopy K) h p"
  by (intro conjI; rule isolated_copyI, rule pointer_copiers [OF assms(1)], rule assms(2))

theorem deep_copy_isolated_witness:
  "\<exists>q h'. XenonNodeClaim_DeepCopy bench_copiers (Some 0) bench_heap = Some (q, h') \<and>
     rd_ref as_XenonNodeClaim rd_XenonNodeClaim (store h' 3 (DecimalCell ''9Gi'')) q = Some (Some bench_claim_value)"
proof -
  let ?rd = "rd_ref as_XenonNodeClaim rd_XenonNodeClaim" and ?foot = "foot_ref as_XenonNodeClaim foot_XenonNodeClaim"
  have copier: "deep_copier ?rd ?foot (XenonNodeClaim_DeepCopy bench_copiers)"
    by (rule pointer_copiers [OF bench_copiers_copy])
  obtain q h' where q: "XenonNodeClaim_DeepCopy bench_copiers (Some 0) bench_heap = Some (q, h')" "grows bench_heap h'"
      "?rd h' q = Some (Some bench_claim_value)" "?foot h' q \<inter> dom (cells bench_heap) = {}"
    using deep_copier.copyE [OF copier bench_heap_ok bench_heap_reads] .
  have "3 \<in> ?foot bench_heap (Some 0)"
    by (simp add: bench_heap_def bench_claim_mem_def foot_XenonNodeClaim_def foot_XenonNodeClaimSpec_def
        foot_entries_def foot_elems_def foot_Quantity_def foot_ref_def fetch_def)
  then have "3 \<in> ?foot h' (Some 0)"
    using layout.grows_foot [OF deep_copier.axioms(1) [OF copier] q(2) bench_heap_reads] by simp
  then have "\<forall>a \<in> dom (cells h') - ?foot h' (Some 0). cells (store h' 3 (DecimalCell ''9Gi'')) a = cells h' a"
    by (metis DiffD2 cells_store fun_upd_other)
  moreover have "isolated_copy ?rd ?foot (XenonNodeClaim_DeepCopy bench_copiers) bench_heap (Some 0)"
    using deep_copy_isolated [OF bench_copiers_copy bench_heap_ok, of "Some 0"] by blast
  ultimately have "?rd (store h' 3 (DecimalCell ''9Gi'')) q = Some (Some bench_claim_value)"
    unfolding isolated_copy_def using bench_heap_reads q(1) by blast
  then show ?thesis using q(1) by blast
qed

subsection \<open>Nil\<close>

definition nil_kept :: "string \<Rightarrow> (ref \<Rightarrow> cell heap \<Rightarrow> (RuntimeObject option \<times> cell heap) option) \<Rightarrow> ref \<Rightarrow> cell heap \<Rightarrow> bool" where
  "nil_kept ty f p h \<longleftrightarrow> f None h = Some (None, h) \<and>
     (\<forall>obj h'. f p h = Some (obj, h') \<longrightarrow>
        (case obj of None \<Rightarrow> p = None
         | Some obj \<Rightarrow> p \<noteq> None \<and> DynamicType obj = ty \<and> Pointer obj \<noteq> None))"

lemma nil_keptI: "nil_kept ty (as_object ty (copy_ptr sel mk zero cp)) p h"
  by (cases p)
    (auto simp: nil_kept_def as_object_def copy_ptr_def bind_eq_Some_conv split_def Let_def split: option.splits)

text \<open>
  C32: \<open>DeepCopyObject\<close> returns the nil interface for a nil pointer, and only then; otherwise an interface of
  the right type with a pointer that is not nil. So no caller that compares the result with nil is misled.
\<close>

theorem deep_copy_object_nil:
  "nil_kept ''ProxmoxProvider'' (ProxmoxProvider_DeepCopyObject K) p h \<and>
    nil_kept ''ProxmoxProviderList'' (ProxmoxProviderList_DeepCopyObject K) p h \<and>
    nil_kept ''XenonNodeClaim'' (XenonNodeClaim_DeepCopyObject K) p h \<and>
    nil_kept ''XenonNodeClaimList'' (XenonNodeClaimList_DeepCopyObject K) p h \<and>
    nil_kept ''XenonNodePool'' (XenonNodePool_DeepCopyObject K) p h \<and>
    nil_kept ''XenonNodePoolList'' (XenonNodePoolList_DeepCopyObject K) p h"
  unfolding ProxmoxProvider_DeepCopyObject_def ProxmoxProviderList_DeepCopyObject_def XenonNodeClaim_DeepCopyObject_def XenonNodeClaimList_DeepCopyObject_def XenonNodePool_DeepCopyObject_def XenonNodePoolList_DeepCopyObject_def ProxmoxProvider_DeepCopy_def ProxmoxProviderList_DeepCopy_def XenonNodeClaim_DeepCopy_def XenonNodeClaimList_DeepCopy_def XenonNodePool_DeepCopy_def XenonNodePoolList_DeepCopy_def
  by (intro conjI nil_keptI)

end
