(* ===== verification/Scheme.thy ===== *)
theory Scheme
  imports DeepCopy Runtime
begin

text \<open>
  The registration of the API types: \<open>groupversion_info.go\<close>, the \<open>init\<close> functions of the three type files and the
  \<open>init\<close> of \<open>cmd/main.go\<close>. The scheme, the scheme builder and \<open>Must\<close> are those of \<open>apimachinery\<close>, parameters of the
  model; \<open>scheme_laws\<close> is what it documents of them. A Go type is its name. \<open>AddToScheme\<close> is a method value on
  the package's variable \<open>SchemeBuilder\<close>, bound before the \<open>init\<close> functions run: because its receiver is a
  pointer it sees what they register.
\<close>

subsection \<open>The library\<close>

record GroupVersionType =
  Group :: string
  Version :: string

type_synonym 's registration = "'s \<Rightarrow> error option \<times> 's"

text \<open>
  \<open>Registered\<close> is the slice of functions a \<open>runtime.SchemeBuilder\<close> is; \<open>Must\<close> tells whether \<open>utilruntime.Must\<close>
  returns; \<open>Recognizes\<close> gives the Go type registered for a kind of a group version (\<open>AllKnownTypes\<close>); \<open>MetaKinds\<close> are
  the kinds that \<open>metav1.AddToGroupVersion\<close> registers.
\<close>

record ('s, 'b) SchemeLib =
  NewScheme :: 's
  AddKnownTypes :: "GroupVersionType \<Rightarrow> string list \<Rightarrow> 's \<Rightarrow> 's"
  AddToGroupVersion :: "GroupVersionType \<Rightarrow> 's \<Rightarrow> 's"
  MetaKinds :: "string list"
  Recognizes :: "'s \<Rightarrow> GroupVersionType \<Rightarrow> string \<Rightarrow> string option"
  NewSchemeBuilder :: "'s registration list \<Rightarrow> 'b"
  Register :: "'b \<Rightarrow> 's registration \<Rightarrow> 'b"
  Registered :: "'b \<Rightarrow> 's registration list"
  BuilderAddToScheme :: "'b \<Rightarrow> 's registration"
  ClientGoAddToScheme :: "'s registration"
  Must :: "error option \<Rightarrow> bool"

subsection \<open>api/v1\<close>

definition SchemeGroupVersion :: GroupVersionType where
  "SchemeGroupVersion = \<lparr>Group = ''core.xenonite.io'', Version = ''v1''\<rparr>"

definition GroupVersion :: GroupVersionType where
  "GroupVersion = SchemeGroupVersion"

definition SchemeBuilder :: "('s, 'b) SchemeLib \<Rightarrow> 'b" where
  "SchemeBuilder L = NewSchemeBuilder L [\<lambda>scheme. (None, AddToGroupVersion L SchemeGroupVersion scheme)]"

definition init_ProxmoxProvider :: "('s, 'b) SchemeLib \<Rightarrow> 'b \<Rightarrow> 'b" where
  "init_ProxmoxProvider L builder =
     Register L builder (\<lambda>s. (None, AddKnownTypes L SchemeGroupVersion [''ProxmoxProvider'', ''ProxmoxProviderList''] s))"

definition init_XenonNodeClaim :: "('s, 'b) SchemeLib \<Rightarrow> 'b \<Rightarrow> 'b" where
  "init_XenonNodeClaim L builder =
     Register L builder (\<lambda>s. (None, AddKnownTypes L SchemeGroupVersion [''XenonNodeClaim'', ''XenonNodeClaimList''] s))"

definition init_XenonNodePool :: "('s, 'b) SchemeLib \<Rightarrow> 'b \<Rightarrow> 'b" where
  "init_XenonNodePool L builder =
     Register L builder (\<lambda>s. (None, AddKnownTypes L SchemeGroupVersion [''XenonNodePool'', ''XenonNodePoolList''] s))"

text \<open>The package's variables are initialised first, then the \<open>init\<close> functions run in the order of the files.\<close>

definition AddToScheme :: "('s, 'b) SchemeLib \<Rightarrow> 's registration" where
  "AddToScheme L =
     BuilderAddToScheme L (init_XenonNodePool L (init_XenonNodeClaim L (init_ProxmoxProvider L (SchemeBuilder L))))"

subsection \<open>cmd/main.go\<close>

text \<open>A failing \<open>Must\<close> panics before \<open>main\<close> starts: the result is \<open>None\<close>.\<close>

definition init_scheme :: "('s, 'b) SchemeLib \<Rightarrow> 's option" where
  "init_scheme L =
     (case ClientGoAddToScheme L (NewScheme L) of (err, scheme) \<Rightarrow>
        if \<not> Must L err then None
        else (case AddToScheme L scheme of (err, scheme) \<Rightarrow> if \<not> Must L err then None else Some scheme))"

section \<open>What is registered\<close>

text \<open>
  Documented behaviour: \<open>AddKnownTypes\<close> makes each type known under its own name as kind and leaves all
  else, unless a name already stands for another type in the group version (then it panics: the law says nothing).
  \<open>AddToGroupVersion\<close> registers the types every API group has (watch events and options for the group, the internal
  event for the group's internal version, the status and discovery types for the core group), in whatever group
  version, and no other kind; none of them has the name of a type of \<open>api/v1\<close>. A builder runs the functions registered
  with it in order up to the first error, and \<open>Must\<close> panics on an error.
\<close>

fun run_all :: "'s registration list \<Rightarrow> 's registration" where
  "run_all [] s = (None, s)"
| "run_all (f # fs) s = (case f s of (Some err, s) \<Rightarrow> (Some err, s) | (None, s) \<Rightarrow> run_all fs s)"

definition api_kinds :: "string list" where
  "api_kinds = [''ProxmoxProvider'', ''ProxmoxProviderList'', ''XenonNodeClaim'', ''XenonNodeClaimList'',
     ''XenonNodePool'', ''XenonNodePoolList'']"

definition scheme_laws :: "('s, 'b) SchemeLib \<Rightarrow> bool" where
  "scheme_laws L \<longleftrightarrow>
     (\<forall>gv ts s gv' k. (\<forall>k \<in> set ts. Recognizes L s gv k \<in> {None, Some k}) \<longrightarrow>
        Recognizes L (AddKnownTypes L gv ts s) gv' k =
          (if gv' = gv \<and> k \<in> set ts then Some k else Recognizes L s gv' k)) \<and>
     (\<forall>gv s gv' k. k \<notin> set (MetaKinds L) \<longrightarrow> Recognizes L (AddToGroupVersion L gv s) gv' k = Recognizes L s gv' k) \<and>
     set (MetaKinds L) \<inter> set api_kinds = {} \<and>
     (\<forall>fs. Registered L (NewSchemeBuilder L fs) = fs) \<and>
     (\<forall>b f. Registered L (Register L b f) = Registered L b @ [f]) \<and>
     (\<forall>b. BuilderAddToScheme L b = run_all (Registered L b)) \<and>
     (\<forall>err. Must L err \<longleftrightarrow> err = None)"

lemma AddKnownTypes_free:
  assumes "scheme_laws L" "\<And>k. k \<in> set ts \<Longrightarrow> Recognizes L s gv k = None"
  shows "Recognizes L (AddKnownTypes L gv ts s) gv' k = (if gv' = gv \<and> k \<in> set ts then Some k else Recognizes L s gv' k)"
  by (rule assms(1) [unfolded scheme_laws_def, THEN conjunct1, rule_format]) (simp add: assms(2))

lemma AddToGroupVersion_frame:
  "scheme_laws L \<Longrightarrow> k \<notin> set (MetaKinds L) \<Longrightarrow> Recognizes L (AddToGroupVersion L gv s) gv' k = Recognizes L s gv' k"
  by (simp add: scheme_laws_def)

lemma api_kinds_not_meta: "scheme_laws L \<Longrightarrow> k \<in> set api_kinds \<Longrightarrow> k \<notin> set (MetaKinds L)"
  unfolding scheme_laws_def by blast

lemmas registration_defs =
  AddToScheme_def SchemeBuilder_def init_ProxmoxProvider_def
  init_XenonNodeClaim_def init_XenonNodePool_def

lemma AddToScheme_runs: "scheme_laws L \<Longrightarrow> fst (AddToScheme L s) = None"
  by (simp add: registration_defs scheme_laws_def)

text \<open>The six types in the order they are registered, each step on a scheme where their names are still free.\<close>

lemma AddToScheme_known:
  assumes "scheme_laws L" "\<And>k. k \<in> set api_kinds \<Longrightarrow> Recognizes L s SchemeGroupVersion k = None"
    and "k \<notin> set (MetaKinds L)"
  shows "Recognizes L (snd (AddToScheme L s)) gv k =
    (if gv = SchemeGroupVersion \<and> k \<in> set api_kinds then Some k else Recognizes L s gv k)"
proof -
  let ?R = "Recognizes L" and ?G = SchemeGroupVersion
  let ?k1 = "[''ProxmoxProvider'', ''ProxmoxProviderList'']" and ?k2 = "[''XenonNodeClaim'', ''XenonNodeClaimList'']"
    and ?k3 = "[''XenonNodePool'', ''XenonNodePoolList'']"
  define a where "a = AddToGroupVersion L ?G s"
  define b where "b = AddKnownTypes L ?G ?k1 a"
  define c where "c = AddKnownTypes L ?G ?k2 b"
  define d where "d = AddKnownTypes L ?G ?k3 c"
  define K1 K2 K3 where K: "K1 = set ?k1" "K2 = set ?k2" "K3 = set ?k3"
  note known = AddKnownTypes_free [OF assms(1), unfolded K [symmetric]]
  have "set api_kinds = set (?k1 @ ?k2 @ ?k3)" by (simp only: api_kinds_def append.simps)
  then have kinds: "set api_kinds = K1 \<union> K2 \<union> K3" by (simp only: K set_append Un_assoc)
  have apart: "K1 \<inter> K2 = {}" "(K1 \<union> K2) \<inter> K3 = {}" by (simp_all add: K)
  have meta: "?R a gv' k = ?R s gv' k" if "k \<notin> set (MetaKinds L)" for gv' k
    unfolding a_def by (rule AddToGroupVersion_frame [OF assms(1) that])
  have free: "?R a ?G k = None" if "k \<in> K1 \<union> K2 \<union> K3" for k
    using that assms(2) [of k] meta [of k] api_kinds_not_meta [OF assms(1), of k] by (simp add: kinds)
  have b: "?R b gv' k = (if gv' = ?G \<and> k \<in> K1 then Some k else ?R a gv' k)" for gv' k
    unfolding b_def K by (rule known) (simp add: free K)
  have "?R b ?G k = None" if "k \<in> K2" for k
    using that free [of k] apart by (auto simp: b)
  then have c: "?R c gv' k = (if gv' = ?G \<and> k \<in> K2 then Some k else ?R b gv' k)" for gv' k
    unfolding c_def K by (rule known)
  have "?R c ?G k = None" if "k \<in> K3" for k
    using that free [of k] apart by (auto simp: b c)
  then have d: "?R d gv' k = (if gv' = ?G \<and> k \<in> K3 then Some k else ?R c gv' k)" for gv' k
    unfolding d_def K by (rule known)
  have "snd (AddToScheme L s) = d"
    using assms(1) by (simp add: registration_defs scheme_laws_def a_def b_def c_def d_def)
  then show ?thesis by (auto simp: kinds d c b meta [OF assms(3)])
qed

text \<open>
  C31: start-up makes the API types known. When the client library registers its types without an error, and none of them
  has one of the six names in the group \<open>core.xenonite.io/v1\<close>, the program's \<open>init\<close> does not panic. Then each of the six
  types of \<open>api/v1\<close> is known as itself in that group version; and, the kinds that \<open>AddToGroupVersion\<close> registers aside,
  what else is known, in this and in any other group version, is what the client library registered.
\<close>

theorem api_types_registered:
  assumes "scheme_laws L" "ClientGoAddToScheme L (NewScheme L) = (None, s)"
    and "\<And>k. k \<in> set api_kinds \<Longrightarrow> Recognizes L s GroupVersion k = None"
  shows "\<exists>scheme. init_scheme L = Some scheme \<and>
    (\<forall>k \<in> set api_kinds. Recognizes L scheme GroupVersion k = Some k) \<and>
    (\<forall>gv k. k \<notin> set (MetaKinds L) \<longrightarrow> gv \<noteq> GroupVersion \<or> k \<notin> set api_kinds \<longrightarrow>
       Recognizes L scheme gv k = Recognizes L s gv k)"
proof -
  obtain scheme where scheme: "AddToScheme L s = (None, scheme)" by (metis AddToScheme_runs assms(1) prod.collapse)
  then have "init_scheme L = Some scheme" using assms by (simp add: init_scheme_def scheme_laws_def)
  moreover note AddToScheme_known [OF assms(1) assms(3) [unfolded GroupVersion_def], unfolded scheme snd_conv]
  ultimately show ?thesis using api_kinds_not_meta [OF assms(1)] by (auto simp: GroupVersion_def)
qed

text \<open>
  An instance: a scheme is the function that tells what it recognizes, a builder the list of its functions, and
  \<open>AddToGroupVersion\<close> writes to three group versions.
\<close>

definition bench_meta_kinds :: "string list" where
  "bench_meta_kinds = [''WatchEvent'', ''ListOptions'', ''GetOptions'', ''DeleteOptions'', ''CreateOptions'',
     ''UpdateOptions'', ''PatchOptions'', ''Status'', ''APIVersions'', ''APIGroupList'', ''APIGroup'', ''APIResourceList'']"

definition bench_scheme_lib ::
  "(GroupVersionType \<Rightarrow> string \<Rightarrow> string option, (GroupVersionType \<Rightarrow> string \<Rightarrow> string option) registration list) SchemeLib" where
  "bench_scheme_lib = \<lparr>
     NewScheme = (\<lambda>_ _. None),
     AddKnownTypes = (\<lambda>gv ts s gv' k. if gv' = gv \<and> k \<in> set ts then Some k else s gv' k),
     AddToGroupVersion = (\<lambda>gv s gv' k.
       if gv' = gv \<and> k \<in> set (take 7 bench_meta_kinds) then Some k
       else if gv' = gv\<lparr>Version := ''__internal''\<rparr> \<and> k = ''WatchEvent'' then Some ''InternalEvent''
       else if gv' = \<lparr>Group = [], Version = ''v1''\<rparr> \<and> k \<in> set (drop 7 bench_meta_kinds) then Some k
       else s gv' k),
     MetaKinds = bench_meta_kinds,
     Recognizes = (\<lambda>s. s), NewSchemeBuilder = (\<lambda>fs. fs), Register = (\<lambda>b f. b @ [f]), Registered = (\<lambda>b. b),
     BuilderAddToScheme = run_all,
     ClientGoAddToScheme = (\<lambda>s. (None, \<lambda>gv k. if gv = \<lparr>Group = [], Version = ''v1''\<rparr> \<and> k = ''Pod'' then Some k else s gv k)),
     Must = (\<lambda>err. err = None)\<rparr>"

lemma bench_scheme_laws: "scheme_laws bench_scheme_lib"
  by (auto simp: scheme_laws_def bench_scheme_lib_def bench_meta_kinds_def api_kinds_def)

theorem api_types_registered_witness:
  "\<exists>scheme. init_scheme bench_scheme_lib = Some scheme \<and>
     Recognizes bench_scheme_lib scheme GroupVersion ''XenonNodePool'' = Some ''XenonNodePool'' \<and>
     Recognizes bench_scheme_lib scheme \<lparr>Group = [], Version = ''v1''\<rparr> ''Pod'' = Some ''Pod''"
proof -
  obtain s where s: "ClientGoAddToScheme bench_scheme_lib (NewScheme bench_scheme_lib) = (None, s)"
    "Recognizes bench_scheme_lib s \<lparr>Group = [], Version = ''v1''\<rparr> ''Pod'' = Some ''Pod''"
    "\<And>k. Recognizes bench_scheme_lib s GroupVersion k = None"
    by (simp add: bench_scheme_lib_def GroupVersion_def SchemeGroupVersion_def)
  have "''XenonNodePool'' \<in> set api_kinds" "\<lparr>Group = [], Version = ''v1''\<rparr> \<noteq> GroupVersion"
    "''Pod'' \<notin> set (MetaKinds bench_scheme_lib)"
    by (simp_all add: api_kinds_def GroupVersion_def SchemeGroupVersion_def bench_scheme_lib_def bench_meta_kinds_def)
  with api_types_registered [OF bench_scheme_laws s(1) s(3)] s(2) show ?thesis by metis
qed

end
