(* ===== verification/PatchBase.thy ===== *)
theory PatchBase
  imports DeepCopy Provisioner
begin

text \<open>
  How the provisioner uses the copies. Before it changes the annotations of a claim it takes a \<open>DeepCopy\<close> as the
  base of the patch (\<open>client.MergeFrom\<close>), and then it writes to the claim's map in place. \<open>Provisioner\<close>
  models this with values; here the same statements run on memory, and the theorem says that the two
  agree: at the time of the \<open>Patch\<close> the base reads as the claim was and the claim as changed.
\<close>

subsection \<open>Writing a map in place\<close>

definition map_put :: "ref \<Rightarrow> string \<Rightarrow> string \<Rightarrow> cell heap \<Rightarrow> cell heap option" where
  "map_put r k v h =
     (case r of None \<Rightarrow> None
      | Some a \<Rightarrow> do { kvs \<leftarrow> fetch as_StringMap h a; Some (store h a (StringMapCell (AList.update k v kvs))) })"

definition map_delete :: "ref \<Rightarrow> string \<Rightarrow> cell heap \<Rightarrow> cell heap option" where
  "map_delete r k h =
     (case r of None \<Rightarrow> Some h
      | Some a \<Rightarrow> do { kvs \<leftarrow> fetch as_StringMap h a; Some (store h a (StringMapCell (AList.delete k kvs))) })"

definition annotations_ref :: "XenonNodeClaim_mem \<Rightarrow> ref" where
  "annotations_ref m = mAnnotations (mClaimMeta m)"

definition with_annotations :: "XenonNodeClaim_mem \<Rightarrow> ref \<Rightarrow> XenonNodeClaim_mem" where
  "with_annotations m r = m\<lparr>mClaimMeta := (mClaimMeta m)\<lparr>mAnnotations := r\<rparr>\<rparr>"

subsection \<open>The statements of the provisioner\<close>

text \<open>Each returns the base of the patch; \<open>p\<close> is the address of the claim.\<close>

definition stamp_in_place :: "Copiers \<Rightarrow> addr \<Rightarrow> string \<Rightarrow> cell heap \<Rightarrow> (ref \<times> cell heap) option" where
  "stamp_in_place K p text h = do {
     (base, h) \<leftarrow> XenonNodeClaim_DeepCopy K (Some p) h;
     claim \<leftarrow> fetch as_XenonNodeClaim h p;
     let (claim, h) =
       (if annotations_ref claim = None
        then let (a, h) = alloc (StringMapCell []) h; claim = with_annotations claim (Some a)
             in (claim, store h p (XenonNodeClaimCell claim))
        else (claim, h));
     h \<leftarrow> map_put (annotations_ref claim) annotationEmptySince text h;
     Some (base, h)
   }"

definition restamp_in_place :: "Copiers \<Rightarrow> addr \<Rightarrow> string \<Rightarrow> cell heap \<Rightarrow> (ref \<times> cell heap) option" where
  "restamp_in_place K p text h = do {
     (base, h) \<leftarrow> XenonNodeClaim_DeepCopy K (Some p) h;
     claim \<leftarrow> fetch as_XenonNodeClaim h p;
     h \<leftarrow> map_put (annotations_ref claim) annotationEmptySince text h;
     Some (base, h)
   }"

definition clear_in_place :: "Copiers \<Rightarrow> addr \<Rightarrow> cell heap \<Rightarrow> (ref \<times> cell heap) option" where
  "clear_in_place K p h = do {
     (base, h) \<leftarrow> XenonNodeClaim_DeepCopy K (Some p) h;
     claim \<leftarrow> fetch as_XenonNodeClaim h p;
     h \<leftarrow> map_delete (annotations_ref claim) annotationEmptySince h;
     Some (base, h)
   }"

subsection \<open>What a claim reads as when only its annotations change\<close>

abbreviation rd_claim :: "cell heap \<Rightarrow> ref \<Rightarrow> (TypeMeta \<times> XenonNodeClaim) option option" where
  "rd_claim \<equiv> rd_ref as_XenonNodeClaim rd_XenonNodeClaim"

abbreviation foot_claim :: "cell heap \<Rightarrow> ref \<Rightarrow> addr set" where
  "foot_claim \<equiv> foot_ref as_XenonNodeClaim foot_XenonNodeClaim"

definition rest_foot :: "cell heap \<Rightarrow> XenonNodeClaim_mem \<Rightarrow> addr set" where
  "rest_foot h m =
     foot_string_map h (mLabels (mClaimMeta m)) \<union> foot_strings h (mFinalizers (mClaimMeta m)) \<union>
     foot_ref as_Time foot_flat h (mDeletionTimestamp (mClaimMeta m)) \<union>
     foot_ref as_Owners foot_flat h (mOwnerReferences (mClaimMeta m)) \<union>
     foot_XenonNodeClaimSpec h (mClaimSpec m) \<union> foot_XenonNodeClaimStatus h (mClaimStatus m)"

text \<open>
  The claim at \<open>p\<close> is not reachable from itself, and the map of its annotations belongs to no other part of it.
  This is how the API client decodes objects.
\<close>

definition owns_annotations :: "cell heap \<Rightarrow> addr \<Rightarrow> bool" where
  "owns_annotations h p \<longleftrightarrow>
     (\<forall>m. fetch as_XenonNodeClaim h p = Some m \<longrightarrow>
        p \<notin> rest_foot h m \<and> annotations_ref m \<noteq> Some p \<and>
        (\<forall>a. annotations_ref m = Some a \<longrightarrow> a \<notin> rest_foot h m))"

lemmas ref_layouts =
  deep_copier.axioms(1) [OF string_map_copier] deep_copier.axioms(1) [OF strings_copier]
  layout_ref [OF layout_flat]
  deep_copier.axioms(1) [OF XenonNodeClaimSpec_copier [OF bench_copiers_copy]]
  deep_copier.axioms(1) [OF XenonNodeClaimStatus_copier [OF bench_copiers_copy]]

lemma rd_string_entries:
  "rd_entries rd_flat h kvs = (if distinct (map fst kvs) then Some (map_of kvs) else None)"
proof -
  have "rd_elems rd_flat h xs = Some xs" for xs :: "'a list" by (simp add: rd_elems_iff rd_flat_def list_all2_same)
  then show ?thesis by (simp add: rd_entries_def zip_map_fst_snd)
qed

lemma rd_claim_with_annotations:
  assumes "rd_XenonNodeClaim h m = Some (t, c)" "\<And>a. a \<in> rest_foot h m \<Longrightarrow> cells g a = cells h a"
    and "rd_string_map g r = Some annotations"
  shows "rd_XenonNodeClaim g (with_annotations m r) = Some (t, c\<lparr>Annotations := annotations\<rparr>)"
proof -
  note l = ref_layouts
  obtain labels old fins del owners sp st where rd:
    "rd_string_map h (mLabels (mClaimMeta m)) = Some labels"
    "rd_string_map h (mAnnotations (mClaimMeta m)) = Some old"
    "rd_strings h (mFinalizers (mClaimMeta m)) = Some fins"
    "rd_ref as_Time rd_flat h (mDeletionTimestamp (mClaimMeta m)) = Some del"
    "rd_ref as_Owners rd_flat h (mOwnerReferences (mClaimMeta m)) = Some owners"
    "rd_XenonNodeClaimSpec h (mClaimSpec m) = Some sp" "rd_XenonNodeClaimStatus h (mClaimStatus m) = Some st"
    and c: "t = mClaimTypeMeta m"
      "c = \<lparr>Name = mName (mClaimMeta m), GenerateName = mGenerateName (mClaimMeta m), Labels = labels,
        Annotations = old, Finalizers = slice_of fins, DeletionTimestamp = del, OwnerReferences = slice_of owners,
        Spec = sp, Status = st\<rparr>"
    using assms(1)
    by (auto simp: rd_XenonNodeClaim_def rd_ObjectMeta_def bind_eq_Some_conv ObjectMeta.defs XenonNodeClaim.defs)
  note keep = assms(2) [unfolded rest_foot_def]
  have "rd_string_map g (mLabels (mClaimMeta m)) = Some labels"
    by (rule layout.local_read [OF l(1) rd(1)]) (rule keep, simp)
  moreover have "rd_strings g (mFinalizers (mClaimMeta m)) = Some fins"
    by (rule layout.local_read [OF l(2) rd(3)]) (rule keep, simp)
  moreover have "rd_ref as_Time rd_flat g (mDeletionTimestamp (mClaimMeta m)) = Some del"
    by (rule layout.local_read [OF l(3) rd(4)]) (rule keep, simp)
  moreover have "rd_ref as_Owners rd_flat g (mOwnerReferences (mClaimMeta m)) = Some owners"
    by (rule layout.local_read [OF l(3) rd(5)]) (rule keep, simp)
  moreover have "rd_XenonNodeClaimSpec g (mClaimSpec m) = Some sp"
    by (rule layout.local_read [OF l(4) rd(6)]) (rule keep, simp)
  moreover have "rd_XenonNodeClaimStatus g (mClaimStatus m) = Some st"
    by (rule layout.local_read [OF l(5) rd(7)]) (rule keep, simp)
  ultimately show ?thesis
    using assms(3)
    by (simp add: c with_annotations_def rd_XenonNodeClaim_def rd_ObjectMeta_def ObjectMeta.defs XenonNodeClaim.defs)
qed

lemma rest_foot_subset: "rd_XenonNodeClaim h m = Some v \<Longrightarrow> rest_foot h m \<subseteq> dom (cells h)"
  using layout.footed [OF deep_copier.axioms(1) [OF XenonNodeClaim_copier [OF bench_copiers_copy]], of h m v]
  by (auto simp: rest_foot_def foot_XenonNodeClaim_def foot_ObjectMeta_def)

lemma with_annotations_same: "annotations_ref m = r \<Longrightarrow> with_annotations m r = m"
  by (auto simp: with_annotations_def annotations_ref_def)

text \<open>The situation after the base was taken: \<open>h\<close> is the memory before and \<open>h1\<close> the memory after the copy.\<close>

definition based :: "cell heap \<Rightarrow> addr \<Rightarrow> XenonNodeClaim_mem \<Rightarrow> TypeMeta \<times> XenonNodeClaim \<Rightarrow> ref \<Rightarrow> cell heap \<Rightarrow> bool" where
  "based h p m v base h1 \<longleftrightarrow>
     fetch as_XenonNodeClaim h p = Some m \<and> rd_XenonNodeClaim h m = Some v \<and> grows h h1 \<and>
     rd_claim h1 base = Some (Some v) \<and> foot_claim h1 base \<inter> dom (cells h) = {}"

lemma basedE:
  assumes "k8s_copies K" "ok h" "rd_claim h (Some p) = Some (Some v)"
  obtains m base h1 where "XenonNodeClaim_DeepCopy K (Some p) h = Some (base, h1)" "based h p m v base h1"
proof -
  obtain base h1 where "XenonNodeClaim_DeepCopy K (Some p) h = Some (base, h1)" "grows h h1"
      "rd_claim h1 base = Some (Some v)" "foot_claim h1 base \<inter> dom (cells h) = {}"
    using deep_copier.copyE [OF XenonNodeClaim_pointer_copier [OF assms(1)] assms(2,3)] .
  then show ?thesis using that assms(3) by (auto simp: based_def)
qed

lemma annotations_changed:
  assumes "based h p m (t, c) base h1" "rd_string_map g r = Some annotations"
    and "fetch as_XenonNodeClaim g p = Some (with_annotations m r)"
    and "\<And>a. a \<in> rest_foot h m \<Longrightarrow> cells g a = cells h a"
    and "\<And>a. a \<in> foot_claim h1 base \<Longrightarrow> cells g a = cells h1 a"
  shows "rd_claim g base = Some (Some (t, c)) \<and> rd_claim g (Some p) = Some (Some (t, c\<lparr>Annotations := annotations\<rparr>))"
proof -
  have b: "rd_XenonNodeClaim h m = Some (t, c)" "rd_claim h1 base = Some (Some (t, c))"
    using assms(1) by (simp_all add: based_def)
  have "rd_claim g base = Some (Some (t, c))"
    by (rule layout.local_read [OF deep_copier.axioms(1) [OF XenonNodeClaim_pointer_copier [OF bench_copiers_copy]] b(2) assms(5)])
  moreover have "rd_XenonNodeClaim g (with_annotations m r) = Some (t, c\<lparr>Annotations := annotations\<rparr>)"
    by (rule rd_claim_with_annotations [OF b(1) assms(4,2)])
  ultimately show ?thesis using assms(3) by simp
qed

text \<open>Writing the map the claim has.\<close>

lemma existing_map_changed:
  assumes "based h p m (t, c) base h1" "owns_annotations h p" "annotations_ref m = Some a"
    and "distinct (map fst kvs)"
  shows "rd_claim (store h1 a (StringMapCell kvs)) base = Some (Some (t, c)) \<and>
    rd_claim (store h1 a (StringMapCell kvs)) (Some p) = Some (Some (t, c\<lparr>Annotations := Some (map_of kvs)\<rparr>))"
proof (rule annotations_changed [OF assms(1), where r = "Some a"])
  have b: "fetch as_XenonNodeClaim h p = Some m" "grows h h1" "rd_XenonNodeClaim h m = Some (t, c)"
      "foot_claim h1 base \<inter> dom (cells h) = {}"
    using assms(1) by (auto simp: based_def)
  have own: "a \<noteq> p" "a \<notin> rest_foot h m" using assms(2,3) b(1) by (auto simp: owns_annotations_def)
  have a: "a \<in> dom (cells h)"
    using b(3) assms(3) fetch_Some_dom [of as_StringMap h a]
    by (auto simp: rd_XenonNodeClaim_def rd_ObjectMeta_def annotations_ref_def bind_eq_Some_conv)
  show "rd_string_map (store h1 a (StringMapCell kvs)) (Some a) = Some (Some (map_of kvs))"
    using assms(4) by (simp add: rd_string_entries)
  show "fetch as_XenonNodeClaim (store h1 a (StringMapCell kvs)) p = Some (with_annotations m (Some a))"
    using own(1) grows_fetch [OF b(2,1)] with_annotations_same [OF assms(3)] by (simp add: fetch_def)
  show "cells (store h1 a (StringMapCell kvs)) x = cells h x" if "x \<in> rest_foot h m" for x
    using that own(2) rest_foot_subset [OF b(3)] grows_cell [OF b(2)] by (metis cells_store fun_upd_other subsetD)
  show "cells (store h1 a (StringMapCell kvs)) x = cells h1 x" if "x \<in> foot_claim h1 base" for x
    using that a b(4) by (metis cells_store disjoint_iff fun_upd_other)
qed

lemma claim_annotations:
  assumes "based h p m (t, c) base h1"
  shows "annotations_ref m = None \<Longrightarrow> Annotations c = None"
    and "annotations_ref m = Some a \<Longrightarrow>
      \<exists>kvs. fetch as_StringMap h1 a = Some kvs \<and> distinct (map fst kvs) \<and> Annotations c = Some (map_of kvs)"
proof -
  have b: "grows h h1" "rd_XenonNodeClaim h m = Some (t, c)" using assms by (simp_all add: based_def)
  show "Annotations c = None" if "annotations_ref m = None"
    using that b(2) by (auto simp: rd_XenonNodeClaim_def rd_ObjectMeta_def annotations_ref_def bind_eq_Some_conv
        ObjectMeta.defs XenonNodeClaim.defs)
  show "\<exists>kvs. fetch as_StringMap h1 a = Some kvs \<and> distinct (map fst kvs) \<and> Annotations c = Some (map_of kvs)"
    if "annotations_ref m = Some a"
    using that b grows_fetch [OF b(1), of as_StringMap a]
    by (auto simp: rd_XenonNodeClaim_def rd_ObjectMeta_def annotations_ref_def bind_eq_Some_conv rd_string_entries
        ObjectMeta.defs XenonNodeClaim.defs split: if_splits)
qed

text \<open>Giving the claim a new map, when it has none.\<close>

lemma new_map_added:
  assumes b: "based h p m (t, c) base h1" and "ok h" "owns_annotations h p"
    and a: "alloc (StringMapCell []) h1 = (a, h2)" and "distinct (map fst kvs)"
    and g: "g = store (store h2 p (XenonNodeClaimCell (with_annotations m (Some a)))) a (StringMapCell kvs)"
  shows "rd_claim g base = Some (Some (t, c)) \<and>
    rd_claim g (Some p) = Some (Some (t, c\<lparr>Annotations := Some (map_of kvs)\<rparr>))"
proof (rule annotations_changed [OF b, where r = "Some a"])
  have h: "fetch as_XenonNodeClaim h p = Some m" "grows h h1" "rd_XenonNodeClaim h m = Some (t, c)"
      "rd_claim h1 base = Some (Some (t, c))" "foot_claim h1 base \<inter> dom (cells h) = {}"
    using b by (auto simp: based_def)
  note al = alloc_grows [OF grows_ok [OF h(2)] a]
  have p: "p \<in> dom (cells h)" using fetch_Some_dom [OF h(1)] .
  have pa: "p \<noteq> a" using p al(2) grows_dom [OF h(2)] by blast
  have outside: "cells g x = cells h1 x" if "x \<in> dom (cells h1)" "x \<noteq> p" for x
    using that al(2) grows_cell [OF al(1) that(1)] g by (metis cells_store fun_upd_other)
  show "rd_string_map g (Some a) = Some (Some (map_of kvs))"
    using assms(5) g by (simp add: rd_string_entries)
  show "fetch as_XenonNodeClaim g p = Some (with_annotations m (Some a))"
    using pa g by (simp add: fetch_def)
  show "cells g x = cells h x" if x: "x \<in> rest_foot h m" for x
  proof -
    have "x \<in> dom (cells h)" using x rest_foot_subset [OF h(3)] by blast
    moreover have "x \<noteq> p" using x assms(3) h(1) by (auto simp: owns_annotations_def)
    ultimately show ?thesis using outside grows_dom [OF h(2)] grows_cell [OF h(2)] by (metis subsetD)
  qed
  show "cells g x = cells h1 x" if "x \<in> foot_claim h1 base" for x
    using that outside p h(5) layout.footed [OF deep_copier.axioms(1)
        [OF XenonNodeClaim_pointer_copier [OF bench_copiers_copy]] h(4)] by blast
qed

section \<open>The patch is the one of the value model\<close>

definition in_place ::
  "cell heap \<Rightarrow> addr \<Rightarrow> TypeMeta \<times> XenonNodeClaim \<Rightarrow> string gomap \<Rightarrow> (ref \<times> cell heap) option \<Rightarrow> bool" where
  "in_place h p v annotations result \<longleftrightarrow>
     (\<exists>base h'. result = Some (base, h') \<and> rd_claim h' base = Some (Some v) \<and>
        rd_claim h' (Some p) = Some (Some (fst v, (snd v)\<lparr>Annotations := annotations\<rparr>)))"

text \<open>
  C20: the in-place updates of the provisioner are the record updates of the model. For a claim in memory that owns
  its annotations, stamping it (with the nil check), stamping it again and clearing the stamp never panic;
  afterwards the base of the patch reads as the claim did before, and the claim reads as that claim with
  the annotations that \<open>markEmptyAndCheckGrace\<close> and \<open>clearEmptySince\<close> of the model pass to \<open>Patch\<close>.
\<close>

theorem patch_base_keeps_old_claim:
  assumes "k8s_copies K" "ok h" "rd_claim h (Some p) = Some (Some (t, c))" "owns_annotations h p"
  shows "(\<exists>annotations. massign (mmake (Annotations c)) annotationEmptySince text = Some annotations \<and>
      in_place h p (t, c) annotations (stamp_in_place K p text h)) \<and>
    (Annotations c \<noteq> None \<longrightarrow> (\<exists>annotations. massign (Annotations c) annotationEmptySince text = Some annotations \<and>
      in_place h p (t, c) annotations (restamp_in_place K p text h))) \<and>
    in_place h p (t, c) (mdelete (Annotations c) annotationEmptySince) (clear_in_place K p h)"
proof -
  obtain m base h1 where copy: "XenonNodeClaim_DeepCopy K (Some p) h = Some (base, h1)"
    and b: "based h p m (t, c) base h1"
    using basedE [OF assms(1-3)] .
  have m: "fetch as_XenonNodeClaim h1 p = Some m" using b grows_fetch by (auto simp: based_def)
  show ?thesis
  proof (cases "annotations_ref m")
    case None
    obtain a h2 where a: "alloc (StringMapCell []) h1 = (a, h2)" by fastforce
    have ann: "annotations_ref (with_annotations m (Some a)) = Some a"
      by (simp add: annotations_ref_def with_annotations_def)
    have p: "p \<noteq> a" "cells h2 a = Some (StringMapCell [])"
      using alloc_grows [OF _ a] b grows_ok fetch_Some_dom [OF m] by (auto simp: based_def)
    then have made: "fetch as_StringMap (store h2 p x) a = Some []" for x by (simp add: fetch_def)
    note nil = claim_annotations(1) [OF b None]
    have "rd_claim h1 base = Some (Some (t, c)) \<and> rd_claim h1 (Some p) = Some (Some (t, c))"
      using b m layout.grows_read [OF deep_copier.axioms(1) [OF XenonNodeClaim_copier [OF assms(1)]]]
      by (auto simp: based_def)
    moreover have "c\<lparr>Annotations := None\<rparr> = c" using nil by simp
    ultimately show ?thesis
      using copy m None nil a ann made new_map_added [OF b assms(2,4) a, of "[(annotationEmptySince, text)]"]
      by (simp add: Let_def stamp_in_place_def clear_in_place_def in_place_def map_put_def map_delete_def mmake_def mdelete_def)
  next
    case (Some a)
    from claim_annotations(2) [OF b this]
    obtain kvs where kvs: "fetch as_StringMap h1 a = Some kvs" "distinct (map fst kvs)" "Annotations c = Some (map_of kvs)"
      by blast
    note changed = existing_map_changed [OF b assms(4) Some]
    show ?thesis
      using copy m Some kvs changed [OF distinct_update [OF kvs(2), of annotationEmptySince "text"]]
        changed [of "AList.delete annotationEmptySince kvs"] distinct_delete [OF kvs(2)]
      by (simp add: stamp_in_place_def restamp_in_place_def clear_in_place_def in_place_def map_put_def map_delete_def
          mmake_def mdelete_def update_conv' delete_conv')
  qed
qed

theorem patch_base_keeps_old_claim_witness:
  "in_place bench_heap 0 bench_claim_value (Some [annotationEmptySince \<mapsto> ''t''])
     (stamp_in_place bench_copiers 0 ''t'' bench_heap)"
proof -
  have "owns_annotations bench_heap 0"
    by (simp add: owns_annotations_def bench_heap_def bench_claim_mem_def annotations_ref_def rest_foot_def
        zero_ObjectMeta_def zero_XenonNodeClaimStatus_def foot_XenonNodeClaimSpec_def foot_XenonNodeClaimStatus_def
        foot_entries_def foot_elems_def foot_Quantity_def foot_flat_def foot_ref_def fetch_def)
  from patch_base_keeps_old_claim [OF bench_copiers_copy bench_heap_ok bench_heap_reads [unfolded bench_claim_value_def] this,
      of "''t''"]
  show ?thesis by (auto simp: bench_claim_value_def mmake_def)
qed

end
