(* ===== verification/ClaimProtocol.thy ===== *)
theory ClaimProtocol
  imports NodeClaim
begin

text \<open>
  What a run of the claim controller does with its claim, as a protocol between the run and the
  API server: the conditions under which a run sends an update of the claim or of its status, in terms of the
  calls it made before. \<open>System\<close> puts runs that keep the protocol next to other actors.
\<close>

subsection \<open>The claim as the run last saw it\<close>

definition returned :: "event \<Rightarrow> XenonNodeClaim option" where
  "returned e =
     (case e of EvGetClaim _ (Inr c) \<Rightarrow> Some c | EvUpdateClaim _ (Inr c) \<Rightarrow> Some c
      | EvUpdateClaimStatus _ (Inr c) \<Rightarrow> Some c | _ \<Rightarrow> None)"

primrec last_seen :: "event list \<Rightarrow> XenonNodeClaim option" where
  "last_seen [] = None"
| "last_seen (e # es) = (case last_seen es of Some c \<Rightarrow> Some c | None \<Rightarrow> returned e)"

lemma last_seen_append [simp]:
  "last_seen (h @ es) = (case last_seen es of Some c \<Rightarrow> Some c | None \<Rightarrow> last_seen h)"
  by (induction h) (auto split: option.splits)

text \<open>Calls that are neither reads nor writes of claims, nor destroy a machine.\<close>

definition neutral :: "event \<Rightarrow> bool" where
  "neutral e \<longleftrightarrow>
     (case e of EvGetClaim _ _ \<Rightarrow> False | EvUpdateClaim _ _ \<Rightarrow> False | EvUpdateClaimStatus _ _ \<Rightarrow> False
      | EvCreateClaim _ _ \<Rightarrow> False | EvPatchClaim _ _ _ \<Rightarrow> False | EvDeleteClaim _ _ \<Rightarrow> False
      | EvListClaims _ _ \<Rightarrow> False | EvProviderDelete _ _ \<Rightarrow> False | _ \<Rightarrow> True)"

lemma neutral_kinds: "is_pve e \<or> reads_config e \<Longrightarrow> neutral e"
  by (cases e) (auto simp: neutral_def reads_config_def)

lemma neutral_not_returned [simp]: "neutral e \<Longrightarrow> returned e = None"
  by (cases e) (auto simp: neutral_def returned_def)

lemma neutral_last_seen [simp]: "list_all neutral es \<Longrightarrow> last_seen es = None"
  by (induction es) (auto simp: neutral_not_returned)

lemma neutral_lists [simp]:
  "list_all is_pve es \<Longrightarrow> list_all neutral es" "list_all reads_config es \<Longrightarrow> list_all neutral es"
  by (auto simp: list_all_iff neutral_kinds)

lemma neutral_calls [simp]:
  "neutral (EvProviderCreate q u)" "neutral (EvProviderGet i y)" "returned (EvProviderDelete i x) = None"
  "neutral (EvGetNode k n)" "neutral (EvPatchNode a b p)"
  by (simp_all add: neutral_def returned_def)

subsection \<open>The protocol\<close>

text \<open>
  An update leaves the status to the server, and keeps the finalizer unless the claim has no machine or
  the call just before reported its machine gone. A status update keeps the provider ID, except that
  it records one that the run was given by \<open>Create\<close> where there was none, once the finalizer is on the
  server. Only the machine that the claim names is destroyed.
\<close>

definition finalizer_sent :: "event list \<Rightarrow> XenonNodeClaim \<Rightarrow> bool" where
  "finalizer_sent h claim \<longleftrightarrow>
     FinalizerNodeClaim \<in> set (Finalizers claim) \<or>
     (\<exists>c. EvUpdateClaim c (Inr claim) \<in> set h \<and> FinalizerNodeClaim \<in> set (Finalizers c))"

lemma finalizer_sent_append [simp]: "finalizer_sent h claim \<Longrightarrow> finalizer_sent (h @ es) claim"
  by (auto simp: finalizer_sent_def)

definition reported_gone :: "string \<Rightarrow> event list \<Rightarrow> bool" where
  "reported_gone i h \<longleftrightarrow> h \<noteq> [] \<and> last h = EvProviderGet i (Inr None)"

definition given :: "event list \<Rightarrow> string \<Rightarrow> bool" where
  "given h i \<longleftrightarrow> (\<exists>q err. EvProviderCreate q (i, err) \<in> set h)"

lemma given_last: "given (h @ es @ es' @ [EvProviderCreate q (i, err)]) i"
  by (auto simp: given_def)

definition update_ok :: "event list \<Rightarrow> XenonNodeClaim \<Rightarrow> bool" where
  "update_ok h c \<longleftrightarrow>
     (\<exists>claim. last_seen h = Some claim \<and> Status c = Status claim \<and>
        (FinalizerNodeClaim \<in> set (Finalizers c) \<or> ProviderID (Status claim) = [] \<or>
         reported_gone (ProviderID (Status claim)) h))"

definition status_ok :: "event list \<Rightarrow> XenonNodeClaim \<Rightarrow> bool" where
  "status_ok h c \<longleftrightarrow>
     (\<exists>claim. last_seen h = Some claim \<and>
        (ProviderID (Status c) = ProviderID (Status claim) \<or>
         ProviderID (Status claim) = [] \<and> finalizer_sent h claim \<and> given h (ProviderID (Status c))))"

definition names_seen :: "event list \<Rightarrow> string \<Rightarrow> bool" where
  "names_seen h i \<longleftrightarrow> (\<exists>claim. last_seen h = Some claim \<and> ProviderID (Status claim) = i)"

definition keeps_protocol :: "NamespacedName \<Rightarrow> event list \<Rightarrow> event \<Rightarrow> bool" where
  "keeps_protocol req h e \<longleftrightarrow>
     (case e of EvUpdateClaim c _ \<Rightarrow> update_ok h c | EvUpdateClaimStatus c _ \<Rightarrow> status_ok h c
      | EvGetClaim k _ \<Rightarrow> k = req | EvProviderDelete i _ \<Rightarrow> names_seen h i | _ \<Rightarrow> neutral e)"

lemma neutral_protocol: "neutral e \<Longrightarrow> keeps_protocol req h e"
  by (cases e) (auto simp: keeps_protocol_def neutral_def)

lemma neutral_every [simp]: "list_all neutral es \<Longrightarrow> every_call (keeps_protocol req) h es"
  by (erule every_call_irrelevant) (rule neutral_protocol)

abbreviation protocol :: "NamespacedName \<Rightarrow> event list \<Rightarrow> bool" where
  "protocol req \<equiv> every_call (keeps_protocol req) []"

lemma protocol_calls [simp]:
  "keeps_protocol req h (EvUpdateClaim c x) = update_ok h c"
  "keeps_protocol req h (EvUpdateClaimStatus c x) = status_ok h c"
  "keeps_protocol req h (EvGetClaim k y) \<longleftrightarrow> k = req"
  "keeps_protocol req h (EvProviderDelete i z) = names_seen h i"
  by (simp_all add: keeps_protocol_def)

subsection \<open>Every run keeps it\<close>

lemma removeFinalizer_protocol:
  assumes "protocol req (calls s)" "last_seen (calls s) = Some claim"
    and "ProviderID (Status claim) = [] \<or> reported_gone (ProviderID (Status claim)) (calls s)"
  shows "wp (removeFinalizer L r claim) (\<lambda>_ t. protocol req (calls t)) s"
  unfolding removeFinalizer_def using assms
  by (auto simp: wp_bind wp_ret update_ok_def split: prod.splits sum.splits intro!: wp_Update)

lemma reconcileDelete_protocol:
  assumes "factory_ok r" "protocol req (calls s)" "last_seen (calls s) = Some claim"
  shows "wp (reconcileDelete L r claim) (\<lambda>_ t. protocol req (calls t)) s"
  unfolding reconcileDelete_def using assms
  by (auto simp: wp_bind wp_ret reported_gone_def neutral_protocol names_seen_def split: option.splits sum.splits
      intro!: wp_resolveProvider wp_call_Delete wp_call_Get removeFinalizer_protocol)

lemma wp_UpdateStatus_protocol:
  assumes "protocol req (calls s)" "last_seen (calls s) = Some claim"
    and "ProviderID (Status c) = ProviderID (Status claim) \<or>
      ProviderID (Status claim) = [] \<and> finalizer_sent (calls s) claim \<and> given (calls s) (ProviderID (Status c))"
  shows "wp (UpdateStatus r c) (\<lambda>_ t. protocol req (calls t)) s"
  using assms by (intro wp_UpdateStatus) (auto simp: status_ok_def)

lemma reconcileCreate_protocol:
  assumes "provider_ok prov" "protocol req (calls s)" "last_seen (calls s) = Some claim"
    and "finalizer_sent (calls s) claim"
  shows "wp (reconcileCreate L r claim prov sp) (\<lambda>_ t. protocol req (calls t)) s"
  unfolding reconcileCreate_def wp_bind using assms
  by (intro wp_renderCloudInit)
    (auto simp: wp_bind wp_ret Let_def neutral_protocol status_ok_def given_last
      split: option.splits sum.splits prod.splits intro!: wp_call_Create wp_setCondition wp_UpdateStatus)

lemma labelNode_neutral:
  "wp (labelNode r node claim) (\<lambda>_ t. \<exists>es. calls t = calls s @ es \<and> list_all neutral es) s"
  unfolding labelNode_def Let_def by (auto simp: wp_simps split: option.splits prod.splits)

lemma reconcileReadiness_protocol:
  assumes "protocol req (calls s)" "last_seen (calls s) = Some claim"
  shows "wp (reconcileReadiness L r claim) (\<lambda>_ t. protocol req (calls t)) s"
  unfolding reconcileReadiness_def using assms
  by (auto simp: wp_simps Let_def neutral_protocol status_ok_def split: option.splits sum.splits prod.splits
      intro!: wp_setCondition wp_UpdateStatus wp_mono [OF labelNode_neutral])

lemma provision_protocol:
  assumes "factory_ok r" "protocol req (calls s)" "last_seen (calls s) = Some claim" "finalizer_sent (calls s) claim"
  shows "wp (provision L r claim) (\<lambda>_ t. protocol req (calls t)) s"
  unfolding provision_def wp_bind using assms
  by (intro wp_resolveProvider)
    (auto simp: wp_bind wp_ret status_ok_def
      intro!: wp_setCondition wp_UpdateStatus reconcileCreate_protocol reconcileReadiness_protocol)

lemma Reconcile_protocol:
  assumes "finalizer_laws L" "factory_ok r"
  shows "wp (Reconcile L r req) (\<lambda>_ t. protocol req (calls t)) (start w)"
proof (rule wp_Reconcile [OF assms(1)], goal_cases)
  case (2 claim w')
  then show ?case by (auto simp: returned_def intro!: reconcileDelete_protocol assms)
next
  case (4 old claim h w1 w2)
  then show ?case
    by (auto simp: finalized_def returned_def finalizer_sent_def update_ok_def intro!: provision_protocol assms)
qed (auto simp: update_ok_def returned_def)

end
