(* ===== verification/PoolProtocol.thy ===== *)
theory PoolProtocol
  imports Provisioner
begin

text \<open>
  What a run of the provisioner may do to a claim: create one, delete one, and patch its annotations; it never
  sends an update or a status update of a claim, and its patches leave the finalizers and the status alone.
  The calls of a program are collected with \<open>emits\<close>, which goes through the program construct by
  construct.
\<close>

subsection \<open>The calls a program can make\<close>

definition emits :: "(event \<Rightarrow> bool) \<Rightarrow> ('w, 'a) M \<Rightarrow> bool" where
  "emits P m \<longleftrightarrow> (\<forall>s. wp m (\<lambda>_ t. \<exists>es. calls t = calls s @ es \<and> list_all P es) s)"

lemma emits_ret [intro!]: "emits P (ret x)"
  by (simp add: emits_def wp_ret)

lemma emits_bind [intro!]:
  assumes "emits P m" "\<And>x. emits P (f x)" shows "emits P (State_Monad.bind m f)"
proof (unfold emits_def wp_bind, intro allI)
  fix s :: "'a sys"
  have "wp m (\<lambda>_ t. \<exists>es. calls t = calls s @ es \<and> list_all P es) s" using assms(1) by (simp add: emits_def)
  then show "wp m (\<lambda>x. wp (f x) (\<lambda>_ t. \<exists>es. calls t = calls s @ es \<and> list_all P es)) s"
  proof (rule wp_mono)
    fix x and t :: "'a sys" assume "\<exists>es. calls t = calls s @ es \<and> list_all P es"
    then obtain es where es: "calls t = calls s @ es" "list_all P es" by blast
    have "wp (f x) (\<lambda>_ u. \<exists>es'. calls u = calls t @ es' \<and> list_all P es') t" using assms(2) by (simp add: emits_def)
    then show "wp (f x) (\<lambda>_ u. \<exists>es. calls u = calls s @ es \<and> list_all P es) t"
      by (rule wp_mono) (use es in \<open>auto simp: list_all_append\<close>)
  qed
qed

lemma emits_call [intro!]: "(\<And>x. P (ev x)) \<Longrightarrow> emits P (call f ev)"
  by (auto simp: emits_def wp_call split: prod.split)

lemma emits_effect [intro!]: "emits P (effect f)"
  by (auto simp: emits_def wp_effect split: prod.split)

lemma emits_run:
  assumes "emits P m" shows "list_all P (calls (snd (run_state m (start w))))"
proof -
  have "wp m (\<lambda>_ t. \<exists>es. calls t = calls (start w) @ es \<and> list_all P es) (start w)"
    using assms by (simp add: emits_def)
  then show ?thesis by (auto simp: wp_def start_def split: prod.splits)
qed

subsection \<open>The protocol\<close>

definition pool_call :: "event \<Rightarrow> bool" where
  "pool_call e \<longleftrightarrow>
     (case e of EvPatchClaim base c _ \<Rightarrow> Finalizers c = Finalizers base \<and> Status c = Status base
      | EvUpdateClaim _ _ \<Rightarrow> False | EvUpdateClaimStatus _ _ \<Rightarrow> False
      | EvProviderCreate _ _ \<Rightarrow> False | EvProviderDelete _ _ \<Rightarrow> False | EvProviderGet _ _ \<Rightarrow> False
      | _ \<Rightarrow> \<not> is_pve e)"

lemma pool_calls [simp]:
  "pool_call (EvGetPool k p)" "pool_call (EvGetNode k n)" "pool_call (EvListPods sel ps)" "pool_call (EvListClaims sel cs)"
  "pool_call (EvCreateClaim c x)" "pool_call (EvDeleteClaim c x)" "pool_call (EvUpdatePoolStatus q y)" "pool_call (EvNow t)"
  "pool_call (EvPatchClaim base c z) \<longleftrightarrow> Finalizers c = Finalizers base \<and> Status c = Status base"
  by (simp_all add: pool_call_def)

lemma createClaims_calls: "emits pool_call (createClaims L r pool n)"
  by (induction n) (auto simp: createClaim_def split: option.split sum.split)

lemma clearEmptySince_calls: "emits pool_call (clearEmptySince r claim)"
  by (auto simp: clearEmptySince_def patchClaim_def)

lemma clearAll_calls: "emits pool_call (clearAll r claims)"
  by (induction claims) (auto intro!: clearEmptySince_calls)

lemma markEmpty_calls: "emits pool_call (markEmptyAndCheckGrace L r claim)"
  by (auto simp: markEmptyAndCheckGrace_def stamp_def patchClaim_def Now_def split: option.split sum.split)

lemma scaleDownClaim_calls: "emits pool_call (scaleDownClaim L r claim)"
  by (auto simp: scaleDownClaim_def isClaimNodeEmpty_def deleteIdle_def Let_def
      intro!: clearEmptySince_calls markEmpty_calls split: option.split sum.split)

lemma scaleDownClaims_calls: "emits pool_call (scaleDownClaims L r claims)"
  by (induction claims) (auto intro!: scaleDownClaim_calls split: option.split)

lemma reconcilePool_calls: "emits pool_call (reconcilePool L r req)"
  by (auto simp: reconcilePool_def pendingPodsForPool_def claimsForPool_def scalePool_def scaleUp_def scaleDown_def
      updateStatus_def Let_def intro!: createClaims_calls clearAll_calls scaleDownClaims_calls
      split: option.split sum.split)

end
