(* ===== verification/System.thy ===== *)
theory System
  imports ClaimProtocol PoolProtocol "HOL-Library.Sublist"
begin

text \<open>
  The operator in its cluster: one claim, the machines of the hypervisor, runs of the claim controller that may
  read stale data, be refused, lose an answer or crash after any call, and between any two of their calls the
  provisioner, users and the hypervisor. The API server keeps every version of the claim, refuses updates of an
  object that is not the current version, keeps the status apart from the rest, and removes an
  object that is being deleted when its last finalizer goes.
\<close>

subsection \<open>The state\<close>

text \<open>
  \<open>stored_at\<close> is the claim in each version (\<^const>\<open>None\<close> when there was none), \<open>alive\<close> the identifiers of the
  existing machines, and \<open>held\<close> those existing machines that were recorded in the status of the claim. The
  program reads none of the last; it is what the theorem is about.
\<close>

record cluster =
  ver :: nat
  stored_at :: "nat \<Rightarrow> XenonNodeClaim option"
  alive :: "string set"
  held :: "string set"

definition now_stored :: "cluster \<Rightarrow> XenonNodeClaim option" where
  "now_stored s = stored_at s (ver s)"

definition put_claim :: "XenonNodeClaim option \<Rightarrow> cluster \<Rightarrow> cluster" where
  "put_claim x s = s\<lparr>ver := Suc (ver s), stored_at := (stored_at s)(Suc (ver s) := x)\<rparr>"

definition settle :: "XenonNodeClaim \<Rightarrow> XenonNodeClaim option" where
  "settle c = (if DeletionTimestamp c \<noteq> None \<and> Finalizers c = [] then None else Some c)"

definition marked :: "int \<Rightarrow> XenonNodeClaim \<Rightarrow> XenonNodeClaim" where
  "marked t c = (if DeletionTimestamp c = None then c\<lparr>DeletionTimestamp := Some t\<rparr> else c)"

definition machine_made :: "string \<Rightarrow> cluster \<Rightarrow> cluster" where
  "machine_made i s = s\<lparr>alive := alive s \<union> ({i} - {[]})\<rparr>"

definition machine_lost :: "string \<Rightarrow> cluster \<Rightarrow> cluster" where
  "machine_lost i s = s\<lparr>alive := alive s - {i}, held := held s - {i}\<rparr>"

definition machine_recorded :: "string \<Rightarrow> string \<Rightarrow> cluster \<Rightarrow> cluster" where
  "machine_recorded old new s = s\<lparr>held := held s \<union> ({new} \<inter> alive s - {old, []})\<rparr>"

definition fresh_status :: XenonNodeClaimStatus where
  "fresh_status = \<lparr>ProviderID = [], NodeName = [], Capacity = None, Allocatable = None, Conditions = []\<rparr>"

subsection \<open>The servers\<close>

text \<open>
  \<open>serve n (s, seen) e (s', seen')\<close>: the API server and the hypervisor can answer the call \<open>e\<close>, with the answer it
  carries, when the claim of name \<open>n\<close> and the machines are as in \<open>s\<close>. \<open>seen\<close> is the version of the claim that the
  caller holds. A write that reports an error may have been carried out nevertheless. A patch changes the
  finalizers and the status only if it was made from objects that differ in them.
\<close>

definition claim_key :: "string \<Rightarrow> NamespacedName" where
  "claim_key n = \<lparr>Namespace = [], KeyName = n\<rparr>"

inductive serve :: "string \<Rightarrow> cluster \<times> nat option \<Rightarrow> event \<Rightarrow> cluster \<times> nat option \<Rightarrow> bool" for n where
  read: "v \<le> ver s \<Longrightarrow> stored_at s v = Some c
    \<Longrightarrow> serve n (s, seen) (EvGetClaim (claim_key n) (Inr c)) (s, Some v)"
| read_failed: "serve n (s, seen) (EvGetClaim k (Inl err)) (s, seen)"
| updated: "now_stored s = Some old \<Longrightarrow> new = c\<lparr>Status := Status old, DeletionTimestamp := DeletionTimestamp old\<rparr>
    \<Longrightarrow> serve n (s, Some (ver s)) (EvUpdateClaim c (Inr new)) (put_claim (settle new) s, Some (Suc (ver s)))"
| update_answer_lost: "now_stored s = Some old \<Longrightarrow> new = c\<lparr>Status := Status old, DeletionTimestamp := DeletionTimestamp old\<rparr>
    \<Longrightarrow> serve n (s, Some (ver s)) (EvUpdateClaim c (Inl err)) (put_claim (settle new) s, Some (ver s))"
| update_failed: "serve n (s, seen) (EvUpdateClaim c (Inl err)) (s, seen)"
| status_updated: "now_stored s = Some old \<Longrightarrow> new = old\<lparr>Status := Status c\<rparr>
    \<Longrightarrow> serve n (s, Some (ver s)) (EvUpdateClaimStatus c (Inr new))
      (machine_recorded (ProviderID (Status old)) (ProviderID (Status c)) (put_claim (Some new) s), Some (Suc (ver s)))"
| status_answer_lost: "now_stored s = Some old \<Longrightarrow> new = old\<lparr>Status := Status c\<rparr>
    \<Longrightarrow> serve n (s, Some (ver s)) (EvUpdateClaimStatus c (Inl err))
      (machine_recorded (ProviderID (Status old)) (ProviderID (Status c)) (put_claim (Some new) s), Some (ver s))"
| status_failed: "serve n (s, seen) (EvUpdateClaimStatus c (Inl err)) (s, seen)"
| claim_created: "now_stored s = None \<Longrightarrow> new = c\<lparr>Name := n, DeletionTimestamp := None, Status := fresh_status\<rparr>
    \<Longrightarrow> serve n (s, seen) (EvCreateClaim c x) (put_claim (Some new) s, seen)"
| other_created: "serve n (s, seen) (EvCreateClaim c x) (s, seen)"
| claim_deleted: "Name c = n \<Longrightarrow> now_stored s = Some old
    \<Longrightarrow> serve n (s, seen) (EvDeleteClaim c x) (put_claim (settle (marked t old)) s, seen)"
| other_deleted: "serve n (s, seen) (EvDeleteClaim c x) (s, seen)"
| claim_patched: "Name base = n \<Longrightarrow> now_stored s = Some old \<Longrightarrow> DeletionTimestamp new = DeletionTimestamp old
    \<Longrightarrow> (Finalizers c = Finalizers base \<Longrightarrow> Finalizers new = Finalizers old)
    \<Longrightarrow> (Status c = Status base \<Longrightarrow> Status new = Status old)
    \<Longrightarrow> serve n (s, seen) (EvPatchClaim base c x) (put_claim (settle new) s, seen)"
| other_patched: "serve n (s, seen) (EvPatchClaim base c x) (s, seen)"
| machine_created: "i = [] \<or> i \<notin> alive s \<Longrightarrow> serve n (s, seen) (EvProviderCreate q (i, err)) (machine_made i s, seen)"
| machine_deleted: "serve n (s, seen) (EvProviderDelete i x) (machine_lost i s, seen)"
| machine_kept: "serve n (s, seen) (EvProviderDelete i x) (s, seen)"
| machine_gone: "i \<notin> alive s \<Longrightarrow> serve n (s, seen) (EvProviderGet i (Inr None)) (s, seen)"
| machine_found: "y \<noteq> Inr None \<Longrightarrow> serve n (s, seen) (EvProviderGet i y) (s, seen)"
| elsewhere: "(\<And>q u. e \<noteq> EvProviderCreate q u) \<Longrightarrow> (\<And>i x. e \<noteq> EvProviderDelete i x) \<Longrightarrow> (\<And>i y. e \<noteq> EvProviderGet i y)
    \<Longrightarrow> neutral e \<or> (\<exists>sel cs. e = EvListClaims sel cs) \<Longrightarrow> serve n (s, seen) e (s, seen)"

subsection \<open>Everyone else\<close>

text \<open>
  The provisioner makes the calls its runs make, in any order and at any time. Users create, delete and edit the
  claim; they leave its provider ID and the operator's finalizer alone. Machines can vanish, and machines
  that do not belong to the claim appear, possibly under an identifier that was used before.
\<close>

definition provisioner_call :: "'v Lib \<Rightarrow> 'v ProvisionerReconciler \<Rightarrow> event \<Rightarrow> bool" where
  "provisioner_call L r e \<longleftrightarrow> (\<exists>req w. e \<in> set (calls (snd (run_state (reconcilePool L r req) (start w)))))"

inductive others :: "'v Lib \<Rightarrow> 'v ProvisionerReconciler \<Rightarrow> string \<Rightarrow> cluster \<Rightarrow> cluster \<Rightarrow> bool" for L r n where
  provisioner: "provisioner_call L r e \<Longrightarrow> serve n (s, None) e (s', seen) \<Longrightarrow> others L r n s s'"
| user_creates: "now_stored s = None \<Longrightarrow> DeletionTimestamp c = None \<Longrightarrow> Status c = fresh_status
    \<Longrightarrow> others L r n s (put_claim (Some c) s)"
| user_deletes: "now_stored s = Some c \<Longrightarrow> others L r n s (put_claim (settle (marked t c)) s)"
| user_edits: "now_stored s = Some c \<Longrightarrow> DeletionTimestamp c' = DeletionTimestamp c
    \<Longrightarrow> ProviderID (Status c') = ProviderID (Status c)
    \<Longrightarrow> (FinalizerNodeClaim \<in> set (Finalizers c) \<Longrightarrow> FinalizerNodeClaim \<in> set (Finalizers c'))
    \<Longrightarrow> others L r n s (put_claim (settle c') s)"
| machine_vanishes: "others L r n s (machine_lost i s)"
| machine_appears: "i \<notin> alive s \<Longrightarrow> others L r n s (machine_made i s)"

subsection \<open>Runs and reachable states\<close>

text \<open>\<open>executed\<close>: the calls of a run in their order, with any number of steps of the others before, between and after.\<close>

inductive executed ::
  "'v Lib \<Rightarrow> 'v ProvisionerReconciler \<Rightarrow> string \<Rightarrow> cluster \<times> nat option \<Rightarrow> event list \<Rightarrow> cluster \<times> nat option \<Rightarrow> bool"
  for L r n where
  none: "executed L r n x [] x"
| other_step: "others L r n s s' \<Longrightarrow> executed L r n (s', seen) es y \<Longrightarrow> executed L r n (s, seen) es y"
| own_step: "serve n x e x' \<Longrightarrow> executed L r n x' es y \<Longrightarrow> executed L r n x (e # es) y"

text \<open>
  A reconcile of the claim may stop after any of its calls (a crash). The queue never runs two reconciles of one claim
  at the same time.
\<close>

inductive reachable ::
  "'w Lib \<Rightarrow> 'w XenonNodeClaimReconciler \<Rightarrow> 'v Lib \<Rightarrow> 'v ProvisionerReconciler \<Rightarrow> string \<Rightarrow> cluster \<Rightarrow> bool"
  for L r L' r' n where
  initial: "now_stored s = None \<Longrightarrow> held s = {} \<Longrightarrow> reachable L r L' r' n s"
| other: "reachable L r L' r' n s \<Longrightarrow> others L' r' n s s' \<Longrightarrow> reachable L r L' r' n s'"
| reconciled: "reachable L r L' r' n s
    \<Longrightarrow> prefix es (calls (snd (run_state (Reconcile L r (claim_key n)) (start w))))
    \<Longrightarrow> executed L' r' n (s, None) es (s', seen) \<Longrightarrow> reachable L r L' r' n s'"

section \<open>A recorded machine keeps its claim\<close>

definition keeps_claim :: "cluster \<Rightarrow> string \<Rightarrow> bool" where
  "keeps_claim s i \<longleftrightarrow>
     (\<exists>c. now_stored s = Some c \<and> FinalizerNodeClaim \<in> set (Finalizers c) \<and> ProviderID (Status c) = i)"

definition tracked :: "cluster \<Rightarrow> bool" where
  "tracked s \<longleftrightarrow> (\<forall>i \<in> held s. i \<noteq> [] \<and> i \<in> alive s \<and> keeps_claim s i)"

lemma now_put [simp]: "now_stored (put_claim x s) = x"
  by (simp add: now_stored_def put_claim_def)

lemma put_fields [simp]:
  "ver (put_claim x s) = Suc (ver s)" "alive (put_claim x s) = alive s" "held (put_claim x s) = held s"
  "v \<le> ver s \<Longrightarrow> stored_at (put_claim x s) v = stored_at s v" "stored_at (put_claim x s) (Suc (ver s)) = x"
  by (simp_all add: put_claim_def)

lemma machine_fields [simp]:
  "now_stored (machine_made i s) = now_stored s" "now_stored (machine_lost i s) = now_stored s"
  "now_stored (machine_recorded a b s) = now_stored s"
  "ver (machine_made i s) = ver s" "ver (machine_lost i s) = ver s" "ver (machine_recorded a b s) = ver s"
  "stored_at (machine_made i s) = stored_at s" "stored_at (machine_lost i s) = stored_at s"
  "stored_at (machine_recorded a b s) = stored_at s"
  "alive (machine_made i s) = alive s \<union> ({i} - {[]})" "alive (machine_lost i s) = alive s - {i}"
  "alive (machine_recorded a b s) = alive s"
  "held (machine_made i s) = held s" "held (machine_lost i s) = held s - {i}"
  "held (machine_recorded a b s) = held s \<union> ({b} \<inter> alive s - {a, []})"
  by (simp_all add: now_stored_def machine_made_def machine_lost_def machine_recorded_def)

lemma tracked_same: "tracked s \<Longrightarrow> held s' \<subseteq> held s \<Longrightarrow> held s' \<subseteq> alive s' \<Longrightarrow> now_stored s' = now_stored s \<Longrightarrow> tracked s'"
  by (auto simp: tracked_def keeps_claim_def)

text \<open>A change of the claim that keeps the finalizer and the provider ID, and one that is made when no machine is held.\<close>

lemma tracked_put:
  assumes "tracked s" "now_stored s = Some old" "ProviderID (Status new) = ProviderID (Status old)"
    and "FinalizerNodeClaim \<in> set (Finalizers old) \<Longrightarrow> FinalizerNodeClaim \<in> set (Finalizers new)"
  shows "tracked (put_claim (settle new) s)"
  using assms by (auto simp: tracked_def keeps_claim_def settle_def)

lemma held_only: "tracked s \<Longrightarrow> i \<in> held s \<Longrightarrow> now_stored s = Some c \<Longrightarrow> ProviderID (Status c) = i"
  by (auto simp: tracked_def keeps_claim_def)

lemma tracked_put_unheld: "held s = {} \<Longrightarrow> tracked (put_claim x s)"
  by (simp add: tracked_def)

lemma marked_fields [simp]: "Finalizers (marked t c) = Finalizers c" "Status (marked t c) = Status c"
  by (simp_all add: marked_def)

lemma absent_unheld: "tracked s \<Longrightarrow> now_stored s = None \<Longrightarrow> held s = {}"
  by (auto simp: tracked_def keeps_claim_def)

subsection \<open>Steps of the others\<close>

text \<open>They keep the past, and they never add to the machines that are held.\<close>

definition later :: "cluster \<Rightarrow> cluster \<Rightarrow> bool" where
  "later s s' \<longleftrightarrow> ver s \<le> ver s' \<and> (\<forall>v \<le> ver s. stored_at s' v = stored_at s v) \<and> held s' \<subseteq> held s"

lemma later_simps [simp]:
  "later s s" "later s (put_claim x s)" "later s (machine_made i s)" "later s (machine_lost i s)"
  by (auto simp: later_def)

lemma pool_call_step:
  assumes "serve n (s, None) e (s', seen)" "pool_call e" "tracked s"
  shows "tracked s' \<and> later s s'"
  using assms
proof (cases rule: serve.cases)
  case (claim_created new c x)
  then show ?thesis using assms(3) by (simp add: tracked_put_unheld absent_unheld)
next
  case (claim_deleted c old x t)
  then show ?thesis using assms(3) by (simp add: tracked_put)
next
  case (claim_patched base old new c x)
  then show ?thesis using assms(2,3) by (simp add: tracked_put)
qed (use assms(2,3) in \<open>auto simp: pool_call_def\<close>)

lemma others_step:
  assumes "others L r n s s'" "tracked s" shows "tracked s' \<and> later s s'"
  using assms
proof (induction rule: others.induct)
  case (provisioner e s s' seen)
  obtain req w where "e \<in> set (calls (snd (run_state (reconcilePool L r req) (start w))))"
    using provisioner(1) by (auto simp: provisioner_call_def)
  then have "pool_call e" using emits_run [OF reconcilePool_calls, of L r req w] by (simp add: list_all_iff)
  then show ?case using pool_call_step provisioner(2,3) by blast
next
  case (machine_vanishes s i)
  then show ?case by (auto simp: tracked_def keeps_claim_def)
next
  case (machine_appears i s)
  then show ?case by (auto simp: tracked_def keeps_claim_def)
qed (simp_all add: tracked_put tracked_put_unheld absent_unheld)

subsection \<open>Steps of a run\<close>

text \<open>
  What holds in the middle of a run that has made the calls \<open>h\<close>: the claim it last saw is the version it
  holds, unless that version is the removal of the claim; updates were answered with the finalizers they sent; and a
  machine that the last call reported gone is not held.
\<close>

definition in_step :: "event list \<Rightarrow> cluster \<times> nat option \<Rightarrow> bool" where
  "in_step h x \<longleftrightarrow> tracked (fst x) \<and>
     (\<forall>v. snd x = Some v \<longrightarrow> v \<le> ver (fst x) \<and>
        (\<forall>c. stored_at (fst x) v = Some c \<longrightarrow> last_seen h = Some c)) \<and>
     (\<forall>c d. EvUpdateClaim c (Inr d) \<in> set h \<longrightarrow> Finalizers d = Finalizers c) \<and>
     (\<forall>i. reported_gone i h \<longrightarrow> i \<notin> held (fst x))"

lemma in_step_start: "tracked s \<Longrightarrow> in_step [] (s, None)"
  by (simp add: in_step_def reported_gone_def)

lemma in_step_others:
  assumes "in_step h (s, seen)" "tracked s'" "later s s'"
  shows "in_step h (s', seen)"
  using assms by (fastforce simp: in_step_def later_def)

lemma in_step_current:
  assumes "in_step h (s, Some (ver s))" "now_stored s = Some old"
  shows "last_seen h = Some old"
  using assms by (simp add: in_step_def now_stored_def)

text \<open>An update the protocol allows, carried out on the version the run holds.\<close>

lemma tracked_updated:
  assumes "in_step h (s, Some (ver s))" "update_ok h c" "now_stored s = Some old"
    and "new = c\<lparr>Status := Status old, DeletionTimestamp := DeletionTimestamp old\<rparr>"
  shows "tracked (put_claim (settle new) s)"
proof -
  have seen: "last_seen h = Some old" and t: "tracked s"
    using in_step_current [OF assms(1,3)] assms(1) by (simp_all add: in_step_def)
  show ?thesis
  proof (cases "FinalizerNodeClaim \<in> set (Finalizers c)")
    case True
    then show ?thesis using tracked_put [OF t assms(3), of new] assms(4) by simp
  next
    case False
    then have "ProviderID (Status old) = [] \<or> reported_gone (ProviderID (Status old)) h"
      using assms(2) seen by (auto simp: update_ok_def)
    then have "ProviderID (Status old) \<notin> held s" using assms(1) t by (auto simp: in_step_def tracked_def)
    then have "held s = {}" using held_only [OF t _ assms(3)] by blast
    then show ?thesis by (rule tracked_put_unheld)
  qed
qed

lemma tracked_status_updated:
  assumes "in_step h (s, Some (ver s))" "status_ok h c" "now_stored s = Some old"
    and "s' = machine_recorded (ProviderID (Status old)) (ProviderID (Status c)) (put_claim (Some (old\<lparr>Status := Status c\<rparr>)) s)"
  shows "tracked s'"
proof -
  have seen: "last_seen h = Some old" and t: "tracked s"
    using in_step_current [OF assms(1,3)] assms(1) by (simp_all add: in_step_def)
  consider "ProviderID (Status c) = ProviderID (Status old)"
    | "ProviderID (Status old) = []" "FinalizerNodeClaim \<in> set (Finalizers old)"
    using assms(1,2) seen by (auto simp: status_ok_def finalizer_sent_def in_step_def)
  then show ?thesis
  proof cases
    case 1
    then show ?thesis using t assms(3,4) by (auto simp: tracked_def keeps_claim_def)
  next
    case 2
    then have "held s = {}" using held_only [OF t _ assms(3)] t by (auto simp: tracked_def)
    then show ?thesis using 2(2) assms(4) by (auto simp: tracked_def keeps_claim_def)
  qed
qed

lemma not_reported [simp]: "(\<And>j. e \<noteq> EvProviderGet j (Inr None)) \<Longrightarrow> \<not> reported_gone i (h @ [e])"
  by (auto simp: reported_gone_def)

lemma reported_snoc [simp]: "reported_gone i (h @ [EvProviderGet j (Inr None)]) \<longleftrightarrow> i = j"
  by (auto simp: reported_gone_def)

lemma own_step_keeps:
  assumes "serve n (s, seen) e (s', seen')" "keeps_protocol req h e" "in_step h (s, seen)"
  shows "in_step (h @ [e]) (s', seen')"
  using assms(1)
proof (cases rule: serve.cases)
  case (updated old new c)
  then show ?thesis using assms(2,3) tracked_updated [of h s c old new]
    by (auto simp: in_step_def returned_def settle_def split: if_splits)
next
  case (update_answer_lost old new c err)
  then show ?thesis using assms(2,3) tracked_updated [of h s c old new]
    by (auto simp: in_step_def returned_def)
next
  case (status_updated old new c)
  then show ?thesis using assms(2,3) tracked_status_updated [of h s c old]
    by (auto simp: in_step_def returned_def)
next
  case (status_answer_lost old new c err)
  then show ?thesis using assms(2,3) tracked_status_updated [of h s c old]
    by (auto simp: in_step_def returned_def)
next
  case elsewhere
  have "returned (EvListClaims sel cs) = None" for sel cs by (simp add: returned_def)
  then have "returned e = None" using elsewhere by auto
  then show ?thesis using elsewhere assms(3) by (auto simp: in_step_def neutral_def)
qed (use assms(2,3) in \<open>auto simp: in_step_def returned_def keeps_protocol_def neutral_def tracked_def keeps_claim_def\<close>)

lemma executed_keeps:
  assumes "executed L r n x es y" "in_step h x" "every_call (keeps_protocol req) h es"
  shows "in_step (h @ es) y"
  using assms
proof (induction arbitrary: h rule: executed.induct)
  case (none x)
  then show ?case by simp
next
  case (other_step s s' seen es y)
  then show ?case using others_step in_step_others by (metis fst_conv in_step_def)
next
  case (own_step x e x' es y)
  then show ?case using own_step_keeps [of n "fst x" "snd x" e "fst x'" "snd x'" req h] by (fastforce)
qed

lemma protocol_prefix: "protocol req es \<Longrightarrow> prefix es' es \<Longrightarrow> protocol req es'"
  by (auto elim!: prefixE)

lemma reachable_tracked:
  assumes "reachable L r L' r' n s" "finalizer_laws L" "factory_ok r"
  shows "tracked s"
  using assms(1)
proof (induction rule: reachable.induct)
  case (initial s)
  then show ?case by (simp add: tracked_def)
next
  case (other s s')
  then show ?case using others_step by blast
next
  case (reconciled s es w s' seen)
  have "protocol (claim_key n) (calls (snd (run_state (Reconcile L r (claim_key n)) (start w))))"
    using Reconcile_protocol [OF assms(2,3), of "claim_key n" w] by (simp add: wp_def split: prod.splits)
  then have "protocol (claim_key n) es" using reconciled(2) by (rule protocol_prefix)
  then have "in_step ([] @ es) (s', seen)"
    by (rule executed_keeps [OF reconciled(3) in_step_start [OF reconciled(4)]])
  then show ?case by (simp add: in_step_def)
qed

text \<open>
  C1: a machine that was recorded is never orphaned. In every state the operator and its environment can reach,
  with stale reads, refused and unanswered writes, crashes of the controller after any call, the provisioner's calls,
  edits by users and machines that vanish, in any order: an existing machine that was recorded in the status of a claim is
  still named by the stored claim, which still carries the operator's finalizer. In particular there is at most
  one such machine, and none once the claim is gone.
\<close>

theorem recorded_machine_keeps_claim:
  assumes "reachable L r L' r' n s" "finalizer_laws L" "factory_ok r" "i \<in> held s"
  shows "\<exists>c. now_stored s = Some c \<and> FinalizerNodeClaim \<in> set (Finalizers c) \<and>
    ProviderID (Status c) = i \<and> held s = {i}"
proof -
  have t: "tracked s" by (rule reachable_tracked [OF assms(1-3)])
  then obtain c where c: "now_stored s = Some c" "FinalizerNodeClaim \<in> set (Finalizers c)" "ProviderID (Status c) = i"
    using assms(4) by (auto simp: tracked_def keeps_claim_def)
  then have "held s = {i}" using held_only [OF t _ c(1)] assms(4) by blast
  then show ?thesis using c by blast
qed

subsection \<open>A state with a recorded machine\<close>

text \<open>A user creates a claim, and a reconcile runs to its end with nobody interfering.\<close>

definition quiet :: "event \<Rightarrow> bool" where
  "quiet e \<longleftrightarrow> is_pve e \<or> reads_config e"

lemma quiet_served: "quiet e \<Longrightarrow> serve n x e x"
  by (cases x; cases e) (auto simp: quiet_def reads_config_def neutral_def intro!: serve.elsewhere)

lemma quiet_executed:
  "list_all quiet es \<Longrightarrow> executed L r n x es' y \<Longrightarrow> executed L r n x (es @ es') y"
  by (induction es) (auto intro: executed.own_step quiet_served)

definition bench_finalized :: XenonNodeClaim where
  "bench_finalized = (bench_claim [])\<lparr>Finalizers := [FinalizerNodeClaim]\<rparr>"

definition bench_machine :: string where
  "bench_machine = ''proxmox://pve1/101''"

lemma bench_created_trace:
  "wp (Reconcile bench_lib bench_reconciler bench_key)
     (\<lambda>_ t. \<exists>q c. calls t = EvGetClaim bench_key (Inr bench_finalized) # butlast (butlast (tl (calls t))) @
          [EvProviderCreate q (bench_machine, None),
           EvUpdateClaimStatus c (Inr (bench_finalized\<lparr>Status := Status c\<rparr>))] \<and>
        list_all quiet (butlast (butlast (tl (calls t)))) \<and> ProviderID (Status c) = bench_machine)
     (start (bench_cluster bench_finalized))"
  by (simp add: claim_run bench_finalized_def bench_machine_def quiet_def reads_config_def)

lemma bench_reaches_recorded:
  "\<exists>s st. reachable bench_lib bench_reconciler bench_lib bench_provisioner ''n1'' s \<and> held s = {bench_machine} \<and>
     now_stored s = Some (bench_finalized\<lparr>Status := st\<rparr>) \<and> ProviderID st = bench_machine"
proof -
  let ?R = "reachable bench_lib bench_reconciler bench_lib bench_provisioner ''n1''"
  let ?s = "\<lparr>ver = 0, stored_at = \<lambda>_. None, alive = {}, held = {}\<rparr>"
  let ?s1 = "put_claim (Some bench_finalized) ?s"
  have key: "bench_key = claim_key ''n1''" by (simp add: bench_key_def claim_key_def)
  have "?R ?s" by (rule reachable.initial) (simp_all add: now_stored_def)
  then have s: "?R ?s1"
    by (rule reachable.other, intro others.user_creates)
      (simp_all add: now_stored_def bench_finalized_def bench_claim_def bench_meta_def fresh_status_def
        XenonNodeClaim.defs ObjectMeta.defs)
  obtain pre q c where es: "calls (snd (run_state (Reconcile bench_lib bench_reconciler bench_key)
        (start (bench_cluster bench_finalized)))) =
      EvGetClaim bench_key (Inr bench_finalized) # pre @ [EvProviderCreate q (bench_machine, None),
        EvUpdateClaimStatus c (Inr (bench_finalized\<lparr>Status := Status c\<rparr>))]" (is "_ = ?es")
    and pre: "list_all quiet pre" and c: "ProviderID (Status c) = bench_machine"
    using bench_created_trace by (auto simp: wp_def split: prod.splits)
  let ?s2 = "machine_made bench_machine ?s1"
  let ?s3 = "machine_recorded [] bench_machine (put_claim (Some (bench_finalized\<lparr>Status := Status c\<rparr>)) ?s2)"
  have old: "ProviderID (Status bench_finalized) = []"
    by (simp add: bench_finalized_def bench_claim_def XenonNodeClaim.defs ObjectMeta.defs)
  have "serve ''n1'' (?s2, Some 1)
      (EvUpdateClaimStatus c (Inr (bench_finalized\<lparr>Status := Status c\<rparr>))) (?s3, Some (Suc 1))"
    using serve.status_updated [of ?s2 bench_finalized "bench_finalized\<lparr>Status := Status c\<rparr>" c "''n1''"] c old
    by simp
  then have "executed bench_lib bench_provisioner ''n1'' (?s2, Some 1)
      [EvUpdateClaimStatus c (Inr (bench_finalized\<lparr>Status := Status c\<rparr>))] (?s3, Some (Suc 1))"
    by (rule executed.own_step) (rule executed.none)
  then have "executed bench_lib bench_provisioner ''n1'' (?s1, Some 1) (pre @ [EvProviderCreate q (bench_machine, None),
      EvUpdateClaimStatus c (Inr (bench_finalized\<lparr>Status := Status c\<rparr>))]) (?s3, Some (Suc 1))"
    by (intro quiet_executed [OF pre]) (rule executed.own_step [OF serve.machine_created], simp_all)
  then have "executed bench_lib bench_provisioner ''n1'' (?s1, None) ?es (?s3, Some (Suc 1))"
    unfolding key by (rule executed.own_step [rotated]) (rule serve.read, simp_all add: put_claim_def)
  then have "?R ?s3" using reachable.reconciled [OF s _, of ?es "bench_cluster bench_finalized"] es key by simp
  moreover have "held ?s3 = {bench_machine}" "now_stored ?s3 = Some (bench_finalized\<lparr>Status := Status c\<rparr>)"
    by (simp_all add: bench_machine_def)
  ultimately show ?thesis using c by blast
qed

theorem recorded_machine_keeps_claim_witness:
  "\<exists>s c. reachable bench_lib bench_reconciler bench_lib bench_provisioner ''n1'' s \<and>
     held s = {bench_machine} \<and> now_stored s = Some c \<and> ProviderID (Status c) = bench_machine"
proof -
  obtain s where s: "reachable bench_lib bench_reconciler bench_lib bench_provisioner ''n1'' s" "held s = {bench_machine}"
    using bench_reaches_recorded by blast
  then have "bench_machine \<in> held s" by simp
  from recorded_machine_keeps_claim [OF s(1) bench_finalizer_laws bench_factory_ok this] s show ?thesis by blast
qed

end
