(* ===== verification/StaleRead.thy ===== *)
theory StaleRead
  imports System
begin

text \<open>
  What stale reads can do. A claim's reconciles find its machine by the provider ID alone, a node and a number
  that the hypervisor gives out again. The theory follows one claim through creation, deletion and the
  reconcile that releases it, and then lets a further reconcile read the claim from a cache that
  still has it, after the number was given to another machine.
\<close>

definition bench_dying :: "XenonNodeClaimStatus \<Rightarrow> XenonNodeClaim" where
  "bench_dying st = bench_deleting\<lparr>Status := st\<rparr>"

definition bench_released :: "XenonNodeClaimStatus \<Rightarrow> XenonNodeClaim" where
  "bench_released st = (bench_dying st)\<lparr>Finalizers := []\<rparr>"

lemma bench_teardown_trace:
  assumes "ProviderID st = bench_machine"
  shows "wp (Reconcile bench_lib bench_reconciler bench_key)
     (\<lambda>_ t. let pre = takeWhile quiet (tl (calls t)); mid = takeWhile quiet (tl (dropWhile quiet (tl (calls t)))) in
        calls t = EvGetClaim bench_key (Inr (bench_dying st)) # pre @ EvProviderDelete bench_machine None # mid @
          [EvProviderGet bench_machine (Inr None), EvUpdateClaim (bench_released st) (Inr (bench_released st))])
     (start (bench_teardown\<lparr>bClaims := [bench_dying st]\<rparr>))"
  using assms
  by (simp add: claim_run bench_dying_def bench_released_def bench_machine_def quiet_def reads_config_def)

lemma bench_teardown_calls:
  assumes "ProviderID st = bench_machine"
  obtains pre mid w where "list_all quiet pre" "list_all quiet mid"
    "calls (snd (run_state (Reconcile bench_lib bench_reconciler (claim_key ''n1'')) (start w))) =
       EvGetClaim (claim_key ''n1'') (Inr (bench_dying st)) # pre @ EvProviderDelete bench_machine None # mid @
         [EvProviderGet bench_machine (Inr None), EvUpdateClaim (bench_released st) (Inr (bench_released st))]"
proof -
  have quiet: "list_all quiet (takeWhile quiet xs)" for xs by (auto simp: list_all_iff dest: set_takeWhileD)
  have key: "bench_key = claim_key ''n1''" by (simp add: bench_key_def claim_key_def)
  show ?thesis
    by (rule that [OF quiet quiet],
        rule wp_runD [OF bench_teardown_trace [OF assms, unfolded Let_def key] prod.collapse [symmetric]])
qed

lemma executed_append:
  "executed L r n x es y \<Longrightarrow> executed L r n y es' z \<Longrightarrow> executed L r n x (es @ es') z"
  by (induction rule: executed.induct) (auto intro: executed.intros)

lemma executed_one: "serve n x e y \<Longrightarrow> executed L r n x [e] y"
  by (auto intro: executed.intros)

lemma executed_quiet: "list_all quiet es \<Longrightarrow> executed L r n x es x"
  by (metis append_Nil2 executed.none quiet_executed)

text \<open>The beginning of the teardown, on any memory of the server in which the deleted claim is a version.\<close>

lemma bench_stale_start:
  assumes "list_all quiet pre" "v \<le> ver s" "stored_at s v = Some (bench_dying st)"
  shows "executed L r ''n1'' (s, None) (EvGetClaim (claim_key ''n1'') (Inr (bench_dying st)) # pre) (s, Some v)"
  by (rule executed.own_step [OF serve.read [OF assms(2,3)] executed_quiet [OF assms(1)]])

text \<open>The rest of the teardown on the current version: the machine goes, and then the claim.\<close>

lemma bench_teardown_ends:
  assumes "list_all quiet mid" "now_stored s = Some (bench_dying st)"
  shows "executed L r ''n1'' (s, Some (ver s)) (EvProviderDelete bench_machine None # mid @
      [EvProviderGet bench_machine (Inr None), EvUpdateClaim (bench_released st) (Inr (bench_released st))])
    (put_claim None (machine_lost bench_machine s), Some (Suc (ver s)))"
proof -
  let ?s = "machine_lost bench_machine s"
  have "settle (bench_released st) = None"
    by (simp add: bench_released_def bench_dying_def bench_deleting_def settle_def)
  moreover have "bench_released st = (bench_released st)\<lparr>Status := Status (bench_dying st),
      DeletionTimestamp := DeletionTimestamp (bench_dying st)\<rparr>"
    by (simp add: bench_released_def)
  ultimately have "serve ''n1'' (?s, Some (ver s)) (EvUpdateClaim (bench_released st) (Inr (bench_released st)))
      (put_claim None ?s, Some (Suc (ver s)))"
    using serve.updated [of ?s "bench_dying st" "bench_released st" "bench_released st" "''n1''"] assms(2) by simp
  then have "executed L r ''n1'' (?s, Some (ver s)) (mid @ [EvProviderGet bench_machine (Inr None),
      EvUpdateClaim (bench_released st) (Inr (bench_released st))]) (put_claim None ?s, Some (Suc (ver s)))"
    by (intro quiet_executed [OF assms(1)]) (rule executed.own_step [OF serve.machine_gone executed_one], simp_all)
  then show ?thesis by (rule executed.own_step [OF serve.machine_deleted])
qed

text \<open>
  C39: a stale read can cost another machine. There is a reachable state in which the claim is gone and a
  machine exists that no claim of this name ever recorded, under the identifier the claim's machine had; and a
  reconcile that starts there, reading the claim from an old version, calls \<open>Delete\<close> and destroys it.
\<close>

theorem stale_read_deletes_foreign_machine:
  "\<exists>s es s1 seen s2 w. reachable bench_lib bench_reconciler bench_lib bench_provisioner ''n1'' s \<and>
     now_stored s = None \<and> bench_machine \<in> alive s \<and> bench_machine \<notin> held s \<and>
     prefix (es @ [EvProviderDelete bench_machine None])
       (calls (snd (run_state (Reconcile bench_lib bench_reconciler (claim_key ''n1'')) (start w)))) \<and>
     executed bench_lib bench_provisioner ''n1'' (s, None) es (s1, seen) \<and> bench_machine \<in> alive s1 \<and>
     serve ''n1'' (s1, seen) (EvProviderDelete bench_machine None) (s2, seen) \<and> bench_machine \<notin> alive s2"
proof -
  let ?R = "reachable bench_lib bench_reconciler bench_lib bench_provisioner ''n1''"
  obtain s0 st where s0: "?R s0" "now_stored s0 = Some (bench_finalized\<lparr>Status := st\<rparr>)" "ProviderID st = bench_machine"
    using bench_reaches_recorded by blast
  obtain pre mid w where quiet: "list_all quiet pre" "list_all quiet mid"
    and es: "calls (snd (run_state (Reconcile bench_lib bench_reconciler (claim_key ''n1'')) (start w))) =
       EvGetClaim (claim_key ''n1'') (Inr (bench_dying st)) # pre @ EvProviderDelete bench_machine None # mid @
         [EvProviderGet bench_machine (Inr None), EvUpdateClaim (bench_released st) (Inr (bench_released st))]" (is "?calls = _")
    using bench_teardown_calls [OF s0(3)] .
  have dying: "settle (marked 0 (bench_finalized\<lparr>Status := st\<rparr>)) = Some (bench_dying st)"
    by (simp add: bench_dying_def bench_deleting_def bench_finalized_def bench_claim_def bench_meta_def marked_def
        settle_def XenonNodeClaim.defs ObjectMeta.defs)
  define a where "a = put_claim (Some (bench_dying st)) s0"
  have a: "?R a" "stored_at a (ver a) = Some (bench_dying st)"
    using reachable.other [OF s0(1) others.user_deletes [OF s0(2)], of 0] dying by (simp_all add: a_def)
  define b where "b = put_claim None (machine_lost bench_machine a)"
  have "executed bench_lib bench_provisioner ''n1'' (a, None) ?calls (b, Some (Suc (ver a)))"
    using executed_append [OF bench_stale_start [OF quiet(1) order_refl a(2)]
        bench_teardown_ends [OF quiet(2), of a st]] a(2)
    by (simp add: es b_def now_stored_def)
  then have "?R b" by (rule reachable.reconciled [OF a(1) prefix_order.refl])
  define c where "c = machine_made bench_machine b"
  have m: "bench_machine \<notin> alive b" "bench_machine \<noteq> []" by (simp_all add: b_def bench_machine_def)
  have "?R c" unfolding c_def by (rule reachable.other [OF \<open>?R b\<close> others.machine_appears [OF m(1)]])
  moreover have "now_stored c = None" "bench_machine \<in> alive c" "bench_machine \<notin> held c"
    using m(2) by (simp_all add: c_def b_def)
  moreover have "executed bench_lib bench_provisioner ''n1'' (c, None)
      (EvGetClaim (claim_key ''n1'') (Inr (bench_dying st)) # pre) (c, Some (ver a))"
    using a(2) by (intro bench_stale_start [OF quiet(1)]) (simp_all add: c_def b_def)
  moreover have "serve ''n1'' (c, Some (ver a)) (EvProviderDelete bench_machine None)
      (machine_lost bench_machine c, Some (ver a))" by (rule serve.machine_deleted)
  moreover have "prefix ((EvGetClaim (claim_key ''n1'') (Inr (bench_dying st)) # pre) @ [EvProviderDelete bench_machine None]) ?calls"
    by (simp add: es)
  ultimately show ?thesis by (metis DiffD2 insertI1 machine_fields(11))
qed

end
