(* ===== verification/LostMachine.thy ===== *)
theory LostMachine
  imports System
begin

text \<open>
  How a machine can be lost, stated for all runs: the identifier that \<open>Create\<close> returns lives only in the status
  update that follows it, and an accepted clone whose task does not end well gives no identifier at all. A machine
  whose identifier reached no version of the claim is left alone by every later reconcile.
\<close>

section \<open>A machine no version of the claim names\<close>

definition unnamed :: "string \<Rightarrow> cluster \<Rightarrow> bool" where
  "unnamed i s \<longleftrightarrow> (\<forall>v \<le> ver s. \<forall>c. stored_at s v = Some c \<longrightarrow> ProviderID (Status c) \<noteq> i)"

definition lost :: "string \<Rightarrow> cluster \<Rightarrow> bool" where
  "lost i s \<longleftrightarrow> i \<noteq> [] \<and> i \<in> alive s \<and> unnamed i s"

text \<open>
  Runs and their environment as in \<open>System\<close>, as long as nobody else takes the machine \<open>i\<close> away: the calls of a
  run with steps of the others between them, and any sequence of runs, each of which may stop after any call.
\<close>

inductive carried_on ::
  "'v Lib \<Rightarrow> 'v ProvisionerReconciler \<Rightarrow> string \<Rightarrow> string \<Rightarrow> cluster \<times> nat option \<Rightarrow> event list \<Rightarrow> cluster \<times> nat option \<Rightarrow> bool"
  for L r n i where
  none: "carried_on L r n i x [] x"
| other_step: "others L r n s s' \<Longrightarrow> i \<in> alive s' \<Longrightarrow> carried_on L r n i (s', seen) es y
    \<Longrightarrow> carried_on L r n i (s, seen) es y"
| own_step: "serve n x e x' \<Longrightarrow> carried_on L r n i x' es y \<Longrightarrow> carried_on L r n i x (e # es) y"

inductive afterwards ::
  "'w Lib \<Rightarrow> 'w XenonNodeClaimReconciler \<Rightarrow> 'v Lib \<Rightarrow> 'v ProvisionerReconciler \<Rightarrow> string \<Rightarrow> string \<Rightarrow> cluster \<Rightarrow> cluster \<Rightarrow> bool"
  for L r L' r' n i s where
  same: "afterwards L r L' r' n i s s"
| other: "afterwards L r L' r' n i s s1 \<Longrightarrow> others L' r' n s1 s2 \<Longrightarrow> i \<in> alive s2 \<Longrightarrow> afterwards L r L' r' n i s s2"
| reconciled: "afterwards L r L' r' n i s s1
    \<Longrightarrow> prefix es (calls (snd (run_state (Reconcile L r (claim_key n)) (start w))))
    \<Longrightarrow> carried_on L' r' n i (s1, None) es (s2, seen) \<Longrightarrow> afterwards L r L' r' n i s s2"

subsection \<open>Steps\<close>

lemma unnamed_simps [simp]:
  "unnamed i (put_claim x s) \<longleftrightarrow> unnamed i s \<and> (\<forall>c. x = Some c \<longrightarrow> ProviderID (Status c) \<noteq> i)"
  "unnamed i (machine_made j s) = unnamed i s" "unnamed i (machine_lost j s) = unnamed i s"
  "unnamed i (machine_recorded a b s) = unnamed i s"
  by (auto simp: unnamed_def le_Suc_eq all_conj_distrib)

lemma unnamed_now: "unnamed i s \<Longrightarrow> now_stored s = Some c \<Longrightarrow> ProviderID (Status c) \<noteq> i"
  by (auto simp: unnamed_def now_stored_def)

lemma settle_Some [simp]: "settle c = Some d \<longleftrightarrow> d = c \<and> (DeletionTimestamp c = None \<or> Finalizers c \<noteq> [])"
  by (auto simp: settle_def)

lemma lost_others:
  assumes "others L r n s s'" "i \<in> alive s'" "lost i s"
  shows "lost i s'"
proof -
  have "unnamed i s'" using assms(1)
  proof (cases rule: others.cases)
    case (provisioner e seen)
    obtain req w where "e \<in> set (calls (snd (run_state (reconcilePool L r req) (start w))))"
      using provisioner(1) by (auto simp: provisioner_call_def)
    then have pc: "pool_call e" using emits_run [OF reconcilePool_calls, of L r req w] by (simp add: list_all_iff)
    show ?thesis using provisioner(2)
    proof (cases rule: serve.cases)
      case (claim_patched base old new c x)
      then show ?thesis using pc assms(3) by (auto simp: lost_def dest: unnamed_now)
    qed (use pc assms(3) in \<open>auto simp: lost_def pool_call_def fresh_status_def dest: unnamed_now\<close>)
  qed (use assms(3) in \<open>auto simp: lost_def fresh_status_def dest: unnamed_now\<close>)
  then show ?thesis using assms(2,3) by (simp add: lost_def)
qed

text \<open>A run that knows nothing of the machine: it saw no claim that names it and was not given its identifier.\<close>

definition unaware :: "string \<Rightarrow> event list \<Rightarrow> bool" where
  "unaware i h \<longleftrightarrow> (\<forall>claim. last_seen h = Some claim \<longrightarrow> ProviderID (Status claim) \<noteq> i) \<and> \<not> given h i"

lemma given_simps [simp]:
  "\<not> given [] i" "given (h @ [e]) i \<longleftrightarrow> given h i \<or> (\<exists>q err. e = EvProviderCreate q (i, err))"
  by (auto simp: given_def)

lemma own_step_unaware:
  assumes "serve n (s, seen) e (s', seen')" "keeps_protocol req h e" "lost i s" "unaware i h"
  shows "lost i s' \<and> unaware i (h @ [e]) \<and> (\<forall>x. e \<noteq> EvProviderDelete i x)"
  using assms(1)
proof (cases rule: serve.cases)
  case (read v c)
  then show ?thesis using assms(2-4) by (auto simp: lost_def unaware_def returned_def unnamed_def)
next
  case (elsewhere)
  have "returned (EvListClaims sel cs) = None" for sel cs by (simp add: returned_def)
  then have "returned e = None" using elsewhere by auto
  then show ?thesis using elsewhere assms(3,4) by (auto simp: unaware_def)
qed (use assms(2-4) in \<open>auto simp: lost_def unaware_def returned_def keeps_protocol_def update_ok_def status_ok_def
    names_seen_def neutral_def dest: unnamed_now\<close>)

lemma carried_on_unaware:
  assumes "carried_on L r n i x es y" "lost i (fst x)" "unaware i h" "every_call (keeps_protocol req) h es"
  shows "lost i (fst y) \<and> (\<forall>x. EvProviderDelete i x \<notin> set es)"
  using assms
proof (induction arbitrary: h rule: carried_on.induct)
  case (other_step s s' seen es y)
  then show ?case using lost_others by fastforce
next
  case (own_step x e x' es y)
  have "lost i (fst x') \<and> unaware i (h @ [e]) \<and> (\<forall>x. e \<noteq> EvProviderDelete i x)"
    using own_step_unaware [of n "fst x" "snd x" e "fst x'" "snd x'" req h i] own_step by simp
  then show ?case using own_step by fastforce
qed simp

lemma run_unaware:
  assumes "finalizer_laws L" "factory_ok r" "lost i s"
    and "prefix es (calls (snd (run_state (Reconcile L r (claim_key n)) (start w))))"
    and "carried_on L' r' n i (s, None) es y"
  shows "lost i (fst y) \<and> (\<forall>x. EvProviderDelete i x \<notin> set es)"
proof -
  have "protocol (claim_key n) (calls (snd (run_state (Reconcile L r (claim_key n)) (start w))))"
    using Reconcile_protocol [OF assms(1,2), of "claim_key n" w] by (simp add: wp_def split: prod.splits)
  then have "protocol (claim_key n) es" using assms(4) by (rule protocol_prefix)
  then show ?thesis using carried_on_unaware [OF assms(5), of "[]"] assms(3) by (simp add: unaware_def)
qed

lemma afterwards_lost:
  assumes "afterwards L r L' r' n i s s'" "finalizer_laws L" "factory_ok r" "lost i s"
  shows "lost i s'"
  using assms(1)
proof (induction rule: afterwards.induct)
  case (other s1 s2)
  then show ?case using lost_others by blast
next
  case (reconciled s1 es w s2 seen)
  then show ?case using run_unaware [OF assms(2,3) reconciled(4,2,3)] by simp
qed (rule assms(4))

subsection \<open>A refused status update\<close>

text \<open>
  C36: the record of a machine can be lost for good. When the server refuses the status update that follows a \<open>Create\<close>
  which returned a new identifier, so that no version of the claim names it, the machine stays as long as nobody
  outside the operator removes it: whatever reconciles (complete or cut short), users and the provisioner do
  afterwards, no version of the claim ever names the machine, and no reconcile ever asks for its deletion.
\<close>

theorem refused_status_update_leaks_machine:
  assumes "finalizer_laws L" "factory_ok r" "i \<noteq> []"
    and "calls (snd (run_state (Reconcile L r (claim_key n)) (start w))) =
      es @ [EvProviderCreate q (i, err), EvUpdateClaimStatus c (Inl refused)]"
    and "executed L' r' n (s, None) es (s0, seen)" "serve n (s0, seen) (EvProviderCreate q (i, err)) (s1, seen)"
      "serve n (s1, seen) (EvUpdateClaimStatus c (Inl refused)) (s2, seen)" "unnamed i s2"
    and "afterwards L r L' r' n i s2 s3"
  shows "i \<in> alive s3 \<and> unnamed i s3 \<and>
    (\<forall>w' es' y x. prefix es' (calls (snd (run_state (Reconcile L r (claim_key n)) (start w')))) \<longrightarrow>
       carried_on L' r' n i (s3, None) es' y \<longrightarrow> EvProviderDelete i x \<notin> set es')"
proof -
  have "i \<in> alive s1" using assms(6,3) by (cases rule: serve.cases) auto
  with assms(7) have "i \<in> alive s2" by (cases rule: serve.cases) auto
  with assms(3,8) have "lost i s2" by (simp add: lost_def)
  with assms(9,1,2) have l: "lost i s3" by (rule afterwards_lost)
  have "EvProviderDelete i x \<notin> set es'"
    if "prefix es' (calls (snd (run_state (Reconcile L r (claim_key n)) (start w'))))"
      "carried_on L' r' n i (s3, None) es' y" for w' es' y x
    using run_unaware [OF assms(1,2) l that] by blast
  with l show ?thesis by (auto simp: lost_def)
qed

text \<open>On the bench: the server refuses every status update, and then the claim is deleted by its user.\<close>

definition bench_conflict :: "bench XenonNodeClaimReconciler" where
  "bench_conflict = bench_reconciler\<lparr>claimClient :=
     bench_client\<lparr>StatusUpdateClaim := (\<lambda>c w. (Inl (ApiError ''Conflict''), w))\<rparr>\<rparr>"

lemma bench_refused_trace:
  "wp (Reconcile bench_lib bench_conflict bench_key)
     (\<lambda>_ t. \<exists>q c. calls t = (EvGetClaim bench_key (Inr bench_finalized) # butlast (butlast (tl (calls t)))) @
          [EvProviderCreate q (bench_machine, None), EvUpdateClaimStatus c (Inl (ApiError ''Conflict''))] \<and>
        list_all quiet (butlast (butlast (tl (calls t)))))
     (start (bench_cluster bench_finalized))"
  by (simp add: claim_run bench_conflict_def bench_finalized_def bench_machine_def quiet_def reads_config_def)

theorem refused_status_update_leaks_machine_witness:
  "\<exists>s2 s3. afterwards bench_lib bench_conflict bench_lib bench_provisioner ''n1'' bench_machine s2 s3 \<and>
     (\<exists>c. now_stored s3 = Some c \<and> DeletionTimestamp c \<noteq> None) \<and> bench_machine \<in> alive s3 \<and> unnamed bench_machine s3"
proof -
  let ?s = "put_claim (Some bench_finalized) \<lparr>ver = 0, stored_at = \<lambda>_. None, alive = {}, held = {}\<rparr>"
  let ?s2 = "machine_made bench_machine ?s"
  let ?s3 = "put_claim (settle (marked 0 bench_finalized)) ?s2"
  have key: "bench_key = claim_key ''n1''" by (simp add: bench_key_def claim_key_def)
  obtain pre q c where es: "calls (snd (run_state (Reconcile bench_lib bench_conflict (claim_key ''n1''))
        (start (bench_cluster bench_finalized)))) =
      (EvGetClaim (claim_key ''n1'') (Inr bench_finalized) # pre) @
        [EvProviderCreate q (bench_machine, None), EvUpdateClaimStatus c (Inl (ApiError ''Conflict''))]"
    and pre: "list_all quiet pre"
    using bench_refused_trace unfolding key by (auto simp: wp_def split: prod.splits)
  have laws: "factory_ok bench_conflict" using bench_factory_ok by (simp add: bench_conflict_def factory_ok_def)
  have id: "bench_machine \<noteq> []" "ProviderID (Status bench_finalized) = []" "DeletionTimestamp bench_finalized = None"
    "Finalizers bench_finalized = [FinalizerNodeClaim]"
    by (simp_all add: bench_machine_def bench_finalized_def bench_claim_def bench_meta_def XenonNodeClaim.defs ObjectMeta.defs)
  have run: "executed bench_lib bench_provisioner ''n1'' (?s, None)
      (EvGetClaim (claim_key ''n1'') (Inr bench_finalized) # pre) (?s, Some 1)"
    by (rule executed.own_step [rotated, OF quiet_executed [OF pre executed.none, unfolded append_Nil2]])
      (rule serve.read, simp_all add: put_claim_def)
  have made: "serve ''n1'' (?s, Some 1) (EvProviderCreate q (bench_machine, None)) (?s2, Some 1)"
    by (rule serve.machine_created) simp
  have "unnamed bench_machine \<lparr>ver = 0, stored_at = \<lambda>_. None, alive = {}, held = {}\<rparr>" by (simp add: unnamed_def)
  then have "unnamed bench_machine ?s2" using id by auto
  have "others bench_lib bench_provisioner ''n1'' ?s2 ?s3" by (rule others.user_deletes) simp
  then have after: "afterwards bench_lib bench_conflict bench_lib bench_provisioner ''n1'' bench_machine ?s2 ?s3"
    by (rule afterwards.other [OF afterwards.same]) (simp add: id)
  have "bench_machine \<in> alive ?s3 \<and> unnamed bench_machine ?s3"
    using refused_status_update_leaks_machine [OF bench_finalizer_laws laws id(1) es run made serve.status_failed
        \<open>unnamed bench_machine ?s2\<close> after] by blast
  moreover have "now_stored ?s3 = Some (marked 0 bench_finalized)" "DeletionTimestamp (marked 0 bench_finalized) \<noteq> None"
    by (simp_all add: settle_def marked_def id)
  ultimately show ?thesis using after by blast
qed

section \<open>An unfinished clone\<close>

text \<open>
  \<open>unfinished_clone es k\<close>: the calls have a clone that the hypervisor accepted, to the machine \<open>k\<close>, and the wait for
  its task failed.
\<close>

definition unfinished_clone :: "event list \<Rightarrow> string \<times> int \<Rightarrow> bool" where
  "unfinished_clone es k \<longleftrightarrow>
     (\<exists>pre tmpl opts task n err post. k = (CloneTarget opts, CloneNewID opts) \<and>
        es = pre @ EvPveClone tmpl opts (Inr task) # EvPveWait task n (Some err) # post)"

definition is_clone :: "event \<Rightarrow> bool" where
  "is_clone e \<longleftrightarrow> (case e of EvPveClone _ _ _ \<Rightarrow> True | _ \<Rightarrow> False)"



lemma unfinished_clone_Nil [simp]: "\<not> unfinished_clone [] k"
  by (simp add: unfinished_clone_def)

lemma unfinished_clone_Cons:
  "unfinished_clone (x # es) k \<longleftrightarrow>
     (\<exists>tmpl opts task n err post. k = (CloneTarget opts, CloneNewID opts) \<and>
        x = EvPveClone tmpl opts (Inr task) \<and> es = EvPveWait task n (Some err) # post) \<or> unfinished_clone es k"
  unfolding unfinished_clone_def by (auto simp: Cons_eq_append_conv) blast+

lemma unfinished_clone_other [simp]: "\<not> is_clone x \<Longrightarrow> unfinished_clone (x # es) k = unfinished_clone es k"
  by (auto simp: unfinished_clone_Cons is_clone_def)




lemma not_clone [simp]:
  "\<not> is_clone (EvPveCluster a)" "\<not> is_clone (EvPveNextID cl b)" "\<not> is_clone (EvPveNode n c)" "\<not> is_clone (EvPveVM h i d)"
  "\<not> is_clone (EvPveWait t m e)" "\<not> is_clone (EvPveConfig vm os f)" "\<not> is_clone (EvPveCloudInit vm dv u st g)"
  "\<not> is_clone (EvPveStart vm l)" "\<not> is_clone (EvProviderCreate q r)" "\<not> is_clone (EvUpdateClaimStatus x y)"
  by (simp_all add: is_clone_def)












end
