(* ===== verification/Scaling.thy ===== *)
theory Scaling
  imports Provisioner "HOL-Library.Sublist"
begin

text \<open>
  Repeated reconciles of a pool: what they add up to. With listings that show every claim, scaling up
  comes to rest after one successful reconcile and the limit of the pool is never exceeded; with a listing that
  lags behind, it is.
\<close>

subsection \<open>One reconcile with its listing\<close>

lemma listed_run:
  assumes "run_state (reconcilePool L r req) (start w) = (out, t)" "calls t = listed req pool pods claims @ rest"
  shows "creations rest \<le> claims_to_create L pool (waiting (Name pool) pods) claims \<and>
    (snd out = None \<longrightarrow> creations rest = claims_to_create L pool (waiting (Name pool) pods) claims)"
proof -
  have "wp (reconcilePool L r req)
      (\<lambda>out t. \<forall>pool pods claims rest. calls t = listed req pool pods claims @ rest \<longrightarrow>
         creations rest \<le> claims_to_create L pool (waiting (Name pool) pods) claims \<and>
         (snd out = None \<longrightarrow> creations rest = claims_to_create L pool (waiting (Name pool) pods) claims)) (start w)"
  proof (rule wp_reconcilePool, goal_cases)
    case (1 out w es)
    then show ?case by (auto simp: completely_listed_def)
  next
    case (2 out pool pods claims t es)
    then show ?case using scale_trace_creates [OF 2(2)] by (auto simp: listed_def)
  qed
  then show ?thesis using assms by (simp add: wp_def)
qed

text \<open>
  C21: scaling up comes to rest. After a reconcile that succeeded, a further one that sees the claims that
  were there and those just created, none of the new ones ready yet, and no more waiting pods than before, creates
  nothing.
\<close>

theorem scale_up_settles:
  assumes "run_state (reconcilePool L r req) (start w) = (out, t)" "calls t = listed req pool pods claims @ rest"
    and "snd out = None" "length new = creations rest" "\<And>c. c \<in> set new \<Longrightarrow> \<not> isClaimReady L c"
    and "run_state (reconcilePool L r req) (start w') = (out', t')"
      "calls t' = listed req pool pods' (claims @ new) @ rest'"
    and "length (waiting (Name pool) pods') \<le> length (waiting (Name pool) pods)"
  shows "creations rest' = 0"
proof -
  have "length new = claims_to_create L pool (waiting (Name pool) pods) claims"
    using listed_run [OF assms(1,2)] assms(3,4) by simp
  moreover have "in_flight L (claims @ new) = in_flight L claims + length new"
    using assms(5) by (simp add: in_flight_def filter_id_conv)
  ultimately have "claims_to_create L pool (waiting (Name pool) pods') (claims @ new) = 0"
    using assms(8) by (auto simp: claims_to_create_def neededClaims_def in_flight_def Let_def)
  then show ?thesis using listed_run [OF assms(6,7)] by simp
qed

subsection \<open>The limit\<close>

text \<open>
  The claims of a pool over time, when every reconcile sees all of them: a reconcile adds at most the claims it asked
  for (it may be refused, or stop halfway), and claims change and disappear.
\<close>

inductive pool_state ::
  "'w Lib \<Rightarrow> 'w ProvisionerReconciler \<Rightarrow> NamespacedName \<Rightarrow> XenonNodePool \<Rightarrow> XenonNodeClaim list \<Rightarrow> bool"
  for L r req pool where
  within: "int (length claims) \<le> poolNodeLimit L pool \<Longrightarrow> pool_state L r req pool claims"
| reconciled: "pool_state L r req pool claims \<Longrightarrow> run_state (reconcilePool L r req) (start w) = (out, t)
    \<Longrightarrow> calls t = listed req pool pods claims @ rest \<Longrightarrow> length new \<le> creations rest
    \<Longrightarrow> pool_state L r req pool (claims @ new)"
| changed: "pool_state L r req pool claims \<Longrightarrow> length claims' \<le> length claims \<Longrightarrow> pool_state L r req pool claims'"

text \<open>
  C11: the limit of a pool holds. A pool with a positive limit that has no more claims than the limit allows never gets
  more, as long as every reconcile sees all its claims.
\<close>

theorem pool_limit_kept:
  assumes "pool_state L r req pool claims" "0 < poolNodeLimit L pool"
  shows "int (length claims) \<le> poolNodeLimit L pool"
  using assms(1)
proof (induction rule: pool_state.induct)
  case (reconciled claims w out t pods rest new)
  have "length new \<le> claims_to_create L pool (waiting (Name pool) pods) claims"
    using listed_run [OF reconciled(2,3)] reconciled(4) by simp
  then show ?case using assms(2) reconciled.IH
    by (auto simp: claims_to_create_def neededClaims_def Let_def split: if_splits)
qed auto

subsection \<open>A pool on the bench\<close>

text \<open>A pool that allows one node, a pod that waits for it, and no claims yet.\<close>

definition bench_limited :: XenonNodePool where
  "bench_limited = bench_pool\<lparr>PoolSpec := (PoolSpec bench_pool)\<lparr>Limits := Some [''nodes'' \<mapsto> ''1'']\<rparr>\<rparr>"

definition bench_waiting :: Pod where
  "bench_waiting = ObjectMeta.extend (bench_meta ''p'') (Pod.fields [] (Some [LabelNodePool \<mapsto> ''workers'']) None PodPending
     [\<lparr>CondType = PodScheduled, CondStatus = ConditionFalse, CondReason = PodReasonUnschedulable, CondMessage = []\<rparr>])"

definition bench_new :: "string \<Rightarrow> XenonNodeClaim" where
  "bench_new n = (newClaim bench_limited)\<lparr>Name := n, OwnerReferences :=
     [\<lparr>OwnerKind = ''XenonNodePool'', OwnerName = ''workers'', OwnerController = True\<rparr>]\<rparr>"

definition bench_scaling :: "XenonNodeClaim list \<Rightarrow> bench" where
  "bench_scaling claims = bench_world\<lparr>bPools := [bench_limited], bPods := [bench_waiting], bClaims := claims\<rparr>"

lemma bench_limit: "poolNodeLimit bench_lib bench_limited = 1"
  by (simp add: poolNodeLimit_def bench_limited_def bench_lib_def Atoi_def ParseUint_def is_digit_def digit_value_def)

lemma bench_waits: "waiting (Name bench_limited) [bench_waiting] = [bench_waiting]"
  by (simp add: waiting_def bench_limited_def bench_waiting_def bench_pool_def bench_meta_def isPodUnschedulable_def
      podRequestsPool_def mindex_def kube_constants Pod.defs XenonNodePool.defs ObjectMeta.defs)

text \<open>A provisioner whose cache does not show claims yet.\<close>

definition stale_provisioner :: "bench ProvisionerReconciler" where
  "stale_provisioner = \<lparr>provisionerClient = bench_client\<lparr>ListClaims := \<lambda>_ w. (Inr [], w)\<rparr>, provisionerScheme = 0\<rparr>"

lemmas pool_run =
  wp_simps start_def Let_def bench_client_def bench_find_def bench_store_def reconcilePool_def pendingPodsForPool_def claimsForPool_def scalePool_def scaleUp_def
  scaleDown_def updateStatus_def createClaim_def clearEmptySince_def

lemma bench_lib_simps:
  "IsZero bench_lib x \<longleftrightarrow> x = None" "SetStatusCondition bench_lib cs c w = (bench_set_condition cs c, w)"
  "SetControllerReference bench_lib pool claim = Inr (claim\<lparr>OwnerReferences :=
     \<lparr>OwnerKind = ''XenonNodePool'', OwnerName = Name pool, OwnerController = True\<rparr> # OwnerReferences claim\<rparr>)"
  by (simp_all add: bench_lib_def)

lemma bench_names:
  "Name bench_limited = ''workers''" "DeletionTimestamp bench_limited = None" "GenerateName (newClaim bench_limited) = ''workers-''"
  "Labels (newClaim bench_limited) = Some [LabelNodePool \<mapsto> ''workers'']"
  "OwnerReferences (newClaim bench_limited) = []"
  by (simp_all add: bench_limited_def newClaim_def bench_pool_def bench_meta_def XenonNodePool.defs ObjectMeta.defs)

lemma bench_waits_alone: "isPodUnschedulable bench_waiting" "podRequestsPool bench_waiting ''workers''"
  using bench_waits by (simp_all add: waiting_def bench_names split: if_splits)

lemma bench_needed: "neededClaims bench_lib bench_limited [bench_waiting] [] = 1"
  by (simp add: neededClaims_def bench_limit)

lemma bench_first_run:
  assumes "r = bench_provisioner \<and> claims = [] \<or> r = stale_provisioner"
  shows "wp (reconcilePool bench_lib r (request ''workers''))
    (\<lambda>out t. snd out = None \<and> creations (drop 3 (calls t)) = 1 \<and>
       calls t = listed (request ''workers'') bench_limited [bench_waiting] [] @ drop 3 (calls t) \<and>
       bClaims (outside t) = claims @ [(bench_new [])\<lparr>Name := ''workers-'' @ dec (length claims)\<rparr>] \<and>
       bPods (outside t) = [bench_waiting])
    (start (bench_scaling claims))"
  using assms
  by (elim disjE conjE; hypsubst)
    (simp_all add: pool_run bench_lib_simps bench_provisioner_def stale_provisioner_def bench_scaling_def bench_world_def request_def
      bench_names bench_waits_alone bench_needed bench_limit creations_def is_creation_def listed_def
      bench_new_def numeral_eq_Suc)

lemma bench_new_not_ready: "\<not> isClaimReady bench_lib (bench_new n)"
  by (simp add: isClaimReady_def bench_new_def newClaim_def bench_lib_def bench_condition_true_def)

lemma bench_settled_run:
  "wp (reconcilePool bench_lib bench_provisioner (request ''workers''))
    (\<lambda>_ t. calls t = listed (request ''workers'') bench_limited [bench_waiting] [bench_new n] @ drop 3 (calls t))
    (start (bench_scaling [bench_new n]))"
proof -
  have "neededClaims bench_lib bench_limited [bench_waiting] [bench_new n] = 0"
    by (simp add: neededClaims_def bench_limit bench_new_not_ready)
  moreover have "Annotations (bench_new n) = None" "Labels (bench_new n) = Some [LabelNodePool \<mapsto> ''workers'']"
    by (simp_all add: bench_new_def newClaim_def bench_names)
  ultimately show ?thesis
    by (simp add: pool_run bench_lib_simps bench_provisioner_def bench_scaling_def bench_world_def request_def bench_names
        bench_waits_alone listed_def mindex_def numeral_eq_Suc)
qed

theorem scale_up_settles_witness:
  "creations (drop 3 (calls (snd (run_state (reconcilePool bench_lib bench_provisioner (request ''workers''))
     (start (bench_scaling [bench_new ''workers-0''])))))) = 0"
proof -
  let ?run = "\<lambda>claims. run_state (reconcilePool bench_lib bench_provisioner (request ''workers'')) (start (bench_scaling claims))"
  have first: "snd (fst (?run [])) = None" "creations (drop 3 (calls (snd (?run [])))) = 1"
    "calls (snd (?run [])) = listed (request ''workers'') bench_limited [bench_waiting] [] @ drop 3 (calls (snd (?run [])))"
    using wp_runD [OF bench_first_run [of bench_provisioner "[]"] prod.collapse [symmetric]] by simp_all
  have new: "\<not> isClaimReady bench_lib c" if "c \<in> set [bench_new ''workers-0'']" for c
    using that by (simp add: bench_new_not_ready)
  have second: "calls (snd (?run [bench_new ''workers-0''])) =
      listed (request ''workers'') bench_limited [bench_waiting] ([] @ [bench_new ''workers-0'']) @
      drop 3 (calls (snd (?run [bench_new ''workers-0''])))"
    using wp_runD [OF bench_settled_run prod.collapse [symmetric]] by simp
  from scale_up_settles [OF prod.collapse [symmetric] first(3) first(1) _ new prod.collapse [symmetric] second order_refl]
  show ?thesis using first(2) by simp
qed

theorem pool_limit_kept_witness:
  "\<exists>claims. pool_state bench_lib bench_provisioner (request ''workers'') bench_limited claims \<and> length claims = 1 \<and>
     int (length claims) \<le> poolNodeLimit bench_lib bench_limited"
proof -
  let ?run = "run_state (reconcilePool bench_lib bench_provisioner (request ''workers'')) (start (bench_scaling []))"
  have first: "creations (drop 3 (calls (snd ?run))) = 1"
    "calls (snd ?run) = listed (request ''workers'') bench_limited [bench_waiting] [] @ drop 3 (calls (snd ?run))"
    using wp_runD [OF bench_first_run [of bench_provisioner "[]"] prod.collapse [symmetric]] by simp_all
  have "pool_state bench_lib bench_provisioner (request ''workers'') bench_limited []"
    by (rule pool_state.within) (simp add: bench_limit)
  then have "pool_state bench_lib bench_provisioner (request ''workers'') bench_limited ([] @ [bench_new ''workers-0''])"
    by (rule pool_state.reconciled [OF _ prod.collapse [symmetric] first(2)]) (simp add: first(1))
  from this pool_limit_kept [OF this] show ?thesis by (auto simp: bench_limit)
qed

text \<open>
  C40: the limit does not hold when the listing lags. For a pool with a positive limit, take a reconcile that succeeds and
  whose listing shows only some of the pool's claims, within the limit, while enough pods wait to fill the pool as
  listed. It creates claims up to the limit by that listing: the pool ends with as many claims past its limit as the
  listing missed.
\<close>

theorem stale_listing_exceeds_limit:
  assumes "run_state (reconcilePool L r req) (start w) = (out, t)" "calls t = listed req pool pods seen @ rest"
    and "snd out = None" "0 < poolNodeLimit L pool" "int (length seen) \<le> poolNodeLimit L pool"
    and "poolNodeLimit L pool - int (length seen) \<le> int (length (waiting (Name pool) pods)) - int (in_flight L seen)"
      "waiting (Name pool) pods \<noteq> []"
    and "subseq seen claims" "seen \<noteq> claims"
  shows "poolNodeLimit L pool < int (length claims + creations rest) \<and>
    int (length claims + creations rest) = poolNodeLimit L pool + int (length claims - length seen)"
proof -
  have "creations rest = claims_to_create L pool (waiting (Name pool) pods) seen"
    using listed_run [OF assms(1,2)] assms(3) by simp
  also have "\<dots> = nat (poolNodeLimit L pool - int (length seen))"
    using assms(4-7) by (auto simp: claims_to_create_def neededClaims_def in_flight_def Let_def)
  finally have "int (creations rest) = poolNodeLimit L pool - int (length seen)" using assms(5) by simp
  moreover have "length seen < length claims"
    using assms(8,9) list_emb_length [OF assms(8)] subseq_same_length [OF assms(8)] by (cases "length seen = length claims") auto
  ultimately show ?thesis by simp
qed

theorem stale_listing_exceeds_limit_witness:
  "poolNodeLimit bench_lib bench_limited = 1 \<and>
   (let t = snd (run_state (reconcilePool bench_lib stale_provisioner (request ''workers'')) (start (bench_scaling [bench_new ''workers-0''])))
    in length (bClaims (outside t)) = 2 \<and> length [bench_new ''workers-0''] + creations (drop 3 (calls t)) = 2)"
proof -
  let ?run = "run_state (reconcilePool bench_lib stale_provisioner (request ''workers'')) (start (bench_scaling [bench_new ''workers-0'']))"
  have run: "snd (fst ?run) = None" "length (bClaims (outside (snd ?run))) = 2"
    "calls (snd ?run) = listed (request ''workers'') bench_limited [bench_waiting] [] @ drop 3 (calls (snd ?run))"
    using wp_runD [OF bench_first_run [of stale_provisioner "[bench_new ''workers-0'']"] prod.collapse [symmetric]] by simp_all
  from stale_listing_exceeds_limit [OF prod.collapse [symmetric] run(3,1), of "[bench_new ''workers-0'']"] run(2)
  show ?thesis by (simp add: bench_limit bench_waits in_flight_def Let_def)
qed

end
