(* ===== verification/Spec2Isabelle.thy ===== *)
theory Spec2Isabelle
  imports Complex_Main Manager Scheme PatchBase StaleRead LostMachine Scaling
begin

text \<open>
  A verification development of the xenonite operator, a Kubernetes controller manager in Go that
  provisions Proxmox virtual machines as nodes for pods that cannot be scheduled.

  \<^bold>\<open>The program.\<close> \<open>cmd/main.go\<close> reads the flags, builds a manager and registers two controllers. A \<open>XenonNodePool\<close> describes nodes of one shape and names a \<open>ProxmoxProvider\<close>. The
  \<^emph>\<open>provisioner\<close> (\<open>internal/controller/provisioner_controller.go\<close>) reconciles one pool at a time: it counts
  the unschedulable pods that ask for the pool and the claims the pool has, creates a
  \<open>XenonNodeClaim\<close> for every pod that is not covered up to the pool's limit, and deletes claims whose
  nodes stayed empty for a grace period, which it measures with a time stamp in an annotation of the
  claim. The \<^emph>\<open>claim controller\<close> (\<open>internal/controller/xenonnodeclaim_controller.go\<close>) reconciles one
  claim at a time: it puts its finalizer on the claim, has the provider create one machine,
  records the machine's provider ID in the claim's status, waits for the node to join, labels it and
  reports it ready; when the claim is deleted it has the machine destroyed and verifies that it is gone
  before it drops the finalizer. The \<^emph>\<open>provider\<close> (\<open>internal/provider\<close>) is an interface with
  one implementation on the Proxmox API (\<open>internal/provider/proxmox\<close>). The two controllers share no
  memory: they act on each other through the objects of the API server and through the events
  that put a pool or a claim back into a queue.

  \<^bold>\<open>The theories.\<close>
  \<^item> \<open>Prelude\<close>: the state monad with its weakest preconditions, and the locale \<open>codec\<close> of text encodings.
  \<^item> \<open>GoStd\<close>, \<open>GoTime\<close>: what the code uses of Go's maps, \<open>strings\<close>, \<open>strconv\<close>, \<open>fmt\<close> and \<open>time\<close> (RFC 3339
    formatting and parsing over the civil calendar, saturating \<open>Time.Sub\<close>). Instants and durations are
    nanoseconds in \<^typ>\<open>int\<close>; \<open>Atoi\<close> has the bounds of a 64-bit \<open>int\<close>.
  \<^item> \<open>ApiTypes\<close>: the structs of \<open>api/v1\<close> and of the Kubernetes types they use, as records; \<open>labels.go\<close>.
  \<^item> \<open>Runtime\<close>: the errors, the calls and the libraries. The client of the API server, \<open>apimachinery\<close>,
    \<open>controllerutil\<close>, \<open>text/template\<close>, the clock and \<open>go-proxmox\<close> are records of functions over an
    outside world of any type: parameters of the model. A run records its calls and their answers
    (\<open>calls\<close>), which the program never reads.
  \<^item> \<open>ProviderApi\<close>: \<open>provider.go\<close>, with the locales \<open>machine_remover\<close> and \<open>machine_provider\<close> for the contract of
    the interface.
  \<^item> \<open>Bench\<close>, \<open>BenchCluster\<close>: one concrete instance of all parameters, on which the theorems with
    hypotheses are applied; no component uses it.
  \<^item> \<open>Proxmox\<close>: \<open>proxmox.go\<close>. \<open>Provider_Create\<close>, \<open>Provider_Delete\<close> and \<open>Provider_Get\<close> are \<open>Create\<close>, \<open>Delete\<close> and
    \<open>Get\<close>; \<open>clone_template\<close> and \<open>finish_vm\<close> are the two halves of \<open>Create\<close>, before and after the machine
    exists. Both locales are interpreted on it.
  \<^item> \<open>NodeClaim\<close>: \<open>xenonnodeclaim_controller.go\<close>, function by function under the names of the code;
    \<open>ensureFinalizer\<close> and \<open>provision\<close> are parts of \<open>Reconcile\<close>.
  \<^item> \<open>Provisioner\<close>: \<open>provisioner_controller.go\<close>; its \<open>Reconcile\<close> is \<open>reconcilePool\<close>, and the loops are
    \<open>createClaims\<close>, \<open>clearAll\<close> and \<open>scaleDownClaims\<close>.
  \<^item> \<open>Manager\<close>: \<open>cmd/main.go\<close>, with the part of Go's \<open>flag\<close> package it uses; the manager itself is a parameter.
  \<^item> \<open>Scheme\<close>: \<open>groupversion_info.go\<close>, the \<open>init\<close> functions of the type files and of \<open>cmd/main.go\<close>, over \<open>apimachinery\<close>'s scheme.
  \<^item> \<open>GoHeap\<close>: Go's memory as a heap of cells; the locales \<open>layout\<close> (what a type is in memory) and \<open>deep_copier\<close> (the
    contract of a copy), and the copying loops of generated code.
  \<^item> \<open>ApiMemory\<close>: the structs of \<open>api/v1\<close> as they lie in memory, with the functions that read them as the
    records of \<open>ApiTypes\<close>.
  \<^item> \<open>DeepCopy\<close>: \<open>zz_generated.deepcopy.go\<close>, method by method; \<open>deep_copier\<close> is interpreted on the method that copies
    without help from other packages and shown for the others under \<open>k8s_copies\<close>.
  \<^item> \<open>PatchBase\<close>: the statements of the provisioner that copy a claim and change it in place, on memory.
  \<^item> \<open>ClaimProtocol\<close>, \<open>PoolProtocol\<close>: what a run of either controller may do to a claim, shown for all runs.
  \<^item> \<open>System\<close>: the controllers in their cluster as a step relation, with an API server that keeps versions, a hypervisor
    and other actors. \<open>StaleRead\<close>: what a read from an old version can do.
  \<^item> \<open>LostMachine\<close>: what becomes of a machine whose identifier reaches no version of its claim.
  \<^item> \<open>Scaling\<close>: repeated reconciles of a pool.

  \<^bold>\<open>How the code is translated.\<close> A function that only computes is a HOL function. A function that
  calls out is a program of the state monad in the order of the Go statements; an early return is a
  branch that does not go on; a Go \<open>error\<close> is a value, with one constructor of \<open>message\<close> for every
  \<open>fmt.Errorf\<close>. A method that changes the object it is given returns it. Writing to a nil map, a
  panic in Go, is the error \<open>PanicNilMap\<close>, and the theorems on the functions that write to maps
  show that it does not occur. Every loop runs over a list or counts down: all functions are total and
  no fuel is needed. Logging is left out.

  \<^bold>\<open>What is shown.\<close> Of the whole: in every reachable state of the operator in its cluster, with crashes and stale
  reads, a recorded machine keeps its claim (C1). Of the claim controller: the finalizer is dropped only when the machine was
  deleted and then reported gone (C2), so that with the Proxmox provider no machine outlives its
  claim (C4); a machine is created only under a stored finalizer, once per reconcile (C3); what the
  provider returns is sent to the server by the next call (C8); outcomes of deletion and readiness
  (C14, C15); claims with a machine are left alone (C24); labels (C25). Of the provisioner: which claims
  are deleted (C5, C12), how many are created (C6, C7), the limit over time (C11) and that scaling comes to rest (C21), the
  grace period and its stamp (C13, C26), events and outcomes (C29, C30). Of the provider: what the results of \<open>Create\<close>
  and \<open>Delete\<close> tell (C16, C17), the contract of the interface (C18, C19), the provider ID codec (C22, C23). Of the copies:
  they read as the original (C9), share nothing with it (C10), and treat nil as nil (C32); the provisioner's in-place
  changes are those of the value model (C20). Across components: sizes (C27) and the links between pools, claims and
  nodes (C28). Of the entry point: the types are registered (C31), the command line (C33), HTTP/2 (C34), the exit
  status (C35). Five theorems show behaviour that the comments of the code rule out, all but C39 for every run of a kind: after a
  refused status update a machine is lost for good (C36); so is one whose clone task does not end in time (C37); the event of a
  pod wakes none of the pools its affinity allows but the first (C38); a stale read destroys a machine of another claim
  (C39); and a lagging listing makes a pool exceed its limit by as many claims as it misses (C40).

  \<^bold>\<open>Hypotheses.\<close> Where a theorem relies on a library it says so: \<open>finalizer_laws\<close>, \<open>condition_laws\<close> and
  \<open>owner_laws\<close> are what \<open>controllerutil\<close> and \<open>apimeta\<close> document, \<open>pve_laws\<close> what the Proxmox API documents of
  machines and tasks (\<open>clone_survives\<close>: an accepted clone makes its machine), \<open>quantity_laws\<close> that \<open>Quantity.Value\<close>
  rounds up, \<open>factory_ok\<close> that an injected provider talks to its own backend only, \<open>k8s_copies\<close> that the copy methods of other
  packages copy, and \<open>scheme_laws\<close> what \<open>apimachinery\<close> documents of schemes. In \<open>System\<close> the behaviour of the API server
  (versions, optimistic locking, the status subresource, finalizers) and of the other actors is the relation
  \<open>serve\<close> and \<open>others\<close>; users are assumed to leave the provider ID and the operator's finalizer alone.

  \<^bold>\<open>Simplifications.\<close> The metadata of objects and the conditions have the fields that the code reads or writes: resource
  versions are the business of \<open>System\<close>, transition times that of \<open>SetStatusCondition\<close>. Nil and empty slices are the
  same list in the value model. A \<open>*runtime.Scheme\<close> is its address: the reconcilers and the manager hand it on, and
  \<open>SetControllerReference\<close> is taken with the one it is given. In \<open>PatchBase\<close> the claim has a cell of its own; in the code it
  is an element of the listed slice, of which the statements modelled there touch only this element.

  \<^bold>\<open>Not modelled.\<close> Logging and its set-up, JSON tags and kubebuilder markers, the end-to-end tests and the deployment
  manifests. The \<open>text/template\<close> engine is a parameter; modelling the subset that the cloud-init documents use is
  left in the plan, and so are systems of several claims (\<open>System\<close> follows one claim and treats the others as
  part of its environment).
\<close>

section \<open>Properties across components\<close>

subsection \<open>From the size a claim requests to the options of its machine\<close>

definition size_option :: "string \<Rightarrow> int \<Rightarrow> VirtualMachineOption" where
  "size_option n v = \<lparr>OptionName = n, OptionValueOf = IntValue v\<rparr>"

text \<open>
  A Kubernetes quantity is an exact amount; \<open>Quantity.Value\<close> is the amount as an integer, rounded up (away from zero).
  The law is for amounts that are not negative and fit an \<open>int64\<close>.
\<close>

definition quantity_laws :: "'w Lib \<Rightarrow> (Quantity \<Rightarrow> rat) \<Rightarrow> bool" where
  "quantity_laws L amount \<longleftrightarrow> (\<forall>q. 0 \<le> amount q \<longrightarrow> \<lceil>amount q\<rceil> < 2 ^ 63 \<longrightarrow> QuantityValue L q = \<lceil>amount q\<rceil>)"

text \<open>
  \<open>sized amount claim resource unit v\<close>: the claim requests the resource, and \<open>v\<close>, which is positive, is the number of
  whole units in the requested amount after that is rounded up to a whole number (of cores, of bytes).
\<close>

definition sized :: "(Quantity \<Rightarrow> rat) \<Rightarrow> XenonNodeClaim \<Rightarrow> string \<Rightarrow> int \<Rightarrow> int \<Rightarrow> bool" where
  "sized amount claim resource unit v \<longleftrightarrow>
     0 < v \<and> (\<exists>q. mget (Resources (Spec claim)) resource = Some q \<and> v * unit \<le> \<lceil>amount q\<rceil> \<and> \<lceil>amount q\<rceil> < (v + 1) * unit)"

lemma sdiv_unit: "0 \<le> q \<Longrightarrow> 0 < u \<Longrightarrow> (q :: int) sdiv u = q div u"
  by (cases "q = 0") (simp_all add: signed_divide_int_def sgn_if)

lemma div_whole: "0 < u \<Longrightarrow> v = q div u \<longleftrightarrow> v * u \<le> q \<and> q < (v + 1) * u" for q u v :: int
proof
  assume "0 < u"
  then have "0 \<le> q mod u" "q mod u < u" by simp_all
  moreover assume v: "v = q div u"
  ultimately show "v * u \<le> q \<and> q < (v + 1) * u"
    using minus_mod_eq_div_mult [of q u] unfolding v distrib_right mult_1_left by (intro conjI; linarith)
next
  assume "v * u \<le> q \<and> q < (v + 1) * u"
  then show "v = q div u" using int_div_pos_eq [of q u v "q - u * v"] by (simp add: algebra_simps)
qed

text \<open>
  C27: the machine gets the size the claim requests, in whole units. For a claim whose quantities are not negative
  and in range, the provider sets the cores to the requested amount rounded up to whole cores, so that a
  fraction of a core counts as one; it sets the memory and the disk to the whole MiB and GiB in the requested
  amount, rounded down, and leaves the template's value where the claim requests nothing or, for memory and disk, less
  than one unit.
\<close>

theorem requested_size_configured:
  assumes "(Cores req, MemoryMB req, DiskGB req) = requestedSize L claim" "quantity_laws L amount"
    and "\<And>k q. mget (Resources (Spec claim)) k = Some q \<Longrightarrow> 0 \<le> amount q \<and> \<lceil>amount q\<rceil> < 2 ^ 63"
  shows "(size_option ''cores'' v \<in> set (configure_options p req) \<longleftrightarrow>
        (\<exists>q. mget (Resources (Spec claim)) ''cpu'' = Some q \<and> 0 < amount q \<and> v = \<lceil>amount q\<rceil>)) \<and>
    (size_option ''memory'' v \<in> set (configure_options p req) \<longleftrightarrow> sized amount claim ''memory'' (1024 * 1024) v) \<and>
    (size_option ''disk'' v \<in> set (configure_options p req) \<longleftrightarrow> sized amount claim ''storage'' (1024 * 1024 * 1024) v)"
proof -
  have val: "QuantityValue L q = \<lceil>amount q\<rceil> \<and> 0 \<le> \<lceil>amount q\<rceil>" if "mget (Resources (Spec claim)) k = Some q" for k q
    using assms(2) assms(3) [OF that] by (simp add: quantity_laws_def)
  show ?thesis
    using assms(1) val [of "''cpu''"] val [of "''memory''"] val [of "''storage''"]
    by (auto simp: requestedSize_def configure_options_def sized_def size_option_def kube_constants Let_def
        sdiv_unit div_whole [symmetric] split: option.splits)
qed

text \<open>On the bench: a quantity in thousandths, with a suffix, or in whole numbers.\<close>

definition bench_amount :: "Quantity \<Rightarrow> rat" where
  "bench_amount q =
     (if q \<noteq> [] \<and> last q = CHR ''m'' then (case Atoi (butlast q) of Inl _ \<Rightarrow> 0 | Inr i \<Rightarrow> of_int i / 1000)
      else case Atoi q of Inl _ \<Rightarrow> 0 | Inr i \<Rightarrow> of_int i)"

definition bench_sizes :: "bench Lib" where
  "bench_sizes = bench_lib\<lparr>QuantityValue := \<lambda>q. \<lceil>bench_amount q\<rceil>\<rparr>"

definition bench_big :: XenonNodeClaim where
  "bench_big = (bench_claim [])\<lparr>Spec := (Spec (bench_claim []))\<lparr>Resources := Some [''cpu'' \<mapsto> ''1500m'', ''memory'' \<mapsto> ''3145727'']\<rparr>\<rparr>"

definition bench_big_request :: CreateRequest where
  "bench_big_request = \<lparr>ReqName = ''n1'', Cores = 2, MemoryMB = 2, DiskGB = 0, CloudInitUserData = ''ud''\<rparr>"

lemma bench_amounts: "bench_amount ''1500m'' = 3 / 2" "bench_amount ''3145727'' = 3145727"
  by (simp_all add: bench_amount_def Atoi_def ParseUint_def is_digit_def digit_value_def)

lemma bench_ceiling: "\<lceil>3 / 2 :: rat\<rceil> = 2"
  by (simp add: ceiling_eq_iff)

theorem requested_size_configured_witness:
  "size_option ''cores'' 2 \<in> set (configure_options bench_impl bench_big_request) \<and>
   size_option ''memory'' 2 \<in> set (configure_options bench_impl bench_big_request) \<and>
   (\<forall>v. size_option ''disk'' v \<notin> set (configure_options bench_impl bench_big_request))"
proof -
  have rs: "Resources (Spec bench_big) = Some [''cpu'' \<mapsto> ''1500m'', ''memory'' \<mapsto> ''3145727'']" by (simp add: bench_big_def)
  have "(Cores bench_big_request, MemoryMB bench_big_request, DiskGB bench_big_request) = requestedSize bench_sizes bench_big"
    by (simp add: requestedSize_def bench_big_request_def bench_sizes_def rs kube_constants bench_amounts bench_ceiling sdiv_unit)
  moreover have "quantity_laws bench_sizes bench_amount" by (simp add: quantity_laws_def bench_sizes_def)
  moreover have "0 \<le> bench_amount q \<and> \<lceil>bench_amount q\<rceil> < 2 ^ 63" if "mget (Resources (Spec bench_big)) k = Some q" for k q
    using that by (auto simp: rs bench_amounts bench_ceiling split: if_splits)
  ultimately show ?thesis
    using requested_size_configured [of bench_big_request bench_sizes bench_big bench_amount _ bench_impl]
    by (simp add: rs sized_def bench_amounts bench_ceiling)
qed

subsection \<open>From a pool to its claims and nodes, and back\<close>

text \<open>\<open>SetControllerReference\<close> adds an owner reference and changes nothing else.\<close>

definition owner_laws :: "'w Lib \<Rightarrow> bool" where
  "owner_laws L \<longleftrightarrow>
     (\<forall>pool c c'. SetControllerReference L pool c = Inr c' \<longrightarrow>
        (\<exists>owners. c' = c\<lparr>OwnerReferences := owners\<rparr>))"

text \<open>
  C28: what the provisioner creates stays connected to its pool. A claim it creates is found by
  the label selector under which the pool's claims are listed, refers to the pool from which its
  provider is resolved, and brings the pool back when it changes; and so does the node of such a
  claim once it is labelled.
\<close>

theorem created_claim_stays_connected:
  assumes "owner_laws L" "creates_for L pool (EvCreateClaim claim x)" "Name pool \<noteq> []"
    and "NodePoolRef (Spec named) = NodePoolRef (Spec claim)" "labelled node named node'"
  shows "mget (Labels claim) LabelNodePool = Some (Name pool) \<and> NodePoolRef (Spec claim) = Name pool \<and>
    enqueued (ClaimObject claim) = [request (Name pool)] \<and>
    enqueued (NodeObject node') = enqueued (PoolObject pool)"
proof -
  obtain owners where "claim = (newClaim pool)\<lparr>OwnerReferences := owners\<rparr>"
    using assms(2) assms(1) [unfolded owner_laws_def, rule_format, of pool "newClaim pool" claim]
    by (auto simp: creates_for_def)
  then show ?thesis using assms(3-5)
    by (simp add: newClaim_def enqueued_def poolForClaim_def poolForNode_def labelled_def)
qed

theorem created_claim_stays_connected_witness:
  "\<exists>claim node'. creates_for bench_lib bench_pool (EvCreateClaim claim None) \<and>
     enqueued (ClaimObject claim) = [request ''workers''] \<and>
     enqueued (NodeObject node') = enqueued (PoolObject bench_pool)"
proof -
  have name: "Name bench_pool = ''workers''"
    by (simp add: bench_pool_def bench_meta_def XenonNodePool.defs ObjectMeta.defs)
  have laws: "owner_laws bench_lib" by (auto simp: owner_laws_def bench_lib_def)
  obtain claim where c: "creates_for bench_lib bench_pool (EvCreateClaim claim None)"
    by (auto simp: creates_for_def bench_lib_def)
  obtain node' where n: "labelled bench_node claim node'"
    by (rule labelNode_eq [of bench_node claim bench_reconciler])
  show ?thesis
    using created_claim_stays_connected [OF laws c _ refl n] c name by auto
qed

end
